(* ===== verification/Prelude.thy ===== *)
theory Prelude
  imports Complex_Main "HOL-Library.Word" "HOL-Library.State_Monad" "HOL-Library.Sublist"
begin

text \<open>
  The vocabulary every component of the development shares.

  \<^item> The sequential fragment of Go is read in the state monad of the library; \<open>wp\<close> is the
    weakest precondition of a computation, and the collection \<open>wp_simps\<close> computes it for the
    constructs the code uses.
  \<^item> What the code reads from its surroundings (the clock, fresh random UUIDs) comes from a
    \<open>runtime\<close>: two streams and the number of values already drawn from each.
  \<^item> The functions of \<open>strings\<close>, \<open>path/filepath\<close>, \<open>net/url\<close> and \<open>fmt\<close> that the code uses,
    on byte strings. Case conversion and trimming act on ASCII only.
  \<^item> \<open>uuid.UUID\<close> is a 128-bit word. Its textual form belongs to the package
    \<open>github.com/google/uuid\<close>, so \<open>String\<close> and \<open>Parse\<close> are the parameter \<open>uuid_lib\<close>.
\<close>

section \<open>Automation collections\<close>

named_theorems wp_simps \<open>weakest preconditions of the constructs of the embedding\<close>
named_theorems go_string_simps \<open>facts on the modelled string functions\<close>

section \<open>The state monad and its weakest preconditions\<close>

abbreviation ret :: "'a \<Rightarrow> ('s, 'a) state" where
  "ret \<equiv> State_Monad.return"

definition wp :: "('s, 'a) state \<Rightarrow> ('a \<Rightarrow> 's \<Rightarrow> bool) \<Rightarrow> 's \<Rightarrow> bool" where
  "wp m Q s = (case run_state m s of (a, s') \<Rightarrow> Q a s')"

lemma wp_ret [wp_simps]: "wp (ret a) Q = Q a"
  by (simp add: wp_def fun_eq_iff)

lemma wp_bind [wp_simps]: "wp (State_Monad.bind m f) Q = wp m (\<lambda>a. wp (f a) Q)"
  by (simp add: wp_def fun_eq_iff split: prod.splits)

lemma wp_get [wp_simps]: "wp State_Monad.get Q = (\<lambda>s. Q s s)"
  by (simp add: wp_def fun_eq_iff)

lemma wp_set [wp_simps]: "wp (State_Monad.set t) Q = (\<lambda>s. Q () t)"
  by (simp add: wp_def fun_eq_iff)

lemma wp_State [wp_simps]: "wp (State f) Q = (\<lambda>s. case f s of (a, s') \<Rightarrow> Q a s')"
  by (simp add: wp_def fun_eq_iff)

lemma wp_if [wp_simps]: "wp (if b then m else n) Q = (if b then wp m Q else wp n Q)"
  by simp

lemma wp_case_option [wp_simps]:
  "wp (case x of None \<Rightarrow> m | Some y \<Rightarrow> f y) Q =
     (case x of None \<Rightarrow> wp m Q | Some y \<Rightarrow> wp (f y) Q)"
  by (simp split: option.splits)

lemma wp_case_sum [wp_simps]:
  "wp (case x of Inl y \<Rightarrow> f y | Inr z \<Rightarrow> g z) Q =
     (case x of Inl y \<Rightarrow> wp (f y) Q | Inr z \<Rightarrow> wp (g z) Q)"
  by (simp split: sum.splits)

lemma wp_case_prod [wp_simps]:
  "wp (case p of (a, b) \<Rightarrow> f a b) Q = (case p of (a, b) \<Rightarrow> wp (f a b) Q)"
  by (simp split: prod.splits)

lemma wp_case_list [wp_simps]:
  "wp (case xs of [] \<Rightarrow> m | y # ys \<Rightarrow> f y ys) Q =
     (case xs of [] \<Rightarrow> wp m Q | y # ys \<Rightarrow> wp (f y ys) Q)"
  by (simp split: list.splits)

lemma wp_let [wp_simps]: "wp (Let x f) Q = Let x (\<lambda>y. wp (f y) Q)"
  by (simp add: Let_def)

lemma wp_mono: "wp m P s \<Longrightarrow> (\<And>a t. P a t \<Longrightarrow> Q a t) \<Longrightarrow> wp m Q s"
  by (auto simp: wp_def split: prod.splits)

lemma wp_conj: "wp m P s \<Longrightarrow> wp m Q s \<Longrightarrow> wp m (\<lambda>a t. P a t \<and> Q a t) s"
  by (auto simp: wp_def split: prod.splits)

lemma wpI: "(\<And>a t. run_state m s = (a, t) \<Longrightarrow> Q a t) \<Longrightarrow> wp m Q s"
  by (auto simp: wp_def split: prod.splits)

lemma wpD: "wp m Q s \<Longrightarrow> run_state m s = (a, t) \<Longrightarrow> Q a t"
  by (simp add: wp_def)

lemma wp_True [simp]: "wp m (\<lambda>_ _. True) s"
  by (simp add: wp_def split: prod.splits)

text \<open>
  \<open>x, err := m; if err != nil { h }; k\<close>, for a computation that returns a value or an error, and
  \<open>if err := m; err != nil { h }; k\<close> for one that returns an error or nil.
\<close>

definition on_err ::
  "('s, 'e + 'a) state \<Rightarrow> ('e \<Rightarrow> ('s, 'b) state) \<Rightarrow> ('a \<Rightarrow> ('s, 'b) state) \<Rightarrow> ('s, 'b) state" where
  "on_err m h k = State_Monad.bind m (\<lambda>r. case r of Inl e \<Rightarrow> h e | Inr x \<Rightarrow> k x)"

definition if_err ::
  "('s, 'e option) state \<Rightarrow> ('e \<Rightarrow> ('s, 'b) state) \<Rightarrow> ('s, 'b) state \<Rightarrow> ('s, 'b) state" where
  "if_err m h k = State_Monad.bind m (\<lambda>r. case r of Some e \<Rightarrow> h e | None \<Rightarrow> k)"

lemma wp_on_err [wp_simps]:
  "wp (on_err m h k) Q = wp m (\<lambda>r. case r of Inl e \<Rightarrow> wp (h e) Q | Inr x \<Rightarrow> wp (k x) Q)"
  by (simp add: on_err_def wp_bind wp_case_sum)

lemma wp_if_err [wp_simps]:
  "wp (if_err m h k) Q = wp m (\<lambda>r. case r of Some e \<Rightarrow> wp (h e) Q | None \<Rightarrow> wp k Q)"
  by (simp add: if_err_def wp_bind wp_case_option)

lemma run_on_err [simp]:
  "run_state (on_err m h k) s =
     (case run_state m s of (Inl e, t) \<Rightarrow> run_state (h e) t | (Inr x, t) \<Rightarrow> run_state (k x) t)"
  by (simp add: on_err_def split: prod.splits sum.splits)

lemma run_if_err [simp]:
  "run_state (if_err m h k) s =
     (case run_state m s of (Some e, t) \<Rightarrow> run_state (h e) t | (None, t) \<Rightarrow> run_state k t)"
  by (simp add: if_err_def split: prod.splits option.splits)

section \<open>Time, UUIDs and the runtime\<close>

type_synonym time = int        \<comment> \<open>a UTC instant, in nanoseconds\<close>
type_synonym duration = int    \<comment> \<open>\<open>time.Duration\<close>, in nanoseconds\<close>
type_synonym uuid = "128 word"

text \<open>The zero \<open>time.Time\<close>: 1 January of year 1, counted from 1970.\<close>

definition zero_time :: time where
  "zero_time = - 62135596800000000000"

abbreviation uuid_Nil :: uuid where
  "uuid_Nil \<equiv> 0"

record runtime =
  clock :: "nat \<Rightarrow> time"
  uuid_source :: "nat \<Rightarrow> uuid"
  clock_reads :: nat
  uuid_draws :: nat

definition time_Now :: "(runtime, time) state" where
  "time_Now = State (\<lambda>r. (clock r (clock_reads r), r\<lparr>clock_reads := Suc (clock_reads r)\<rparr>))"

definition uuid_New :: "(runtime, uuid) state" where
  "uuid_New = State (\<lambda>r. (uuid_source r (uuid_draws r), r\<lparr>uuid_draws := Suc (uuid_draws r)\<rparr>))"

lemma wp_time_Now [wp_simps]:
  "wp time_Now Q = (\<lambda>r. Q (clock r (clock_reads r)) (r\<lparr>clock_reads := Suc (clock_reads r)\<rparr>))"
  by (simp add: time_Now_def wp_State)

lemma wp_uuid_New [wp_simps]:
  "wp uuid_New Q = (\<lambda>r. Q (uuid_source r (uuid_draws r)) (r\<lparr>uuid_draws := Suc (uuid_draws r)\<rparr>))"
  by (simp add: uuid_New_def wp_State)

lemma run_time_Now [simp]:
  "run_state time_Now r = (clock r (clock_reads r), r\<lparr>clock_reads := Suc (clock_reads r)\<rparr>)"
  by (simp add: time_Now_def)

lemma run_uuid_New [simp]:
  "run_state uuid_New r = (uuid_source r (uuid_draws r), r\<lparr>uuid_draws := Suc (uuid_draws r)\<rparr>)"
  by (simp add: uuid_New_def)

text \<open>A concrete runtime, for the examples.\<close>

definition sample_runtime :: runtime where
  "sample_runtime = \<lparr>clock = (\<lambda>n. int n), uuid_source = (\<lambda>n. word_of_nat (Suc n)),
                     clock_reads = 0, uuid_draws = 0\<rparr>"

text \<open>The UUID package: the textual form of a UUID and its parser.\<close>

record uuid_lib =
  uuid_String :: "uuid \<Rightarrow> string"
  uuid_Parse :: "string \<Rightarrow> uuid option"

text \<open>
  What the code relies on, and the package documents: \<open>Parse\<close> reads back what \<open>String\<close> writes,
  and \<open>String\<close> writes hexadecimal digits and hyphens only.
\<close>

definition uuid_chars :: string where
  "uuid_chars = ''0123456789abcdef-''"

definition uuid_lib_ok :: "uuid_lib \<Rightarrow> bool" where
  "uuid_lib_ok U \<longleftrightarrow>
     (\<forall>u. uuid_Parse U (uuid_String U u) = Some u \<and> set (uuid_String U u) \<subseteq> set uuid_chars)"

lemma uuid_String_inject:
  "uuid_lib_ok U \<Longrightarrow> (uuid_String U u = uuid_String U w) = (u = w)"
  by (metis option.inject uuid_lib_ok_def)

section \<open>64-bit integers\<close>

text \<open>
  Go's \<open>int\<close> and \<open>int64\<close> are read as \<open>int\<close>; where an overflow could matter, the wrap-around is
  written out.
\<close>

definition wrap64 :: "int \<Rightarrow> int" where
  "wrap64 x = (x + 2 ^ 63) mod 2 ^ 64 - 2 ^ 63"

lemma wrap64_id: "- (2 ^ 63) \<le> x \<Longrightarrow> x < 2 ^ 63 \<Longrightarrow> wrap64 x = x"
  by (simp add: wrap64_def)

lemma wrap64_range: "- (2 ^ 63) \<le> wrap64 x \<and> wrap64 x < 2 ^ 63"
  by (simp add: wrap64_def pos_mod_bound [of "2 ^ 64"])

section \<open>Strings\<close>

definition HasPrefix :: "string \<Rightarrow> string \<Rightarrow> bool" where
  "HasPrefix s p \<longleftrightarrow> take (length p) s = p"

definition HasSuffix :: "string \<Rightarrow> string \<Rightarrow> bool" where
  "HasSuffix s p \<longleftrightarrow> HasPrefix (rev s) (rev p)"

definition TrimPrefix :: "string \<Rightarrow> string \<Rightarrow> string" where
  "TrimPrefix s p = (if HasPrefix s p then drop (length p) s else s)"

definition TrimSuffix :: "string \<Rightarrow> string \<Rightarrow> string" where
  "TrimSuffix s p = (if HasSuffix s p then take (length s - length p) s else s)"

fun str_Contains :: "string \<Rightarrow> string \<Rightarrow> bool" where
  "str_Contains [] p = (p = [])"
| "str_Contains (c # s) p = (HasPrefix (c # s) p \<or> str_Contains s p)"

definition lower_char :: "char \<Rightarrow> char" where
  "lower_char c =
     (if 65 \<le> (of_char c :: nat) \<and> (of_char c :: nat) \<le> 90 then char_of (of_char c + 32 :: nat) else c)"

definition ToLower :: "string \<Rightarrow> string" where
  "ToLower s = map lower_char s"

definition is_space :: "char \<Rightarrow> bool" where
  "is_space c \<longleftrightarrow> (9 \<le> (of_char c :: nat) \<and> (of_char c :: nat) \<le> 13) \<or> (of_char c :: nat) = 32"

definition TrimLeftSpace :: "string \<Rightarrow> string" where
  "TrimLeftSpace s = dropWhile is_space s"

definition TrimSpace :: "string \<Rightarrow> string" where
  "TrimSpace s = rev (TrimLeftSpace (rev (TrimLeftSpace s)))"

fun Split :: "string \<Rightarrow> char \<Rightarrow> string list" where
  "Split [] sep = [[]]"
| "Split (c # s) sep =
     (if c = sep then [] # Split s sep
      else (case Split s sep of [] \<Rightarrow> [[c]] | p # ps \<Rightarrow> (c # p) # ps))"

lemma HasPrefix_iff [go_string_simps]: "HasPrefix s p \<longleftrightarrow> prefix p s"
  by (metis HasPrefix_def append_eq_conv_conj prefix_def)

lemma HasSuffix_iff [go_string_simps]: "HasSuffix s p \<longleftrightarrow> suffix p s"
  by (simp add: HasSuffix_def HasPrefix_iff suffix_to_prefix)

lemma HasPrefix_append [simp]: "HasPrefix (p @ s) p"
  by (simp add: HasPrefix_def)

lemma HasSuffix_append [simp]: "HasSuffix (s @ p) p"
  by (simp add: HasSuffix_def)

lemma TrimPrefix_append [simp]: "TrimPrefix (p @ s) p = s"
  by (simp add: TrimPrefix_def)

lemma Split_nonempty [simp]: "Split s sep \<noteq> []"
  by (cases s) (auto split: list.splits)

lemma Split_no_sep [go_string_simps]: "sep \<notin> set s \<Longrightarrow> Split s sep = [s]"
  by (induction s) auto

lemma Split_append [go_string_simps]:
  "sep \<notin> set s \<Longrightarrow> Split (s @ sep # t) sep = s # Split t sep"
  by (induction s) auto

lemma TrimSpace_Nil [simp]: "TrimSpace [] = []"
  by (simp add: TrimSpace_def TrimLeftSpace_def)

lemma dropWhile_not_hd: "dropWhile P xs = [] \<or> \<not> P (hd (dropWhile P xs))"
  by (meson hd_dropWhile)

lemma TrimLeftSpace_idem: "TrimLeftSpace (TrimLeftSpace s) = TrimLeftSpace s"
  by (simp add: TrimLeftSpace_def)

lemma TrimSpace_idem [simp]: "TrimSpace (TrimSpace s) = TrimSpace s"
proof (cases "TrimSpace s = []")
  case False
  define u where "u = TrimLeftSpace s"
  define t where "t = TrimLeftSpace (rev u)"
  have ts: "TrimSpace s = rev t" by (simp add: TrimSpace_def u_def t_def)
  have "u \<noteq> []" using False ts by (auto simp: t_def TrimLeftSpace_def)
  then have hu: "\<not> is_space (hd u)"
    unfolding u_def TrimLeftSpace_def by (rule hd_dropWhile)
  have tne: "t \<noteq> []" using False ts by simp
  obtain w where w: "rev u = w @ t"
    unfolding t_def TrimLeftSpace_def by (metis takeWhile_dropWhile_id)
  then have "hd u = hd (rev t)"
    using tne by (metis hd_append rev_append rev_is_Nil_conv rev_rev_ident)
  with hu have "\<not> is_space (hd (rev t))" by simp
  then have "TrimLeftSpace (rev t) = rev t"
    using tne by (cases "rev t") (auto simp: TrimLeftSpace_def)
  then have "TrimSpace (rev t) = rev (TrimLeftSpace t)"
    by (simp add: TrimSpace_def)
  then show ?thesis using ts by (simp add: t_def TrimLeftSpace_idem)
qed simp

section \<open>Lists\<close>

lemma upt_split: "a \<le> b \<Longrightarrow> b \<le> c \<Longrightarrow> [a ..< c] = [a ..< b] @ [b ..< c]"
  by (metis le_add_diff_inverse upt_add_eq_append)

end
