(* ===== verification/GoErrors.thy ===== *)
theory GoErrors
  imports Prelude
begin

text \<open>
  Go errors as the code builds them (\<open>internal/application/messaging\<close>, the sentinel errors of
  \<open>internal/domain/video/errors.go\<close> and of the handlers). A nil error is \<open>None\<close>. A sentinel is a
  constructor of its own, so \<open>errors.Is\<close> compares identities; \<open>errors.New\<close> with no name is
  \<open>ErrorText\<close>; an error that comes out of a library or a service is \<open>External\<close>.
\<close>

datatype go_error =
    ErrInvalidFilename
  | ErrUnsupportedType
  | ErrInvalidTransition
  | ErrVideoNotFound
  | ErrRemoteURLForbidden
  | ErrVideoTooLarge
  | ErrPersistFrame
  | ErrMissingEventID
  | ErrUserNotFound
  | DeadlineExceeded
  | Canceled
  | ErrorText string
  | External string
  | RetryableError go_error
  | NonRetryableError go_error
  | Errorf string go_error              \<comment> \<open>\<open>fmt.Errorf("text: %w", err)\<close>\<close>
  | Errorf2 go_error go_error           \<comment> \<open>\<open>fmt.Errorf("%w: %w", a, b)\<close>\<close>
  | ErrorsJoin go_error go_error        \<comment> \<open>\<open>errors.Join(a, b)\<close>\<close>

section \<open>The tree of wrapped errors\<close>

text \<open>\<open>errors.Is(err, target)\<close> for the sentinels: a pre-order walk of the tree.\<close>

fun errors_Is :: "go_error \<Rightarrow> go_error \<Rightarrow> bool" where
  "errors_Is (RetryableError e) t = (RetryableError e = t \<or> errors_Is e t)"
| "errors_Is (NonRetryableError e) t = (NonRetryableError e = t \<or> errors_Is e t)"
| "errors_Is (Errorf m e) t = (Errorf m e = t \<or> errors_Is e t)"
| "errors_Is (Errorf2 a b) t = (Errorf2 a b = t \<or> errors_Is a t \<or> errors_Is b t)"
| "errors_Is (ErrorsJoin a b) t = (ErrorsJoin a b = t \<or> errors_Is a t \<or> errors_Is b t)"
| "errors_Is e t = (e = t)"

text \<open>\<open>errors.As\<close> at the two wrapper types: is there one anywhere in the tree?\<close>

fun as_Retryable :: "go_error \<Rightarrow> bool" where
  "as_Retryable (RetryableError e) = True"
| "as_Retryable (NonRetryableError e) = as_Retryable e"
| "as_Retryable (Errorf m e) = as_Retryable e"
| "as_Retryable (Errorf2 a b) = (as_Retryable a \<or> as_Retryable b)"
| "as_Retryable (ErrorsJoin a b) = (as_Retryable a \<or> as_Retryable b)"
| "as_Retryable e = False"

fun as_NonRetryable :: "go_error \<Rightarrow> bool" where
  "as_NonRetryable (NonRetryableError e) = True"
| "as_NonRetryable (RetryableError e) = as_NonRetryable e"
| "as_NonRetryable (Errorf m e) = as_NonRetryable e"
| "as_NonRetryable (Errorf2 a b) = (as_NonRetryable a \<or> as_NonRetryable b)"
| "as_NonRetryable (ErrorsJoin a b) = (as_NonRetryable a \<or> as_NonRetryable b)"
| "as_NonRetryable e = False"

section \<open>The two wrappers of package messaging\<close>

definition Retryable :: "go_error option \<Rightarrow> go_error option" where
  "Retryable err = (case err of None \<Rightarrow> None | Some e \<Rightarrow> Some (RetryableError e))"

definition NonRetryable :: "go_error option \<Rightarrow> go_error option" where
  "NonRetryable err = (case err of None \<Rightarrow> None | Some e \<Rightarrow> Some (NonRetryableError e))"

lemma Retryable_simps [simp]:
  "Retryable None = None" "Retryable (Some e) = Some (RetryableError e)"
  by (simp_all add: Retryable_def)

lemma NonRetryable_simps [simp]:
  "NonRetryable None = None" "NonRetryable (Some e) = Some (NonRetryableError e)"
  by (simp_all add: NonRetryable_def)

text \<open>
  The errors a handler may hand back to the consumer with a verdict: one of the two wrappers. The
  consumer and the deduplication decide on these alone.
\<close>

definition classified :: "go_error \<Rightarrow> bool" where
  "classified e \<longleftrightarrow> as_Retryable e \<or> as_NonRetryable e"

lemma classified_wrappers [simp]:
  "classified (RetryableError e)" "classified (NonRetryableError e)"
  by (simp_all add: classified_def)

section \<open>The delivery attempt in the context\<close>

record attempt =
  attempt_Count :: int
  attempt_Max :: int

text \<open>The context value: absent outside the consumer.\<close>

type_synonym ctx = "attempt option"

definition WithAttempt :: "ctx \<Rightarrow> int \<Rightarrow> int \<Rightarrow> ctx" where
  "WithAttempt c cnt mx = Some \<lparr>attempt_Count = cnt, attempt_Max = mx\<rparr>"

definition LastAttempt :: "ctx \<Rightarrow> bool" where
  "LastAttempt c = (case c of None \<Rightarrow> False | Some a \<Rightarrow> attempt_Count a \<ge> attempt_Max a)"

end
