(* ===== verification/VideoKeys.thy ===== *)
theory VideoKeys
  imports GoErrors
begin

text \<open>
  \<open>internal/domain/video/keys.go\<close>: the object keys of the media bucket (how they are built, how
  a key is recognised and parsed back) and the classification of file names, with the functions of
  the standard library they use. \<open>mime.TypeByExtension\<close> reads tables of the host and is the
  parameter \<open>mime\<close>.
\<close>

section \<open>Paths, formats and URLs\<close>

definition filepath_Base :: "string \<Rightarrow> string" where
  "filepath_Base path =
     (if path = [] then ''.''
      else let stripped = rev (dropWhile (\<lambda>c. c = CHR ''/'') (rev path));
               base = rev (takeWhile (\<lambda>c. c \<noteq> CHR ''/'') (rev stripped))
           in if base = [] then ''/'' else base)"

definition filepath_Ext :: "string \<Rightarrow> string" where
  "filepath_Ext path =
     (let name = takeWhile (\<lambda>c. c \<noteq> CHR ''/'') (rev path)
      in if CHR ''.'' \<in> set name then CHR ''.'' # rev (takeWhile (\<lambda>c. c \<noteq> CHR ''.'') name) else [])"

definition digit_char :: "nat \<Rightarrow> char" where
  "digit_char d = char_of (48 + d)"

fun dec_nat :: "nat \<Rightarrow> string" where
  "dec_nat n = (if n < 10 then [digit_char n] else dec_nat (n div 10) @ [digit_char (n mod 10)])"

declare dec_nat.simps [simp del]

definition zero_pad :: "nat \<Rightarrow> string \<Rightarrow> string" where
  "zero_pad w s = replicate (w - length s) (CHR ''0'') @ s"

text \<open>\<open>%0wd\<close>: the width counts the sign.\<close>

definition fmt_0d :: "nat \<Rightarrow> int \<Rightarrow> string" where
  "fmt_0d w n = (if n < 0 then CHR ''-'' # zero_pad (w - 1) (dec_nat (nat (- n)))
                 else zero_pad w (dec_nat (nat n)))"

definition hex_value :: "char \<Rightarrow> nat option" where
  "hex_value c =
     (let n = (of_char c :: nat)
      in if 48 \<le> n \<and> n \<le> 57 then Some (n - 48)
         else if 97 \<le> n \<and> n \<le> 102 then Some (n - 87)
         else if 65 \<le> n \<and> n \<le> 70 then Some (n - 55)
         else None)"

fun url_QueryUnescape :: "string \<Rightarrow> go_error + string" where
  "url_QueryUnescape [] = Inr []"
| "url_QueryUnescape (c # s) =
     (if c = CHR ''%'' then
        (case s of
           h # l # s' \<Rightarrow>
             (case (hex_value h, hex_value l) of
                (Some a, Some b) \<Rightarrow> map_sum id ((#) (char_of (16 * a + b))) (url_QueryUnescape s')
              | _ \<Rightarrow> Inl (External ''invalid URL escape''))
         | _ \<Rightarrow> Inl (External ''invalid URL escape''))
      else if c = CHR ''+'' then map_sum id ((#) (CHR '' '')) (url_QueryUnescape s)
      else map_sum id ((#) c) (url_QueryUnescape s))"

section \<open>Keys\<close>

abbreviation OriginalObjectName :: string where
  "OriginalObjectName \<equiv> ''original.mp4''"

abbreviation ThumbnailObjectName :: string where
  "ThumbnailObjectName \<equiv> ''thumbnail.jpg''"

definition videoExtensions :: "string list" where
  "videoExtensions =
     [''mp4'', ''mov'', ''avi'', ''mkv'', ''m4v'', ''mpeg'', ''mpg'', ''wmv'', ''asf'', ''flv'',
      ''webm'', ''ogg'', ''ogv'']"

definition NewStorageKey :: "uuid_lib \<Rightarrow> uuid \<Rightarrow> string" where
  "NewStorageKey U videoID = ''videos/'' @ uuid_String U videoID @ ''/'' @ OriginalObjectName"

definition NewFrameStorageKey :: "uuid_lib \<Rightarrow> uuid \<Rightarrow> int \<Rightarrow> int \<Rightarrow> string" where
  "NewFrameStorageKey U videoID segmentIndex localIndex =
     ''frames/'' @ uuid_String U videoID @ ''/'' @ fmt_0d 2 segmentIndex @ ''_'' @
     fmt_0d 4 localIndex @ ''.jpg''"

definition NewSegmentStorageKey :: "uuid_lib \<Rightarrow> uuid \<Rightarrow> int \<Rightarrow> string" where
  "NewSegmentStorageKey U videoID segmentIndex =
     ''videos/'' @ uuid_String U videoID @ ''/segments/segment_'' @ fmt_0d 2 segmentIndex @ ''.mp4''"

definition NewThumbnailStorageKey :: "uuid_lib \<Rightarrow> uuid \<Rightarrow> string" where
  "NewThumbnailStorageKey U videoID =
     ''videos/'' @ uuid_String U videoID @ ''/'' @ ThumbnailObjectName"

definition IsFrameObjectKey :: "string \<Rightarrow> bool" where
  "IsFrameObjectKey key \<longleftrightarrow> HasPrefix (TrimPrefix key ''/'') ''frames/''"

definition IsThumbnailObjectKey :: "string \<Rightarrow> bool" where
  "IsThumbnailObjectKey key \<longleftrightarrow>
     (let k = TrimPrefix key ''/''
      in HasPrefix k ''videos/'' \<and> HasSuffix k (''/'' @ ThumbnailObjectName))"

definition DecodeObjectKey :: "string \<Rightarrow> go_error + string" where
  "DecodeObjectKey key =
     (case url_QueryUnescape key of
        Inl e \<Rightarrow> Inl (Errorf ''invalid object key'' e)
      | Inr decoded \<Rightarrow> Inr decoded)"

definition VideoIDFromStorageKey :: "uuid_lib \<Rightarrow> string \<Rightarrow> go_error + uuid" where
  "VideoIDFromStorageKey U encodedKey =
     (case DecodeObjectKey encodedKey of
        Inl e \<Rightarrow> Inl e
      | Inr key \<Rightarrow>
          (case Split (TrimPrefix key ''/'') (CHR ''/'') of
             [p0, p1, p2] \<Rightarrow>
               (if p0 \<noteq> ''videos'' \<or> p2 \<noteq> OriginalObjectName
                then Inl (ErrorText ''invalid video storage key'')
                else (case uuid_Parse U p1 of
                        None \<Rightarrow> Inl (External ''invalid UUID'')
                      | Some u \<Rightarrow> Inr u))
           | _ \<Rightarrow> Inl (ErrorText ''invalid video storage key'')))"

definition FileExtension :: "string \<Rightarrow> string" where
  "FileExtension filename = ToLower (TrimPrefix (filepath_Ext filename) ''.'')"

definition IsVideoFilename :: "string \<Rightarrow> bool" where
  "IsVideoFilename filename \<longleftrightarrow> FileExtension filename \<in> set videoExtensions"

definition IsVideoContentType :: "string \<Rightarrow> bool" where
  "IsVideoContentType contentType \<longleftrightarrow> HasPrefix (ToLower contentType) ''video/''"

definition ContentTypeFromFilename :: "(string \<Rightarrow> string) \<Rightarrow> string \<Rightarrow> string \<Rightarrow> string" where
  "ContentTypeFromFilename mime filename fallback =
     (if fallback \<noteq> '''' then fallback
      else if mime (filepath_Ext filename) \<noteq> '''' then mime (filepath_Ext filename)
      else ''video/mp4'')"

definition SanitizeFilename :: "string \<Rightarrow> string" where
  "SanitizeFilename filename = filepath_Base filename"

section \<open>Decimal numerals\<close>

definition undec :: "string \<Rightarrow> nat" where
  "undec s = foldl (\<lambda>a c. 10 * a + (of_char c - 48)) 0 s"

lemma of_char_digit [simp]: "d < 10 \<Longrightarrow> (of_char (digit_char d) :: nat) = 48 + d"
  by (simp add: digit_char_def)

lemma undec_dec_nat [simp]: "undec (dec_nat n) = n"
proof (induction n rule: dec_nat.induct)
  case (1 n)
  show ?case
  proof (cases "n < 10")
    case True
    then show ?thesis by (subst dec_nat.simps) (simp add: undec_def)
  next
    case False
    then show ?thesis using 1 by (subst dec_nat.simps) (simp add: undec_def)
  qed
qed

lemma undec_zero_pad [simp]: "undec (zero_pad w s) = undec s"
proof -
  have "undec (replicate k (CHR ''0'') @ s) = undec s" for k
    by (induction k) (simp_all add: undec_def)
  then show ?thesis by (simp add: zero_pad_def)
qed

lemma set_dec_nat: "set (dec_nat n) \<subseteq> digit_char ` {..<10}"
proof (induction n rule: dec_nat.induct)
  case (1 n)
  then show ?case by (subst dec_nat.simps) auto
qed

definition digits :: string where
  "digits = ''0123456789''"

lemma digit_chars: "digit_char ` {..<10} = set digits"
  by code_simp

lemma set_dec_nat_digits: "set (dec_nat n) \<subseteq> set digits"
  using set_dec_nat digit_chars by simp

lemma set_zero_pad: "set (zero_pad w (dec_nat n)) \<subseteq> set digits"
  using set_dec_nat_digits by (auto simp: zero_pad_def digits_def)

lemma set_fmt_0d: "set (fmt_0d w n) \<subseteq> insert (CHR ''-'') (set digits)"
  using set_zero_pad by (auto simp: fmt_0d_def)

lemma minus_digits: "CHR ''-'' \<notin> set digits"
  by (simp add: digits_def)

lemma zero_pad_inject: "zero_pad w (dec_nat k) = zero_pad w (dec_nat l) \<longleftrightarrow> k = l"
  by (metis undec_dec_nat undec_zero_pad)

lemma minus_zero_pad: "CHR ''-'' # s \<noteq> zero_pad u (dec_nat k)"
  using set_zero_pad [of u k] minus_digits by (metis list.set_intros(1) subsetD)

lemma fmt_0d_inject [simp]: "fmt_0d w n = fmt_0d w m \<longleftrightarrow> n = m"
  by (cases "n < 0"; cases "m < 0")
    (simp_all add: fmt_0d_def zero_pad_inject minus_zero_pad minus_zero_pad [symmetric],
      use nat_eq_iff in force, use nat_eq_iff in force)

lemma append_sep_inject:
  "c \<notin> set s \<Longrightarrow> c \<notin> set s' \<Longrightarrow> s @ c # t = s' @ c # t' \<longleftrightarrow> s = s' \<and> t = t'"
proof (induction s arbitrary: s')
  case Nil
  then show ?case by (cases s') auto
next
  case (Cons a s)
  then show ?case by (cases s') auto
qed

text \<open>A UUID package that keeps the contract, to instantiate the parameter: decimal numerals.\<close>

definition decimal_lib :: uuid_lib where
  "decimal_lib = \<lparr>uuid_String = (\<lambda>u. dec_nat (unat u)),
                  uuid_Parse = (\<lambda>s. Some (word_of_nat (undec s)))\<rparr>"

lemma decimal_lib_ok: "uuid_lib_ok decimal_lib"
proof -
  have "set digits \<subseteq> set uuid_chars" by (simp add: digits_def uuid_chars_def)
  then show ?thesis
    using set_dec_nat_digits by (auto simp: uuid_lib_ok_def decimal_lib_def)
qed

section \<open>Keys can be told apart and read back\<close>

lemma uuid_String_chars:
  "uuid_lib_ok U \<Longrightarrow> c \<notin> set uuid_chars \<Longrightarrow> c \<notin> set (uuid_String U u)"
  by (auto simp: uuid_lib_ok_def)

lemma slash_not_in_uuid: "uuid_lib_ok U \<Longrightarrow> CHR ''/'' \<notin> set (uuid_String U u)"
  by (erule uuid_String_chars) (simp add: uuid_chars_def)

lemma url_QueryUnescape_plain:
  "CHR ''%'' \<notin> set s \<Longrightarrow> CHR ''+'' \<notin> set s \<Longrightarrow>
     url_QueryUnescape (s @ t) = map_sum id ((@) s) (url_QueryUnescape t)"
  by (induction s) (cases "url_QueryUnescape t"; auto)+

lemma url_QueryUnescape_all_plain:
  "CHR ''%'' \<notin> set s \<Longrightarrow> CHR ''+'' \<notin> set s \<Longrightarrow> url_QueryUnescape s = Inr s"
  using url_QueryUnescape_plain [of s "[]"] by simp

lemma url_QueryUnescape_slash: "url_QueryUnescape (''%2F'' @ t) = map_sum id ((#) (CHR ''/'')) (url_QueryUnescape t)"
proof -
  have "hex_value (CHR ''2'') = Some 2" "hex_value (CHR ''F'') = Some 15" by code_simp+
  moreover have "char_of (16 * 2 + 15 :: nat) = CHR ''/''" by code_simp
  ultimately show ?thesis by simp
qed

lemma uuid_String_plain:
  assumes "uuid_lib_ok U"
  shows "CHR ''%'' \<notin> set (uuid_String U u)" "CHR ''+'' \<notin> set (uuid_String U u)"
    "CHR ''/'' \<notin> set (uuid_String U u)"
  using assms by (auto elim!: uuid_String_chars [THEN notE, rotated 2] simp: uuid_chars_def)

lemma Split_eq_two:
  "Split s sep = a # b # ps \<Longrightarrow>
     \<exists>t. s = a @ sep # t \<and> sep \<notin> set a \<and> Split t sep = b # ps"
proof (induction s arbitrary: a)
  case (Cons c s)
  show ?case
  proof (cases "c = sep")
    case True
    then show ?thesis using Cons.prems by auto
  next
    case False
    then obtain a' where "a = c # a'" "Split s sep = a' # b # ps"
      using Cons.prems by (auto split: list.splits)
    then show ?thesis using Cons.IH [of a'] False by fastforce
  qed
qed simp

lemma Split_eq_one: "Split s sep = [a] \<Longrightarrow> s = a \<and> sep \<notin> set a"
proof (induction s arbitrary: a)
  case (Cons c s)
  then show ?case by (auto split: if_splits list.splits)
qed simp

lemma VideoIDFromStorageKey_of_parts:
  assumes "uuid_lib_ok U" "url_QueryUnescape key = Inr decoded"
    and "TrimPrefix decoded ''/'' = NewStorageKey U u"
  shows "VideoIDFromStorageKey U key = Inr u"
proof -
  have "NewStorageKey U u = ''videos'' @ CHR ''/'' # (uuid_String U u @ CHR ''/'' # OriginalObjectName)"
    by (simp add: NewStorageKey_def)
  then have "Split (NewStorageKey U u) (CHR ''/'') = [''videos'', uuid_String U u, OriginalObjectName]"
    using uuid_String_plain(3) [OF assms(1)]
    by (simp only: Split_append list.set) (simp add: Split_append)
  then show ?thesis
    using assms by (simp add: VideoIDFromStorageKey_def DecodeObjectKey_def uuid_lib_ok_def)
qed

text \<open>
  C12. The storage webhook recovers a video's id from the key of its original object, as the key is
  built, with a leading slash, and in the URL-encoded form in which the object store reports it.
\<close>

theorem storage_key_roundtrip:
  assumes "uuid_lib_ok U"
  shows "VideoIDFromStorageKey U (NewStorageKey U u) = Inr u \<and>
         VideoIDFromStorageKey U (''/'' @ NewStorageKey U u) = Inr u \<and>
         VideoIDFromStorageKey U (''videos%2F'' @ uuid_String U u @ ''%2Foriginal.mp4'') = Inr u"
proof (intro conjI)
  note plain = uuid_String_plain [OF assms, of u]
  have K: "url_QueryUnescape (NewStorageKey U u) = Inr (NewStorageKey U u)"
    using plain by (intro url_QueryUnescape_all_plain) (auto simp: NewStorageKey_def)
  have T: "TrimPrefix (NewStorageKey U u) ''/'' = NewStorageKey U u"
    by (simp add: NewStorageKey_def TrimPrefix_def HasPrefix_def)
  show "VideoIDFromStorageKey U (NewStorageKey U u) = Inr u"
    by (rule VideoIDFromStorageKey_of_parts [OF assms K T])
  show "VideoIDFromStorageKey U (''/'' @ NewStorageKey U u) = Inr u"
    by (rule VideoIDFromStorageKey_of_parts [OF assms, where decoded = "''/'' @ NewStorageKey U u"])
      (use K in simp, simp only: TrimPrefix_append)
  have "url_QueryUnescape (''videos'' @ ''%2F'' @ uuid_String U u @ ''%2F'' @ ''original.mp4'') =
        Inr (NewStorageKey U u)"
  proof -
    have "url_QueryUnescape ''original.mp4'' = Inr ''original.mp4''"
      by (simp add: url_QueryUnescape_all_plain)
    then have "url_QueryUnescape (uuid_String U u @ ''%2F'' @ ''original.mp4'') =
          Inr (uuid_String U u @ ''/original.mp4'')"
      by (simp only: url_QueryUnescape_plain [OF plain(1,2)] url_QueryUnescape_slash) simp
    then have "url_QueryUnescape (''%2F'' @ uuid_String U u @ ''%2F'' @ ''original.mp4'') =
          Inr (''/'' @ uuid_String U u @ ''/original.mp4'')"
      by (simp only: url_QueryUnescape_slash) simp
    moreover have "url_QueryUnescape (''videos'' @ t) = map_sum id ((@) ''videos'') (url_QueryUnescape t)" for t
      by (rule url_QueryUnescape_plain) simp_all
    ultimately show ?thesis
      by (simp only:) (simp add: NewStorageKey_def)
  qed
  then show "VideoIDFromStorageKey U (''videos%2F'' @ uuid_String U u @ ''%2Foriginal.mp4'') = Inr u"
    using VideoIDFromStorageKey_of_parts [OF assms _ T] by simp
qed

theorem storage_key_roundtrip_witness:
  "VideoIDFromStorageKey decimal_lib (NewStorageKey decimal_lib 77) = Inr 77"
  using storage_key_roundtrip [OF decimal_lib_ok, of 77] by simp

text \<open>
  Only keys of original objects name a video: whatever key the webhook accepts decodes, after an
  optional leading slash, to \<open>videos/<text>/original.mp4\<close> with one path element in the middle, and
  the id is what the UUID package reads there.
\<close>

theorem storage_key_sound:
  assumes "VideoIDFromStorageKey U key = Inr u"
  shows "\<exists>decoded p. url_QueryUnescape key = Inr decoded \<and>
           TrimPrefix decoded ''/'' = ''videos/'' @ p @ ''/original.mp4'' \<and>
           CHR ''/'' \<notin> set p \<and> uuid_Parse U p = Some u"
proof -
  obtain decoded p where d: "url_QueryUnescape key = Inr decoded"
    and sp: "Split (TrimPrefix decoded ''/'') (CHR ''/'') = [''videos'', p, OriginalObjectName]"
    and u: "uuid_Parse U p = Some u"
    using assms
    by (auto simp: VideoIDFromStorageKey_def DecodeObjectKey_def
        split: sum.splits list.splits if_splits option.splits)
  obtain t where t: "TrimPrefix decoded ''/'' = ''videos'' @ CHR ''/'' # t"
    and st: "Split t (CHR ''/'') = [p, OriginalObjectName]"
    using Split_eq_two [OF sp] by blast
  obtain t' where t': "t = p @ CHR ''/'' # t'" "CHR ''/'' \<notin> set p"
    and st': "Split t' (CHR ''/'') = [OriginalObjectName]"
    using Split_eq_two [OF st] by blast
  have "t' = OriginalObjectName"
    using Split_eq_one [OF st'] by simp
  then show ?thesis
    using d u t t' by (intro exI [of _ decoded] exI [of _ p]) simp
qed

theorem storage_key_sound_witness:
  "\<exists>decoded p. url_QueryUnescape (''/videos%2F7/original.mp4'') = Inr decoded \<and>
     TrimPrefix decoded ''/'' = ''videos/'' @ p @ ''/original.mp4'' \<and>
     CHR ''/'' \<notin> set p \<and> uuid_Parse decimal_lib p = Some 7"
proof (rule storage_key_sound)
  show "VideoIDFromStorageKey decimal_lib ''/videos%2F7/original.mp4'' = Inr 7"
    by code_simp
qed

lemma underscore_not_in_fmt: "CHR ''_'' \<notin> set (fmt_0d w n)"
proof
  assume "CHR ''_'' \<in> set (fmt_0d w n)"
  then have "CHR ''_'' \<in> insert (CHR ''-'') (set digits)" using set_fmt_0d by blast
  then show False by (simp add: digits_def)
qed

lemma frame_key_shape:
  "NewFrameStorageKey U u i j =
     ''frames/'' @ uuid_String U u @ CHR ''/'' # (fmt_0d 2 i @ CHR ''_'' # (fmt_0d 4 j @ ''.jpg''))"
  by (simp add: NewFrameStorageKey_def)

text \<open>
  No two frames share an object: the key of a frame determines its video, its segment and its
  index in the segment, also past the two and four digits the format pads to.
\<close>

theorem frame_key_inject:
  assumes "uuid_lib_ok U"
  shows "NewFrameStorageKey U u i j = NewFrameStorageKey U u' i' j' \<longleftrightarrow> u = u' \<and> i = i' \<and> j = j'"
  unfolding frame_key_shape same_append_eq append_same_eq
    append_sep_inject [OF uuid_String_plain(3) [OF assms] uuid_String_plain(3) [OF assms]]
    append_sep_inject [OF underscore_not_in_fmt underscore_not_in_fmt]
    uuid_String_inject [OF assms] fmt_0d_inject ..

theorem frame_key_inject_witness:
  "NewFrameStorageKey decimal_lib 3 1 23456 \<noteq> NewFrameStorageKey decimal_lib 3 12 3456"
  using frame_key_inject [OF decimal_lib_ok, of 3 1 23456 3 12 3456] by simp

lemma segments_three_slashes:
  assumes "uuid_lib_ok U"
  shows "VideoIDFromStorageKey U (NewSegmentStorageKey U u i) = Inl (ErrorText ''invalid video storage key'')"
proof -
  let ?name = "''segment_'' @ fmt_0d 2 i @ ''.mp4''"
  have fmt: "c \<notin> set (fmt_0d 2 i)" if "c \<notin> insert (CHR ''-'') (set digits)" for c
    using that set_fmt_0d by blast
  have "url_QueryUnescape (NewSegmentStorageKey U u i) = Inr (NewSegmentStorageKey U u i)"
    using uuid_String_plain [OF assms, of u] fmt [of "CHR ''%''"] fmt [of "CHR ''+''"]
    by (intro url_QueryUnescape_all_plain) (auto simp: NewSegmentStorageKey_def digits_def)
  moreover have "NewSegmentStorageKey U u i =
      ''videos'' @ CHR ''/'' # (uuid_String U u @ CHR ''/'' # (''segments'' @ CHR ''/'' # ?name))"
    by (simp add: NewSegmentStorageKey_def)
  moreover have "CHR ''/'' \<notin> set ?name"
    using fmt [of "CHR ''/''"] by (auto simp: digits_def)
  ultimately show ?thesis
    using uuid_String_plain(3) [OF assms, of u]
    by (simp only: VideoIDFromStorageKey_def DecodeObjectKey_def sum.case)
      (simp add: TrimPrefix_def HasPrefix_def Split_append Split_no_sep)
qed

text \<open>
  The recognisers agree with the builders: each kind of key is recognised as its own kind only, so
  the storage webhook ignores frames, thumbnails and segments, and a segment's key does not parse as
  the key of an original.
\<close>

theorem object_keys_recognised:
  assumes "uuid_lib_ok U"
  shows "IsFrameObjectKey (NewFrameStorageKey U u i j) \<and> \<not> IsThumbnailObjectKey (NewFrameStorageKey U u i j) \<and>
         IsThumbnailObjectKey (NewThumbnailStorageKey U u) \<and> \<not> IsFrameObjectKey (NewThumbnailStorageKey U u) \<and>
         \<not> IsFrameObjectKey (NewStorageKey U u) \<and> \<not> IsThumbnailObjectKey (NewStorageKey U u) \<and>
         \<not> IsFrameObjectKey (NewSegmentStorageKey U u i) \<and> \<not> IsThumbnailObjectKey (NewSegmentStorageKey U u i) \<and>
         VideoIDFromStorageKey U (NewSegmentStorageKey U u i) = Inl (ErrorText ''invalid video storage key'')"
  by (simp add: segments_three_slashes [OF assms])
    (simp add: IsFrameObjectKey_def IsThumbnailObjectKey_def NewFrameStorageKey_def
      NewThumbnailStorageKey_def NewStorageKey_def NewSegmentStorageKey_def TrimPrefix_def
      HasPrefix_def HasSuffix_def)

theorem object_keys_recognised_witness:
  "IsFrameObjectKey (NewFrameStorageKey decimal_lib 9 0 1) \<and>
   VideoIDFromStorageKey decimal_lib (NewSegmentStorageKey decimal_lib 9 0) =
     Inl (ErrorText ''invalid video storage key'')"
  using object_keys_recognised [OF decimal_lib_ok, of 9 0 1] by simp

end
