(* ===== verification/Json.thy ===== *)
theory Json
  imports GoErrors "HOL-Library.Monad_Syntax"
begin

text \<open>
  What the code uses of \<open>encoding/json\<close>: a document is a tree, \<open>Marshal\<close> writes the fields of a
  struct in order (skipping an empty \<open>omitempty\<close> field) and \<open>Unmarshal\<close> reads an object member by
  member into a struct that starts at its zero value: a member goes to the field whose name is equal
  to it up to ASCII case, members of no field are ignored, \<open>null\<close> leaves the field alone, and a
  member of the wrong type makes the whole call fail.

  Text is left out: a body that is not JSON is \<open>Malformed\<close>. A string that holds an RFC 3339 instant
  is a leaf of its own (\<open>JTime\<close>), so the printing and parsing of \<open>time.Time\<close> is not modelled. A
  \<open>float64\<close> is a real number; NaN and the infinities, on which \<open>Marshal\<close> fails, do not occur.
\<close>

datatype json =
    JNull
  | JBool bool
  | JInt int
  | JFloat real
  | JStr string
  | JTime time
  | JArr "json list"
  | JObj "(string \<times> json) list"

datatype payload = Malformed | Wellformed json

type_synonym members = "(string \<times> json) list"

section \<open>Names of members\<close>

fun EqualFold :: "string \<Rightarrow> string \<Rightarrow> bool" where
  "EqualFold [] [] = True"
| "EqualFold (c # s) (d # t) = (if lower_char c = lower_char d then EqualFold s t else False)"
| "EqualFold _ _ = False"

lemma EqualFold_iff: "EqualFold s t \<longleftrightarrow> ToLower s = ToLower t"
  by (induction s t rule: EqualFold.induct) (auto simp: ToLower_def)

text \<open>The letters of the field names, folded.\<close>

lemma lower_char_letters [simp]:
  "map lower_char ''abcdefghijklmnopqrstuvwxyz'' = ''abcdefghijklmnopqrstuvwxyz''"
  "map lower_char ''ABCDEFGHIJKLMNOPQRSTUVWXYZ'' = ''abcdefghijklmnopqrstuvwxyz''"
  "lower_char (CHR ''_'') = CHR ''_''"
  by code_simp+

lemmas lower_char_simps [simp] =
  lower_char_letters(1) [unfolded list.map, simplified]
  lower_char_letters(2) [unfolded list.map, simplified]

section \<open>Reading a member into a field\<close>

fun dec_field :: "('a \<Rightarrow> json \<Rightarrow> 'a option) \<Rightarrow> 'a \<Rightarrow> string \<Rightarrow> members \<Rightarrow> 'a option" where
  "dec_field d x k [] = Some x"
| "dec_field d x k ((a, j) # ms) =
     (if EqualFold a k then (case d x j of None \<Rightarrow> None | Some y \<Rightarrow> dec_field d y k ms)
      else dec_field d x k ms)"

fun dec_str :: "string \<Rightarrow> json \<Rightarrow> string option" where
  "dec_str old JNull = Some old"
| "dec_str old (JStr s) = Some s"
| "dec_str old _ = None"

fun dec_int :: "int \<Rightarrow> json \<Rightarrow> int option" where
  "dec_int old JNull = Some old"
| "dec_int old (JInt n) = (if - (2 ^ 63) \<le> n \<and> n < 2 ^ 63 then Some n else None)"
| "dec_int old _ = None"

fun dec_float :: "real \<Rightarrow> json \<Rightarrow> real option" where
  "dec_float old JNull = Some old"
| "dec_float old (JInt n) = Some (of_int n)"
| "dec_float old (JFloat x) = Some x"
| "dec_float old _ = None"

fun dec_bool :: "bool \<Rightarrow> json \<Rightarrow> bool option" where
  "dec_bool old JNull = Some old"
| "dec_bool old (JBool b) = Some b"
| "dec_bool old _ = None"

fun dec_time :: "time \<Rightarrow> json \<Rightarrow> time option" where
  "dec_time old JNull = Some old"
| "dec_time old (JTime t) = Some t"
| "dec_time old _ = None"

fun dec_all :: "(json \<Rightarrow> 'a option) \<Rightarrow> json list \<Rightarrow> 'a list option" where
  "dec_all d [] = Some []"
| "dec_all d (j # js) =
     (case d j of None \<Rightarrow> None | Some x \<Rightarrow> map_option ((#) x) (dec_all d js))"

text \<open>A slice: \<open>null\<close> resets it, an array replaces it.\<close>

fun dec_slice :: "(json \<Rightarrow> 'a option) \<Rightarrow> 'a list \<Rightarrow> json \<Rightarrow> 'a list option" where
  "dec_slice d old JNull = Some []"
| "dec_slice d old (JArr js) = dec_all d js"
| "dec_slice d old _ = None"

text \<open>The members of the object that is read into a struct; \<open>null\<close> sets nothing.\<close>

fun members_of :: "json \<Rightarrow> members option" where
  "members_of JNull = Some []"
| "members_of (JObj ms) = Some ms"
| "members_of _ = None"

fun payload_members :: "payload \<Rightarrow> members option" where
  "payload_members Malformed = None"
| "payload_members (Wellformed j) = members_of j"

section \<open>Writing a field\<close>

definition enc :: "string \<Rightarrow> json \<Rightarrow> members" where
  "enc k j = [(k, j)]"

definition enc_omit :: "string \<Rightarrow> string \<Rightarrow> members" where
  "enc_omit k s = (if s = '''' then [] else [(k, JStr s)])"

lemma dec_field_append [simp]:
  "dec_field d x k (xs @ ys) =
     (case dec_field d x k xs of None \<Rightarrow> None | Some y \<Rightarrow> dec_field d y k ys)"
  by (induction d x k xs rule: dec_field.induct) (auto split: option.splits)

lemma dec_field_enc [simp]:
  "dec_field d x k (enc a j) = (if EqualFold a k then d x j else Some x)"
  by (simp add: enc_def split: option.splits)

lemma dec_field_enc_omit [simp]:
  "dec_field d x k (enc_omit a s) =
     (if EqualFold a k then (if s = '''' then Some x else d x (JStr s)) else Some x)"
  by (simp add: enc_omit_def split: option.splits)

lemma dec_all_map [simp]:
  "(\<And>x. x \<in> set xs \<Longrightarrow> d (e x) = Some x) \<Longrightarrow> dec_all d (map e xs) = Some xs"
  by (induction xs) auto

lemma dec_str_omit [simp]: "(if s = '''' then Some '''' else Some s) = Some s"
  by simp

end
