(* ===== verification/VideoEvents.thy ===== *)
theory VideoEvents
  imports Json
begin

text \<open>
  \<open>internal/domain/video/events.go\<close>: the domain events of a video, one constructor per event type,
  with the fields of the struct in its order (the selectors \<open>e_ID\<close>, \<open>e_VideoID\<close>, ... are shared),
  the names they carry on the broker, and their JSON form: \<open>video_Marshal\<close> writes an event as the
  outbox does, \<open>Unmarshal_VideoUploaded\<close> and its companions read one as the handlers do.
\<close>

section \<open>The payloads inside events\<close>

record ExtractedFramePayload =
  xf_ID :: string
  xf_Index :: int
  xf_TimestampMs :: int
  xf_StorageKey :: string
  xf_SelectionReason :: string
  xf_PHashDistance :: int

record OCRPointPayload =
  pt_X :: int
  pt_Y :: int

record OCRLinePayload =
  ln_Text :: string
  ln_Confidence :: real
  ln_Box :: "OCRPointPayload list"

record OCRFrameResultPayload =
  or_FrameID :: string
  or_FrameIndex :: int
  or_TimestampMs :: int
  or_Text :: string
  or_Confidence :: real
  or_Status :: string
  or_Lines :: "OCRLinePayload list"

record ClassificationCategoryPayload =
  cc_Name :: string
  cc_Probability :: real

record ClassificationPayload =
  cp_FrameID :: string
  cp_Confidential :: bool
  cp_Probability :: real
  cp_Categories :: "ClassificationCategoryPayload list"
  cp_Status :: string

section \<open>The events\<close>

datatype video_event =
    VideoCreated
      (e_ID: string) (e_VideoID: string) (e_UserID: string) (e_Filename: string)
      (e_StorageKey: string) (e_Status: string) (e_Timestamp: time)
  | VideoIngestRequested
      (e_ID: string) (e_VideoID: string) (e_RemoteURL: string) (e_StorageKey: string)
      (e_Timestamp: time)
  | VideoUploaded
      (e_ID: string) (e_VideoID: string) (e_UserID: string) (e_StorageKey: string)
      (e_ContentType: string) (e_SizeBytes: int) (e_Status: string) (e_Timestamp: time)
  | VideoExtracting
      (e_ID: string) (e_VideoID: string) (e_UserID: string) (e_JobID: string) (e_JobType: string)
      (e_Status: string) (e_JobStatus: string) (e_Timestamp: time)
  | VideoSegmentReady
      (e_ID: string) (e_VideoID: string) (e_UserID: string) (e_JobID: string)
      (e_SegmentID: string) (e_SegmentIndex: int) (e_OffsetMs: int) (e_DurationMs: int)
      (e_StorageKey: string) (e_Timestamp: time)
  | VideoFramesExtracted
      (e_ID: string) (e_VideoID: string) (e_UserID: string) (e_JobID: string) (e_JobType: string)
      (e_Status: string) (e_JobStatus: string) (e_FrameCount: int)
      (e_Frames: "ExtractedFramePayload list") (e_Timestamp: time)
  | VideoFrameExtractionFailed
      (e_ID: string) (e_VideoID: string) (e_UserID: string) (e_JobID: string) (e_JobType: string)
      (e_Status: string) (e_JobStatus: string) (e_Reason: string) (e_Timestamp: time)
  | VideoOCRProcessing
      (e_ID: string) (e_VideoID: string) (e_UserID: string) (e_JobID: string) (e_JobType: string)
      (e_Status: string) (e_JobStatus: string) (e_ExpectedFrameCount: int)
      (e_OCRCompletedCount: int) (e_Timestamp: time)
  | VideoOCRFrameRequested
      (e_ID: string) (e_VideoID: string) (e_UserID: string) (e_JobID: string) (e_FrameID: string)
      (e_FrameIndex: int) (e_TimestampMs: int) (e_StorageKey: string) (e_Timestamp: time)
  | VideoOCRFrameCompleted
      (e_ID: string) (e_VideoID: string) (e_Results: "OCRFrameResultPayload list")
      (e_Timestamp: time)
  | VideoFramesOCRCompleted
      (e_ID: string) (e_VideoID: string) (e_UserID: string) (e_JobID: string) (e_JobType: string)
      (e_Status: string) (e_JobStatus: string) (e_ExpectedFrameCount: int)
      (e_OCRCompletedCount: int) (e_Results: "OCRFrameResultPayload list") (e_Timestamp: time)
  | VideoOCRFailed
      (e_ID: string) (e_VideoID: string) (e_UserID: string) (e_JobID: string) (e_JobType: string)
      (e_Status: string) (e_JobStatus: string) (e_Reason: string) (e_ExpectedFrameCount: int)
      (e_OCRCompletedCount: int) (e_Timestamp: time)
  | VideoClassifying
      (e_ID: string) (e_VideoID: string) (e_UserID: string) (e_JobID: string) (e_JobType: string)
      (e_Status: string) (e_JobStatus: string) (e_ExpectedFrameCount: int) (e_Timestamp: time)
  | VideoClassifyFrameRequested
      (e_ID: string) (e_VideoID: string) (e_UserID: string) (e_JobID: string) (e_FrameID: string)
      (e_Timestamp: time)
  | VideoFramesClassified
      (e_ID: string) (e_VideoID: string) (e_UserID: string) (e_JobID: string) (e_JobType: string)
      (e_Status: string) (e_JobStatus: string) (e_ExpectedFrameCount: int)
      (e_Classifications: "ClassificationPayload list") (e_Timestamp: time)
  | VideoClassifyFailed
      (e_ID: string) (e_VideoID: string) (e_UserID: string) (e_JobID: string) (e_JobType: string)
      (e_Status: string) (e_JobStatus: string) (e_Reason: string) (e_ExpectedFrameCount: int)
      (e_Timestamp: time)
  | VideoUploadExpired
      (e_ID: string) (e_VideoID: string) (e_Timestamp: time)

fun video_EventType :: "video_event \<Rightarrow> string" where
  "video_EventType (VideoCreated _ _ _ _ _ _ _) = ''video.created.v1''"
| "video_EventType (VideoIngestRequested _ _ _ _ _) = ''video.ingest_requested.v1''"
| "video_EventType (VideoUploaded _ _ _ _ _ _ _ _) = ''video.uploaded.v1''"
| "video_EventType (VideoExtracting _ _ _ _ _ _ _ _) = ''video.extracting.v1''"
| "video_EventType (VideoSegmentReady _ _ _ _ _ _ _ _ _ _) = ''video.segment_ready.v1''"
| "video_EventType (VideoFramesExtracted _ _ _ _ _ _ _ _ _ _) = ''video.frames_extracted.v1''"
| "video_EventType (VideoFrameExtractionFailed _ _ _ _ _ _ _ _ _) =
     ''video.frame_extraction_failed.v1''"
| "video_EventType (VideoOCRProcessing _ _ _ _ _ _ _ _ _ _) = ''video.ocr_processing.v1''"
| "video_EventType (VideoOCRFrameRequested _ _ _ _ _ _ _ _ _) = ''video.ocr_frame_requested.v1''"
| "video_EventType (VideoOCRFrameCompleted _ _ _ _) = ''video.ocr_frame_completed.v1''"
| "video_EventType (VideoFramesOCRCompleted _ _ _ _ _ _ _ _ _ _ _) =
     ''video.frames_ocr_completed.v1''"
| "video_EventType (VideoOCRFailed _ _ _ _ _ _ _ _ _ _ _) = ''video.ocr_failed.v1''"
| "video_EventType (VideoClassifying _ _ _ _ _ _ _ _ _) = ''video.classifying.v1''"
| "video_EventType (VideoClassifyFrameRequested _ _ _ _ _ _) =
     ''video.classify_frame_requested.v1''"
| "video_EventType (VideoFramesClassified _ _ _ _ _ _ _ _ _ _) = ''video.frames_classified.v1''"
| "video_EventType (VideoClassifyFailed _ _ _ _ _ _ _ _ _ _) = ''video.classify_failed.v1''"
| "video_EventType (VideoUploadExpired _ _ _) = ''video.upload_expired.v1''"

abbreviation video_EventID :: "video_event \<Rightarrow> string" where
  "video_EventID \<equiv> e_ID"

abbreviation video_AggregateID :: "video_event \<Rightarrow> string" where
  "video_AggregateID \<equiv> e_VideoID"

abbreviation video_OccurredAt :: "video_event \<Rightarrow> time" where
  "video_OccurredAt \<equiv> e_Timestamp"

section \<open>Writing events\<close>

text \<open>A nil slice is written as \<open>null\<close> by the library and as the empty array here; both are read
  back as a slice of length 0.\<close>

definition enc_ExtractedFramePayload :: "ExtractedFramePayload \<Rightarrow> json" where
  "enc_ExtractedFramePayload r = JObj
    (enc_omit ''id'' (xf_ID r) @
     enc ''index'' (JInt (xf_Index r)) @
     enc ''timestampMs'' (JInt (xf_TimestampMs r)) @
     enc ''storageKey'' (JStr (xf_StorageKey r)) @
     enc ''selectionReason'' (JStr (xf_SelectionReason r)) @
     enc ''phashDistance'' (JInt (xf_PHashDistance r)))"

definition enc_OCRPointPayload :: "OCRPointPayload \<Rightarrow> json" where
  "enc_OCRPointPayload r = JObj
    (enc ''x'' (JInt (pt_X r)) @
     enc ''y'' (JInt (pt_Y r)))"

definition enc_OCRLinePayload :: "OCRLinePayload \<Rightarrow> json" where
  "enc_OCRLinePayload r = JObj
    (enc ''text'' (JStr (ln_Text r)) @
     enc ''confidence'' (JFloat (ln_Confidence r)) @
     enc ''box'' (JArr (map enc_OCRPointPayload (ln_Box r))))"

definition enc_OCRFrameResultPayload :: "OCRFrameResultPayload \<Rightarrow> json" where
  "enc_OCRFrameResultPayload r = JObj
    (enc ''frameId'' (JStr (or_FrameID r)) @
     enc ''frameIndex'' (JInt (or_FrameIndex r)) @
     enc ''timestampMs'' (JInt (or_TimestampMs r)) @
     enc ''text'' (JStr (or_Text r)) @
     enc ''confidence'' (JFloat (or_Confidence r)) @
     enc ''status'' (JStr (or_Status r)) @
     (if or_Lines r = [] then [] else enc ''lines'' (JArr (map enc_OCRLinePayload (or_Lines r)))))"

definition enc_ClassificationCategoryPayload :: "ClassificationCategoryPayload \<Rightarrow> json" where
  "enc_ClassificationCategoryPayload r = JObj
    (enc ''name'' (JStr (cc_Name r)) @
     enc ''probability'' (JFloat (cc_Probability r)))"

definition enc_ClassificationPayload :: "ClassificationPayload \<Rightarrow> json" where
  "enc_ClassificationPayload r = JObj
    (enc ''frameId'' (JStr (cp_FrameID r)) @
     enc ''confidential'' (JBool (cp_Confidential r)) @
     enc ''probability'' (JFloat (cp_Probability r)) @
     enc ''categories'' (JArr (map enc_ClassificationCategoryPayload (cp_Categories r))) @
     enc ''status'' (JStr (cp_Status r)))"

fun video_Marshal :: "video_event \<Rightarrow> json" where
  "video_Marshal (VideoCreated a b c d e f g) = JObj
     (enc ''eventId'' (JStr a) @
      enc ''videoId'' (JStr b) @
      enc_omit ''userId'' c @
      enc ''filename'' (JStr d) @
      enc ''storageKey'' (JStr e) @
      enc ''status'' (JStr f) @
      enc ''timestamp'' (JTime g))"
| "video_Marshal (VideoIngestRequested a b c d e) = JObj
     (enc ''eventId'' (JStr a) @
      enc ''videoId'' (JStr b) @
      enc ''remoteUrl'' (JStr c) @
      enc ''storageKey'' (JStr d) @
      enc ''timestamp'' (JTime e))"
| "video_Marshal (VideoUploaded a b c d e f g h) = JObj
     (enc ''eventId'' (JStr a) @
      enc ''videoId'' (JStr b) @
      enc_omit ''userId'' c @
      enc ''storageKey'' (JStr d) @
      enc ''contentType'' (JStr e) @
      enc ''sizeBytes'' (JInt f) @
      enc ''status'' (JStr g) @
      enc ''timestamp'' (JTime h))"
| "video_Marshal (VideoExtracting a b c d e f g h) = JObj
     (enc ''eventId'' (JStr a) @
      enc ''videoId'' (JStr b) @
      enc_omit ''userId'' c @
      enc ''jobId'' (JStr d) @
      enc_omit ''jobType'' e @
      enc ''status'' (JStr f) @
      enc ''jobStatus'' (JStr g) @
      enc ''timestamp'' (JTime h))"
| "video_Marshal (VideoSegmentReady a b c d e f g h i j) = JObj
     (enc ''eventId'' (JStr a) @
      enc ''videoId'' (JStr b) @
      enc_omit ''userId'' c @
      enc ''jobId'' (JStr d) @
      enc ''segmentId'' (JStr e) @
      enc ''segmentIndex'' (JInt f) @
      enc ''offsetMs'' (JInt g) @
      enc ''durationMs'' (JInt h) @
      enc ''storageKey'' (JStr i) @
      enc ''timestamp'' (JTime j))"
| "video_Marshal (VideoFramesExtracted a b c d e f g h i j) = JObj
     (enc ''eventId'' (JStr a) @
      enc ''videoId'' (JStr b) @
      enc_omit ''userId'' c @
      enc ''jobId'' (JStr d) @
      enc_omit ''jobType'' e @
      enc ''status'' (JStr f) @
      enc ''jobStatus'' (JStr g) @
      enc ''frameCount'' (JInt h) @
      enc ''frames'' (JArr (map enc_ExtractedFramePayload i)) @
      enc ''timestamp'' (JTime j))"
| "video_Marshal (VideoFrameExtractionFailed a b c d e f g h i) = JObj
     (enc ''eventId'' (JStr a) @
      enc ''videoId'' (JStr b) @
      enc_omit ''userId'' c @
      enc ''jobId'' (JStr d) @
      enc_omit ''jobType'' e @
      enc ''status'' (JStr f) @
      enc ''jobStatus'' (JStr g) @
      enc ''reason'' (JStr h) @
      enc ''timestamp'' (JTime i))"
| "video_Marshal (VideoOCRProcessing a b c d e f g h i j) = JObj
     (enc ''eventId'' (JStr a) @
      enc ''videoId'' (JStr b) @
      enc_omit ''userId'' c @
      enc ''jobId'' (JStr d) @
      enc_omit ''jobType'' e @
      enc ''status'' (JStr f) @
      enc ''jobStatus'' (JStr g) @
      enc ''expectedFrameCount'' (JInt h) @
      enc ''ocrCompletedCount'' (JInt i) @
      enc ''timestamp'' (JTime j))"
| "video_Marshal (VideoOCRFrameRequested a b c d e f g h i) = JObj
     (enc ''eventId'' (JStr a) @
      enc ''videoId'' (JStr b) @
      enc_omit ''userId'' c @
      enc ''jobId'' (JStr d) @
      enc ''frameId'' (JStr e) @
      enc ''frameIndex'' (JInt f) @
      enc ''timestampMs'' (JInt g) @
      enc ''storageKey'' (JStr h) @
      enc ''timestamp'' (JTime i))"
| "video_Marshal (VideoOCRFrameCompleted a b c d) = JObj
     (enc ''eventId'' (JStr a) @
      enc ''videoId'' (JStr b) @
      enc ''results'' (JArr (map enc_OCRFrameResultPayload c)) @
      enc ''timestamp'' (JTime d))"
| "video_Marshal (VideoFramesOCRCompleted a b c d e f g h i j k) = JObj
     (enc ''eventId'' (JStr a) @
      enc ''videoId'' (JStr b) @
      enc_omit ''userId'' c @
      enc ''jobId'' (JStr d) @
      enc_omit ''jobType'' e @
      enc ''status'' (JStr f) @
      enc ''jobStatus'' (JStr g) @
      enc ''expectedFrameCount'' (JInt h) @
      enc ''ocrCompletedCount'' (JInt i) @
      enc ''results'' (JArr (map enc_OCRFrameResultPayload j)) @
      enc ''timestamp'' (JTime k))"
| "video_Marshal (VideoOCRFailed a b c d e f g h i j k) = JObj
     (enc ''eventId'' (JStr a) @
      enc ''videoId'' (JStr b) @
      enc_omit ''userId'' c @
      enc ''jobId'' (JStr d) @
      enc_omit ''jobType'' e @
      enc ''status'' (JStr f) @
      enc ''jobStatus'' (JStr g) @
      enc ''reason'' (JStr h) @
      enc ''expectedFrameCount'' (JInt i) @
      enc ''ocrCompletedCount'' (JInt j) @
      enc ''timestamp'' (JTime k))"
| "video_Marshal (VideoClassifying a b c d e f g h i) = JObj
     (enc ''eventId'' (JStr a) @
      enc ''videoId'' (JStr b) @
      enc_omit ''userId'' c @
      enc ''jobId'' (JStr d) @
      enc_omit ''jobType'' e @
      enc ''status'' (JStr f) @
      enc ''jobStatus'' (JStr g) @
      enc ''expectedFrameCount'' (JInt h) @
      enc ''timestamp'' (JTime i))"
| "video_Marshal (VideoClassifyFrameRequested a b c d e f) = JObj
     (enc ''eventId'' (JStr a) @
      enc ''videoId'' (JStr b) @
      enc_omit ''userId'' c @
      enc ''jobId'' (JStr d) @
      enc ''frameId'' (JStr e) @
      enc ''timestamp'' (JTime f))"
| "video_Marshal (VideoFramesClassified a b c d e f g h i j) = JObj
     (enc ''eventId'' (JStr a) @
      enc ''videoId'' (JStr b) @
      enc_omit ''userId'' c @
      enc ''jobId'' (JStr d) @
      enc_omit ''jobType'' e @
      enc ''status'' (JStr f) @
      enc ''jobStatus'' (JStr g) @
      enc ''expectedFrameCount'' (JInt h) @
      enc ''classifications'' (JArr (map enc_ClassificationPayload i)) @
      enc ''timestamp'' (JTime j))"
| "video_Marshal (VideoClassifyFailed a b c d e f g h i j) = JObj
     (enc ''eventId'' (JStr a) @
      enc ''videoId'' (JStr b) @
      enc_omit ''userId'' c @
      enc ''jobId'' (JStr d) @
      enc_omit ''jobType'' e @
      enc ''status'' (JStr f) @
      enc ''jobStatus'' (JStr g) @
      enc ''reason'' (JStr h) @
      enc ''expectedFrameCount'' (JInt i) @
      enc ''timestamp'' (JTime j))"
| "video_Marshal (VideoUploadExpired a b c) = JObj
     (enc ''eventId'' (JStr a) @
      enc ''videoId'' (JStr b) @
      enc ''timestamp'' (JTime c))"

section \<open>Reading events\<close>

definition dec_ExtractedFramePayload :: "json \<Rightarrow> ExtractedFramePayload option" where
  "dec_ExtractedFramePayload j = do {
       ms \<leftarrow> members_of j;
       a \<leftarrow> dec_field dec_str '''' ''id'' ms;
       b \<leftarrow> dec_field dec_int 0 ''index'' ms;
       c \<leftarrow> dec_field dec_int 0 ''timestampMs'' ms;
       d \<leftarrow> dec_field dec_str '''' ''storageKey'' ms;
       e \<leftarrow> dec_field dec_str '''' ''selectionReason'' ms;
       f \<leftarrow> dec_field dec_int 0 ''phashDistance'' ms;
       Some \<lparr>xf_ID = a, xf_Index = b, xf_TimestampMs = c, xf_StorageKey = d, xf_SelectionReason = e, xf_PHashDistance = f\<rparr> }"

definition dec_OCRPointPayload :: "json \<Rightarrow> OCRPointPayload option" where
  "dec_OCRPointPayload j = do {
       ms \<leftarrow> members_of j;
       a \<leftarrow> dec_field dec_int 0 ''x'' ms;
       b \<leftarrow> dec_field dec_int 0 ''y'' ms;
       Some \<lparr>pt_X = a, pt_Y = b\<rparr> }"

definition dec_OCRLinePayload :: "json \<Rightarrow> OCRLinePayload option" where
  "dec_OCRLinePayload j = do {
       ms \<leftarrow> members_of j;
       a \<leftarrow> dec_field dec_str '''' ''text'' ms;
       b \<leftarrow> dec_field dec_float 0 ''confidence'' ms;
       c \<leftarrow> dec_field (dec_slice dec_OCRPointPayload) [] ''box'' ms;
       Some \<lparr>ln_Text = a, ln_Confidence = b, ln_Box = c\<rparr> }"

definition dec_OCRFrameResultPayload :: "json \<Rightarrow> OCRFrameResultPayload option" where
  "dec_OCRFrameResultPayload j = do {
       ms \<leftarrow> members_of j;
       a \<leftarrow> dec_field dec_str '''' ''frameId'' ms;
       b \<leftarrow> dec_field dec_int 0 ''frameIndex'' ms;
       c \<leftarrow> dec_field dec_int 0 ''timestampMs'' ms;
       d \<leftarrow> dec_field dec_str '''' ''text'' ms;
       e \<leftarrow> dec_field dec_float 0 ''confidence'' ms;
       f \<leftarrow> dec_field dec_str '''' ''status'' ms;
       g \<leftarrow> dec_field (dec_slice dec_OCRLinePayload) [] ''lines'' ms;
       Some \<lparr>or_FrameID = a, or_FrameIndex = b, or_TimestampMs = c, or_Text = d, or_Confidence = e, or_Status = f, or_Lines = g\<rparr> }"

definition dec_ClassificationCategoryPayload :: "json \<Rightarrow> ClassificationCategoryPayload option" where
  "dec_ClassificationCategoryPayload j = do {
       ms \<leftarrow> members_of j;
       a \<leftarrow> dec_field dec_str '''' ''name'' ms;
       b \<leftarrow> dec_field dec_float 0 ''probability'' ms;
       Some \<lparr>cc_Name = a, cc_Probability = b\<rparr> }"

definition dec_ClassificationPayload :: "json \<Rightarrow> ClassificationPayload option" where
  "dec_ClassificationPayload j = do {
       ms \<leftarrow> members_of j;
       a \<leftarrow> dec_field dec_str '''' ''frameId'' ms;
       b \<leftarrow> dec_field dec_bool False ''confidential'' ms;
       c \<leftarrow> dec_field dec_float 0 ''probability'' ms;
       d \<leftarrow> dec_field (dec_slice dec_ClassificationCategoryPayload) [] ''categories'' ms;
       e \<leftarrow> dec_field dec_str '''' ''status'' ms;
       Some \<lparr>cp_FrameID = a, cp_Confidential = b, cp_Probability = c, cp_Categories = d, cp_Status = e\<rparr> }"

definition Unmarshal_VideoCreated :: "payload \<Rightarrow> video_event option" where
  "Unmarshal_VideoCreated p = do {
       ms \<leftarrow> payload_members p;
       a \<leftarrow> dec_field dec_str '''' ''eventId'' ms;
       b \<leftarrow> dec_field dec_str '''' ''videoId'' ms;
       c \<leftarrow> dec_field dec_str '''' ''userId'' ms;
       d \<leftarrow> dec_field dec_str '''' ''filename'' ms;
       e \<leftarrow> dec_field dec_str '''' ''storageKey'' ms;
       f \<leftarrow> dec_field dec_str '''' ''status'' ms;
       g \<leftarrow> dec_field dec_time zero_time ''timestamp'' ms;
       Some (VideoCreated a b c d e f g) }"

definition Unmarshal_VideoIngestRequested :: "payload \<Rightarrow> video_event option" where
  "Unmarshal_VideoIngestRequested p = do {
       ms \<leftarrow> payload_members p;
       a \<leftarrow> dec_field dec_str '''' ''eventId'' ms;
       b \<leftarrow> dec_field dec_str '''' ''videoId'' ms;
       c \<leftarrow> dec_field dec_str '''' ''remoteUrl'' ms;
       d \<leftarrow> dec_field dec_str '''' ''storageKey'' ms;
       e \<leftarrow> dec_field dec_time zero_time ''timestamp'' ms;
       Some (VideoIngestRequested a b c d e) }"

definition Unmarshal_VideoUploaded :: "payload \<Rightarrow> video_event option" where
  "Unmarshal_VideoUploaded p = do {
       ms \<leftarrow> payload_members p;
       a \<leftarrow> dec_field dec_str '''' ''eventId'' ms;
       b \<leftarrow> dec_field dec_str '''' ''videoId'' ms;
       c \<leftarrow> dec_field dec_str '''' ''userId'' ms;
       d \<leftarrow> dec_field dec_str '''' ''storageKey'' ms;
       e \<leftarrow> dec_field dec_str '''' ''contentType'' ms;
       f \<leftarrow> dec_field dec_int 0 ''sizeBytes'' ms;
       g \<leftarrow> dec_field dec_str '''' ''status'' ms;
       h \<leftarrow> dec_field dec_time zero_time ''timestamp'' ms;
       Some (VideoUploaded a b c d e f g h) }"

definition Unmarshal_VideoExtracting :: "payload \<Rightarrow> video_event option" where
  "Unmarshal_VideoExtracting p = do {
       ms \<leftarrow> payload_members p;
       a \<leftarrow> dec_field dec_str '''' ''eventId'' ms;
       b \<leftarrow> dec_field dec_str '''' ''videoId'' ms;
       c \<leftarrow> dec_field dec_str '''' ''userId'' ms;
       d \<leftarrow> dec_field dec_str '''' ''jobId'' ms;
       e \<leftarrow> dec_field dec_str '''' ''jobType'' ms;
       f \<leftarrow> dec_field dec_str '''' ''status'' ms;
       g \<leftarrow> dec_field dec_str '''' ''jobStatus'' ms;
       h \<leftarrow> dec_field dec_time zero_time ''timestamp'' ms;
       Some (VideoExtracting a b c d e f g h) }"

definition Unmarshal_VideoSegmentReady :: "payload \<Rightarrow> video_event option" where
  "Unmarshal_VideoSegmentReady p = do {
       ms \<leftarrow> payload_members p;
       a \<leftarrow> dec_field dec_str '''' ''eventId'' ms;
       b \<leftarrow> dec_field dec_str '''' ''videoId'' ms;
       c \<leftarrow> dec_field dec_str '''' ''userId'' ms;
       d \<leftarrow> dec_field dec_str '''' ''jobId'' ms;
       e \<leftarrow> dec_field dec_str '''' ''segmentId'' ms;
       f \<leftarrow> dec_field dec_int 0 ''segmentIndex'' ms;
       g \<leftarrow> dec_field dec_int 0 ''offsetMs'' ms;
       h \<leftarrow> dec_field dec_int 0 ''durationMs'' ms;
       i \<leftarrow> dec_field dec_str '''' ''storageKey'' ms;
       j \<leftarrow> dec_field dec_time zero_time ''timestamp'' ms;
       Some (VideoSegmentReady a b c d e f g h i j) }"

definition Unmarshal_VideoFramesExtracted :: "payload \<Rightarrow> video_event option" where
  "Unmarshal_VideoFramesExtracted p = do {
       ms \<leftarrow> payload_members p;
       a \<leftarrow> dec_field dec_str '''' ''eventId'' ms;
       b \<leftarrow> dec_field dec_str '''' ''videoId'' ms;
       c \<leftarrow> dec_field dec_str '''' ''userId'' ms;
       d \<leftarrow> dec_field dec_str '''' ''jobId'' ms;
       e \<leftarrow> dec_field dec_str '''' ''jobType'' ms;
       f \<leftarrow> dec_field dec_str '''' ''status'' ms;
       g \<leftarrow> dec_field dec_str '''' ''jobStatus'' ms;
       h \<leftarrow> dec_field dec_int 0 ''frameCount'' ms;
       i \<leftarrow> dec_field (dec_slice dec_ExtractedFramePayload) [] ''frames'' ms;
       j \<leftarrow> dec_field dec_time zero_time ''timestamp'' ms;
       Some (VideoFramesExtracted a b c d e f g h i j) }"

definition Unmarshal_VideoFrameExtractionFailed :: "payload \<Rightarrow> video_event option" where
  "Unmarshal_VideoFrameExtractionFailed p = do {
       ms \<leftarrow> payload_members p;
       a \<leftarrow> dec_field dec_str '''' ''eventId'' ms;
       b \<leftarrow> dec_field dec_str '''' ''videoId'' ms;
       c \<leftarrow> dec_field dec_str '''' ''userId'' ms;
       d \<leftarrow> dec_field dec_str '''' ''jobId'' ms;
       e \<leftarrow> dec_field dec_str '''' ''jobType'' ms;
       f \<leftarrow> dec_field dec_str '''' ''status'' ms;
       g \<leftarrow> dec_field dec_str '''' ''jobStatus'' ms;
       h \<leftarrow> dec_field dec_str '''' ''reason'' ms;
       i \<leftarrow> dec_field dec_time zero_time ''timestamp'' ms;
       Some (VideoFrameExtractionFailed a b c d e f g h i) }"

definition Unmarshal_VideoOCRProcessing :: "payload \<Rightarrow> video_event option" where
  "Unmarshal_VideoOCRProcessing p = do {
       ms \<leftarrow> payload_members p;
       a \<leftarrow> dec_field dec_str '''' ''eventId'' ms;
       b \<leftarrow> dec_field dec_str '''' ''videoId'' ms;
       c \<leftarrow> dec_field dec_str '''' ''userId'' ms;
       d \<leftarrow> dec_field dec_str '''' ''jobId'' ms;
       e \<leftarrow> dec_field dec_str '''' ''jobType'' ms;
       f \<leftarrow> dec_field dec_str '''' ''status'' ms;
       g \<leftarrow> dec_field dec_str '''' ''jobStatus'' ms;
       h \<leftarrow> dec_field dec_int 0 ''expectedFrameCount'' ms;
       i \<leftarrow> dec_field dec_int 0 ''ocrCompletedCount'' ms;
       j \<leftarrow> dec_field dec_time zero_time ''timestamp'' ms;
       Some (VideoOCRProcessing a b c d e f g h i j) }"

definition Unmarshal_VideoOCRFrameRequested :: "payload \<Rightarrow> video_event option" where
  "Unmarshal_VideoOCRFrameRequested p = do {
       ms \<leftarrow> payload_members p;
       a \<leftarrow> dec_field dec_str '''' ''eventId'' ms;
       b \<leftarrow> dec_field dec_str '''' ''videoId'' ms;
       c \<leftarrow> dec_field dec_str '''' ''userId'' ms;
       d \<leftarrow> dec_field dec_str '''' ''jobId'' ms;
       e \<leftarrow> dec_field dec_str '''' ''frameId'' ms;
       f \<leftarrow> dec_field dec_int 0 ''frameIndex'' ms;
       g \<leftarrow> dec_field dec_int 0 ''timestampMs'' ms;
       h \<leftarrow> dec_field dec_str '''' ''storageKey'' ms;
       i \<leftarrow> dec_field dec_time zero_time ''timestamp'' ms;
       Some (VideoOCRFrameRequested a b c d e f g h i) }"

definition Unmarshal_VideoOCRFrameCompleted :: "payload \<Rightarrow> video_event option" where
  "Unmarshal_VideoOCRFrameCompleted p = do {
       ms \<leftarrow> payload_members p;
       a \<leftarrow> dec_field dec_str '''' ''eventId'' ms;
       b \<leftarrow> dec_field dec_str '''' ''videoId'' ms;
       c \<leftarrow> dec_field (dec_slice dec_OCRFrameResultPayload) [] ''results'' ms;
       d \<leftarrow> dec_field dec_time zero_time ''timestamp'' ms;
       Some (VideoOCRFrameCompleted a b c d) }"

definition Unmarshal_VideoFramesOCRCompleted :: "payload \<Rightarrow> video_event option" where
  "Unmarshal_VideoFramesOCRCompleted p = do {
       ms \<leftarrow> payload_members p;
       a \<leftarrow> dec_field dec_str '''' ''eventId'' ms;
       b \<leftarrow> dec_field dec_str '''' ''videoId'' ms;
       c \<leftarrow> dec_field dec_str '''' ''userId'' ms;
       d \<leftarrow> dec_field dec_str '''' ''jobId'' ms;
       e \<leftarrow> dec_field dec_str '''' ''jobType'' ms;
       f \<leftarrow> dec_field dec_str '''' ''status'' ms;
       g \<leftarrow> dec_field dec_str '''' ''jobStatus'' ms;
       h \<leftarrow> dec_field dec_int 0 ''expectedFrameCount'' ms;
       i \<leftarrow> dec_field dec_int 0 ''ocrCompletedCount'' ms;
       j \<leftarrow> dec_field (dec_slice dec_OCRFrameResultPayload) [] ''results'' ms;
       k \<leftarrow> dec_field dec_time zero_time ''timestamp'' ms;
       Some (VideoFramesOCRCompleted a b c d e f g h i j k) }"

definition Unmarshal_VideoOCRFailed :: "payload \<Rightarrow> video_event option" where
  "Unmarshal_VideoOCRFailed p = do {
       ms \<leftarrow> payload_members p;
       a \<leftarrow> dec_field dec_str '''' ''eventId'' ms;
       b \<leftarrow> dec_field dec_str '''' ''videoId'' ms;
       c \<leftarrow> dec_field dec_str '''' ''userId'' ms;
       d \<leftarrow> dec_field dec_str '''' ''jobId'' ms;
       e \<leftarrow> dec_field dec_str '''' ''jobType'' ms;
       f \<leftarrow> dec_field dec_str '''' ''status'' ms;
       g \<leftarrow> dec_field dec_str '''' ''jobStatus'' ms;
       h \<leftarrow> dec_field dec_str '''' ''reason'' ms;
       i \<leftarrow> dec_field dec_int 0 ''expectedFrameCount'' ms;
       j \<leftarrow> dec_field dec_int 0 ''ocrCompletedCount'' ms;
       k \<leftarrow> dec_field dec_time zero_time ''timestamp'' ms;
       Some (VideoOCRFailed a b c d e f g h i j k) }"

definition Unmarshal_VideoClassifying :: "payload \<Rightarrow> video_event option" where
  "Unmarshal_VideoClassifying p = do {
       ms \<leftarrow> payload_members p;
       a \<leftarrow> dec_field dec_str '''' ''eventId'' ms;
       b \<leftarrow> dec_field dec_str '''' ''videoId'' ms;
       c \<leftarrow> dec_field dec_str '''' ''userId'' ms;
       d \<leftarrow> dec_field dec_str '''' ''jobId'' ms;
       e \<leftarrow> dec_field dec_str '''' ''jobType'' ms;
       f \<leftarrow> dec_field dec_str '''' ''status'' ms;
       g \<leftarrow> dec_field dec_str '''' ''jobStatus'' ms;
       h \<leftarrow> dec_field dec_int 0 ''expectedFrameCount'' ms;
       i \<leftarrow> dec_field dec_time zero_time ''timestamp'' ms;
       Some (VideoClassifying a b c d e f g h i) }"

definition Unmarshal_VideoClassifyFrameRequested :: "payload \<Rightarrow> video_event option" where
  "Unmarshal_VideoClassifyFrameRequested p = do {
       ms \<leftarrow> payload_members p;
       a \<leftarrow> dec_field dec_str '''' ''eventId'' ms;
       b \<leftarrow> dec_field dec_str '''' ''videoId'' ms;
       c \<leftarrow> dec_field dec_str '''' ''userId'' ms;
       d \<leftarrow> dec_field dec_str '''' ''jobId'' ms;
       e \<leftarrow> dec_field dec_str '''' ''frameId'' ms;
       f \<leftarrow> dec_field dec_time zero_time ''timestamp'' ms;
       Some (VideoClassifyFrameRequested a b c d e f) }"

definition Unmarshal_VideoFramesClassified :: "payload \<Rightarrow> video_event option" where
  "Unmarshal_VideoFramesClassified p = do {
       ms \<leftarrow> payload_members p;
       a \<leftarrow> dec_field dec_str '''' ''eventId'' ms;
       b \<leftarrow> dec_field dec_str '''' ''videoId'' ms;
       c \<leftarrow> dec_field dec_str '''' ''userId'' ms;
       d \<leftarrow> dec_field dec_str '''' ''jobId'' ms;
       e \<leftarrow> dec_field dec_str '''' ''jobType'' ms;
       f \<leftarrow> dec_field dec_str '''' ''status'' ms;
       g \<leftarrow> dec_field dec_str '''' ''jobStatus'' ms;
       h \<leftarrow> dec_field dec_int 0 ''expectedFrameCount'' ms;
       i \<leftarrow> dec_field (dec_slice dec_ClassificationPayload) [] ''classifications'' ms;
       j \<leftarrow> dec_field dec_time zero_time ''timestamp'' ms;
       Some (VideoFramesClassified a b c d e f g h i j) }"

definition Unmarshal_VideoClassifyFailed :: "payload \<Rightarrow> video_event option" where
  "Unmarshal_VideoClassifyFailed p = do {
       ms \<leftarrow> payload_members p;
       a \<leftarrow> dec_field dec_str '''' ''eventId'' ms;
       b \<leftarrow> dec_field dec_str '''' ''videoId'' ms;
       c \<leftarrow> dec_field dec_str '''' ''userId'' ms;
       d \<leftarrow> dec_field dec_str '''' ''jobId'' ms;
       e \<leftarrow> dec_field dec_str '''' ''jobType'' ms;
       f \<leftarrow> dec_field dec_str '''' ''status'' ms;
       g \<leftarrow> dec_field dec_str '''' ''jobStatus'' ms;
       h \<leftarrow> dec_field dec_str '''' ''reason'' ms;
       i \<leftarrow> dec_field dec_int 0 ''expectedFrameCount'' ms;
       j \<leftarrow> dec_field dec_time zero_time ''timestamp'' ms;
       Some (VideoClassifyFailed a b c d e f g h i j) }"

definition Unmarshal_VideoUploadExpired :: "payload \<Rightarrow> video_event option" where
  "Unmarshal_VideoUploadExpired p = do {
       ms \<leftarrow> payload_members p;
       a \<leftarrow> dec_field dec_str '''' ''eventId'' ms;
       b \<leftarrow> dec_field dec_str '''' ''videoId'' ms;
       c \<leftarrow> dec_field dec_time zero_time ''timestamp'' ms;
       Some (VideoUploadExpired a b c) }"

definition Unmarshal_video_event :: "string \<Rightarrow> payload \<Rightarrow> video_event option" where
  "Unmarshal_video_event t p =
    (if t = ''video.created.v1'' then Unmarshal_VideoCreated p else
     if t = ''video.ingest_requested.v1'' then Unmarshal_VideoIngestRequested p else
     if t = ''video.uploaded.v1'' then Unmarshal_VideoUploaded p else
     if t = ''video.extracting.v1'' then Unmarshal_VideoExtracting p else
     if t = ''video.segment_ready.v1'' then Unmarshal_VideoSegmentReady p else
     if t = ''video.frames_extracted.v1'' then Unmarshal_VideoFramesExtracted p else
     if t = ''video.frame_extraction_failed.v1'' then Unmarshal_VideoFrameExtractionFailed p else
     if t = ''video.ocr_processing.v1'' then Unmarshal_VideoOCRProcessing p else
     if t = ''video.ocr_frame_requested.v1'' then Unmarshal_VideoOCRFrameRequested p else
     if t = ''video.ocr_frame_completed.v1'' then Unmarshal_VideoOCRFrameCompleted p else
     if t = ''video.frames_ocr_completed.v1'' then Unmarshal_VideoFramesOCRCompleted p else
     if t = ''video.ocr_failed.v1'' then Unmarshal_VideoOCRFailed p else
     if t = ''video.classifying.v1'' then Unmarshal_VideoClassifying p else
     if t = ''video.classify_frame_requested.v1'' then Unmarshal_VideoClassifyFrameRequested p else
     if t = ''video.frames_classified.v1'' then Unmarshal_VideoFramesClassified p else
     if t = ''video.classify_failed.v1'' then Unmarshal_VideoClassifyFailed p else
     if t = ''video.upload_expired.v1'' then Unmarshal_VideoUploadExpired p else
     None)"

section \<open>The values Go can hold\<close>

text \<open>The integer fields of an event are 64-bit integers.\<close>

definition int64_ok :: "int \<Rightarrow> bool" where
  "int64_ok n \<longleftrightarrow> - (2 ^ 63) \<le> n \<and> n < 2 ^ 63"

definition ExtractedFramePayload_ok :: "ExtractedFramePayload \<Rightarrow> bool" where
  "ExtractedFramePayload_ok r \<longleftrightarrow>
     int64_ok (xf_Index r) \<and> int64_ok (xf_TimestampMs r) \<and> int64_ok (xf_PHashDistance r)"

definition OCRPointPayload_ok :: "OCRPointPayload \<Rightarrow> bool" where
  "OCRPointPayload_ok r \<longleftrightarrow> int64_ok (pt_X r) \<and> int64_ok (pt_Y r)"

definition OCRLinePayload_ok :: "OCRLinePayload \<Rightarrow> bool" where
  "OCRLinePayload_ok r \<longleftrightarrow> list_all OCRPointPayload_ok (ln_Box r)"

definition OCRFrameResultPayload_ok :: "OCRFrameResultPayload \<Rightarrow> bool" where
  "OCRFrameResultPayload_ok r \<longleftrightarrow>
     int64_ok (or_FrameIndex r) \<and> int64_ok (or_TimestampMs r) \<and> list_all OCRLinePayload_ok (or_Lines r)"

fun video_event_ok :: "video_event \<Rightarrow> bool" where
  "video_event_ok (VideoUploaded _ _ _ _ _ a _ _) = (int64_ok a)"
| "video_event_ok (VideoSegmentReady _ _ _ _ _ a b c _ _) = (int64_ok a \<and> int64_ok b \<and> int64_ok c)"
| "video_event_ok (VideoFramesExtracted _ _ _ _ _ _ _ a b _) = (int64_ok a \<and> list_all ExtractedFramePayload_ok b)"
| "video_event_ok (VideoOCRProcessing _ _ _ _ _ _ _ a b _) = (int64_ok a \<and> int64_ok b)"
| "video_event_ok (VideoOCRFrameRequested _ _ _ _ _ a b _ _) = (int64_ok a \<and> int64_ok b)"
| "video_event_ok (VideoOCRFrameCompleted _ _ a _) = (list_all OCRFrameResultPayload_ok a)"
| "video_event_ok (VideoFramesOCRCompleted _ _ _ _ _ _ _ a b c _) = (int64_ok a \<and> int64_ok b \<and> list_all OCRFrameResultPayload_ok c)"
| "video_event_ok (VideoOCRFailed _ _ _ _ _ _ _ _ a b _) = (int64_ok a \<and> int64_ok b)"
| "video_event_ok (VideoClassifying _ _ _ _ _ _ _ a _) = (int64_ok a)"
| "video_event_ok (VideoFramesClassified _ _ _ _ _ _ _ a _ _) = (int64_ok a)"
| "video_event_ok (VideoClassifyFailed _ _ _ _ _ _ _ _ a _) = (int64_ok a)"
| "video_event_ok _ = True"

section \<open>Reading back what was written\<close>

lemma dec_int_ok [simp]: "int64_ok n \<Longrightarrow> dec_int x (JInt n) = Some n"
  by (simp add: int64_ok_def)

lemma dec_slice_map [simp]:
  "(\<And>x. x \<in> set xs \<Longrightarrow> d (e x) = Some x) \<Longrightarrow> dec_slice d old (JArr (map e xs)) = Some xs"
  by simp

declare dec_slice.simps(2) [simp del]
declare dec_int.simps(2) [simp del]

lemma dec_ExtractedFramePayload_enc [simp]:
  "ExtractedFramePayload_ok r \<Longrightarrow> dec_ExtractedFramePayload (enc_ExtractedFramePayload r) = Some r"
  by (cases r) (simp add: dec_ExtractedFramePayload_def enc_ExtractedFramePayload_def
      ExtractedFramePayload_ok_def)

lemma dec_OCRPointPayload_enc [simp]:
  "OCRPointPayload_ok r \<Longrightarrow> dec_OCRPointPayload (enc_OCRPointPayload r) = Some r"
  by (cases r) (simp add: dec_OCRPointPayload_def enc_OCRPointPayload_def OCRPointPayload_ok_def)

lemma dec_OCRLinePayload_enc [simp]:
  "OCRLinePayload_ok r \<Longrightarrow> dec_OCRLinePayload (enc_OCRLinePayload r) = Some r"
  by (cases r) (simp add: dec_OCRLinePayload_def enc_OCRLinePayload_def OCRLinePayload_ok_def
      list_all_iff)

lemma dec_OCRFrameResultPayload_enc [simp]:
  "OCRFrameResultPayload_ok r \<Longrightarrow> dec_OCRFrameResultPayload (enc_OCRFrameResultPayload r) = Some r"
  by (cases r) (simp add: dec_OCRFrameResultPayload_def enc_OCRFrameResultPayload_def
      OCRFrameResultPayload_ok_def list_all_iff)

lemma dec_ClassificationCategoryPayload_enc [simp]:
  "dec_ClassificationCategoryPayload (enc_ClassificationCategoryPayload r) = Some r"
  by (cases r) (simp add: dec_ClassificationCategoryPayload_def enc_ClassificationCategoryPayload_def)

lemma dec_ClassificationPayload_enc [simp]:
  "dec_ClassificationPayload (enc_ClassificationPayload r) = Some r"
  by (cases r) (simp add: dec_ClassificationPayload_def enc_ClassificationPayload_def)

lemmas Unmarshal_defs =
  Unmarshal_VideoCreated_def
  Unmarshal_VideoIngestRequested_def
  Unmarshal_VideoUploaded_def
  Unmarshal_VideoExtracting_def
  Unmarshal_VideoSegmentReady_def
  Unmarshal_VideoFramesExtracted_def
  Unmarshal_VideoFrameExtractionFailed_def
  Unmarshal_VideoOCRProcessing_def
  Unmarshal_VideoOCRFrameRequested_def
  Unmarshal_VideoOCRFrameCompleted_def
  Unmarshal_VideoFramesOCRCompleted_def
  Unmarshal_VideoOCRFailed_def
  Unmarshal_VideoClassifying_def
  Unmarshal_VideoClassifyFrameRequested_def
  Unmarshal_VideoFramesClassified_def
  Unmarshal_VideoClassifyFailed_def
  Unmarshal_VideoUploadExpired_def

lemma Unmarshal_Marshal_payload:
  "video_event_ok e \<Longrightarrow>
     Unmarshal_video_event (video_EventType e) (Wellformed (video_Marshal e)) = Some e"
  by (cases e) (simp_all add: Unmarshal_video_event_def Unmarshal_defs list_all_iff)

end
