(* ===== verification/Aggregate.thy ===== *)
theory Aggregate
  imports Main
begin

text \<open>
  The contract between an aggregate (\<open>internal/domain/video/entity.go\<close>,
  \<open>internal/domain/user/entity.go\<close>) and the repositories that save it: events are recorded on the
  aggregate and pulled once, when it is saved.
\<close>

locale aggregate =
  fixes events :: "'a \<Rightarrow> 'e list"
    and record_event :: "'e \<Rightarrow> 'a \<Rightarrow> 'a"
    and pull_events :: "'a \<Rightarrow> 'e list \<times> 'a"
  assumes events_record: "events (record_event e a) = events a @ [e]"
    and pulled: "fst (pull_events a) = events a"
    and emptied: "events (snd (pull_events a)) = []"
begin

text \<open>A use of the aggregate: events recorded (\<open>Some\<close>) and pulls (\<open>None\<close>), and what the pulls gave.\<close>

fun use_aggregate :: "'e option list \<Rightarrow> 'a \<Rightarrow> 'e list \<times> 'a" where
  "use_aggregate [] a = ([], a)"
| "use_aggregate (Some e # ops) a = use_aggregate ops (record_event e a)"
| "use_aggregate (None # ops) a =
     (case pull_events a of (es, b) \<Rightarrow>
        case use_aggregate ops b of (out, c) \<Rightarrow> (es @ out, c))"

text \<open>Nothing is lost, doubled or reordered between the recording and the pulls.\<close>

lemma pulls_are_faithful:
  "use_aggregate ops a = (out, b) \<Longrightarrow>
     out @ events b = events a @ map the (filter (\<lambda>x. x \<noteq> None) ops)"
proof (induction ops a arbitrary: out b rule: use_aggregate.induct)
  case (3 ops a)
  obtain es c where p: "pull_events a = (es, c)" by fastforce
  then have "es = events a" "events c = []"
    using pulled [of a] emptied [of a] by simp_all
  then show ?case
    using 3 p by (auto split: prod.splits)
qed (auto simp: events_record)

lemma second_pull_empty: "fst (pull_events (snd (pull_events a))) = []"
  by (simp add: pulled emptied)

end

end
