(* ===== verification/VideoEntity.thy ===== *)
theory VideoEntity
  imports VideoKeys VideoEvents Aggregate
begin

text \<open>
  \<open>internal/domain/video/entity.go\<close>, \<open>status.go\<close>: the video aggregate. A method takes the video and
  returns its error, if it has one, with the updated video; what it reads of the clock and the UUIDs
  it draws is threaded through the \<open>runtime\<close>. Events wait in \<open>v_events\<close> until a repository pulls
  them.
\<close>

section \<open>The aggregate\<close>

abbreviation StatusPending :: string where
  "StatusPending \<equiv> ''pending''"

abbreviation StatusProcessing :: string where
  "StatusProcessing \<equiv> ''processing''"

abbreviation StatusSuccess :: string where
  "StatusSuccess \<equiv> ''success''"

abbreviation StatusFailed :: string where
  "StatusFailed \<equiv> ''failed''"

record video =
  v_ID :: uuid
  v_UserID :: "uuid option"
  v_OriginalFilename :: string
  v_StorageKey :: string
  v_ThumbnailKey :: string
  v_SizeBytes :: int
  v_ContentType :: string
  v_Status :: string
  v_CreatedAt :: time
  v_UpdatedAt :: time
  v_FinishedAt :: "time option"
  v_events :: "video_event list"

definition recordEvent :: "video_event \<Rightarrow> video \<Rightarrow> video" where
  "recordEvent e v = v\<lparr>v_events := v_events v @ [e]\<rparr>"

definition PullEvents :: "video \<Rightarrow> video_event list \<times> video" where
  "PullEvents v = (v_events v, v\<lparr>v_events := []\<rparr>)"

interpretation video_aggregate: aggregate v_events recordEvent PullEvents
  by unfold_locales (simp_all add: recordEvent_def PullEvents_def)

definition ownerUserID :: "uuid_lib \<Rightarrow> video \<Rightarrow> string" where
  "ownerUserID U v = (case v_UserID v of None \<Rightarrow> '''' | Some u \<Rightarrow> uuid_String U u)"

section \<open>Creation\<close>

definition recordCreated :: "uuid_lib \<Rightarrow> video \<Rightarrow> (runtime, video) state" where
  "recordCreated U v = do {
     eid \<leftarrow> uuid_New;
     ret (recordEvent
       (VideoCreated (uuid_String U eid) (uuid_String U (v_ID v)) (ownerUserID U v)
         (v_OriginalFilename v) (v_StorageKey v) (v_Status v) (v_CreatedAt v)) v) }"

definition NewPresignedVideo ::
  "uuid_lib \<Rightarrow> (string \<Rightarrow> string) \<Rightarrow> uuid \<Rightarrow> string \<Rightarrow> string \<Rightarrow> int
     \<Rightarrow> (runtime, go_error + video) state" where
  "NewPresignedVideo U mime userID filename0 contentType sizeBytes =
     (let filename = SanitizeFilename filename0
      in if filename = '''' \<or> filename = ''.'' \<or> filename = ''/'' then ret (Inl ErrInvalidFilename)
         else if \<not> IsVideoFilename filename \<and> \<not> IsVideoContentType contentType
         then ret (Inl ErrUnsupportedType)
         else do {
           now \<leftarrow> time_Now;
           i \<leftarrow> uuid_New;
           v \<leftarrow> recordCreated U
             \<lparr>v_ID = i, v_UserID = Some userID, v_OriginalFilename = filename,
              v_StorageKey = NewStorageKey U i, v_ThumbnailKey = '''', v_SizeBytes = sizeBytes,
              v_ContentType = ContentTypeFromFilename mime filename contentType,
              v_Status = StatusPending, v_CreatedAt = now, v_UpdatedAt = now,
              v_FinishedAt = None, v_events = []\<rparr>;
           ret (Inr v) })"

definition NewWebhookVideo ::
  "uuid_lib \<Rightarrow> (string \<Rightarrow> string) \<Rightarrow> string \<Rightarrow> string \<Rightarrow> string \<Rightarrow> int
     \<Rightarrow> (runtime, go_error + video) state" where
  "NewWebhookVideo U mime filename0 contentType remoteURL sizeBytes =
     (let filename1 = SanitizeFilename filename0;
          filename = (if filename1 = '''' \<or> filename1 = ''.'' then OriginalObjectName else filename1)
      in if \<not> IsVideoFilename filename \<and> \<not> IsVideoContentType contentType
         then ret (Inl ErrUnsupportedType)
         else do {
           now \<leftarrow> time_Now;
           i \<leftarrow> uuid_New;
           v \<leftarrow> recordCreated U
             \<lparr>v_ID = i, v_UserID = None, v_OriginalFilename = filename,
              v_StorageKey = NewStorageKey U i, v_ThumbnailKey = '''', v_SizeBytes = sizeBytes,
              v_ContentType = ContentTypeFromFilename mime filename contentType,
              v_Status = StatusPending, v_CreatedAt = now, v_UpdatedAt = now,
              v_FinishedAt = None, v_events = []\<rparr>;
           eid \<leftarrow> uuid_New;
           ret (Inr (recordEvent
             (VideoIngestRequested (uuid_String U eid) (uuid_String U (v_ID v)) remoteURL
               (v_StorageKey v) now) v)) })"

section \<open>Transitions\<close>

definition MarkUploaded ::
  "uuid_lib \<Rightarrow> string \<Rightarrow> int \<Rightarrow> video \<Rightarrow> (runtime, go_error option \<times> video) state" where
  "MarkUploaded U contentType sizeBytes v0 =
     (let v1 = (if contentType \<noteq> '''' then v0\<lparr>v_ContentType := contentType\<rparr> else v0);
          v = (if sizeBytes > 0 then v1\<lparr>v_SizeBytes := sizeBytes\<rparr> else v1)
      in if v_Status v = StatusPending then do {
           now \<leftarrow> time_Now;
           let v = v\<lparr>v_Status := StatusProcessing, v_UpdatedAt := now\<rparr>;
           eid \<leftarrow> uuid_New;
           ret (None, recordEvent
             (VideoUploaded (uuid_String U eid) (uuid_String U (v_ID v)) (ownerUserID U v)
               (v_StorageKey v) (v_ContentType v) (v_SizeBytes v) (v_Status v) now) v) }
         else if v_Status v = StatusProcessing \<or> v_Status v = StatusSuccess then do {
           now \<leftarrow> time_Now;
           ret (None, v\<lparr>v_UpdatedAt := now\<rparr>) }
         else ret (Some ErrInvalidTransition, v))"

definition MarkExtractionQueued :: "video \<Rightarrow> (runtime, go_error option \<times> video) state" where
  "MarkExtractionQueued v =
     (if v_Status v = StatusPending then do {
        let v = v\<lparr>v_Status := StatusProcessing\<rparr>;
        now \<leftarrow> time_Now;
        ret (None, v\<lparr>v_UpdatedAt := now\<rparr>) }
      else if v_Status v \<in> {StatusProcessing, StatusSuccess, StatusFailed} then ret (None, v)
      else ret (Some ErrInvalidTransition, v))"

definition MarkExtracting ::
  "uuid_lib \<Rightarrow> uuid \<Rightarrow> string \<Rightarrow> string \<Rightarrow> video \<Rightarrow> (runtime, go_error option \<times> video) state" where
  "MarkExtracting U jobID jobType jobStatus v =
     (if v_Status v \<in> {StatusPending, StatusProcessing, StatusFailed} then do {
        now \<leftarrow> time_Now;
        let v = v\<lparr>v_Status := StatusProcessing, v_UpdatedAt := now\<rparr>;
        eid \<leftarrow> uuid_New;
        ret (None, recordEvent
          (VideoExtracting (uuid_String U eid) (uuid_String U (v_ID v)) (ownerUserID U v)
            (uuid_String U jobID) jobType (v_Status v) jobStatus now) v) }
      else if v_Status v = StatusSuccess then ret (None, v)
      else ret (Some ErrInvalidTransition, v))"

definition RecordSegmentReady ::
  "uuid_lib \<Rightarrow> uuid \<Rightarrow> uuid \<Rightarrow> int \<Rightarrow> int \<Rightarrow> int \<Rightarrow> string \<Rightarrow> video \<Rightarrow> (runtime, video) state" where
  "RecordSegmentReady U jobID segmentID segmentIndex offsetMs durationMs storageKey v = do {
     eid \<leftarrow> uuid_New;
     now \<leftarrow> time_Now;
     ret (recordEvent
       (VideoSegmentReady (uuid_String U eid) (uuid_String U (v_ID v)) (ownerUserID U v)
         (uuid_String U jobID) (uuid_String U segmentID) segmentIndex offsetMs durationMs
         storageKey now) v) }"

definition MarkFramesReady ::
  "uuid_lib \<Rightarrow> uuid \<Rightarrow> string \<Rightarrow> string \<Rightarrow> ExtractedFramePayload list \<Rightarrow> video
     \<Rightarrow> (runtime, go_error option \<times> video) state" where
  "MarkFramesReady U jobID jobType jobStatus frames v =
     (if v_Status v \<in> {StatusProcessing, StatusPending} then do {
        now \<leftarrow> time_Now;
        let v = v\<lparr>v_Status := StatusProcessing, v_UpdatedAt := now\<rparr>;
        eid \<leftarrow> uuid_New;
        ret (None, recordEvent
          (VideoFramesExtracted (uuid_String U eid) (uuid_String U (v_ID v)) (ownerUserID U v)
            (uuid_String U jobID) jobType (v_Status v) jobStatus (int (length frames)) frames now) v) }
      else if v_Status v = StatusSuccess then ret (None, v)
      else ret (Some ErrInvalidTransition, v))"

definition MarkExtractionFailed ::
  "uuid_lib \<Rightarrow> uuid \<Rightarrow> string \<Rightarrow> string \<Rightarrow> string \<Rightarrow> video
     \<Rightarrow> (runtime, go_error option \<times> video) state" where
  "MarkExtractionFailed U jobID jobType jobStatus reason v =
     (if v_Status v \<in> {StatusProcessing, StatusPending} then do {
        now \<leftarrow> time_Now;
        let v = v\<lparr>v_Status := StatusFailed, v_UpdatedAt := now\<rparr>;
        eid \<leftarrow> uuid_New;
        ret (None, recordEvent
          (VideoFrameExtractionFailed (uuid_String U eid) (uuid_String U (v_ID v)) (ownerUserID U v)
            (uuid_String U jobID) jobType (v_Status v) jobStatus reason now) v) }
      else if v_Status v = StatusFailed then ret (None, v)
      else ret (Some ErrInvalidTransition, v))"

definition SetThumbnailKey :: "string \<Rightarrow> video \<Rightarrow> (runtime, video) state" where
  "SetThumbnailKey key v =
     (if key = '''' \<or> v_ThumbnailKey v = key then ret v
      else do {
        let v = v\<lparr>v_ThumbnailKey := key\<rparr>;
        now \<leftarrow> time_Now;
        ret (v\<lparr>v_UpdatedAt := now\<rparr>) })"

definition MarkOCRProcessing ::
  "uuid_lib \<Rightarrow> uuid \<Rightarrow> string \<Rightarrow> string \<Rightarrow> int \<Rightarrow> int \<Rightarrow> video
     \<Rightarrow> (runtime, go_error option \<times> video) state" where
  "MarkOCRProcessing U jobID jobType jobStatus expected completed v =
     (if v_Status v \<in> {StatusProcessing, StatusPending, StatusFailed} then do {
        now \<leftarrow> time_Now;
        let v = v\<lparr>v_Status := StatusProcessing, v_UpdatedAt := now\<rparr>;
        eid \<leftarrow> uuid_New;
        ret (None, recordEvent
          (VideoOCRProcessing (uuid_String U eid) (uuid_String U (v_ID v)) (ownerUserID U v)
            (uuid_String U jobID) jobType (v_Status v) jobStatus expected completed now) v) }
      else if v_Status v = StatusSuccess then ret (None, v)
      else ret (Some ErrInvalidTransition, v))"

text \<open>The two loops that record one event per frame.\<close>

fun request_ocr_loop ::
  "uuid_lib \<Rightarrow> time \<Rightarrow> string \<Rightarrow> uuid \<Rightarrow> ExtractedFramePayload list \<Rightarrow> video
     \<Rightarrow> (runtime, video) state" where
  "request_ocr_loop U now userID jobID [] v = ret v"
| "request_ocr_loop U now userID jobID (frame # frames) v = do {
     eid \<leftarrow> uuid_New;
     request_ocr_loop U now userID jobID frames (recordEvent
       (VideoOCRFrameRequested (uuid_String U eid) (uuid_String U (v_ID v)) userID
         (uuid_String U jobID) (xf_ID frame) (xf_Index frame) (xf_TimestampMs frame)
         (xf_StorageKey frame) now) v) }"

definition RequestOCRFrames ::
  "uuid_lib \<Rightarrow> uuid \<Rightarrow> ExtractedFramePayload list \<Rightarrow> video \<Rightarrow> (runtime, video) state" where
  "RequestOCRFrames U jobID frames v =
     (if length frames = 0 then ret v
      else do { now \<leftarrow> time_Now; request_ocr_loop U now (ownerUserID U v) jobID frames v })"

fun request_classify_loop ::
  "uuid_lib \<Rightarrow> time \<Rightarrow> string \<Rightarrow> uuid \<Rightarrow> uuid list \<Rightarrow> video \<Rightarrow> (runtime, video) state" where
  "request_classify_loop U now userID jobID [] v = ret v"
| "request_classify_loop U now userID jobID (frameID # frameIDs) v = do {
     eid \<leftarrow> uuid_New;
     request_classify_loop U now userID jobID frameIDs (recordEvent
       (VideoClassifyFrameRequested (uuid_String U eid) (uuid_String U (v_ID v)) userID
         (uuid_String U jobID) (uuid_String U frameID) now) v) }"

definition RequestClassifyFrames ::
  "uuid_lib \<Rightarrow> uuid \<Rightarrow> uuid list \<Rightarrow> video \<Rightarrow> (runtime, video) state" where
  "RequestClassifyFrames U jobID frameIDs v =
     (if length frameIDs = 0 then ret v
      else do { now \<leftarrow> time_Now; request_classify_loop U now (ownerUserID U v) jobID frameIDs v })"

definition RecordOCRProgress ::
  "uuid_lib \<Rightarrow> uuid \<Rightarrow> string \<Rightarrow> string \<Rightarrow> int \<Rightarrow> int \<Rightarrow> video
     \<Rightarrow> (runtime, go_error option \<times> video) state" where
  "RecordOCRProgress U jobID jobType jobStatus expected completed v =
     (if v_Status v \<noteq> StatusProcessing then ret (None, v)
      else do {
        now \<leftarrow> time_Now;
        let v = v\<lparr>v_UpdatedAt := now\<rparr>;
        eid \<leftarrow> uuid_New;
        ret (None, recordEvent
          (VideoOCRProcessing (uuid_String U eid) (uuid_String U (v_ID v)) (ownerUserID U v)
            (uuid_String U jobID) jobType (v_Status v) jobStatus expected completed now) v) })"

definition MarkOCRReady ::
  "uuid_lib \<Rightarrow> uuid \<Rightarrow> string \<Rightarrow> string \<Rightarrow> int \<Rightarrow> int \<Rightarrow> OCRFrameResultPayload list \<Rightarrow> video
     \<Rightarrow> (runtime, go_error option \<times> video) state" where
  "MarkOCRReady U jobID jobType jobStatus expected completed results v =
     (if v_Status v \<in> {StatusProcessing, StatusPending} then do {
        now \<leftarrow> time_Now;
        let v = v\<lparr>v_Status := StatusProcessing, v_UpdatedAt := now\<rparr>;
        eid \<leftarrow> uuid_New;
        ts \<leftarrow> time_Now;
        ret (None, recordEvent
          (VideoFramesOCRCompleted (uuid_String U eid) (uuid_String U (v_ID v)) (ownerUserID U v)
            (uuid_String U jobID) jobType (v_Status v) jobStatus expected completed results ts) v) }
      else if v_Status v = StatusSuccess then ret (None, v)
      else ret (Some ErrInvalidTransition, v))"

definition MarkOCRFailed ::
  "uuid_lib \<Rightarrow> uuid \<Rightarrow> string \<Rightarrow> string \<Rightarrow> string \<Rightarrow> int \<Rightarrow> int \<Rightarrow> video
     \<Rightarrow> (runtime, go_error option \<times> video) state" where
  "MarkOCRFailed U jobID jobType jobStatus reason expected completed v =
     (if v_Status v \<in> {StatusProcessing, StatusPending} then do {
        now \<leftarrow> time_Now;
        let v = v\<lparr>v_Status := StatusFailed, v_UpdatedAt := now\<rparr>;
        eid \<leftarrow> uuid_New;
        ret (None, recordEvent
          (VideoOCRFailed (uuid_String U eid) (uuid_String U (v_ID v)) (ownerUserID U v)
            (uuid_String U jobID) jobType (v_Status v) jobStatus reason expected completed now) v) }
      else if v_Status v = StatusFailed then ret (None, v)
      else ret (Some ErrInvalidTransition, v))"

definition MarkClassifying ::
  "uuid_lib \<Rightarrow> uuid \<Rightarrow> string \<Rightarrow> string \<Rightarrow> int \<Rightarrow> video
     \<Rightarrow> (runtime, go_error option \<times> video) state" where
  "MarkClassifying U jobID jobType jobStatus expected v =
     (if v_Status v \<in> {StatusProcessing, StatusPending, StatusFailed} then do {
        now \<leftarrow> time_Now;
        let v = v\<lparr>v_Status := StatusProcessing, v_UpdatedAt := now\<rparr>;
        eid \<leftarrow> uuid_New;
        ret (None, recordEvent
          (VideoClassifying (uuid_String U eid) (uuid_String U (v_ID v)) (ownerUserID U v)
            (uuid_String U jobID) jobType (v_Status v) jobStatus expected now) v) }
      else if v_Status v = StatusSuccess then ret (None, v)
      else ret (Some ErrInvalidTransition, v))"

definition MarkClassified ::
  "uuid_lib \<Rightarrow> uuid \<Rightarrow> string \<Rightarrow> string \<Rightarrow> int \<Rightarrow> ClassificationPayload list \<Rightarrow> video
     \<Rightarrow> (runtime, go_error option \<times> video) state" where
  "MarkClassified U jobID jobType jobStatus expected classifications v =
     (if v_Status v \<in> {StatusProcessing, StatusPending} then do {
        now \<leftarrow> time_Now;
        let v = v\<lparr>v_Status := StatusSuccess, v_UpdatedAt := now, v_FinishedAt := Some now\<rparr>;
        eid \<leftarrow> uuid_New;
        ret (None, recordEvent
          (VideoFramesClassified (uuid_String U eid) (uuid_String U (v_ID v)) (ownerUserID U v)
            (uuid_String U jobID) jobType (v_Status v) jobStatus expected classifications now) v) }
      else if v_Status v = StatusSuccess then ret (None, v)
      else ret (Some ErrInvalidTransition, v))"

definition MarkClassifyFailed ::
  "uuid_lib \<Rightarrow> uuid \<Rightarrow> string \<Rightarrow> string \<Rightarrow> string \<Rightarrow> int \<Rightarrow> video
     \<Rightarrow> (runtime, go_error option \<times> video) state" where
  "MarkClassifyFailed U jobID jobType jobStatus reason expected v =
     (if v_Status v \<in> {StatusProcessing, StatusPending} then do {
        now \<leftarrow> time_Now;
        let v = v\<lparr>v_Status := StatusFailed, v_UpdatedAt := now\<rparr>;
        eid \<leftarrow> uuid_New;
        ret (None, recordEvent
          (VideoClassifyFailed (uuid_String U eid) (uuid_String U (v_ID v)) (ownerUserID U v)
            (uuid_String U jobID) jobType (v_Status v) jobStatus reason expected now) v) }
      else if v_Status v = StatusFailed then ret (None, v)
      else ret (Some ErrInvalidTransition, v))"

definition MarkUploadExpired ::
  "uuid_lib \<Rightarrow> video \<Rightarrow> (runtime, go_error option \<times> video) state" where
  "MarkUploadExpired U v =
     (if v_Status v \<noteq> StatusPending then ret (Some ErrInvalidTransition, v)
      else do {
        now \<leftarrow> time_Now;
        let v = v\<lparr>v_Status := StatusFailed, v_UpdatedAt := now\<rparr>;
        eid \<leftarrow> uuid_New;
        ret (None, recordEvent
          (VideoUploadExpired (uuid_String U eid) (uuid_String U (v_ID v)) now) v) })"

section \<open>What every method keeps\<close>

text \<open>
  \<open>video_frame\<close> relates the video before and after any number of method calls: identity and
  creation data stay, events are only appended, each new event carries the id of the video and the
  next UUIDs drawn. \<open>status_step\<close> is one call's effect on the status: the moves of the state machine,
  and the finish time, which is set exactly on reaching success.
\<close>

definition new_events :: "uuid_lib \<Rightarrow> runtime \<Rightarrow> runtime \<Rightarrow> video \<Rightarrow> video_event list \<Rightarrow> bool" where
  "new_events U r r' v es \<longleftrightarrow>
     map e_ID es = map (\<lambda>k. uuid_String U (uuid_source r k)) [uuid_draws r ..< uuid_draws r'] \<and>
     (\<forall>e \<in> set es. e_VideoID e = uuid_String U (v_ID v))"

definition video_frame :: "uuid_lib \<Rightarrow> runtime \<Rightarrow> video \<Rightarrow> video \<Rightarrow> runtime \<Rightarrow> bool" where
  "video_frame U r v v' r' \<longleftrightarrow>
     clock r' = clock r \<and> uuid_source r' = uuid_source r \<and>
     clock_reads r \<le> clock_reads r' \<and> uuid_draws r \<le> uuid_draws r' \<and>
     v_ID v' = v_ID v \<and> v_UserID v' = v_UserID v \<and> v_OriginalFilename v' = v_OriginalFilename v \<and>
     v_StorageKey v' = v_StorageKey v \<and> v_CreatedAt v' = v_CreatedAt v \<and>
     prefix (v_events v) (v_events v') \<and>
     new_events U r r' v (drop (length (v_events v)) (v_events v'))"

definition video_moves :: "(string \<times> string) list" where
  "video_moves =
     [(StatusPending, StatusProcessing), (StatusPending, StatusSuccess), (StatusPending, StatusFailed),
      (StatusProcessing, StatusSuccess), (StatusProcessing, StatusFailed),
      (StatusFailed, StatusProcessing)]"

definition status_step :: "video \<Rightarrow> video \<Rightarrow> bool" where
  "status_step v v' \<longleftrightarrow>
     (v_Status v' = v_Status v \<and> v_FinishedAt v' = v_FinishedAt v) \<or>
     ((v_Status v, v_Status v') \<in> set video_moves \<and>
      v_FinishedAt v' = (if v_Status v' = StatusSuccess then Some (v_UpdatedAt v') else v_FinishedAt v))"

lemma new_events_Nil: "uuid_draws r' = uuid_draws r \<Longrightarrow> new_events U r r' v []"
  by (simp add: new_events_def)

lemma new_events_one:
  "uuid_draws r' = Suc (uuid_draws r) \<Longrightarrow> e_ID e = uuid_String U (uuid_source r (uuid_draws r)) \<Longrightarrow>
   e_VideoID e = uuid_String U (v_ID v) \<Longrightarrow> new_events U r r' v [e]"
  by (simp add: new_events_def)

lemma new_events_append:
  assumes "new_events U r r' v es" "new_events U r' r'' v' es'"
    and "uuid_source r' = uuid_source r" "uuid_draws r \<le> uuid_draws r'" "uuid_draws r' \<le> uuid_draws r''"
    and "v_ID v' = v_ID v"
  shows "new_events U r r'' v (es @ es')"
proof -
  have "[uuid_draws r ..< uuid_draws r''] =
        [uuid_draws r ..< uuid_draws r'] @ [uuid_draws r' ..< uuid_draws r'']"
    using assms(4,5) by (rule upt_split)
  then show ?thesis
    using assms by (auto simp: new_events_def)
qed

lemma video_frame_refl [simp]: "video_frame U r v v r"
  by (simp add: video_frame_def new_events_Nil)

lemma video_frame_trans:
  assumes a: "video_frame U r v v' r'" and b: "video_frame U r' v' v'' r''"
  shows "video_frame U r v v'' r''"
proof -
  obtain es where es: "v_events v' = v_events v @ es"
    using a by (auto simp: video_frame_def prefix_def)
  obtain es' where es': "v_events v'' = v_events v' @ es'"
    using b by (auto simp: video_frame_def prefix_def)
  have "new_events U r r' v es" "new_events U r' r'' v' es'"
    using a b es es' by (auto simp: video_frame_def)
  then have "new_events U r r'' v (es @ es')"
    by (rule new_events_append) (use a b in \<open>auto simp: video_frame_def\<close>)
  then show ?thesis
    using a b es es' by (simp add: video_frame_def)
qed

lemmas method_simps = wp_simps recordEvent_def Let_def

lemmas method_post = video_frame_def new_events_def status_step_def video_moves_def

text \<open>Each method, one call.\<close>

definition method_ok :: "uuid_lib \<Rightarrow> video \<Rightarrow> runtime \<Rightarrow> go_error option \<times> video \<Rightarrow> runtime \<Rightarrow> bool" where
  "method_ok U v r res r' \<longleftrightarrow>
     (case res of (err, v') \<Rightarrow> video_frame U r v v' r' \<and> status_step v v')"

lemma status_step_same [simp]:
  "v_Status v' = v_Status v \<Longrightarrow> v_FinishedAt v' = v_FinishedAt v \<Longrightarrow> status_step v v'"
  by (simp add: status_step_def)

lemma MarkUploaded_ok: "wp (MarkUploaded U ct sz v) (method_ok U v r) r"
  by (simp add: MarkUploaded_def method_simps method_ok_def)
    (simp add: method_post)

lemma MarkExtractionQueued_ok: "wp (MarkExtractionQueued v) (method_ok U v r) r"
  by (simp add: MarkExtractionQueued_def method_simps method_ok_def)
    (simp add: method_post)

lemma MarkExtracting_ok: "wp (MarkExtracting U j jt js v) (method_ok U v r) r"
  by (simp add: MarkExtracting_def method_simps method_ok_def)
    (simp add: method_post; blast)

lemma MarkFramesReady_ok: "wp (MarkFramesReady U j jt js fs v) (method_ok U v r) r"
  by (simp add: MarkFramesReady_def method_simps method_ok_def)
    (simp add: method_post; blast)

lemma MarkExtractionFailed_ok: "wp (MarkExtractionFailed U j jt js rs v) (method_ok U v r) r"
  by (simp add: MarkExtractionFailed_def method_simps method_ok_def)
    (simp add: method_post; blast)

lemma MarkOCRProcessing_ok: "wp (MarkOCRProcessing U j jt js ex co v) (method_ok U v r) r"
  by (simp add: MarkOCRProcessing_def method_simps method_ok_def)
    (simp add: method_post; blast)

lemma RecordOCRProgress_ok: "wp (RecordOCRProgress U j jt js ex co v) (method_ok U v r) r"
  by (simp add: RecordOCRProgress_def method_simps method_ok_def)
    (simp add: method_post)

lemma MarkOCRReady_ok: "wp (MarkOCRReady U j jt js ex co rs v) (method_ok U v r) r"
  by (simp add: MarkOCRReady_def method_simps method_ok_def)
    (simp add: method_post; blast)

lemma MarkOCRFailed_ok: "wp (MarkOCRFailed U j jt js rs ex co v) (method_ok U v r) r"
  by (simp add: MarkOCRFailed_def method_simps method_ok_def)
    (simp add: method_post; blast)

lemma MarkClassifying_ok: "wp (MarkClassifying U j jt js ex v) (method_ok U v r) r"
  by (simp add: MarkClassifying_def method_simps method_ok_def)
    (simp add: method_post; blast)

lemma MarkClassified_ok: "wp (MarkClassified U j jt js ex cs v) (method_ok U v r) r"
  by (simp add: MarkClassified_def method_simps method_ok_def)
    (simp add: method_post; blast)

lemma MarkClassifyFailed_ok: "wp (MarkClassifyFailed U j jt js rs ex v) (method_ok U v r) r"
  by (simp add: MarkClassifyFailed_def method_simps method_ok_def)
    (simp add: method_post; blast)

lemma MarkUploadExpired_ok: "wp (MarkUploadExpired U v) (method_ok U v r) r"
  by (simp add: MarkUploadExpired_def method_simps method_ok_def)
    (simp add: method_post)

text \<open>The methods that cannot fail leave the status and the finish time alone.\<close>

definition recorder_ok :: "uuid_lib \<Rightarrow> video \<Rightarrow> runtime \<Rightarrow> video \<Rightarrow> runtime \<Rightarrow> bool" where
  "recorder_ok U v r v' r' \<longleftrightarrow>
     video_frame U r v v' r' \<and> v_Status v' = v_Status v \<and> v_FinishedAt v' = v_FinishedAt v"

lemma recorder_ok_trans:
  "recorder_ok U v r v' r' \<Longrightarrow> recorder_ok U v' r' v'' r'' \<Longrightarrow> recorder_ok U v r v'' r''"
  by (auto simp: recorder_ok_def intro: video_frame_trans)

lemma RecordSegmentReady_ok: "wp (RecordSegmentReady U j sg i off d k v) (recorder_ok U v r) r"
  by (simp add: RecordSegmentReady_def method_simps recorder_ok_def method_post)

lemma SetThumbnailKey_ok: "wp (SetThumbnailKey k v) (recorder_ok U v r) r"
  by (simp add: SetThumbnailKey_def method_simps recorder_ok_def method_post)

lemma record_one_ok:
  "e_ID e = uuid_String U (uuid_source r (uuid_draws r)) \<Longrightarrow> e_VideoID e = uuid_String U (v_ID v) \<Longrightarrow>
   recorder_ok U v r (recordEvent e v) (r\<lparr>uuid_draws := Suc (uuid_draws r)\<rparr>)"
  by (simp add: recorder_ok_def recordEvent_def method_post)

lemma read_clock_ok: "recorder_ok U v r v (r\<lparr>clock_reads := Suc (clock_reads r)\<rparr>)"
  by (simp add: recorder_ok_def method_post)

lemma request_ocr_loop_ok: "wp (request_ocr_loop U now o' j fs v) (recorder_ok U v r) r"
proof (induction fs arbitrary: v r)
  case (Cons f fs)
  show ?case
    by (simp add: wp_simps)
      (rule wp_mono [OF Cons.IH], erule recorder_ok_trans [OF record_one_ok, rotated 2], simp_all)
qed (simp add: wp_simps recorder_ok_def)

lemma request_classify_loop_ok: "wp (request_classify_loop U now o' j fs v) (recorder_ok U v r) r"
proof (induction fs arbitrary: v r)
  case (Cons f fs)
  show ?case
    by (simp add: wp_simps)
      (rule wp_mono [OF Cons.IH], erule recorder_ok_trans [OF record_one_ok, rotated 2], simp_all)
qed (simp add: wp_simps recorder_ok_def)

lemma RequestOCRFrames_ok: "wp (RequestOCRFrames U j fs v) (recorder_ok U v r) r"
  by (cases "fs = []")
    (simp_all add: RequestOCRFrames_def wp_simps recorder_ok_def [of _ _ r _ r],
      blast intro: wp_mono [OF request_ocr_loop_ok] recorder_ok_trans [OF read_clock_ok])

lemma RequestClassifyFrames_ok: "wp (RequestClassifyFrames U j fs v) (recorder_ok U v r) r"
  by (cases "fs = []")
    (simp_all add: RequestClassifyFrames_def wp_simps recorder_ok_def [of _ _ r _ r],
      blast intro: wp_mono [OF request_classify_loop_ok] recorder_ok_trans [OF read_clock_ok])

section \<open>The life of a video\<close>

text \<open>
  The state of one video in one process: the runtime, the aggregate, and the events that repositories
  have already pulled from it. Every method the application may call is a step, in any order and with
  any arguments, whether or not it returns an error.
\<close>

type_synonym video_state = "runtime \<times> video \<times> video_event list"

inductive video_step :: "uuid_lib \<Rightarrow> video_state \<Rightarrow> video_state \<Rightarrow> bool" for U where
  uploaded: "run_state (MarkUploaded U ct sz v) r = ((err, v'), r') \<Longrightarrow> video_step U (r, v, out) (r', v', out)"
| extraction_queued: "run_state (MarkExtractionQueued v) r = ((err, v'), r') \<Longrightarrow> video_step U (r, v, out) (r', v', out)"
| extracting: "run_state (MarkExtracting U j jt js v) r = ((err, v'), r') \<Longrightarrow> video_step U (r, v, out) (r', v', out)"
| segment_ready: "run_state (RecordSegmentReady U j sg i off d k v) r = (v', r') \<Longrightarrow> video_step U (r, v, out) (r', v', out)"
| frames_ready: "run_state (MarkFramesReady U j jt js fs v) r = ((err, v'), r') \<Longrightarrow> video_step U (r, v, out) (r', v', out)"
| extraction_failed: "run_state (MarkExtractionFailed U j jt js rs v) r = ((err, v'), r') \<Longrightarrow> video_step U (r, v, out) (r', v', out)"
| thumbnail: "run_state (SetThumbnailKey k v) r = (v', r') \<Longrightarrow> video_step U (r, v, out) (r', v', out)"
| ocr_processing: "run_state (MarkOCRProcessing U j jt js ex co v) r = ((err, v'), r') \<Longrightarrow> video_step U (r, v, out) (r', v', out)"
| request_ocr: "run_state (RequestOCRFrames U j fs v) r = (v', r') \<Longrightarrow> video_step U (r, v, out) (r', v', out)"
| request_classify: "run_state (RequestClassifyFrames U j ids v) r = (v', r') \<Longrightarrow> video_step U (r, v, out) (r', v', out)"
| ocr_progress: "run_state (RecordOCRProgress U j jt js ex co v) r = ((err, v'), r') \<Longrightarrow> video_step U (r, v, out) (r', v', out)"
| ocr_ready: "run_state (MarkOCRReady U j jt js ex co res v) r = ((err, v'), r') \<Longrightarrow> video_step U (r, v, out) (r', v', out)"
| ocr_failed: "run_state (MarkOCRFailed U j jt js rs ex co v) r = ((err, v'), r') \<Longrightarrow> video_step U (r, v, out) (r', v', out)"
| classifying: "run_state (MarkClassifying U j jt js ex v) r = ((err, v'), r') \<Longrightarrow> video_step U (r, v, out) (r', v', out)"
| classified: "run_state (MarkClassified U j jt js ex cs v) r = ((err, v'), r') \<Longrightarrow> video_step U (r, v, out) (r', v', out)"
| classify_failed: "run_state (MarkClassifyFailed U j jt js rs ex v) r = ((err, v'), r') \<Longrightarrow> video_step U (r, v, out) (r', v', out)"
| expired: "run_state (MarkUploadExpired U v) r = ((err, v'), r') \<Longrightarrow> video_step U (r, v, out) (r', v', out)"
| pulled: "PullEvents v = (es, v') \<Longrightarrow> video_step U (r, v, out) (r, v', out @ es)"

text \<open>What a step is, as the lemmas on the methods give it: a call or a pull.\<close>

lemma video_step_cases:
  assumes "video_step U (r, v, out) (r', v', out')"
  shows "(video_frame U r v v' r' \<and> status_step v v' \<and> out' = out) \<or>
         (r' = r \<and> v' = v\<lparr>v_events := []\<rparr> \<and> out' = out @ v_events v)"
  using assms
  by (cases rule: video_step.cases)
    (auto simp: PullEvents_def method_ok_def recorder_ok_def
      dest!: wpD [OF MarkUploaded_ok] wpD [OF MarkExtractionQueued_ok] wpD [OF MarkExtracting_ok]
        wpD [OF RecordSegmentReady_ok] wpD [OF MarkFramesReady_ok] wpD [OF MarkExtractionFailed_ok]
        wpD [OF SetThumbnailKey_ok] wpD [OF MarkOCRProcessing_ok] wpD [OF RequestOCRFrames_ok]
        wpD [OF RequestClassifyFrames_ok] wpD [OF RecordOCRProgress_ok] wpD [OF MarkOCRReady_ok]
        wpD [OF MarkOCRFailed_ok] wpD [OF MarkClassifying_ok] wpD [OF MarkClassified_ok]
        wpD [OF MarkClassifyFailed_ok] wpD [OF MarkUploadExpired_ok])

inductive video_reachable ::
  "uuid_lib \<Rightarrow> (string \<Rightarrow> string) \<Rightarrow> runtime \<Rightarrow> video_state \<Rightarrow> bool" for U mime r0 where
  presigned:
    "run_state (NewPresignedVideo U mime uid fn ct sz) r0 = (Inr v, r) \<Longrightarrow> video_reachable U mime r0 (r, v, [])"
| webhook:
    "run_state (NewWebhookVideo U mime fn ct url sz) r0 = (Inr v, r) \<Longrightarrow> video_reachable U mime r0 (r, v, [])"
| step:
    "video_reachable U mime r0 s \<Longrightarrow> video_step U s t \<Longrightarrow> video_reachable U mime r0 t"

definition video_statuses :: "string list" where
  "video_statuses = [StatusPending, StatusProcessing, StatusSuccess, StatusFailed]"

definition video_inv :: "uuid_lib \<Rightarrow> runtime \<Rightarrow> video_state \<Rightarrow> bool" where
  "video_inv U r0 = (\<lambda>(r, v, out).
     v_Status v \<in> set video_statuses \<and>
     (v_FinishedAt v \<noteq> None \<longleftrightarrow> v_Status v = StatusSuccess) \<and>
     v_ID v = uuid_source r0 (uuid_draws r0) \<and> v_StorageKey v = NewStorageKey U (v_ID v) \<and>
     uuid_source r = uuid_source r0 \<and> uuid_draws r0 < uuid_draws r \<and>
     map e_ID (out @ v_events v) =
       map (\<lambda>k. uuid_String U (uuid_source r0 k)) [Suc (uuid_draws r0) ..< uuid_draws r] \<and>
     (\<forall>e \<in> set (out @ v_events v). e_VideoID e = uuid_String U (v_ID v)))"

lemma video_inv_presigned:
  "run_state (NewPresignedVideo U mime uid fn ct sz) r0 = (Inr v, r) \<Longrightarrow> video_inv U r0 (r, v, [])"
  by (auto simp: NewPresignedVideo_def recordCreated_def recordEvent_def Let_def video_inv_def
      video_statuses_def split: if_splits)

lemma video_inv_webhook:
  "run_state (NewWebhookVideo U mime fn ct url sz) r0 = (Inr v, r) \<Longrightarrow> video_inv U r0 (r, v, [])"
  by (auto simp: NewWebhookVideo_def recordCreated_def recordEvent_def Let_def video_inv_def
      video_statuses_def split: if_splits)

lemma video_moves_closed:
  "(a, b) \<in> set video_moves \<Longrightarrow>
     b \<in> set video_statuses \<and> a \<noteq> StatusSuccess \<and> b \<noteq> StatusPending \<and> a \<noteq> b"
  by (auto simp: video_moves_def video_statuses_def)

lemma status_step_closed:
  assumes "status_step v v'" "v_Status v \<in> set video_statuses"
    and "v_FinishedAt v \<noteq> None \<longleftrightarrow> v_Status v = StatusSuccess"
  shows "v_Status v' \<in> set video_statuses \<and> (v_FinishedAt v' \<noteq> None \<longleftrightarrow> v_Status v' = StatusSuccess)"
  using assms(1) unfolding status_step_def
proof
  assume "(v_Status v, v_Status v') \<in> set video_moves \<and>
    v_FinishedAt v' = (if v_Status v' = StatusSuccess then Some (v_UpdatedAt v') else v_FinishedAt v)"
  then show ?thesis
    using video_moves_closed assms(3) by (metis option.discI)
qed (use assms in simp)

lemma video_inv_frame:
  assumes "video_inv U r0 (r, v, out)" "video_frame U r v v' r'" "status_step v v'"
  shows "video_inv U r0 (r', v', out)"
proof -
  obtain es where es: "v_events v' = v_events v @ es"
    using assms(2) by (auto simp: video_frame_def prefix_def)
  have split: "[Suc (uuid_draws r0) ..< uuid_draws r'] =
      [Suc (uuid_draws r0) ..< uuid_draws r] @ [uuid_draws r ..< uuid_draws r']"
    using assms(1,2) by (intro upt_split) (auto simp: video_inv_def video_frame_def)
  show ?thesis
    using assms(1,2) es status_step_closed [OF assms(3)] split
    unfolding video_inv_def video_frame_def new_events_def
    by (simp del: upt_Suc) (simp add: append_eq_append_conv2 ball_Un del: upt_Suc)
qed

lemma video_reachable_inv: "video_reachable U mime r0 s \<Longrightarrow> video_inv U r0 s"
proof (induction rule: video_reachable.induct)
  case (step s t)
  obtain r v out r' v' out' where st: "s = (r, v, out)" "t = (r', v', out')"
    by (metis prod.collapse)
  then consider "video_frame U r v v' r'" "status_step v v'" "out' = out"
    | "r' = r" "v' = v\<lparr>v_events := []\<rparr>" "out' = out @ v_events v"
    using video_step_cases step.hyps(2) by blast
  then show ?case
  proof cases
    case 1
    then show ?thesis using step.IH st video_inv_frame by simp
  next
    case 2
    then show ?thesis using step.IH st by (simp add: video_inv_def)
  qed
qed (auto intro: video_inv_presigned video_inv_webhook)


lemma sample_video:
  "\<exists>v r. run_state (NewPresignedVideo decimal_lib (\<lambda>_. '''') 5 ''clip.mp4'' '''' 10) sample_runtime = (Inr v, r) \<and>
     v_Status v = StatusPending \<and> uuid_draws r = 2"
proof -
  have "SanitizeFilename ''clip.mp4'' = ''clip.mp4''" "IsVideoFilename ''clip.mp4''" by code_simp+
  then show ?thesis
    by (simp add: NewPresignedVideo_def recordCreated_def recordEvent_def sample_runtime_def Let_def)
qed

lemma sample_success:
  "\<exists>r v. video_reachable decimal_lib (\<lambda>_. '''') sample_runtime (r, v, []) \<and>
     v_Status v = StatusSuccess \<and> uuid_draws r = 3 \<and> length (v_events v) = 2"
proof -
  obtain v r where *: "run_state (NewPresignedVideo decimal_lib (\<lambda>_. '''') 5 ''clip.mp4'' '''' 10) sample_runtime = (Inr v, r)"
    "v_Status v = StatusPending" "uuid_draws r = 2"
    using sample_video by blast
  have 0: "video_reachable decimal_lib (\<lambda>_. '''') sample_runtime (r, v, [])"
    by (rule video_reachable.presigned [OF *(1)])
  have ev: "length (v_events v) = 1"
    using video_reachable_inv [OF 0] *(3)
    by (auto simp: video_inv_def sample_runtime_def dest: arg_cong [where f = length])
  obtain err v' r' where m: "run_state (MarkClassified decimal_lib 7 ''extract_frames'' ''success'' 0 [] v) r = ((err, v'), r')"
    by (metis prod.collapse)
  then have "v_Status v' = StatusSuccess" "uuid_draws r' = 3" "length (v_events v') = 2"
    using *(2,3) ev by (auto simp: MarkClassified_def recordEvent_def Let_def)
  then show ?thesis
    using video_reachable.step [OF 0 video_step.classified [OF m]] by blast
qed


text \<open>
  C11. The status machine: one call moves the status along the listed edges or not at all, so a video
  that has succeeded keeps its status and finish time for ever, and \<open>pending\<close> is never entered again.
\<close>

theorem video_status_machine:
  assumes "video_step U (r, v, out) (r', v', out')"
  shows "(v_Status v' = v_Status v \<or> (v_Status v, v_Status v') \<in> set video_moves) \<and>
         (v_Status v = StatusSuccess \<longrightarrow> v_Status v' = StatusSuccess \<and> v_FinishedAt v' = v_FinishedAt v) \<and>
         (v_Status v \<noteq> StatusPending \<longrightarrow> v_Status v' \<noteq> StatusPending) \<and>
         (v_Status v \<noteq> StatusSuccess \<longrightarrow> v_Status v' = StatusSuccess \<longrightarrow> v_FinishedAt v' = Some (v_UpdatedAt v'))"
  using video_step_cases [OF assms] unfolding status_step_def
  by (auto dest: video_moves_closed)

theorem video_status_machine_witness:
  "\<exists>r v v' r'. v_Status v = StatusSuccess \<and> video_step decimal_lib (r, v, []) (r', v', []) \<and>
     v_Status v' = StatusSuccess \<and> v_FinishedAt v' = v_FinishedAt v"
proof -
  obtain v :: video where s: "v_Status v = StatusSuccess"
    using sample_success by blast
  obtain err v' r' where
    "run_state (MarkExtracting decimal_lib 1 ''t'' ''processing'' v) sample_runtime = ((err, v'), r')"
    by (metis prod.collapse)
  then have st: "video_step decimal_lib (sample_runtime, v, []) (r', v', [])"
    by (rule video_step.extracting)
  then show ?thesis using s video_status_machine [OF st] by blast
qed

text \<open>
  Event identifiers never repeat: as long as the UUIDs drawn are distinct, so are the ids of all the
  events a video has recorded, pulled or not. The consumers deduplicate on these ids.
\<close>

theorem video_event_ids_distinct:
  assumes "video_reachable U mime r0 (r, v, out)" "uuid_lib_ok U"
    and "inj_on (uuid_source r0) {uuid_draws r0 ..< uuid_draws r}"
  shows "distinct (map video_EventID (out @ v_events v))"
proof -
  have inv: "video_inv U r0 (r, v, out)" by (rule video_reachable_inv [OF assms(1)])
  have "inj_on (\<lambda>k. uuid_String U (uuid_source r0 k)) {Suc (uuid_draws r0) ..< uuid_draws r}"
    using assms(3) by (auto simp: inj_on_def uuid_String_inject [OF assms(2)])
  then show ?thesis
    using inv by (auto simp: video_inv_def distinct_map simp del: upt_Suc map_append)
qed

theorem video_event_ids_distinct_witness:
  "\<exists>r v. video_reachable decimal_lib (\<lambda>_. '''') sample_runtime (r, v, []) \<and>
     length (v_events v) = 2 \<and> distinct (map video_EventID ([] @ v_events v))"
proof -
  obtain r v where *: "video_reachable decimal_lib (\<lambda>_. '''') sample_runtime (r, v, [])"
    "uuid_draws r = 3" "length (v_events v) = 2"
    using sample_success by blast
  have "inj_on (uuid_source sample_runtime) {uuid_draws sample_runtime ..< uuid_draws r}"
  proof -
    have "{0::nat ..< 3} = {0, 1, 2}" by auto
    then show ?thesis by (simp add: *(2) sample_runtime_def)
  qed
  then show ?thesis
    using * video_event_ids_distinct [OF *(1) decimal_lib_ok] by blast
qed

end
