(* ===== verification/JobEntity.thy ===== *)
theory JobEntity
  imports GoErrors
begin

text \<open>
  \<open>internal/domain/job/entity.go\<close> and \<open>internal/domain/segment/entity.go\<close>: the jobs of the
  pipeline (segment, frame, ocr, classify) and the segments of a video. Both have the same life cycle,
  which is stated once as the locale \<open>lifecycle\<close> and interpreted on each.
\<close>

section \<open>The contract of a life cycle\<close>

text \<open>
  A client reads a status and a finish time and calls three methods. The laws say what each call
  leaves behind.
\<close>

locale lifecycle =
  fixes status :: "'a \<Rightarrow> string"
    and finished :: "'a \<Rightarrow> time option"
    and reason :: "'a \<Rightarrow> string"
    and processing :: "'a \<Rightarrow> (runtime, 'a) state"
    and success :: "'a \<Rightarrow> (runtime, 'a) state"
    and failed :: "string \<Rightarrow> 'a \<Rightarrow> (runtime, 'a) state"
  assumes processing_law:
      "wp (processing x) (\<lambda>y r'. status y = ''processing'' \<and> finished y = None \<and> reason y = '''') r"
    and success_law:
      "wp (success x) (\<lambda>y r'. status y = ''success'' \<and> finished y \<noteq> None \<and> reason y = '''') r"
    and failed_law:
      "wp (failed why x) (\<lambda>y r'. status y = ''failed'' \<and> finished y \<noteq> None \<and> reason y = why) r"
begin

inductive run :: "runtime \<times> 'a \<Rightarrow> runtime \<times> 'a \<Rightarrow> bool" where
  none: "run s s"
| processing: "run s (r, x) \<Longrightarrow> run_state (processing x) r = (y, r') \<Longrightarrow> run s (r', y)"
| success: "run s (r, x) \<Longrightarrow> run_state (success x) r = (y, r') \<Longrightarrow> run s (r', y)"
| failed: "run s (r, x) \<Longrightarrow> run_state (failed why x) r = (y, r') \<Longrightarrow> run s (r', y)"

definition consistent :: "'a \<Rightarrow> bool" where
  "consistent x \<longleftrightarrow>
     status x \<in> {''pending'', ''processing'', ''success'', ''failed''} \<and>
     (finished x \<noteq> None \<longleftrightarrow> status x \<in> {''success'', ''failed''}) \<and>
     (reason x \<noteq> '''' \<longrightarrow> status x = ''failed'')"

lemma run_consistent: "run s t \<Longrightarrow> consistent (snd s) \<Longrightarrow> consistent (snd t)"
proof (induction rule: run.induct)
  case (processing s r x y r')
  then show ?case using wpD [OF processing_law] by (force simp: consistent_def)
next
  case (success s r x y r')
  then show ?case using wpD [OF success_law] by (force simp: consistent_def)
next
  case (failed s r x why y r')
  then show ?case using wpD [OF failed_law] by (force simp: consistent_def)
qed

end

section \<open>Jobs\<close>

abbreviation TypeSegment :: string where "TypeSegment \<equiv> ''segment''"
abbreviation TypeFrame :: string where "TypeFrame \<equiv> ''frame''"
abbreviation TypeOCR :: string where "TypeOCR \<equiv> ''ocr''"
abbreviation TypeClassify :: string where "TypeClassify \<equiv> ''classify''"

abbreviation JobPending :: string where "JobPending \<equiv> ''pending''"
abbreviation JobProcessing :: string where "JobProcessing \<equiv> ''processing''"
abbreviation JobSuccess :: string where "JobSuccess \<equiv> ''success''"
abbreviation JobFailed :: string where "JobFailed \<equiv> ''failed''"

record job =
  j_ID :: uuid
  j_VideoID :: uuid
  j_Type :: string
  j_Status :: string
  j_FailureReason :: string
  j_AnalysisFPS :: real
  j_PHashDistanceThreshold :: int
  j_MaxIntervalSeconds :: int
  j_ExpectedFrameCount :: int
  j_OCRCompletedCount :: int
  j_ExpectedSegmentCount :: int
  j_CompletedSegmentCount :: int
  j_RetentionRatioNeutral :: real
  j_RetentionRatioEmpty :: real
  j_RetentionContextWindowSeconds :: int
  j_SegmentDurationSeconds :: int
  j_MinVideoDurationForSplitSeconds :: int
  j_MaxSegments :: int
  j_CreatedAt :: time
  j_StartedAt :: "time option"
  j_FinishedAt :: "time option"

text \<open>The struct literal that sets no field: Go's zero values.\<close>

definition zero_job :: job where
  "zero_job =
     \<lparr>j_ID = uuid_Nil, j_VideoID = uuid_Nil, j_Type = '''', j_Status = '''', j_FailureReason = '''',
      j_AnalysisFPS = 0, j_PHashDistanceThreshold = 0, j_MaxIntervalSeconds = 0,
      j_ExpectedFrameCount = 0, j_OCRCompletedCount = 0, j_ExpectedSegmentCount = 0,
      j_CompletedSegmentCount = 0, j_RetentionRatioNeutral = 0, j_RetentionRatioEmpty = 0,
      j_RetentionContextWindowSeconds = 0, j_SegmentDurationSeconds = 0,
      j_MinVideoDurationForSplitSeconds = 0, j_MaxSegments = 0, j_CreatedAt = zero_time,
      j_StartedAt = None, j_FinishedAt = None\<rparr>"

definition NewSegmentJob :: "uuid \<Rightarrow> (runtime, job) state" where
  "NewSegmentJob videoID = do {
     i \<leftarrow> uuid_New;
     now \<leftarrow> time_Now;
     ret (zero_job\<lparr>j_ID := i, j_VideoID := videoID, j_Type := TypeSegment, j_Status := JobPending,
       j_SegmentDurationSeconds := 120, j_MinVideoDurationForSplitSeconds := 90,
       j_MaxSegments := 40, j_CreatedAt := now\<rparr>) }"

definition NewFrameJob :: "uuid \<Rightarrow> (runtime, job) state" where
  "NewFrameJob videoID = do {
     i \<leftarrow> uuid_New;
     now \<leftarrow> time_Now;
     ret (zero_job\<lparr>j_ID := i, j_VideoID := videoID, j_Type := TypeFrame, j_Status := JobPending,
       j_AnalysisFPS := 2, j_PHashDistanceThreshold := 14, j_MaxIntervalSeconds := 15,
       j_RetentionRatioNeutral := 1 / 2, j_RetentionRatioEmpty := 1 / 10,
       j_RetentionContextWindowSeconds := 4, j_CreatedAt := now\<rparr>) }"

definition NewOCRJob :: "uuid \<Rightarrow> (runtime, job) state" where
  "NewOCRJob videoID = do {
     i \<leftarrow> uuid_New;
     now \<leftarrow> time_Now;
     ret (zero_job\<lparr>j_ID := i, j_VideoID := videoID, j_Type := TypeOCR, j_Status := JobPending,
       j_CreatedAt := now\<rparr>) }"

definition NewClassifyJob :: "uuid \<Rightarrow> (runtime, job) state" where
  "NewClassifyJob videoID = do {
     i \<leftarrow> uuid_New;
     now \<leftarrow> time_Now;
     ret (zero_job\<lparr>j_ID := i, j_VideoID := videoID, j_Type := TypeClassify, j_Status := JobPending,
       j_CreatedAt := now\<rparr>) }"

definition start_if_unset :: "time \<Rightarrow> job \<Rightarrow> job" where
  "start_if_unset now j = (if j_StartedAt j = None then j\<lparr>j_StartedAt := Some now\<rparr> else j)"

definition job_MarkProcessing :: "job \<Rightarrow> (runtime, job) state" where
  "job_MarkProcessing j = do {
     now \<leftarrow> time_Now;
     ret (start_if_unset now
       (j\<lparr>j_Status := JobProcessing, j_FailureReason := '''', j_FinishedAt := None\<rparr>)) }"

definition job_MarkSuccess :: "job \<Rightarrow> (runtime, job) state" where
  "job_MarkSuccess j = do {
     now \<leftarrow> time_Now;
     ret ((start_if_unset now (j\<lparr>j_Status := JobSuccess, j_FailureReason := ''''\<rparr>))
       \<lparr>j_FinishedAt := Some now\<rparr>) }"

definition job_MarkFailed :: "string \<Rightarrow> job \<Rightarrow> (runtime, job) state" where
  "job_MarkFailed why j = do {
     now \<leftarrow> time_Now;
     ret ((start_if_unset now (j\<lparr>j_Status := JobFailed, j_FailureReason := why\<rparr>))
       \<lparr>j_FinishedAt := Some now\<rparr>) }"

definition SetExpectedFrameCount :: "int \<Rightarrow> job \<Rightarrow> job" where
  "SetExpectedFrameCount n j = j\<lparr>j_ExpectedFrameCount := n\<rparr>"

definition SetSegmentProgress :: "int \<Rightarrow> int \<Rightarrow> job \<Rightarrow> job" where
  "SetSegmentProgress expected completed j =
     j\<lparr>j_ExpectedSegmentCount := expected, j_CompletedSegmentCount := completed\<rparr>"

definition AddCompletedSegment :: "int \<Rightarrow> job \<Rightarrow> job" where
  "AddCompletedSegment n j =
     (if n \<le> 0 then j else j\<lparr>j_CompletedSegmentCount := j_CompletedSegmentCount j + n\<rparr>)"

definition SegmentsComplete :: "job \<Rightarrow> bool" where
  "SegmentsComplete j \<longleftrightarrow>
     j_ExpectedSegmentCount j > 0 \<and> j_CompletedSegmentCount j \<ge> j_ExpectedSegmentCount j"

definition SetOCRProgress :: "int \<Rightarrow> int \<Rightarrow> job \<Rightarrow> job" where
  "SetOCRProgress expected alreadyCompleted j =
     j\<lparr>j_ExpectedFrameCount := expected, j_OCRCompletedCount := alreadyCompleted\<rparr>"

definition AddOCRCompleted :: "int \<Rightarrow> job \<Rightarrow> job" where
  "AddOCRCompleted n j =
     (if n \<le> 0 then j else j\<lparr>j_OCRCompletedCount := j_OCRCompletedCount j + n\<rparr>)"

lemmas new_job_defs = NewSegmentJob_def NewFrameJob_def NewOCRJob_def NewClassifyJob_def

section \<open>Segments\<close>

record segment =
  s_ID :: uuid
  s_VideoID :: uuid
  s_JobID :: uuid
  s_SegmentIndex :: int
  s_OffsetMs :: int
  s_DurationMs :: int
  s_StorageKey :: string
  s_Status :: string
  s_FailureReason :: string
  s_CreatedAt :: time
  s_CompletedAt :: "time option"

definition NewSegment ::
  "uuid \<Rightarrow> uuid \<Rightarrow> int \<Rightarrow> int \<Rightarrow> int \<Rightarrow> string \<Rightarrow> (runtime, segment) state" where
  "NewSegment videoID jobID segmentIndex offsetMs durationMs storageKey = do {
     i \<leftarrow> uuid_New;
     now \<leftarrow> time_Now;
     ret \<lparr>s_ID = i, s_VideoID = videoID, s_JobID = jobID, s_SegmentIndex = segmentIndex,
          s_OffsetMs = offsetMs, s_DurationMs = durationMs, s_StorageKey = storageKey,
          s_Status = ''pending'', s_FailureReason = '''', s_CreatedAt = now, s_CompletedAt = None\<rparr> }"

definition segment_MarkProcessing :: "segment \<Rightarrow> segment" where
  "segment_MarkProcessing s =
     s\<lparr>s_Status := ''processing'', s_FailureReason := '''', s_CompletedAt := None\<rparr>"

definition segment_MarkSuccess :: "segment \<Rightarrow> (runtime, segment) state" where
  "segment_MarkSuccess s = do {
     now \<leftarrow> time_Now;
     ret (s\<lparr>s_Status := ''success'', s_FailureReason := '''', s_CompletedAt := Some now\<rparr>) }"

definition segment_MarkFailed :: "string \<Rightarrow> segment \<Rightarrow> (runtime, segment) state" where
  "segment_MarkFailed why s = do {
     now \<leftarrow> time_Now;
     ret (s\<lparr>s_Status := ''failed'', s_FailureReason := why, s_CompletedAt := Some now\<rparr>) }"

definition segment_IsDone :: "segment \<Rightarrow> bool" where
  "segment_IsDone s \<longleftrightarrow> s_Status s = ''success'' \<or> s_Status s = ''failed''"

section \<open>Both keep the contract\<close>

interpretation job_life: lifecycle j_Status j_FinishedAt j_FailureReason job_MarkProcessing job_MarkSuccess job_MarkFailed
  by unfold_locales
    (simp_all add: job_MarkProcessing_def job_MarkSuccess_def job_MarkFailed_def start_if_unset_def wp_simps)

interpretation segment_life: lifecycle s_Status s_CompletedAt s_FailureReason
    "\<lambda>s. ret (segment_MarkProcessing s)" segment_MarkSuccess segment_MarkFailed
  by unfold_locales
    (simp_all add: segment_MarkProcessing_def segment_MarkSuccess_def segment_MarkFailed_def wp_simps)

text \<open>
  A job has a finish time exactly when it has succeeded or failed, and a failure reason only when it
  has failed, after any sequence of calls of its three methods; the reprocessing of a failed job
  clears both.
\<close>

theorem job_lifecycle:
  assumes "m \<in> {NewSegmentJob vid, NewFrameJob vid, NewOCRJob vid, NewClassifyJob vid}"
    and "run_state m r0 = (j, r)" "job_life.run (r, j) (r', j')"
  shows "(j_FinishedAt j' \<noteq> None \<longleftrightarrow> j_Status j' \<in> {JobSuccess, JobFailed}) \<and>
         (j_FailureReason j' \<noteq> '''' \<longrightarrow> j_Status j' = JobFailed)"
proof -
  have "job_life.consistent j"
    using assms(1,2) by (auto simp: new_job_defs zero_job_def job_life.consistent_def)
  then show ?thesis
    using job_life.run_consistent [OF assms(3)] by (simp add: job_life.consistent_def)
qed

theorem job_lifecycle_witness:
  "\<exists>j j' r r'. run_state (NewOCRJob 3) sample_runtime = (j, r) \<and> job_life.run (r, j) (r', j') \<and>
     j_Status j' = JobFailed \<and> j_FinishedAt j' \<noteq> None"
proof -
  obtain j r where n: "run_state (NewOCRJob 3) sample_runtime = (j, r)" by fastforce
  obtain j' r' where f: "run_state (job_MarkFailed ''boom'' j) r = (j', r')" by fastforce
  have run: "job_life.run (r, j) (r', j')"
    by (rule job_life.run.failed [OF job_life.run.none f])
  have "j_Status j' = JobFailed"
    using wpD [OF job_life.failed_law f] by simp
  then show ?thesis
    using n run job_lifecycle [of "NewOCRJob 3" 3, OF _ n run] by auto
qed

text \<open>
  A segment is done, in the sense of \<open>IsDone\<close>, exactly when it has a completion time, whatever
  methods were called on it since it was created.
\<close>

theorem segment_done_iff_completed:
  assumes "run_state (NewSegment vid jid i off d key) r0 = (s, r)" "segment_life.run (r, s) (r', s')"
  shows "segment_IsDone s' \<longleftrightarrow> s_CompletedAt s' \<noteq> None"
proof -
  have "segment_life.consistent s"
    using assms(1) by (auto simp: NewSegment_def segment_life.consistent_def)
  then show ?thesis
    using segment_life.run_consistent [OF assms(2)]
    by (auto simp: segment_life.consistent_def segment_IsDone_def)
qed

theorem segment_done_iff_completed_witness:
  "\<exists>s s' r r'. segment_life.run (r, s) (r', s') \<and> segment_IsDone s' \<and> s_CompletedAt s' \<noteq> None"
proof -
  obtain s r where n: "run_state (NewSegment 1 2 0 0 1000 ''k'') sample_runtime = (s, r)" by fastforce
  obtain s' r' where f: "run_state (segment_MarkSuccess s) r = (s', r')" by fastforce
  have run: "segment_life.run (r, s) (r', s')"
    by (rule segment_life.run.success [OF segment_life.run.none f])
  have "s_CompletedAt s' \<noteq> None"
    using wpD [OF segment_life.success_law f] by simp
  then show ?thesis
    using run segment_done_iff_completed [OF n run] by blast
qed

end
