(* ===== verification/SegmentPlan.thy ===== *)
theory SegmentPlan
  imports Prelude
begin

text \<open>
  \<open>internal/domain/segment/plan.go\<close>: into how many segments a video is cut, and of what length.
  A \<open>float64\<close> is a real number here, so the rounding of the division is not modelled.
\<close>

record PlanConfig =
  pc_SegmentDurationSeconds :: int
  pc_MinVideoDurationForSplitSeconds :: int
  pc_MaxSegments :: int

record Plan =
  pl_Count :: int
  pl_EffectiveDurationSeconds :: real
  pl_SkipSplit :: bool

definition NormalizePlanConfig :: "PlanConfig \<Rightarrow> PlanConfig" where
  "NormalizePlanConfig cfg0 =
     (let cfg1 = (if pc_SegmentDurationSeconds cfg0 \<le> 0
                  then cfg0\<lparr>pc_SegmentDurationSeconds := 120\<rparr> else cfg0);
          cfg2 = (if pc_MinVideoDurationForSplitSeconds cfg1 \<le> 0
                  then cfg1\<lparr>pc_MinVideoDurationForSplitSeconds := 90\<rparr> else cfg1)
      in if pc_MaxSegments cfg2 \<le> 0 then cfg2\<lparr>pc_MaxSegments := 40\<rparr> else cfg2)"

definition PlanSegments :: "real \<Rightarrow> PlanConfig \<Rightarrow> Plan" where
  "PlanSegments durationSeconds0 cfg0 =
     (let cfg = NormalizePlanConfig cfg0;
          durationSeconds = (if durationSeconds0 \<le> 0 then real_of_int (pc_SegmentDurationSeconds cfg)
                             else durationSeconds0)
      in if durationSeconds < real_of_int (pc_MinVideoDurationForSplitSeconds cfg)
         then \<lparr>pl_Count = 1, pl_EffectiveDurationSeconds = durationSeconds, pl_SkipSplit = True\<rparr>
         else
           let count0 = \<lceil>durationSeconds / real_of_int (pc_SegmentDurationSeconds cfg)\<rceil>;
               effective0 = real_of_int (pc_SegmentDurationSeconds cfg);
               count1 = (if count0 > pc_MaxSegments cfg then pc_MaxSegments cfg else count0);
               effective = (if count0 > pc_MaxSegments cfg
                            then real_of_int \<lceil>durationSeconds / real_of_int count1\<rceil> else effective0);
               count = (if count1 < 1 then 1 else count1)
           in \<lparr>pl_Count = count, pl_EffectiveDurationSeconds = effective, pl_SkipSplit = (count = 1)\<rparr>)"

lemma NormalizePlanConfig_pos:
  "pc_SegmentDurationSeconds (NormalizePlanConfig cfg) > 0"
  "pc_MinVideoDurationForSplitSeconds (NormalizePlanConfig cfg) > 0"
  "pc_MaxSegments (NormalizePlanConfig cfg) > 0"
  by (simp_all add: NormalizePlanConfig_def Let_def)

lemma NormalizePlanConfig_idem: "NormalizePlanConfig (NormalizePlanConfig cfg) = NormalizePlanConfig cfg"
  by (simp add: NormalizePlanConfig_def Let_def)

text \<open>The duration the plan is made for: that of one segment when the probe gave nothing.\<close>

definition planned_duration :: "real \<Rightarrow> PlanConfig \<Rightarrow> real" where
  "planned_duration d cfg =
     (if d \<le> 0 then real_of_int (pc_SegmentDurationSeconds (NormalizePlanConfig cfg)) else d)"

lemma planned_duration_pos: "planned_duration d cfg > 0"
  using NormalizePlanConfig_pos(1) by (simp add: planned_duration_def)

lemma ceil_cover: "(c::real) > 0 \<Longrightarrow> d \<le> c * real_of_int \<lceil>d / c\<rceil>"
  by (metis le_of_int_ceiling mult.commute pos_divide_le_eq)

text \<open>The plan as three cases on the planned duration.\<close>

lemma PlanSegments_cases:
  fixes d cfg
  defines "c \<equiv> NormalizePlanConfig cfg" and "D \<equiv> planned_duration d cfg"
  defines "S \<equiv> pc_SegmentDurationSeconds c" and "M \<equiv> pc_MaxSegments c"
  defines "n \<equiv> \<lceil>D / real_of_int S\<rceil>"
  shows "PlanSegments d cfg =
    (if D < real_of_int (pc_MinVideoDurationForSplitSeconds c)
     then \<lparr>pl_Count = 1, pl_EffectiveDurationSeconds = D, pl_SkipSplit = True\<rparr>
     else if n > M
     then \<lparr>pl_Count = M, pl_EffectiveDurationSeconds = real_of_int \<lceil>D / real_of_int M\<rceil>, pl_SkipSplit = (M = 1)\<rparr>
     else \<lparr>pl_Count = n, pl_EffectiveDurationSeconds = real_of_int S, pl_SkipSplit = (n = 1)\<rparr>)"
    and "1 \<le> n"
proof -
  have pos: "S > 0" "M > 0"
    using NormalizePlanConfig_pos [of cfg] by (simp_all add: c_def S_def M_def)
  have "D > 0" by (simp add: D_def planned_duration_pos)
  then show n: "1 \<le> n" using pos(1) by (simp add: n_def)
  have D: "(if d \<le> 0 then real_of_int S else d) = D"
    by (simp add: D_def planned_duration_def S_def c_def)
  show "PlanSegments d cfg =
    (if D < real_of_int (pc_MinVideoDurationForSplitSeconds c)
     then \<lparr>pl_Count = 1, pl_EffectiveDurationSeconds = D, pl_SkipSplit = True\<rparr>
     else if n > M
     then \<lparr>pl_Count = M, pl_EffectiveDurationSeconds = real_of_int \<lceil>D / real_of_int M\<rceil>, pl_SkipSplit = (M = 1)\<rparr>
     else \<lparr>pl_Count = n, pl_EffectiveDurationSeconds = real_of_int S, pl_SkipSplit = (n = 1)\<rparr>)"
    unfolding PlanSegments_def Let_def c_def [symmetric] S_def [symmetric] D
      M_def [symmetric] n_def [symmetric]
    using n pos(2) by simp
qed


text \<open>
  The cap on the number of segments only lengthens them: the effective length of a split is at
  least the configured one, and equal to it when the maximum suffices; then the last segment is
  needed, that is, one segment fewer would not cover the video.
\<close>

theorem PlanSegments_length:
  assumes "planned_duration d cfg \<ge> real_of_int (pc_MinVideoDurationForSplitSeconds (NormalizePlanConfig cfg))"
  shows "pl_EffectiveDurationSeconds (PlanSegments d cfg) \<ge>
           real_of_int (pc_SegmentDurationSeconds (NormalizePlanConfig cfg)) \<and>
         (planned_duration d cfg \<le> real_of_int (pc_MaxSegments (NormalizePlanConfig cfg)) *
             real_of_int (pc_SegmentDurationSeconds (NormalizePlanConfig cfg)) \<longrightarrow>
           pl_EffectiveDurationSeconds (PlanSegments d cfg) =
             real_of_int (pc_SegmentDurationSeconds (NormalizePlanConfig cfg)) \<and>
           real_of_int (pl_Count (PlanSegments d cfg) - 1) *
             real_of_int (pc_SegmentDurationSeconds (NormalizePlanConfig cfg)) < planned_duration d cfg)"
proof -
  define c D where "c = NormalizePlanConfig cfg" and "D = planned_duration d cfg"
  define S M where "S = pc_SegmentDurationSeconds c" and "M = pc_MaxSegments c"
  define n where "n = \<lceil>D / real_of_int S\<rceil>"
  note p = PlanSegments_cases [of d cfg, folded c_def D_def, folded S_def M_def, folded n_def]
  have pos: "S > 0" "M > 0"
    using NormalizePlanConfig_pos [of cfg] by (simp_all add: c_def S_def M_def)
  have capped: "M < n \<longleftrightarrow> real_of_int M * real_of_int S < D"
    unfolding n_def using pos(1) by (simp add: less_ceiling_iff pos_less_divide_eq)
  have longer: "S \<le> \<lceil>D / real_of_int M\<rceil>" if "M < n"
  proof -
    have "real_of_int S < D / real_of_int M"
      using that pos capped by (simp add: pos_less_divide_eq mult.commute)
    then show ?thesis by (simp add: le_ceiling_iff)
  qed
  have last: "real_of_int (n - 1) * real_of_int S < D"
    using pos(1) of_int_ceiling_diff_one_le [of "D / real_of_int S"] ceiling_correct [of "D / real_of_int S"]
    unfolding n_def by (simp add: pos_less_divide_eq)
  show ?thesis
    using assms capped longer last
    unfolding p(1) D_def [symmetric] c_def [symmetric] M_def [symmetric] S_def [symmetric]
    by auto
qed

theorem PlanSegments_length_witness:
  "pl_EffectiveDurationSeconds
     (PlanSegments 4801 \<lparr>pc_SegmentDurationSeconds = 120, pc_MinVideoDurationForSplitSeconds = 90,
        pc_MaxSegments = 40\<rparr>) \<ge> 120"
  using PlanSegments_length [of "\<lparr>pc_SegmentDurationSeconds = 120,
      pc_MinVideoDurationForSplitSeconds = 90, pc_MaxSegments = 40\<rparr>" 4801]
  by (simp add: planned_duration_def NormalizePlanConfig_def)

end
