(* ===== verification/FrameData.thy ===== *)
theory FrameData
  imports Prelude
begin

text \<open>
  What the pipeline stores of a frame: \<open>internal/domain/frame/entity.go\<close>,
  \<open>internal/domain/ocr/entity.go\<close> and \<open>internal/domain/classification/entity.go\<close>.
\<close>

section \<open>Frames\<close>

abbreviation SelectionReasonFixedInterval :: string where
  "SelectionReasonFixedInterval \<equiv> ''fixed_interval''"

abbreviation SelectionReasonSceneChange :: string where
  "SelectionReasonSceneChange \<equiv> ''scene_change''"

record frame =
  f_ID :: uuid
  f_VideoID :: uuid
  f_SegmentIndex :: int
  f_Index :: int
  f_TimestampMs :: int
  f_StorageKey :: string
  f_SelectionReason :: string
  f_PHashDistance :: int
  f_Retained :: bool
  f_PruneReason :: string

definition NewFrame ::
  "uuid \<Rightarrow> int \<Rightarrow> int \<Rightarrow> int \<Rightarrow> string \<Rightarrow> string \<Rightarrow> int \<Rightarrow> (runtime, frame) state" where
  "NewFrame videoID segmentIndex index timestampMs storageKey selectionReason phashDistance = do {
     i \<leftarrow> uuid_New;
     ret \<lparr>f_ID = i, f_VideoID = videoID, f_SegmentIndex = segmentIndex, f_Index = index,
          f_TimestampMs = timestampMs, f_StorageKey = storageKey,
          f_SelectionReason = selectionReason, f_PHashDistance = phashDistance,
          f_Retained = True, f_PruneReason = ''''\<rparr> }"

section \<open>OCR results\<close>

abbreviation OCRSuccess :: string where "OCRSuccess \<equiv> ''success''"
abbreviation OCRFailed :: string where "OCRFailed \<equiv> ''failed''"
abbreviation OCREmpty :: string where "OCREmpty \<equiv> ''empty''"

record ocr_point =
  op_X :: int
  op_Y :: int

record ocr_line =
  ol_Text :: string
  ol_Confidence :: real
  ol_Box :: "ocr_point list"

record ocr_result =
  o_ID :: uuid
  o_FrameID :: uuid
  o_Text :: string
  o_Confidence :: real
  o_Status :: string
  o_ErrorReason :: string
  o_Lines :: "ocr_line list"

text \<open>A nil slice of lines and an empty one are the same list here.\<close>

definition NewResult ::
  "uuid \<Rightarrow> string \<Rightarrow> real \<Rightarrow> string \<Rightarrow> string \<Rightarrow> ocr_line list \<Rightarrow> (runtime, ocr_result) state" where
  "NewResult frameID text confidence status errorReason lines = do {
     i \<leftarrow> uuid_New;
     ret \<lparr>o_ID = i, o_FrameID = frameID, o_Text = text, o_Confidence = confidence,
          o_Status = status, o_ErrorReason = errorReason, o_Lines = lines\<rparr> }"

definition ocr_IsFinal :: "ocr_result \<Rightarrow> bool" where
  "ocr_IsFinal r \<longleftrightarrow> o_Status r = OCRSuccess \<or> o_Status r = OCREmpty"

section \<open>Classifications\<close>

abbreviation ClassificationSuccess :: string where "ClassificationSuccess \<equiv> ''success''"
abbreviation ClassificationFailed :: string where "ClassificationFailed \<equiv> ''failed''"
abbreviation ClassificationSkipped :: string where "ClassificationSkipped \<equiv> ''skipped''"

record category =
  ca_Name :: string
  ca_Probability :: real

record classification =
  c_ID :: uuid
  c_FrameID :: uuid
  c_Confidential :: bool
  c_Probability :: real
  c_Categories :: "category list"
  c_Status :: string
  c_ErrorReason :: string

definition NewClassification ::
  "uuid \<Rightarrow> bool \<Rightarrow> real \<Rightarrow> category list \<Rightarrow> string \<Rightarrow> string \<Rightarrow> (runtime, classification) state" where
  "NewClassification frameID confidential probability categories status errorReason = do {
     i \<leftarrow> uuid_New;
     ret \<lparr>c_ID = i, c_FrameID = frameID, c_Confidential = confidential,
          c_Probability = probability, c_Categories = categories, c_Status = status,
          c_ErrorReason = errorReason\<rparr> }"

definition classification_IsFinal :: "classification \<Rightarrow> bool" where
  "classification_IsFinal c \<longleftrightarrow>
     c_Status c = ClassificationSuccess \<or> c_Status c = ClassificationSkipped"

end
