(* ===== verification/UserEntity.thy ===== *)
theory UserEntity
  imports Json Aggregate
begin

text \<open>
  \<open>internal/domain/user/entity.go\<close> and \<open>events.go\<close>: the user aggregate, its events and their JSON
  form.
\<close>

section \<open>Events\<close>

datatype user_event =
    UserCreated
      (ue_ID: string) (ue_UserID: string) (ue_ClerkID: string) (ue_FirstName: string)
      (ue_LastName: string) (ue_Email: string) (ue_Banned: bool) (ue_Timestamp: time)
  | UserUpdated
      (ue_ID: string) (ue_UserID: string) (ue_ClerkID: string) (ue_FirstName: string)
      (ue_LastName: string) (ue_Email: string) (ue_Banned: bool) (ue_Timestamp: time)
  | UserDeleted
      (ue_ID: string) (ue_UserID: string) (ue_ClerkID: string) (ue_Timestamp: time)

fun user_EventType :: "user_event \<Rightarrow> string" where
  "user_EventType (UserCreated _ _ _ _ _ _ _ _) = ''user.created.v1''"
| "user_EventType (UserUpdated _ _ _ _ _ _ _ _) = ''user.updated.v1''"
| "user_EventType (UserDeleted _ _ _ _) = ''user.deleted.v1''"

abbreviation user_EventID :: "user_event \<Rightarrow> string" where
  "user_EventID \<equiv> ue_ID"

abbreviation user_AggregateID :: "user_event \<Rightarrow> string" where
  "user_AggregateID \<equiv> ue_UserID"

fun user_Marshal :: "user_event \<Rightarrow> json" where
  "user_Marshal (UserCreated a b c d e f g h) = JObj
     (enc ''eventId'' (JStr a) @
      enc ''userId'' (JStr b) @
      enc ''clerkId'' (JStr c) @
      enc ''firstName'' (JStr d) @
      enc ''lastName'' (JStr e) @
      enc ''email'' (JStr f) @
      enc ''banned'' (JBool g) @
      enc ''timestamp'' (JTime h))"
| "user_Marshal (UserUpdated a b c d e f g h) = JObj
     (enc ''eventId'' (JStr a) @
      enc ''userId'' (JStr b) @
      enc ''clerkId'' (JStr c) @
      enc ''firstName'' (JStr d) @
      enc ''lastName'' (JStr e) @
      enc ''email'' (JStr f) @
      enc ''banned'' (JBool g) @
      enc ''timestamp'' (JTime h))"
| "user_Marshal (UserDeleted a b c d) = JObj
     (enc ''eventId'' (JStr a) @
      enc ''userId'' (JStr b) @
      enc ''clerkId'' (JStr c) @
      enc ''timestamp'' (JTime d))"

definition Unmarshal_UserCreated :: "payload \<Rightarrow> user_event option" where
  "Unmarshal_UserCreated p = do {
       ms \<leftarrow> payload_members p;
       a \<leftarrow> dec_field dec_str '''' ''eventId'' ms;
       b \<leftarrow> dec_field dec_str '''' ''userId'' ms;
       c \<leftarrow> dec_field dec_str '''' ''clerkId'' ms;
       d \<leftarrow> dec_field dec_str '''' ''firstName'' ms;
       e \<leftarrow> dec_field dec_str '''' ''lastName'' ms;
       f \<leftarrow> dec_field dec_str '''' ''email'' ms;
       g \<leftarrow> dec_field dec_bool False ''banned'' ms;
       h \<leftarrow> dec_field dec_time zero_time ''timestamp'' ms;
       Some (UserCreated a b c d e f g h) }"

definition Unmarshal_UserUpdated :: "payload \<Rightarrow> user_event option" where
  "Unmarshal_UserUpdated p = do {
       ms \<leftarrow> payload_members p;
       a \<leftarrow> dec_field dec_str '''' ''eventId'' ms;
       b \<leftarrow> dec_field dec_str '''' ''userId'' ms;
       c \<leftarrow> dec_field dec_str '''' ''clerkId'' ms;
       d \<leftarrow> dec_field dec_str '''' ''firstName'' ms;
       e \<leftarrow> dec_field dec_str '''' ''lastName'' ms;
       f \<leftarrow> dec_field dec_str '''' ''email'' ms;
       g \<leftarrow> dec_field dec_bool False ''banned'' ms;
       h \<leftarrow> dec_field dec_time zero_time ''timestamp'' ms;
       Some (UserUpdated a b c d e f g h) }"

definition Unmarshal_UserDeleted :: "payload \<Rightarrow> user_event option" where
  "Unmarshal_UserDeleted p = do {
       ms \<leftarrow> payload_members p;
       a \<leftarrow> dec_field dec_str '''' ''eventId'' ms;
       b \<leftarrow> dec_field dec_str '''' ''userId'' ms;
       c \<leftarrow> dec_field dec_str '''' ''clerkId'' ms;
       d \<leftarrow> dec_field dec_time zero_time ''timestamp'' ms;
       Some (UserDeleted a b c d) }"

definition Unmarshal_user_event :: "string \<Rightarrow> payload \<Rightarrow> user_event option" where
  "Unmarshal_user_event t p =
    (if t = ''user.created.v1'' then Unmarshal_UserCreated p else
     if t = ''user.updated.v1'' then Unmarshal_UserUpdated p else
     if t = ''user.deleted.v1'' then Unmarshal_UserDeleted p else
     None)"

section \<open>The aggregate\<close>

record user =
  u_ID :: uuid
  u_ClerkID :: string
  u_FirstName :: string
  u_LastName :: string
  u_Banned :: bool
  u_Email :: string
  u_ActiveProjectID :: "uuid option"
  u_CreatedAt :: time
  u_UpdatedAt :: time
  u_events :: "user_event list"

definition user_recordEvent :: "user_event \<Rightarrow> user \<Rightarrow> user" where
  "user_recordEvent e u = u\<lparr>u_events := u_events u @ [e]\<rparr>"

definition user_PullEvents :: "user \<Rightarrow> user_event list \<times> user" where
  "user_PullEvents u = (u_events u, u\<lparr>u_events := []\<rparr>)"

definition NewUser ::
  "uuid_lib \<Rightarrow> string \<Rightarrow> string \<Rightarrow> string \<Rightarrow> string \<Rightarrow> bool \<Rightarrow> (runtime, user) state" where
  "NewUser U clerkID firstName lastName email banned = do {
     now \<leftarrow> time_Now;
     i \<leftarrow> uuid_New;
     eid \<leftarrow> uuid_New;
     ret (user_recordEvent
       (UserCreated (uuid_String U eid) (uuid_String U i) clerkID firstName lastName email banned now)
       \<lparr>u_ID = i, u_ClerkID = clerkID, u_FirstName = firstName, u_LastName = lastName,
        u_Banned = banned, u_Email = email, u_ActiveProjectID = None, u_CreatedAt = now,
        u_UpdatedAt = now, u_events = []\<rparr>) }"

definition ApplyUpdate ::
  "uuid_lib \<Rightarrow> string \<Rightarrow> string \<Rightarrow> string \<Rightarrow> bool \<Rightarrow> user \<Rightarrow> (runtime, user) state" where
  "ApplyUpdate U firstName lastName email banned u0 = do {
     let u = u0\<lparr>u_FirstName := firstName, u_LastName := lastName, u_Banned := banned\<rparr>;
     let u = (if email \<noteq> '''' then u\<lparr>u_Email := email\<rparr> else u);
     now \<leftarrow> time_Now;
     let u = u\<lparr>u_UpdatedAt := now\<rparr>;
     eid \<leftarrow> uuid_New;
     ret (user_recordEvent
       (UserUpdated (uuid_String U eid) (uuid_String U (u_ID u)) (u_ClerkID u) (u_FirstName u)
         (u_LastName u) (u_Email u) (u_Banned u) (u_UpdatedAt u)) u) }"

definition MarkDeleted :: "uuid_lib \<Rightarrow> user \<Rightarrow> (runtime, user) state" where
  "MarkDeleted U u = do {
     eid \<leftarrow> uuid_New;
     now \<leftarrow> time_Now;
     ret (user_recordEvent
       (UserDeleted (uuid_String U eid) (uuid_String U (u_ID u)) (u_ClerkID u) now) u) }"

interpretation user_aggregate: aggregate u_events user_recordEvent user_PullEvents
  by unfold_locales (simp_all add: user_recordEvent_def user_PullEvents_def)

section \<open>Facts\<close>

lemmas Unmarshal_user_defs =
  Unmarshal_user_event_def Unmarshal_UserCreated_def Unmarshal_UserUpdated_def Unmarshal_UserDeleted_def

text \<open>
  A user event is read back by its handler exactly as the aggregate recorded it.
\<close>

theorem user_event_roundtrip:
  "Unmarshal_user_event (user_EventType e) (Wellformed (user_Marshal e)) = Some e"
  by (cases e) (simp_all add: Unmarshal_user_defs)

text \<open>
  The user's events: a new user has one event, which carries its id and the data it was created
  with; an update with an empty e-mail address keeps the address it had, in the user and in the event;
  an update keeps the identity of the user.
\<close>

theorem user_events:
  "wp (NewUser U cid fn lnameame em b) (\<lambda>u r'. \<exists>eid. u_events u =
       [UserCreated (uuid_String U eid) (uuid_String U (u_ID u)) cid fn lnameame em b (u_CreatedAt u)]) r \<and>
   wp (ApplyUpdate U fn lname em b u) (\<lambda>u' r'. \<exists>eid.
       u_events u' = u_events u @
         [UserUpdated (uuid_String U eid) (uuid_String U (u_ID u)) (u_ClerkID u) fn lname
           (if em = '''' then u_Email u else em) b (u_UpdatedAt u')] \<and>
       u_Email u' = (if em = '''' then u_Email u else em) \<and>
       u_ID u' = u_ID u \<and> u_ClerkID u' = u_ClerkID u \<and> u_CreatedAt u' = u_CreatedAt u) r"
  by (simp add: NewUser_def ApplyUpdate_def user_recordEvent_def Let_def wp_simps) blast

end
