(* ===== verification/Paginate.thy ===== *)
theory Paginate
  imports Prelude
begin

text \<open>
  \<open>internal/domain/paginate/paginate.go\<close>: the paging of list endpoints. Go's \<open>int\<close> wraps in the
  multiplication of \<open>Offset\<close>. \<open>NewPaginateResponse\<close> divides \<open>float64\<close>s, read as reals; a limit of 0
  would convert an infinity or NaN, which gives the least integer on the code's platforms.
\<close>

record PaginateQuery =
  pq_Page :: int
  pq_Limit :: int
  pq_SortBy :: string
  pq_OrderBy :: string
  pq_Search :: string

record 'm PaginateResponse =
  pr_Total :: int
  pr_Page :: int
  pr_Limit :: int
  pr_TotalPages :: int
  pr_Members :: 'm

definition NewPaginateResponse :: "'m \<Rightarrow> int \<Rightarrow> PaginateQuery \<Rightarrow> 'm PaginateResponse" where
  "NewPaginateResponse members count query =
     (let totalPages = (if pq_Limit query = 0 then - (2 ^ 63)
                        else \<lceil>real_of_int count / real_of_int (pq_Limit query)\<rceil>)
      in \<lparr>pr_Total = count, pr_Page = pq_Page query, pr_Limit = pq_Limit query,
          pr_TotalPages = totalPages, pr_Members = members\<rparr>)"

definition Normalize :: "PaginateQuery \<Rightarrow> PaginateQuery" where
  "Normalize p0 =
     (let p1 = (if pq_Page p0 \<le> 0 then p0\<lparr>pq_Page := 1\<rparr> else p0);
          p2 = (if pq_Limit p1 \<le> 0 then p1\<lparr>pq_Limit := 20\<rparr> else p1);
          p3 = (if pq_Limit p2 > 200 then p2\<lparr>pq_Limit := 200\<rparr> else p2)
      in if pq_OrderBy p3 \<noteq> ''asc'' \<and> pq_OrderBy p3 \<noteq> ''desc'' then p3\<lparr>pq_OrderBy := ''asc''\<rparr> else p3)"

definition Offset :: "PaginateQuery \<Rightarrow> int" where
  "Offset p = wrap64 (wrap64 (pq_Page p - 1) * pq_Limit p)"

lemma Normalize_ranges:
  "1 \<le> pq_Page (Normalize p)" "1 \<le> pq_Limit (Normalize p)" "pq_Limit (Normalize p) \<le> 200"
  "pq_OrderBy (Normalize p) \<in> {''asc'', ''desc''}"
  by (simp_all add: Normalize_def Let_def)

lemma Normalize_Page: "pq_Page (Normalize p) = (if pq_Page p \<le> 0 then 1 else pq_Page p)"
  by (simp add: Normalize_def Let_def)

lemma Offset_exact:
  assumes "pq_Page p < 2 ^ 55"
  shows "Offset (Normalize p) = (pq_Page (Normalize p) - 1) * pq_Limit (Normalize p)"
proof -
  let ?q = "Normalize p"
  have page: "0 \<le> pq_Page ?q - 1" "pq_Page ?q - 1 < 2 ^ 55"
    using assms Normalize_ranges(1) [of p] by (simp_all add: Normalize_Page)
  have "(pq_Page ?q - 1) * pq_Limit ?q \<le> 2 ^ 55 * 200"
    using page Normalize_ranges(2,3) [of p] by (intro mult_mono) simp_all
  moreover have "0 \<le> (pq_Page ?q - 1) * pq_Limit ?q"
    using page Normalize_ranges(2) [of p] by simp
  ultimately show ?thesis
    using page by (simp add: Offset_def wrap64_id)
qed



end
