(* ===== verification/Tables.thy ===== *)
theory Tables
  imports Prelude
begin

text \<open>
  SQL tables as lists of rows, in the order of insertion: the statements the repositories of
  \<open>internal/infrastructure/persistence\<close> issue through the ORM, as Postgres documents them. A row
  that violates a unique constraint makes its statement fail (\<open>None\<close>).
\<close>

definition tbl_find :: "('a \<Rightarrow> bool) \<Rightarrow> 'a list \<Rightarrow> 'a option" where
  "tbl_find P t = List.find P t"

text \<open>\<open>INSERT\<close>: the row must differ from every row under each unique key.\<close>

definition tbl_insert :: "('a \<Rightarrow> 'a \<Rightarrow> bool) \<Rightarrow> 'a \<Rightarrow> 'a list \<Rightarrow> 'a list option" where
  "tbl_insert clash x t = (if list_ex (clash x) t then None else Some (t @ [x]))"

text \<open>The ORM's \<open>Save\<close>: update the row with the primary key, insert it when there is none.\<close>

definition tbl_save ::
  "('a \<Rightarrow> 'k) \<Rightarrow> ('a \<Rightarrow> 'a \<Rightarrow> bool) \<Rightarrow> 'a \<Rightarrow> 'a list \<Rightarrow> 'a list option" where
  "tbl_save pk clash x t =
     (if list_ex (\<lambda>y. pk y \<noteq> pk x \<and> clash x y) t then None
      else if list_ex (\<lambda>y. pk y = pk x) t then Some (map (\<lambda>y. if pk y = pk x then x else y) t)
      else Some (t @ [x]))"

text \<open>
  \<open>INSERT ... ON CONFLICT (key) DO UPDATE\<close> of a batch: a row whose key exists is merged into the
  stored one; the batch may not touch one key twice, and a new row needs a fresh primary key.
\<close>

definition upsert_row ::
  "('a \<Rightarrow> 'k) \<Rightarrow> ('a \<Rightarrow> uuid) \<Rightarrow> ('a \<Rightarrow> 'a \<Rightarrow> 'a) \<Rightarrow> 'a \<Rightarrow> 'a list \<Rightarrow> 'a list option" where
  "upsert_row key pk merge x t =
     (if list_ex (\<lambda>y. key y = key x) t
      then Some (map (\<lambda>y. if key y = key x then merge y x else y) t)
      else if list_ex (\<lambda>y. pk y = pk x) t then None
      else Some (t @ [x]))"

fun upsert_rows ::
  "('a \<Rightarrow> 'k) \<Rightarrow> ('a \<Rightarrow> uuid) \<Rightarrow> ('a \<Rightarrow> 'a \<Rightarrow> 'a) \<Rightarrow> 'a list \<Rightarrow> 'a list \<Rightarrow> 'a list option" where
  "upsert_rows key pk merge [] t = Some t"
| "upsert_rows key pk merge (x # xs) t =
     (case upsert_row key pk merge x t of None \<Rightarrow> None | Some t' \<Rightarrow> upsert_rows key pk merge xs t')"

definition tbl_upsert_all ::
  "('a \<Rightarrow> 'k) \<Rightarrow> ('a \<Rightarrow> uuid) \<Rightarrow> ('a \<Rightarrow> 'a \<Rightarrow> 'a) \<Rightarrow> 'a list \<Rightarrow> 'a list \<Rightarrow> 'a list option" where
  "tbl_upsert_all key pk merge xs t =
     (if distinct (map key xs) then upsert_rows key pk merge xs t else None)"

text \<open>\<open>INSERT ... ON CONFLICT DO NOTHING\<close> of a batch.\<close>

fun tbl_insert_ignore :: "('a \<Rightarrow> 'k) \<Rightarrow> 'a list \<Rightarrow> 'a list \<Rightarrow> 'a list" where
  "tbl_insert_ignore pk [] t = t"
| "tbl_insert_ignore pk (x # xs) t =
     (if list_ex (\<lambda>y. pk y = pk x) t then tbl_insert_ignore pk xs t
      else tbl_insert_ignore pk xs (t @ [x]))"

section \<open>Keys stay unique\<close>

lemma distinct_map_update:
  "distinct (map f t) \<Longrightarrow> (\<And>y. y \<in> set t \<Longrightarrow> f (g y) = f y) \<Longrightarrow> distinct (map f (map g t))"
  by (metis (no_types, lifting) map_map map_eq_conv o_apply)

lemma tbl_insert_distinct:
  assumes "tbl_insert clash x t = Some t'" "distinct (map f t)"
    and "\<And>y. f y = f x \<Longrightarrow> clash x y"
  shows "distinct (map f t')"
  using assms by (auto simp: tbl_insert_def list_ex_iff split: if_splits) metis

lemma tbl_save_distinct:
  assumes "tbl_save pk clash x t = Some t'" "distinct (map f t)" "distinct (map pk t)"
    and "\<And>y. f y = f x \<Longrightarrow> clash x y \<or> pk y = pk x"
  shows "distinct (map f t')"
proof (cases "list_ex (\<lambda>y. pk y = pk x) t")
  case True
  have unclashed: "\<not> clash x y" if "y \<in> set t" "pk y \<noteq> pk x" for y
    using assms(1) that by (auto simp: tbl_save_def list_ex_iff split: if_splits)
  have t': "t' = map (\<lambda>y. if pk y = pk x then x else y) t"
    using assms(1) True by (auto simp: tbl_save_def split: if_splits)
  have noclash: "f y \<noteq> f x" if "y \<in> set t" "pk y \<noteq> pk x" for y
    using unclashed [OF that] assms(4) [of y] that(2) by blast
  obtain y where y: "y \<in> set t" "pk y = pk x"
    using True by (auto simp: list_ex_iff)
  then obtain a b where t: "t = a @ y # b"
    by (meson split_list)
  have ne: "pk z \<noteq> pk x" if "z \<in> set a \<union> set b" for z
  proof -
    have "pk z \<noteq> pk y" using that assms(3) unfolding t by (auto simp: image_iff)
    then show ?thesis using y(2) by simp
  qed
  have fne: "f z \<noteq> f x" if "z \<in> set a \<union> set b" for z
    using ne [OF that] noclash [of z] that t by auto
  have "map (\<lambda>y. if pk y = pk x then x else y) a = a"
    "map (\<lambda>y. if pk y = pk x then x else y) b = b"
    using ne by (auto intro!: map_idI)
  then have "t' = a @ x # b" using t' t y by simp
  moreover have "distinct (map f a)" "distinct (map f b)" "f ` set a \<inter> f ` set b = {}"
    using assms(2) unfolding t by auto
  moreover have "f x \<notin> f ` set a" "f x \<notin> f ` set b"
    using fne by (metis UnCI imageE)+
  ultimately show ?thesis by simp
next
  case False
  then have "t' = t @ [x]" and "\<forall>y \<in> set t. \<not> clash x y \<and> pk y \<noteq> pk x"
    using assms(1) by (auto simp: tbl_save_def list_ex_iff split: if_splits)
  then have "t' = t @ [x]" "\<forall>y \<in> set t. f y \<noteq> f x"
    using assms(4) by blast+
  then show ?thesis using assms(2) by (auto simp: image_iff)
qed

lemma upsert_row_key:
  assumes "upsert_row key pk merge x t = Some t'" "\<And>y. key y = key x \<Longrightarrow> key (merge y x) = key x"
  shows "map key t' = (if list_ex (\<lambda>y. key y = key x) t then map key t else map key t @ [key x])"
  using assms by (auto simp: upsert_row_def split: if_splits)

lemma upsert_rows_distinct:
  assumes "upsert_rows key pk merge xs t = Some t'" "distinct (map key t)"
    and "\<And>x y. key y = key x \<Longrightarrow> key (merge y x) = key x"
  shows "distinct (map key t') \<and> set (map key t') = set (map key t) \<union> set (map key xs)"
  using assms(1,2)
proof (induction xs arbitrary: t)
  case (Cons x xs)
  then obtain u where u: "upsert_row key pk merge x t = Some u"
    and rest: "upsert_rows key pk merge xs u = Some t'"
    by (auto split: option.splits)
  note k = upsert_row_key [OF u assms(3)]
  have "distinct (map key u)" "set (map key u) = insert (key x) (set (map key t))"
    using k Cons.prems(2) by (auto simp: list_ex_iff image_iff split: if_splits) metis+
  then show ?case using Cons.IH [OF rest] by auto
qed simp

lemma tbl_insert_ignore_distinct:
  "distinct (map pk t) \<Longrightarrow> distinct (map pk (tbl_insert_ignore pk xs t))"
  by (induction pk xs t rule: tbl_insert_ignore.induct) (auto simp: list_ex_iff image_iff, metis)

lemma tbl_insert_ignore_prefix: "\<exists>u. tbl_insert_ignore pk xs t = t @ u \<and> set u \<subseteq> set xs"
  by (induction pk xs t rule: tbl_insert_ignore.induct) (auto, fastforce+)

lemma tbl_insert_ignore_keys:
  "set (map pk (tbl_insert_ignore pk xs t)) = set (map pk t) \<union> set (map pk xs)"
  by (induction pk xs t rule: tbl_insert_ignore.induct) (auto simp: list_ex_iff image_iff, metis+)

lemma tbl_insert_ignore_fresh:
  "distinct (map pk xs) \<Longrightarrow> set (map pk xs) \<inter> set (map pk t) = {} \<Longrightarrow>
     tbl_insert_ignore pk xs t = t @ xs"
  by (induction pk xs t rule: tbl_insert_ignore.induct) (auto simp: list_ex_iff image_iff)

end
