(* ===== verification/Store.thy ===== *)
theory Store
  imports VideoEntity UserEntity JobEntity FrameData Tables
begin

text \<open>
  The world a process of the application works in, and its database: the write repositories of
  \<open>internal/infrastructure/persistence/write\<close>, with transactions. The ORM and Postgres are not code of
  the repository; what is used of them is modelled as documented:

  \<^item> the tables are lists of rows with the unique constraints of \<open>migrations/\<close> (foreign keys are left
    out: a violated one is one more reason for a statement to fail);
  \<^item> any statement may fail: the \<open>n\<close>-th call of the database fails with \<open>w_db_fault w n\<close>, wrapped by the
    driver, so that such a failure is never mistaken for a violated constraint;
  \<^item> a transaction is undone when its body returns an error or its commit fails;
  \<^item> the ORM stamps the column \<open>updated_at\<close> itself when it saves a row that has one.

  A row of a table is the domain struct without its in-memory events; \<open>Rows\<close> has the \<open>...ModelFromDomain\<close>
  and \<open>...DomainFromModel\<close> functions, and shows that a row is read back as it was saved.
\<close>

section \<open>Tables and world\<close>

record outbox_row =
  ob_ID :: uuid
  ob_AggregateID :: string
  ob_EventType :: string
  ob_Payload :: json
  ob_CreatedAt :: time
  ob_PublishedAt :: "time option"

record processed_row =
  pe_EventID :: uuid
  pe_HandlerName :: string
  pe_ProcessedAt :: time

record db =
  t_videos :: "video list"
  t_jobs :: "job list"
  t_segments :: "segment list"
  t_frames :: "frame list"
  t_ocrs :: "ocr_result list"
  t_classifications :: "classification list"
  t_users :: "user list"
  t_outbox :: "outbox_row list"
  t_processed :: "processed_row list"

text \<open>The envelope an event travels in (\<open>internal/domain/port\<close>).\<close>

record EventEnvelope =
  en_EventID :: string
  en_Type :: string
  en_AggregateID :: string
  en_OccurredAt :: time
  en_Payload :: json

text \<open>What the application does to other systems, in order.\<close>

datatype effect =
    ObjectPut string string string   \<comment> \<open>key, content, content type\<close>
  | ObjectDeleted string
  | RealtimeSent string json         \<comment> \<open>channel, body\<close>
  | BrokerPublished EventEnvelope

record world =
  w_rt :: runtime
  w_db :: db
  w_db_calls :: nat
  w_db_fault :: "nat \<Rightarrow> go_error option"
  w_svc_calls :: nat
  w_effects :: "effect list"

text \<open>A world with empty tables in which no statement fails, for the examples.\<close>

definition empty_db :: db where
  "empty_db = \<lparr>t_videos = [], t_jobs = [], t_segments = [], t_frames = [], t_ocrs = [],
     t_classifications = [], t_users = [], t_outbox = [], t_processed = []\<rparr>"

definition sample_world :: world where
  "sample_world = \<lparr>w_rt = sample_runtime, w_db = empty_db, w_db_calls = 0, w_db_fault = (\<lambda>_. None),
     w_svc_calls = 0, w_effects = []\<rparr>"

definition rt_op :: "(runtime, 'a) state \<Rightarrow> (world, 'a) state" where
  "rt_op m = State (\<lambda>w. case run_state m (w_rt w) of (a, r) \<Rightarrow> (a, w\<lparr>w_rt := r\<rparr>))"

text \<open>A statement: it fails without effect, or acts on the tables.\<close>

definition db_op :: "(db \<Rightarrow> go_error + 'a \<times> db) \<Rightarrow> (world, go_error + 'a) state" where
  "db_op f = State (\<lambda>w.
     let w' = w\<lparr>w_db_calls := Suc (w_db_calls w)\<rparr>
     in case w_db_fault w (w_db_calls w) of
          Some e \<Rightarrow> (Inl (Errorf ''database'' e), w')
        | None \<Rightarrow> (case f (w_db w) of
              Inl e \<Rightarrow> (Inl e, w')
            | Inr (x, d) \<Rightarrow> (Inr x, w'\<lparr>w_db := d\<rparr>)))"

definition db_query :: "(db \<Rightarrow> 'a) \<Rightarrow> (world, go_error + 'a) state" where
  "db_query f = db_op (\<lambda>d. Inr (f d, d))"

definition err_of :: "go_error + 'a \<Rightarrow> go_error option" where
  "err_of r = (case r of Inl e \<Rightarrow> Some e | Inr _ \<Rightarrow> None)"

definition db_exec :: "(db \<Rightarrow> go_error + db) \<Rightarrow> (world, go_error option) state" where
  "db_exec f = do {
     r \<leftarrow> db_op (\<lambda>d. map_sum id (Pair ()) (f d));
     ret (err_of r) }"

abbreviation unique_violation :: go_error where
  "unique_violation \<equiv> External ''unique violation (23505)''"

definition or_violation :: "('a \<Rightarrow> db) \<Rightarrow> 'a option \<Rightarrow> go_error + db" where
  "or_violation f t = (case t of None \<Rightarrow> Inl unique_violation | Some x \<Rightarrow> Inr (f x))"

text \<open>
  \<open>Transaction\<close>: \<open>BEGIN\<close>, the body, then \<open>COMMIT\<close>, or \<open>ROLLBACK\<close> when the body returned an error. The
  body is given and returns the variables of the enclosing function that it writes (\<open>c\<close>), which keep
  what it wrote when the transaction is undone.
\<close>

definition WithTransaction ::
  "'c \<Rightarrow> ('c \<Rightarrow> (world, go_error option \<times> 'c) state) \<Rightarrow> (world, go_error option \<times> 'c) state" where
  "WithTransaction c body = do {
     w0 \<leftarrow> State_Monad.get;
     begun \<leftarrow> db_exec Inr;
     case begun of
       Some e \<Rightarrow> ret (Some e, c)
     | None \<Rightarrow> do {
         (err, c') \<leftarrow> body c;
         case err of
           Some e \<Rightarrow> do {
             w \<leftarrow> State_Monad.get;
             _ \<leftarrow> State_Monad.set (w\<lparr>w_db := w_db w0\<rparr>);
             ret (Some e, c') }
         | None \<Rightarrow> do {
             committed \<leftarrow> db_exec Inr;
             case committed of
               Some e \<Rightarrow> do {
                 w \<leftarrow> State_Monad.get;
                 _ \<leftarrow> State_Monad.set (w\<lparr>w_db := w_db w0\<rparr>);
                 ret (Some e, c') }
             | None \<Rightarrow> ret (None, c') } } }"

section \<open>Videos\<close>

definition videoModelFromDomain :: "video \<Rightarrow> video" where
  "videoModelFromDomain v = v\<lparr>v_events := []\<rparr>"

definition video_clash :: "video \<Rightarrow> video \<Rightarrow> bool" where
  "video_clash x y \<longleftrightarrow> v_ID y = v_ID x \<or> v_StorageKey y = v_StorageKey x"

definition videos_Save :: "video \<Rightarrow> (world, go_error option) state" where
  "videos_Save v = db_exec (\<lambda>d.
     or_violation (\<lambda>t. d\<lparr>t_videos := t\<rparr>) (tbl_insert video_clash (videoModelFromDomain v) (t_videos d)))"

definition videos_Update :: "video \<Rightarrow> (world, go_error option) state" where
  "videos_Update v = do {
     now \<leftarrow> rt_op time_Now;
     db_exec (\<lambda>d. or_violation (\<lambda>t. d\<lparr>t_videos := t\<rparr>)
       (tbl_save v_ID video_clash ((videoModelFromDomain v)\<lparr>v_UpdatedAt := now\<rparr>) (t_videos d))) }"

definition videos_GetByID :: "uuid \<Rightarrow> (world, go_error + video option) state" where
  "videos_GetByID i = db_query (\<lambda>d. tbl_find (\<lambda>v. v_ID v = i) (t_videos d))"

definition videos_GetByStorageKey :: "string \<Rightarrow> (world, go_error + video option) state" where
  "videos_GetByStorageKey key = db_query (\<lambda>d. tbl_find (\<lambda>v. v_StorageKey v = key) (t_videos d))"

definition videos_UpdateThumbnailKey :: "uuid \<Rightarrow> string \<Rightarrow> (world, go_error option) state" where
  "videos_UpdateThumbnailKey i key = do {
     now \<leftarrow> rt_op time_Now;
     db_exec (\<lambda>d. Inr (d\<lparr>t_videos := map (\<lambda>v. if v_ID v = i
       then v\<lparr>v_ThumbnailKey := key, v_UpdatedAt := now\<rparr> else v) (t_videos d)\<rparr>)) }"

definition videos_ListExpiredPending :: "time \<Rightarrow> (world, go_error + video list) state" where
  "videos_ListExpiredPending cutoff = db_query (\<lambda>d.
     filter (\<lambda>v. v_Status v = StatusPending \<and> v_CreatedAt v \<le> cutoff) (t_videos d))"

section \<open>Jobs and segments\<close>

definition job_clash :: "job \<Rightarrow> job \<Rightarrow> bool" where
  "job_clash x y \<longleftrightarrow> j_ID y = j_ID x \<or> (j_VideoID y = j_VideoID x \<and> j_Type y = j_Type x)"

definition jobs_Save :: "job \<Rightarrow> (world, go_error option) state" where
  "jobs_Save j = db_exec (\<lambda>d. or_violation (\<lambda>t. d\<lparr>t_jobs := t\<rparr>) (tbl_insert job_clash j (t_jobs d)))"

definition jobs_Update :: "job \<Rightarrow> (world, go_error option) state" where
  "jobs_Update j = db_exec (\<lambda>d. or_violation (\<lambda>t. d\<lparr>t_jobs := t\<rparr>) (tbl_save j_ID job_clash j (t_jobs d)))"

definition jobs_GetByID :: "uuid \<Rightarrow> (world, go_error + job option) state" where
  "jobs_GetByID i = db_query (\<lambda>d. tbl_find (\<lambda>j. j_ID j = i) (t_jobs d))"

definition jobs_GetByVideoIDAndType :: "uuid \<Rightarrow> string \<Rightarrow> (world, go_error + job option) state" where
  "jobs_GetByVideoIDAndType vid ty = db_query (\<lambda>d.
     tbl_find (\<lambda>j. j_VideoID j = vid \<and> j_Type j = ty) (t_jobs d))"

definition jobs_IncrementCompletedSegmentCount :: "uuid \<Rightarrow> (world, go_error + int \<times> int) state" where
  "jobs_IncrementCompletedSegmentCount jobID =
     if_err (db_exec (\<lambda>d. Inr (d\<lparr>t_jobs := map (\<lambda>j. if j_ID j = jobID
         then j\<lparr>j_CompletedSegmentCount := j_CompletedSegmentCount j + 1\<rparr> else j) (t_jobs d)\<rparr>)))
       (\<lambda>e. ret (Inl e))
       (on_err (jobs_GetByID jobID)
         (\<lambda>e. ret (Inl e))
         (\<lambda>j. case j of
            None \<Rightarrow> ret (Inl (ErrorText ''job not found after segment increment''))
          | Some j \<Rightarrow> ret (Inr (j_CompletedSegmentCount j, j_ExpectedSegmentCount j))))"

definition segment_key :: "segment \<Rightarrow> uuid \<times> int" where
  "segment_key s = (s_VideoID s, s_SegmentIndex s)"

definition merge_segment :: "segment \<Rightarrow> segment \<Rightarrow> segment" where
  "merge_segment old new = old\<lparr>s_JobID := s_JobID new, s_OffsetMs := s_OffsetMs new,
     s_DurationMs := s_DurationMs new, s_StorageKey := s_StorageKey new, s_Status := s_Status new,
     s_FailureReason := s_FailureReason new, s_CompletedAt := s_CompletedAt new\<rparr>"

definition segment_clash :: "segment \<Rightarrow> segment \<Rightarrow> bool" where
  "segment_clash x y \<longleftrightarrow> s_ID y = s_ID x \<or> segment_key y = segment_key x"

definition segments_SaveAll :: "segment list \<Rightarrow> (world, go_error option) state" where
  "segments_SaveAll ss =
     (if length ss = 0 then ret None
      else db_exec (\<lambda>d. or_violation (\<lambda>t. d\<lparr>t_segments := t\<rparr>)
             (tbl_upsert_all segment_key s_ID merge_segment ss (t_segments d))))"

definition segments_Update :: "segment \<Rightarrow> (world, go_error option) state" where
  "segments_Update s = db_exec (\<lambda>d. or_violation (\<lambda>t. d\<lparr>t_segments := t\<rparr>)
     (tbl_save s_ID segment_clash s (t_segments d)))"

definition segments_GetByID :: "uuid \<Rightarrow> (world, go_error + segment option) state" where
  "segments_GetByID i = db_query (\<lambda>d. tbl_find (\<lambda>s. s_ID s = i) (t_segments d))"

definition segments_ListByVideoID :: "uuid \<Rightarrow> (world, go_error + segment list) state" where
  "segments_ListByVideoID vid = db_query (\<lambda>d.
     sort_key s_SegmentIndex (filter (\<lambda>s. s_VideoID s = vid) (t_segments d)))"

definition segments_GetByVideoIDAndIndex :: "uuid \<Rightarrow> int \<Rightarrow> (world, go_error + segment option) state" where
  "segments_GetByVideoIDAndIndex vid i = db_query (\<lambda>d.
     tbl_find (\<lambda>s. s_VideoID s = vid \<and> s_SegmentIndex s = i) (t_segments d))"

section \<open>Frames, OCR results and classifications\<close>

definition frame_key :: "frame \<Rightarrow> uuid \<times> int \<times> int" where
  "frame_key f = (f_VideoID f, f_SegmentIndex f, f_Index f)"

definition merge_frame :: "frame \<Rightarrow> frame \<Rightarrow> frame" where
  "merge_frame old new = old\<lparr>f_TimestampMs := f_TimestampMs new, f_StorageKey := f_StorageKey new,
     f_SelectionReason := f_SelectionReason new, f_PHashDistance := f_PHashDistance new\<rparr>"

text \<open>The ids the statement returns are written back into the frames it was given.\<close>

definition stored_id :: "frame list \<Rightarrow> frame \<Rightarrow> frame" where
  "stored_id t f = (case tbl_find (\<lambda>y. frame_key y = frame_key f) t of
     None \<Rightarrow> f | Some y \<Rightarrow> f\<lparr>f_ID := f_ID y\<rparr>)"

definition frames_UpsertAll :: "frame list \<Rightarrow> (world, go_error + frame list) state" where
  "frames_UpsertAll fs =
     (if length fs = 0 then ret (Inr fs)
      else db_op (\<lambda>d. case tbl_upsert_all frame_key f_ID merge_frame fs (t_frames d) of
             None \<Rightarrow> Inl unique_violation
           | Some t \<Rightarrow> Inr (map (stored_id t) fs, d\<lparr>t_frames := t\<rparr>)))"

definition frames_ListByVideoID :: "uuid \<Rightarrow> (world, go_error + frame list) state" where
  "frames_ListByVideoID vid = db_query (\<lambda>d.
     sort_key f_SegmentIndex (sort_key f_Index (filter (\<lambda>f. f_VideoID f = vid) (t_frames d))))"

definition frames_CountByVideoID :: "uuid \<Rightarrow> (world, go_error + int) state" where
  "frames_CountByVideoID vid = db_query (\<lambda>d.
     int (length (filter (\<lambda>f. f_VideoID f = vid) (t_frames d))))"

definition merge_ocr :: "ocr_result \<Rightarrow> ocr_result \<Rightarrow> ocr_result" where
  "merge_ocr old new = old\<lparr>o_Text := o_Text new, o_Confidence := o_Confidence new,
     o_Status := o_Status new, o_ErrorReason := o_ErrorReason new, o_Lines := o_Lines new\<rparr>"

definition ocrs_UpsertAll :: "ocr_result list \<Rightarrow> (world, go_error option) state" where
  "ocrs_UpsertAll rs =
     (if length rs = 0 then ret None
      else db_exec (\<lambda>d. or_violation (\<lambda>t. d\<lparr>t_ocrs := t\<rparr>)
             (tbl_upsert_all o_FrameID o_ID merge_ocr rs (t_ocrs d))))"

definition ocrs_ListByFrameIDs :: "uuid list \<Rightarrow> (world, go_error + ocr_result list) state" where
  "ocrs_ListByFrameIDs ids =
     (if length ids = 0 then ret (Inr [])
      else db_query (\<lambda>d. filter (\<lambda>r. o_FrameID r \<in> set ids) (t_ocrs d)))"

definition merge_classification :: "classification \<Rightarrow> classification \<Rightarrow> classification" where
  "merge_classification old new = old\<lparr>c_Confidential := c_Confidential new,
     c_Probability := c_Probability new, c_Categories := c_Categories new, c_Status := c_Status new,
     c_ErrorReason := c_ErrorReason new\<rparr>"

definition classifications_UpsertAll :: "classification list \<Rightarrow> (world, go_error option) state" where
  "classifications_UpsertAll cs =
     (if length cs = 0 then ret None
      else db_exec (\<lambda>d. or_violation (\<lambda>t. d\<lparr>t_classifications := t\<rparr>)
             (tbl_upsert_all c_FrameID c_ID merge_classification cs (t_classifications d))))"

definition classifications_ListByFrameIDs ::
  "uuid list \<Rightarrow> (world, go_error + classification list) state" where
  "classifications_ListByFrameIDs ids =
     (if length ids = 0 then ret (Inr [])
      else db_query (\<lambda>d. filter (\<lambda>c. c_FrameID c \<in> set ids) (t_classifications d)))"

section \<open>Users\<close>

definition userModelFromDomain :: "user \<Rightarrow> user" where
  "userModelFromDomain u = u\<lparr>u_ActiveProjectID := None, u_events := []\<rparr>"

definition user_clash :: "user \<Rightarrow> user \<Rightarrow> bool" where
  "user_clash x y \<longleftrightarrow> u_ID y = u_ID x \<or> u_ClerkID y = u_ClerkID x \<or> u_Email y = u_Email x"

definition users_Save :: "user \<Rightarrow> (world, go_error option) state" where
  "users_Save u = db_exec (\<lambda>d. or_violation (\<lambda>t. d\<lparr>t_users := t\<rparr>)
     (tbl_insert user_clash (userModelFromDomain u) (t_users d)))"

definition users_Update :: "user \<Rightarrow> (world, go_error option) state" where
  "users_Update u = do {
     now \<leftarrow> rt_op time_Now;
     db_exec (\<lambda>d. or_violation (\<lambda>t. d\<lparr>t_users := t\<rparr>)
       (tbl_save u_ID user_clash ((userModelFromDomain u)\<lparr>u_UpdatedAt := now\<rparr>) (t_users d))) }"

text \<open>Deleting a user leaves the videos of that user without an owner (\<open>ON DELETE SET NULL\<close>).\<close>

definition delete_users :: "(user \<Rightarrow> bool) \<Rightarrow> db \<Rightarrow> db" where
  "delete_users P d =
     (let gone = map u_ID (filter P (t_users d))
      in d\<lparr>t_users := filter (\<lambda>u. \<not> P u) (t_users d),
           t_videos := map (\<lambda>v. if v_UserID v \<in> Some ` set gone then v\<lparr>v_UserID := None\<rparr> else v)
             (t_videos d)\<rparr>)"

definition users_Delete :: "uuid \<Rightarrow> (world, go_error option) state" where
  "users_Delete i = db_exec (\<lambda>d. Inr (delete_users (\<lambda>u. u_ID u = i) d))"

definition users_DeleteByClerkID :: "string \<Rightarrow> (world, go_error option) state" where
  "users_DeleteByClerkID cid = db_exec (\<lambda>d. Inr (delete_users (\<lambda>u. u_ClerkID u = cid) d))"

definition users_GetByClerkID :: "string \<Rightarrow> (world, go_error + user option) state" where
  "users_GetByClerkID cid = db_query (\<lambda>d. tbl_find (\<lambda>u. u_ClerkID u = cid) (t_users d))"

definition users_GetByID :: "uuid \<Rightarrow> (world, go_error + user option) state" where
  "users_GetByID i = db_query (\<lambda>d. tbl_find (\<lambda>u. u_ID u = i) (t_users d))"

section \<open>Weakest preconditions of the database\<close>

lemma wp_rt_op [wp_simps]:
  "wp (rt_op m) Q = (\<lambda>w. wp m (\<lambda>a r. Q a (w\<lparr>w_rt := r\<rparr>)) (w_rt w))"
  by (simp add: wp_def rt_op_def fun_eq_iff split: prod.splits)

lemma wp_db_op:
  "wp (db_op f) Q = (\<lambda>w. case w_db_fault w (w_db_calls w) of
      Some e \<Rightarrow> Q (Inl (Errorf ''database'' e)) (w\<lparr>w_db_calls := Suc (w_db_calls w)\<rparr>)
    | None \<Rightarrow> (case f (w_db w) of
        Inl e \<Rightarrow> Q (Inl e) (w\<lparr>w_db_calls := Suc (w_db_calls w)\<rparr>)
      | Inr (x, d) \<Rightarrow> Q (Inr x) (w\<lparr>w_db_calls := Suc (w_db_calls w), w_db := d\<rparr>)))"
  by (simp add: wp_def db_op_def Let_def fun_eq_iff split: option.splits sum.splits prod.splits)

lemma db_op_cases:
  assumes "\<And>e. (\<exists>f. e = Errorf ''database'' f) \<or> f (w_db w) = Inl e \<Longrightarrow>
      Q (Inl e) (w\<lparr>w_db_calls := Suc (w_db_calls w)\<rparr>)"
    and "\<And>x d. f (w_db w) = Inr (x, d) \<Longrightarrow> Q (Inr x) (w\<lparr>w_db_calls := Suc (w_db_calls w), w_db := d\<rparr>)"
  shows "wp (db_op f) Q w"
  using assms by (simp add: wp_db_op split: option.splits sum.splits prod.splits)

lemma wp_db_exec:
  "wp (db_exec f) Q = wp (db_op (\<lambda>d. map_sum id (Pair ()) (f d))) (\<lambda>r. Q (err_of r))"
  by (simp add: db_exec_def wp_simps)

lemma err_of_simps [simp]: "err_of (Inl e) = Some e" "err_of (Inr x) = None"
  by (simp_all add: err_of_def)

lemma db_exec_cases:
  assumes "\<And>e. (\<exists>f. e = Errorf ''database'' f) \<or> f (w_db w) = Inl e \<Longrightarrow>
      Q (Some e) (w\<lparr>w_db_calls := Suc (w_db_calls w)\<rparr>)"
    and "\<And>d. f (w_db w) = Inr d \<Longrightarrow> Q None (w\<lparr>w_db_calls := Suc (w_db_calls w), w_db := d\<rparr>)"
  shows "wp (db_exec f) Q w"
  unfolding wp_db_exec
proof (rule db_op_cases)
  fix x d
  assume "map_sum id (Pair ()) (f (w_db w)) = Inr (x, d)"
  then have "f (w_db w) = Inr d" by (cases "f (w_db w)") auto
  then show "Q (err_of (Inr x)) (w\<lparr>w_db_calls := Suc (w_db_calls w), w_db := d\<rparr>)"
    using assms(2) by simp
next
  fix e
  assume "(\<exists>f. e = Errorf ''database'' f) \<or> map_sum id (Pair ()) (f (w_db w)) = Inl e"
  then have "(\<exists>f. e = Errorf ''database'' f) \<or> f (w_db w) = Inl e" by (cases "f (w_db w)") auto
  then show "Q (err_of (Inl e)) (w\<lparr>w_db_calls := Suc (w_db_calls w)\<rparr>)"
    using assms(1) by simp
qed

lemma db_query_cases:
  assumes "\<And>e. Q (Inl e) (w\<lparr>w_db_calls := Suc (w_db_calls w)\<rparr>)"
    and "Q (Inr (f (w_db w))) (w\<lparr>w_db_calls := Suc (w_db_calls w)\<rparr>)"
  shows "wp (db_query f) Q w"
  unfolding db_query_def by (rule db_op_cases) (use assms in auto)

lemma wp_WithTransaction:
  "wp (WithTransaction c body) Q w =
     wp (db_exec Inr) (\<lambda>begun wb. case begun of
         Some e \<Rightarrow> Q (Some e, c) wb
       | None \<Rightarrow> wp (body c) (\<lambda>(err, c') w1. case err of
             Some e \<Rightarrow> Q (Some e, c') (w1\<lparr>w_db := w_db w\<rparr>)
           | None \<Rightarrow> wp (db_exec Inr) (\<lambda>committed w2. case committed of
                 Some e \<Rightarrow> Q (Some e, c') (w2\<lparr>w_db := w_db w\<rparr>)
               | None \<Rightarrow> Q (None, c') w2) w1) wb) w"
  unfolding WithTransaction_def wp_simps
  by (intro arg_cong [where f = "\<lambda>P. wp (db_exec Inr) P w"] ext)
    (auto split: option.splits intro!: arg_cong2 [where f = "wp (body c)"] simp: fun_eq_iff,
      (erule wp_mono, auto split: option.splits)+)

lemma WithTransaction_cases:
  assumes begun: "\<And>e. Q (Some e, c) (w\<lparr>w_db_calls := Suc (w_db_calls w)\<rparr>)"
    and body: "wp (body c) (\<lambda>(err, c') w1. case err of
        Some e \<Rightarrow> Q (Some e, c') (w1\<lparr>w_db := w_db w\<rparr>)
      | None \<Rightarrow> (\<forall>n. Q (None, c') (w1\<lparr>w_db_calls := n\<rparr>)) \<and>
          (\<forall>e n. Q (Some e, c') (w1\<lparr>w_db_calls := n, w_db := w_db w\<rparr>)))
      (w\<lparr>w_db_calls := Suc (w_db_calls w)\<rparr>)"
  shows "wp (WithTransaction c body) Q w"
  unfolding wp_WithTransaction
proof (rule db_exec_cases)
  fix d
  assume "Inr (w_db w) = (Inr d :: go_error + db)"
  then have w: "w\<lparr>w_db_calls := Suc (w_db_calls w), w_db := d\<rparr> = w\<lparr>w_db_calls := Suc (w_db_calls w)\<rparr>"
    by simp
  show "case None of Some e \<Rightarrow> Q (Some e, c) (w\<lparr>w_db_calls := Suc (w_db_calls w), w_db := d\<rparr>)
    | None \<Rightarrow> wp (body c) (\<lambda>(err, c') w1. case err of
          Some e \<Rightarrow> Q (Some e, c') (w1\<lparr>w_db := w_db w\<rparr>)
        | None \<Rightarrow> wp (db_exec Inr) (\<lambda>committed w2. case committed of
              Some e \<Rightarrow> Q (Some e, c') (w2\<lparr>w_db := w_db w\<rparr>)
            | None \<Rightarrow> Q (None, c') w2) w1)
        (w\<lparr>w_db_calls := Suc (w_db_calls w), w_db := d\<rparr>)"
    unfolding w option.case
    by (rule wp_mono [OF body]) (auto split: option.splits intro: db_exec_cases)
qed (use begun in simp)

lemma db_fault_free:
  "(\<forall>n. w_db_fault w n = None) \<Longrightarrow>
     wp (db_op f) Q w = (case f (w_db w) of
        Inl e \<Rightarrow> Q (Inl e) (w\<lparr>w_db_calls := Suc (w_db_calls w)\<rparr>)
      | Inr (x, d) \<Rightarrow> Q (Inr x) (w\<lparr>w_db_calls := Suc (w_db_calls w), w_db := d\<rparr>))"
  by (simp add: wp_db_op)

end
