(* ===== verification/Services.thy ===== *)
theory Services
  imports Store
begin

text \<open>
  The systems the application calls through the ports of \<open>internal/domain/port\<close> and whose code is not in
  the repository (the object store, the broker, the HTTP servers it downloads from, ffmpeg, the host's
  file system, the realtime server): a record of functions, a parameter of every definition that
  uses them. The first argument of each is the number of calls made before, so that two calls with
  the same arguments may answer differently.
\<close>

type_synonym bytes = string

record remote_object =
  ro_Body :: bytes
  ro_ReadErr :: "go_error option"    \<comment> \<open>what reading past the body gives, if not EOF\<close>
  ro_Size :: int
  ro_ContentType :: string

record SegmentFile =
  sf_Index :: int
  sf_Path :: string
  sf_OffsetMs :: int
  sf_DurationMs :: int

record FrameSelectionParams =
  fp_AnalysisFPS :: real
  fp_PHashDistanceThreshold :: int
  fp_MaxIntervalSeconds :: int
  fp_MaxWidthPx :: int

record ExtractedFrame =
  ef_Index :: int
  ef_TimestampMs :: int
  ef_Data :: bytes
  ef_SelectionReason :: string
  ef_PHashDistance :: int

record ClassifyFrame =
  cf_FrameID :: string
  cf_Text :: string

record ClassifyItemResult =
  ci_FrameID :: string
  ci_Confidential :: bool
  ci_Probability :: real
  ci_Categories :: "category list"
  ci_Status :: string

record services =
  sv_uuid :: uuid_lib
  sv_mime :: "string \<Rightarrow> string"
  sv_presign_put :: "nat \<Rightarrow> string \<Rightarrow> duration \<Rightarrow> go_error + string"
  sv_presign_get :: "nat \<Rightarrow> string \<Rightarrow> duration \<Rightarrow> go_error + string"
  sv_get :: "nat \<Rightarrow> string \<Rightarrow> go_error + bytes"
  sv_put :: "nat \<Rightarrow> string \<Rightarrow> bytes \<Rightarrow> go_error option"
  sv_delete :: "nat \<Rightarrow> string \<Rightarrow> go_error option"
  sv_fetch :: "nat \<Rightarrow> string \<Rightarrow> go_error + remote_object"
  sv_file :: "nat \<Rightarrow> go_error option"    \<comment> \<open>a step of \<open>os\<close> or \<open>io\<close> on a temporary file\<close>
  sv_ctx :: "nat \<Rightarrow> go_error option"     \<comment> \<open>\<open>ctx.Err()\<close> when the context is done first\<close>
  sv_probe :: "nat \<Rightarrow> bytes \<Rightarrow> go_error + int"
  sv_split :: "nat \<Rightarrow> bytes \<Rightarrow> real \<Rightarrow> go_error + SegmentFile list"
  sv_read_file :: "nat \<Rightarrow> string \<Rightarrow> go_error + bytes"
  sv_extract :: "nat \<Rightarrow> bytes \<Rightarrow> FrameSelectionParams \<Rightarrow> ExtractedFrame list \<times> go_error option"
  sv_thumbnail :: "nat \<Rightarrow> bytes \<Rightarrow> go_error + bytes"
  sv_classify :: "nat \<Rightarrow> ClassifyFrame list \<Rightarrow> real \<Rightarrow> go_error + ClassifyItemResult list"
  sv_realtime :: "nat \<Rightarrow> string \<Rightarrow> json \<Rightarrow> go_error option"
  sv_publish :: "nat \<Rightarrow> EventEnvelope \<Rightarrow> go_error option"

definition svc :: "(nat \<Rightarrow> 'a) \<Rightarrow> (world, 'a) state" where
  "svc f = State (\<lambda>w. (f (w_svc_calls w), w\<lparr>w_svc_calls := Suc (w_svc_calls w)\<rparr>))"

definition note_effect :: "effect \<Rightarrow> (world, unit) state" where
  "note_effect e = State (\<lambda>w. ((), w\<lparr>w_effects := w_effects w @ [e]\<rparr>))"

definition storage_Put :: "services \<Rightarrow> string \<Rightarrow> bytes \<Rightarrow> string \<Rightarrow> (world, go_error option) state" where
  "storage_Put S key content contentType = do {
     r \<leftarrow> svc (\<lambda>n. sv_put S n key content);
     case r of
       Some e \<Rightarrow> ret (Some e)
     | None \<Rightarrow> do { _ \<leftarrow> note_effect (ObjectPut key content contentType); ret None } }"

definition storage_Delete :: "services \<Rightarrow> string \<Rightarrow> (world, go_error option) state" where
  "storage_Delete S key = do {
     r \<leftarrow> svc (\<lambda>n. sv_delete S n key);
     case r of
       Some e \<Rightarrow> ret (Some e)
     | None \<Rightarrow> do { _ \<leftarrow> note_effect (ObjectDeleted key); ret None } }"

definition broker_Publish :: "services \<Rightarrow> EventEnvelope \<Rightarrow> (world, go_error option) state" where
  "broker_Publish S env = do {
     r \<leftarrow> svc (\<lambda>n. sv_publish S n env);
     case r of
       Some e \<Rightarrow> ret (Some (Errorf ''publish'' e))
     | None \<Rightarrow> do { _ \<leftarrow> note_effect (BrokerPublished env); ret None } }"

lemma wp_svc [wp_simps]:
  "wp (svc f) Q = (\<lambda>w. Q (f (w_svc_calls w)) (w\<lparr>w_svc_calls := Suc (w_svc_calls w)\<rparr>))"
  by (simp add: svc_def wp_State)

lemma wp_note_effect [wp_simps]:
  "wp (note_effect e) Q = (\<lambda>w. Q () (w\<lparr>w_effects := w_effects w @ [e]\<rparr>))"
  by (simp add: note_effect_def wp_State)

text \<open>Services that accept everything, for the examples.\<close>

definition sample_services :: services where
  "sample_services = \<lparr>sv_uuid = decimal_lib, sv_mime = (\<lambda>_. ''''),
     sv_presign_put = (\<lambda>_ key _. Inr key), sv_presign_get = (\<lambda>_ key _. Inr key),
     sv_get = (\<lambda>_ _. Inr ''data''), sv_put = (\<lambda>_ _ _. None),
     sv_delete = (\<lambda>_ _. None),
     sv_fetch = (\<lambda>_ _. Inr \<lparr>ro_Body = ''data'', ro_ReadErr = None, ro_Size = 4, ro_ContentType = ''video/mp4''\<rparr>),
     sv_file = (\<lambda>_. None), sv_ctx = (\<lambda>_. None), sv_probe = (\<lambda>_ _. Inr 60000), sv_split = (\<lambda>_ _ _. Inr []),
     sv_read_file = (\<lambda>_ _. Inr ''data''), sv_extract = (\<lambda>_ _ _. ([], None)),
     sv_thumbnail = (\<lambda>_ _. Inr ''jpg''), sv_classify = (\<lambda>_ _ _. Inr []),
     sv_realtime = (\<lambda>_ _ _. None), sv_publish = (\<lambda>_ _. None)\<rparr>"

lemma sample_services_uuid [simp]: "sv_uuid sample_services = decimal_lib"
  by (simp add: sample_services_def)

end
