(* ===== verification/Outbox.thy ===== *)
theory Outbox
  imports Services
begin

text \<open>
  The transactional outbox: \<open>internal/infrastructure/persistence/outbox\<close> (repository and relay) and the
  broker's \<open>internal/infrastructure/messaging/rabbitmq/publisher.go\<close>. The relay is written over the
  interfaces it is given, and its guarantees are proved from the contract \<open>outbox_contract\<close> of these
  interfaces, which the repository on the modelled tables keeps.
\<close>

section \<open>The repository\<close>

text \<open>The interface \<open>DomainEvent\<close>, with what \<open>json.Marshal\<close> makes of the event.\<close>

record domain_event =
  de_EventID :: string
  de_EventType :: string
  de_AggregateID :: string
  de_OccurredAt :: time
  de_Payload :: json

definition of_video_event :: "video_event \<Rightarrow> domain_event" where
  "of_video_event e = \<lparr>de_EventID = video_EventID e, de_EventType = video_EventType e,
     de_AggregateID = video_AggregateID e, de_OccurredAt = video_OccurredAt e,
     de_Payload = video_Marshal e\<rparr>"

definition of_user_event :: "user_event \<Rightarrow> domain_event" where
  "of_user_event e = \<lparr>de_EventID = user_EventID e, de_EventType = user_EventType e,
     de_AggregateID = user_AggregateID e, de_OccurredAt = ue_Timestamp e,
     de_Payload = user_Marshal e\<rparr>"

fun rows_of :: "uuid_lib \<Rightarrow> domain_event list \<Rightarrow> go_error + outbox_row list" where
  "rows_of U [] = Inr []"
| "rows_of U (e # es) =
     (case uuid_Parse U (de_EventID e) of
        None \<Rightarrow> Inl (External ''invalid UUID'')
      | Some i \<Rightarrow>
          map_sum id ((#) \<lparr>ob_ID = i, ob_AggregateID = de_AggregateID e, ob_EventType = de_EventType e,
            ob_Payload = de_Payload e, ob_CreatedAt = de_OccurredAt e, ob_PublishedAt = None\<rparr>)
            (rows_of U es))"

definition StoreEvents :: "services \<Rightarrow> domain_event list \<Rightarrow> (world, go_error option) state" where
  "StoreEvents S es =
     (if length es = 0 then ret None
      else case rows_of (sv_uuid S) es of
             Inl e \<Rightarrow> ret (Some e)
           | Inr rows \<Rightarrow> db_exec (\<lambda>d. Inr (d\<lparr>t_outbox := tbl_insert_ignore ob_ID rows (t_outbox d)\<rparr>)))"

text \<open>
  \<open>ORDER BY created_at\<close> leaves the order of equal instants open; here it is that of insertion.
\<close>

definition unpublished :: "db \<Rightarrow> outbox_row list" where
  "unpublished d = sort_key ob_CreatedAt (filter (\<lambda>r. ob_PublishedAt r = None) (t_outbox d))"

definition FetchUnpublished :: "nat \<Rightarrow> (world, go_error + outbox_row list) state" where
  "FetchUnpublished limit = db_query (\<lambda>d. take limit (unpublished d))"

definition MarkPublished :: "uuid list \<Rightarrow> (world, go_error option) state" where
  "MarkPublished ids =
     (if length ids = 0 then ret None
      else do {
        now \<leftarrow> rt_op time_Now;
        db_exec (\<lambda>d. Inr (d\<lparr>t_outbox := map (\<lambda>r. if ob_ID r \<in> set ids
          then r\<lparr>ob_PublishedAt := Some now\<rparr> else r) (t_outbox d)\<rparr>)) })"

section \<open>The relay\<close>

definition envelope_of :: "uuid_lib \<Rightarrow> outbox_row \<Rightarrow> EventEnvelope" where
  "envelope_of U msg = \<lparr>en_EventID = uuid_String U (ob_ID msg), en_Type = ob_EventType msg,
     en_AggregateID = ob_AggregateID msg, en_OccurredAt = ob_CreatedAt msg, en_Payload = ob_Payload msg\<rparr>"

text \<open>The loop over the batch: publish until the first failure, collect the ids.\<close>

fun publish_loop ::
  "(outbox_row \<Rightarrow> ('w, go_error option) state) \<Rightarrow> outbox_row list \<Rightarrow> uuid list \<Rightarrow> ('w, uuid list) state" where
  "publish_loop publish [] ids = ret ids"
| "publish_loop publish (msg # msgs) ids =
     if_err (publish msg) (\<lambda>_. ret ids) (publish_loop publish msgs (ids @ [ob_ID msg]))"

definition publishBatch ::
  "(nat \<Rightarrow> ('w, go_error + outbox_row list) state) \<Rightarrow> (uuid list \<Rightarrow> ('w, go_error option) state)
     \<Rightarrow> (outbox_row \<Rightarrow> ('w, go_error option) state) \<Rightarrow> nat \<Rightarrow> ('w, go_error option) state" where
  "publishBatch fetch mark publish batchSize =
     on_err (fetch batchSize)
       (\<lambda>e. ret (Some e))
       (\<lambda>messages. if length messages = 0 then ret None
          else do {
            publishedIDs \<leftarrow> publish_loop publish messages [];
            if length publishedIDs = 0 then ret None else mark publishedIDs })"

text \<open>\<open>NewRelay\<close>'s default for the size of a batch, and a number of ticks of \<open>Start\<close>.\<close>

definition relay_batch_size :: "int \<Rightarrow> nat" where
  "relay_batch_size n = (if n \<le> 0 then 50 else nat n)"

fun relay_ticks :: "('w, go_error option) state \<Rightarrow> nat \<Rightarrow> ('w, unit) state" where
  "relay_ticks tick 0 = ret ()"
| "relay_ticks tick (Suc n) = do { _ \<leftarrow> tick; relay_ticks tick n }"

section \<open>The contract of the outbox and the broker\<close>

locale outbox_contract =
  fixes inv :: "'w \<Rightarrow> bool"
    and pending :: "'w \<Rightarrow> outbox_row list"    \<comment> \<open>unpublished messages, in the order of fetching\<close>
    and sent :: "'w \<Rightarrow> 'e list"               \<comment> \<open>what the broker accepted\<close>
    and env :: "outbox_row \<Rightarrow> 'e"
    and fetch :: "nat \<Rightarrow> ('w, go_error + outbox_row list) state"
    and mark :: "uuid list \<Rightarrow> ('w, go_error option) state"
    and publish :: "outbox_row \<Rightarrow> ('w, go_error option) state"
  assumes distinct_pending: "inv w \<Longrightarrow> distinct (map ob_ID (pending w))"
    and fetch_law: "inv w \<Longrightarrow> wp (fetch n) (\<lambda>r w'. inv w' \<and> pending w' = pending w \<and> sent w' = sent w \<and>
        (\<forall>ms. r = Inr ms \<longrightarrow> ms = take n (pending w))) w"
    and publish_law: "inv w \<Longrightarrow> wp (publish m) (\<lambda>r w'. inv w' \<and> pending w' = pending w \<and>
        sent w' = (if r = None then sent w @ [env m] else sent w)) w"
    and mark_law: "inv w \<Longrightarrow> wp (mark ids) (\<lambda>r w'. inv w' \<and> sent w' = sent w \<and>
        pending w' = (if r = None then filter (\<lambda>m. ob_ID m \<notin> set ids) (pending w) else pending w)) w"
begin

lemma publish_loop_law:
  "inv w \<Longrightarrow> wp (publish_loop publish ms ids) (\<lambda>r w'. inv w' \<and> pending w' = pending w \<and>
     (\<exists>k \<le> length ms. r = ids @ map ob_ID (take k ms) \<and> sent w' = sent w @ map env (take k ms))) w"
proof (induction ms arbitrary: w ids)
  case (Cons m ms)
  show ?case
    unfolding publish_loop.simps wp_if_err
  proof (rule wp_mono [OF publish_law [OF Cons.prems, of m]], goal_cases)
    case (1 r w')
    show ?case
    proof (cases r)
      case None
      then show ?thesis
        using 1 by (auto intro!: wp_mono [OF Cons.IH] exI [of _ "Suc _"])
    next
      case (Some e)
      then show ?thesis using 1 by (auto simp: wp_simps intro: exI [of _ 0])
    qed
  qed
qed (simp add: wp_simps)

text \<open>
  One tick: the broker got a prefix of the pending messages, in order; what left the outbox is that
  prefix, or nothing left it.
\<close>

definition tick_post :: "nat \<Rightarrow> 'w \<Rightarrow> go_error option \<Rightarrow> 'w \<Rightarrow> bool" where
  "tick_post n w r w' \<longleftrightarrow> inv w' \<and>
     (\<exists>k \<le> n. sent w' = sent w @ map env (take k (pending w)) \<and>
       (pending w' = pending w \<or> pending w' = drop k (pending w)) \<and>
       (r = None \<longrightarrow> pending w' = drop k (pending w)))"

lemma filter_published:
  assumes "distinct (map ob_ID p)"
  shows "filter (\<lambda>m. ob_ID m \<notin> set (map ob_ID (take k p))) p = drop k p"
  using assms
proof (induction p arbitrary: k)
  case (Cons m p)
  show ?case
  proof (cases k)
    case (Suc j)
    have "filter (\<lambda>x. ob_ID x \<notin> insert (ob_ID m) (set (map ob_ID (take j p)))) p =
          filter (\<lambda>x. ob_ID x \<notin> set (map ob_ID (take j p))) p"
      using Cons.prems by (intro filter_cong) (auto simp: image_iff)
    then show ?thesis using Suc Cons by simp
  qed simp
qed simp

lemma publishBatch_law:
  assumes "inv w"
  shows "wp (publishBatch fetch mark publish n) (tick_post n w) w"
  unfolding publishBatch_def wp_on_err
proof (rule wp_mono [OF fetch_law [OF assms]], goal_cases)
  case (1 r w1)
  show ?case
  proof (cases r)
    case (Inl e)
    then show ?thesis using 1 by (auto simp: wp_simps tick_post_def intro!: exI [of _ 0])
  next
    case (Inr ms)
    have ms: "ms = take n (pending w)" and inv1: "inv w1" using 1 Inr by simp_all
    have "wp (publish_loop publish ms [])
      (\<lambda>ids. wp (if length ids = 0 then ret None else mark ids) (tick_post n w)) w1"
    proof (rule wp_mono [OF publish_loop_law [OF inv1]], goal_cases)
      case (1 ids w2)
      then obtain j where j: "j \<le> length ms" "ids = map ob_ID (take j ms)" "sent w2 = sent w1 @ map env (take j ms)"
        and w2: "inv w2" "pending w2 = pending w1"
        by auto
      define k where "k = min j n"
      have k: "k \<le> n" "ids = map ob_ID (take k (pending w))"
        "sent w2 = sent w @ map env (take k (pending w))" "pending w2 = pending w"
        using j w2 ms \<open>inv w1 \<and> _\<close> by (simp_all add: k_def min.commute)
      show ?case
      proof (cases "ids = []")
        case True
        then have "take k (pending w) = []" using k(2) by simp
        then have "drop k (pending w) = pending w" by (metis append_take_drop_id self_append_conv2)
        then show ?thesis
          using True k w2(1) by (auto simp: wp_simps tick_post_def intro!: exI [of _ k])
      next
        case False
        note f = filter_published [OF distinct_pending [OF assms], of k]
        have "wp (mark ids) (tick_post n w) w2"
          by (rule wp_mono [OF mark_law [OF w2(1)]])
            (use k(1,3,4) f in \<open>auto simp: k(2) tick_post_def intro!: exI [of _ k]\<close>)
        then show ?thesis using False by simp
      qed
    qed
    then show ?thesis
      using 1 Inr by (auto simp: wp_simps tick_post_def intro!: exI [of _ 0] split: if_splits)
  qed
qed

text \<open>
  Any number of ticks: what is no longer pending was sent, in order and without a gap; messages that
  were sent and are still pending will be sent again, so delivery is at least once.
\<close>

lemma ticks_law:
  "inv w \<Longrightarrow> wp (relay_ticks (publishBatch fetch mark publish n) t) (\<lambda>_ w'. inv w' \<and>
     (\<exists>k. pending w' = drop k (pending w)) \<and> (\<exists>more. sent w' = sent w @ more) \<and>
     (\<forall>m \<in> set (pending w) - set (pending w'). env m \<in> set (sent w'))) w"
proof (induction t arbitrary: w)
  case (Suc t)
  show ?case
    unfolding relay_ticks.simps wp_bind
  proof (rule wp_mono [OF publishBatch_law [OF Suc.prems]], goal_cases)
    case (1 r w1)
    then obtain k where k: "sent w1 = sent w @ map env (take k (pending w))"
      "pending w1 = pending w \<or> pending w1 = drop k (pending w)" and inv1: "inv w1"
      by (auto simp: tick_post_def)
    have gone: "m \<in> set (take k (pending w))" if "m \<in> set (pending w)" "m \<notin> set (pending w1)" for m
      using that k(2) by (metis Un_iff append_take_drop_id set_append)
    show ?case
    proof (rule wp_mono [OF Suc.IH [OF inv1]], goal_cases)
      case (1 u w2)
      then obtain more where more: "sent w2 = sent w1 @ more" by blast
      have "\<exists>k. pending w2 = drop k (pending w)"
        using 1 k(2) by (metis drop_drop)
      moreover have "env m \<in> set (sent w2)" if "m \<in> set (pending w) - set (pending w2)" for m
        using that 1 gone [of m] k(1) more by (cases "m \<in> set (pending w1)") auto
      ultimately show ?case using 1 more k(1) by auto
    qed
  qed
qed (auto simp: wp_simps intro: exI [of _ 0])

end

section \<open>The contract when nothing fails\<close>

locale outbox_live = outbox_contract +
  fixes ok :: "'a \<Rightarrow> bool"
  assumes fetch_ok: "inv w \<Longrightarrow> ok w \<Longrightarrow> wp (fetch n) (\<lambda>r w'. ok w' \<and> (\<exists>ms. r = Inr ms)) w"
    and publish_ok: "inv w \<Longrightarrow> ok w \<Longrightarrow> wp (publish m) (\<lambda>r w'. ok w' \<and> r = None) w"
    and mark_ok: "inv w \<Longrightarrow> ok w \<Longrightarrow> wp (mark ids) (\<lambda>r w'. ok w' \<and> r = None) w"
begin

lemma publish_loop_ok:
  "inv w \<Longrightarrow> ok w \<Longrightarrow> wp (publish_loop publish ms ids) (\<lambda>r w'. ok w' \<and> inv w' \<and>
     pending w' = pending w \<and> r = ids @ map ob_ID ms) w"
proof (induction ms arbitrary: w ids)
  case (Cons m ms)
  show ?case
    unfolding publish_loop.simps wp_if_err
  proof (rule wp_mono [OF wp_conj [OF publish_law [OF Cons.prems(1), of m] publish_ok [OF Cons.prems, of m]]], goal_cases)
    case (1 r w')
    then show ?case by (auto intro!: wp_mono [OF Cons.IH])
  qed
qed (simp add: wp_simps)

lemma publishBatch_ok:
  assumes "inv w" "ok w"
  shows "wp (publishBatch fetch mark publish n)
    (\<lambda>r w'. inv w' \<and> ok w' \<and> pending w' = drop n (pending w)) w"
  unfolding publishBatch_def wp_on_err
proof (rule wp_mono [OF wp_conj [OF fetch_law [OF assms(1)] fetch_ok [OF assms]]], goal_cases)
  case (1 r w1)
  then obtain ms where r: "r = Inr ms" by blast
  with 1 have ms: "r = Inr ms" "ms = take n (pending w)"
    and w1: "inv w1" "ok w1" "pending w1 = pending w"
    by simp_all
  show ?case
  proof (cases "ms = []")
    case True
    then have "drop n (pending w) = pending w"
      using ms(2) by (metis append_take_drop_id self_append_conv2)
    then show ?thesis using True ms(1) w1 by (simp add: wp_simps)
  next
    case False
    have "wp (publish_loop publish ms []) (\<lambda>ids. wp (if length ids = 0 then ret None else mark ids)
      (\<lambda>r w'. inv w' \<and> ok w' \<and> pending w' = drop n (pending w))) w1"
    proof (rule wp_mono [OF publish_loop_ok [OF w1(1,2)]], goal_cases)
      case (1 ids w2)
      then have w2: "inv w2" "ok w2" "pending w2 = pending w" and ids: "ids = map ob_ID ms" using w1 by auto
      have f: "filter (\<lambda>m. ob_ID m \<notin> set ids) (pending w) = drop n (pending w)"
        unfolding ids ms(2) by (rule filter_published [OF distinct_pending [OF assms(1)]])
      have "wp (mark ids) (\<lambda>r w'. inv w' \<and> ok w' \<and> pending w' = drop n (pending w)) w2"
        by (rule wp_mono [OF wp_conj [OF mark_law [OF w2(1)] mark_ok [OF w2(1,2)]]])
          (simp add: w2(3) f)
      then show ?case using False ids by simp
    qed
    then show ?thesis using False ms(1) by (simp add: wp_simps)
  qed
qed

lemma ticks_drain:
  "inv w \<Longrightarrow> ok w \<Longrightarrow> wp (relay_ticks (publishBatch fetch mark publish n) t)
     (\<lambda>_ w'. pending w' = drop (t * n) (pending w)) w"
proof (induction t arbitrary: w)
  case (Suc t)
  show ?case
    unfolding relay_ticks.simps wp_bind
    by (rule wp_mono [OF publishBatch_ok [OF Suc.prems]], rule wp_mono [OF Suc.IH])
      (auto simp: add.commute)
qed (simp add: wp_simps)

end

section \<open>The repository and the broker keep the contract\<close>

definition relay_inv :: "world \<Rightarrow> bool" where
  "relay_inv w \<longleftrightarrow> distinct (map ob_ID (t_outbox (w_db w)))"

definition relay_ok :: "services \<Rightarrow> world \<Rightarrow> bool" where
  "relay_ok S w \<longleftrightarrow> (\<forall>n. w_db_fault w n = None) \<and> (\<forall>n e. sv_publish S n e = None)"

definition pending_rows :: "world \<Rightarrow> outbox_row list" where
  "pending_rows w = unpublished (w_db w)"

definition published_to :: "effect \<Rightarrow> EventEnvelope list" where
  "published_to e = (case e of BrokerPublished env \<Rightarrow> [env] | _ \<Rightarrow> [])"

definition sent_envelopes :: "world \<Rightarrow> EventEnvelope list" where
  "sent_envelopes w = concat (map published_to (w_effects w))"

definition relay_publish :: "services \<Rightarrow> outbox_row \<Rightarrow> (world, go_error option) state" where
  "relay_publish S msg = broker_Publish S (envelope_of (sv_uuid S) msg)"

lemma relay_distinct: "relay_inv w \<Longrightarrow> distinct (map ob_ID (pending_rows w))"
proof -
  assume "relay_inv w"
  then have "distinct (map ob_ID (filter (\<lambda>r. ob_PublishedAt r = None) (t_outbox (w_db w))))"
    by (simp add: relay_inv_def distinct_map_filter)
  then show "distinct (map ob_ID (pending_rows w))"
    by (simp add: pending_rows_def unpublished_def distinct_map)
qed

lemma relay_fetch_law:
  "relay_inv w \<Longrightarrow> wp (FetchUnpublished n) (\<lambda>r w'. relay_inv w' \<and> pending_rows w' = pending_rows w \<and>
     sent_envelopes w' = sent_envelopes w \<and> (\<forall>ms. r = Inr ms \<longrightarrow> ms = take n (pending_rows w))) w"
  unfolding FetchUnpublished_def
  by (rule db_query_cases) (simp_all add: relay_inv_def pending_rows_def sent_envelopes_def)

lemma relay_publish_law:
  "relay_inv w \<Longrightarrow> wp (relay_publish S m) (\<lambda>r w'. relay_inv w' \<and> pending_rows w' = pending_rows w \<and>
     sent_envelopes w' = (if r = None then sent_envelopes w @ [envelope_of (sv_uuid S) m] else sent_envelopes w)) w"
  by (auto simp: relay_publish_def broker_Publish_def wp_simps relay_inv_def pending_rows_def
      sent_envelopes_def published_to_def split: option.splits)

definition mark_rows :: "uuid set \<Rightarrow> time \<Rightarrow> outbox_row list \<Rightarrow> outbox_row list" where
  "mark_rows ids now t = map (\<lambda>r. if ob_ID r \<in> ids then r\<lparr>ob_PublishedAt := Some now\<rparr> else r) t"

lemma filter_mark_rows:
  "filter (\<lambda>r. ob_PublishedAt r = None) (mark_rows ids now t) =
   filter (\<lambda>m. ob_ID m \<notin> ids) (filter (\<lambda>r. ob_PublishedAt r = None) t)"
  by (induction t) (auto simp: mark_rows_def)

lemma unpublished_mark_rows:
  "unpublished (d\<lparr>t_outbox := mark_rows ids now (t_outbox d)\<rparr>) = filter (\<lambda>m. ob_ID m \<notin> ids) (unpublished d)"
  by (simp add: unpublished_def filter_mark_rows filter_sort)

lemma relay_mark_law:
  "relay_inv w \<Longrightarrow> wp (MarkPublished ids) (\<lambda>r w'. relay_inv w' \<and> sent_envelopes w' = sent_envelopes w \<and>
     pending_rows w' = (if r = None then filter (\<lambda>m. ob_ID m \<notin> set ids) (pending_rows w) else pending_rows w)) w"
  unfolding MarkPublished_def mark_rows_def [symmetric]
  by (auto simp: wp_simps relay_inv_def pending_rows_def sent_envelopes_def unpublished_mark_rows
      intro!: db_exec_cases)
    (auto simp: mark_rows_def comp_def if_distrib cong: if_cong)

interpretation relay: outbox_contract relay_inv pending_rows sent_envelopes "envelope_of (sv_uuid S)"
    FetchUnpublished MarkPublished "relay_publish S" for S
  by unfold_locales (fact relay_distinct relay_fetch_law relay_publish_law relay_mark_law)+

interpretation relay: outbox_live relay_inv pending_rows sent_envelopes "envelope_of (sv_uuid S)"
    FetchUnpublished MarkPublished "relay_publish S" "relay_ok S" for S
  by unfold_locales
    (auto simp: relay_ok_def FetchUnpublished_def db_query_def db_fault_free relay_publish_def
      broker_Publish_def MarkPublished_def wp_simps wp_db_exec)

section \<open>Properties\<close>

text \<open>The relay of a process: \<open>t\<close> ticks of \<open>publishBatch\<close> on the repository and the broker.\<close>

definition run_relay :: "services \<Rightarrow> int \<Rightarrow> nat \<Rightarrow> (world, unit) state" where
  "run_relay S batchSize t =
     relay_ticks (publishBatch FetchUnpublished MarkPublished (relay_publish S) (relay_batch_size batchSize)) t"


definition sample_row :: outbox_row where
  "sample_row = \<lparr>ob_ID = 9, ob_AggregateID = ''v'', ob_EventType = ''video.created.v1'',
     ob_Payload = JObj [], ob_CreatedAt = 5, ob_PublishedAt = None\<rparr>"

definition outbox_world :: world where
  "outbox_world = sample_world\<lparr>w_db := empty_db\<lparr>t_outbox := [sample_row]\<rparr>\<rparr>"

lemma outbox_world_simps:
  "relay_inv outbox_world" "pending_rows outbox_world = [sample_row]" "sent_envelopes outbox_world = []"
  "relay_ok sample_services outbox_world"
  by (simp_all add: relay_inv_def outbox_world_def pending_rows_def unpublished_def sent_envelopes_def
      relay_ok_def sample_world_def sample_row_def sample_services_def)


text \<open>
  C14. The relay makes progress: when statements and publications succeed, each tick publishes and
  retires a batch, so enough ticks empty the outbox.
\<close>

theorem relay_drains:
  assumes "relay_inv w" "relay_ok S w" "length (pending_rows w) \<le> t * relay_batch_size n"
    and "run_state (run_relay S n t) w = (u, w')"
  shows "pending_rows w' = [] \<and>
         (\<forall>m \<in> set (pending_rows w). envelope_of (sv_uuid S) m \<in> set (sent_envelopes w'))"
proof -
  have "pending_rows w' = []"
    using wpD [OF relay.ticks_drain [OF assms(1,2)]] assms(3,4) by (simp add: run_relay_def)
  moreover have "\<forall>m \<in> set (pending_rows w) - set (pending_rows w').
      envelope_of (sv_uuid S) m \<in> set (sent_envelopes w')"
    using wpD [OF relay.ticks_law [OF assms(1)]] assms(4) by (simp add: run_relay_def)
  ultimately show ?thesis by simp
qed

theorem relay_drains_witness:
  "\<exists>u w'. run_state (run_relay sample_services 0 1) outbox_world = (u, w') \<and> pending_rows w' = []"
proof -
  obtain u w' where r: "run_state (run_relay sample_services 0 1) outbox_world = (u, w')"
    by (meson surj_pair)
  have "length (pending_rows outbox_world) \<le> 1 * relay_batch_size 0"
    by (simp add: outbox_world_simps relay_batch_size_def)
  then show ?thesis
    using r relay_drains [OF outbox_world_simps(1,4) _ r] by blast
qed

lemma rows_of_spec:
  "rows_of U es = Inr rows \<Longrightarrow>
     map (\<lambda>r. Some (ob_ID r)) rows = map (\<lambda>e. uuid_Parse U (de_EventID e)) es \<and>
     map (\<lambda>r. (ob_EventType r, ob_Payload r)) rows = map (\<lambda>e. (de_EventType e, de_Payload e)) es \<and>
     (\<forall>r \<in> set rows. ob_PublishedAt r = None)"
proof (induction es arbitrary: rows)
  case (Cons a es)
  then show ?case by (cases "rows_of U es") (auto split: option.splits)
qed simp

text \<open>
  C15. What the outbox stores of a video's events is what their handlers will read: once \<open>StoreEvents\<close>
  has succeeded on events with new ids, the table has one more unpublished row for each of them, in
  order, and the payload of each row decodes, under the type of the row, to the event itself.
\<close>

theorem stored_events_decode:
  assumes "run_state (StoreEvents S (map of_video_event es)) w = (None, w')"
    and "distinct (map (\<lambda>e. uuid_Parse (sv_uuid S) (video_EventID e)) es)"
    and "set (map (\<lambda>e. uuid_Parse (sv_uuid S) (video_EventID e)) es) \<inter>
           set (map (\<lambda>r. Some (ob_ID r)) (t_outbox (w_db w))) = {}"
    and "\<forall>e \<in> set es. video_event_ok e"
  shows "\<exists>rows. t_outbox (w_db w') = t_outbox (w_db w) @ rows \<and>
           map (\<lambda>r. Unmarshal_video_event (ob_EventType r) (Wellformed (ob_Payload r))) rows = map Some es \<and>
           (\<forall>r \<in> set rows. ob_PublishedAt r = None)"
proof (cases "es = []")
  case True
  then show ?thesis using assms(1) by (simp add: StoreEvents_def)
next
  case False
  then obtain rows where rows: "rows_of (sv_uuid S) (map of_video_event es) = Inr rows"
    and w': "w_db w' = (w_db w)\<lparr>t_outbox := tbl_insert_ignore ob_ID rows (t_outbox (w_db w))\<rparr>"
    using assms(1)
    by (auto simp: StoreEvents_def db_exec_def db_op_def Let_def split: sum.splits option.splits)
  note spec = rows_of_spec [OF rows]
  have ids: "map Some (map ob_ID rows) = map (\<lambda>e. uuid_Parse (sv_uuid S) (video_EventID e)) es"
    using spec by (simp add: of_video_event_def comp_def)
  have fresh: "distinct (map ob_ID rows)" "set (map ob_ID rows) \<inter> set (map ob_ID (t_outbox (w_db w))) = {}"
    using assms(2,3) unfolding ids [symmetric] distinct_map [of Some] by auto
  have "map (\<lambda>r. Unmarshal_video_event (ob_EventType r) (Wellformed (ob_Payload r))) rows =
        map (\<lambda>(t, p). Unmarshal_video_event t (Wellformed p)) (map (\<lambda>r. (ob_EventType r, ob_Payload r)) rows)"
    by simp
  also have "\<dots> = map (\<lambda>e. Unmarshal_video_event (video_EventType e) (Wellformed (video_Marshal e))) es"
    using spec by (simp add: of_video_event_def)
  also have "\<dots> = map Some es"
    using assms(4) Unmarshal_Marshal_payload by simp
  finally show ?thesis
    using w' tbl_insert_ignore_fresh [OF fresh] spec by auto
qed

theorem stored_events_decode_witness:
  "\<exists>w' rows. run_state (StoreEvents sample_services (map of_video_event [VideoUploadExpired ''7'' ''1'' 3]))
       sample_world = (None, w') \<and> t_outbox (w_db w') = rows \<and>
     map (\<lambda>r. Unmarshal_video_event (ob_EventType r) (Wellformed (ob_Payload r))) rows =
       [Some (VideoUploadExpired ''7'' ''1'' 3)]"
proof -
  have "\<exists>w'. run_state (StoreEvents sample_services (map of_video_event [VideoUploadExpired ''7'' ''1'' 3]))
      sample_world = (None, w')"
    by (simp add: StoreEvents_def db_exec_def db_op_def Let_def sample_world_def decimal_lib_def)
  then obtain w' where w': "run_state (StoreEvents sample_services
      (map of_video_event [VideoUploadExpired ''7'' ''1'' 3])) sample_world = (None, w')" by blast
  show ?thesis
    using w' stored_events_decode [OF w'] by (auto simp: sample_world_def empty_db_def)
qed

end
