(* ===== verification/Dedup.thy ===== *)
theory Dedup
  imports Services
begin

text \<open>
  Deduplication of events per handler: \<open>internal/infrastructure/persistence/processed/repository.go\<close> and
  \<open>internal/application/event/dedup/with_dedup.go\<close>. \<open>dedup_run\<close> is \<open>With\<close> with its outcome spelled out, so
  that a run of the wrapped handler can be told from a skipped delivery.
\<close>

type_synonym 'w event_handler = "ctx \<Rightarrow> payload \<Rightarrow> ('w, go_error option) state"

section \<open>The repository\<close>

definition processed_key :: "processed_row \<Rightarrow> uuid \<times> string" where
  "processed_key p = (pe_EventID p, pe_HandlerName p)"

definition isUniqueViolation :: "go_error \<Rightarrow> bool" where
  "isUniqueViolation e \<longleftrightarrow> e = unique_violation"

definition MarkProcessed :: "services \<Rightarrow> string \<Rightarrow> string \<Rightarrow> (world, go_error + bool) state" where
  "MarkProcessed S eventID handlerName =
     (case uuid_Parse (sv_uuid S) eventID of
        None \<Rightarrow> ret (Inl (External ''invalid UUID''))
      | Some i \<Rightarrow> do {
          now \<leftarrow> rt_op time_Now;
          let row = \<lparr>pe_EventID = i, pe_HandlerName = handlerName, pe_ProcessedAt = now\<rparr>;
          err \<leftarrow> db_exec (\<lambda>d. or_violation (\<lambda>t. d\<lparr>t_processed := t\<rparr>)
            (tbl_insert (\<lambda>x y. processed_key x = processed_key y) row (t_processed d)));
          case err of
            None \<Rightarrow> ret (Inr True)
          | Some e \<Rightarrow> if isUniqueViolation e then ret (Inr False) else ret (Inl e) })"

definition UnmarkProcessed :: "services \<Rightarrow> string \<Rightarrow> string \<Rightarrow> (world, go_error option) state" where
  "UnmarkProcessed S eventID handlerName =
     (case uuid_Parse (sv_uuid S) eventID of
        None \<Rightarrow> ret (Some (External ''invalid UUID''))
      | Some i \<Rightarrow> db_exec (\<lambda>d. Inr (d\<lparr>t_processed :=
          filter (\<lambda>p. processed_key p \<noteq> (i, handlerName)) (t_processed d)\<rparr>)))"

section \<open>The wrapper\<close>

datatype dedup_outcome =
    BadPayload
  | MissingID
  | MarkError go_error
  | AlreadyProcessed
  | Ran "go_error option"

definition eventIDPayload :: "payload \<Rightarrow> string option" where
  "eventIDPayload p = do {
     ms \<leftarrow> payload_members p;
     dec_field dec_str '''' ''eventId'' ms }"

definition dedup_run ::
  "(string \<Rightarrow> string \<Rightarrow> ('w, go_error + bool) state) \<Rightarrow> (string \<Rightarrow> string \<Rightarrow> ('w, go_error option) state) option
     \<Rightarrow> string \<Rightarrow> 'w event_handler \<Rightarrow> ctx \<Rightarrow> payload \<Rightarrow> ('w, dedup_outcome) state" where
  "dedup_run mark unmark handlerName handler c payload =
     (case eventIDPayload payload of
        None \<Rightarrow> ret BadPayload
      | Some eventID \<Rightarrow>
          if eventID = '''' then ret MissingID
          else on_err (mark eventID handlerName)
            (\<lambda>e. ret (MarkError e))
            (\<lambda>inserted.
               if \<not> inserted then ret AlreadyProcessed
               else do {
                 r \<leftarrow> handler c payload;
                 case r of
                   None \<Rightarrow> ret (Ran None)
                 | Some e \<Rightarrow>
                     if as_Retryable e then
                       (case unmark of
                          Some release \<Rightarrow> do { _ \<leftarrow> release eventID handlerName; ret (Ran (Some e)) }
                        | None \<Rightarrow> ret (Ran (Some e)))
                     else ret (Ran (Some e)) }))"

definition outcome_err :: "dedup_outcome \<Rightarrow> go_error option" where
  "outcome_err oc = (case oc of
      BadPayload \<Rightarrow> NonRetryable (Some (External ''invalid JSON''))
    | MissingID \<Rightarrow> NonRetryable (Some ErrMissingEventID)
    | MarkError e \<Rightarrow> Retryable (Some e)
    | AlreadyProcessed \<Rightarrow> None
    | Ran r \<Rightarrow> r)"

definition dedup_With ::
  "(string \<Rightarrow> string \<Rightarrow> ('w, go_error + bool) state) \<Rightarrow> (string \<Rightarrow> string \<Rightarrow> ('w, go_error option) state) option
     \<Rightarrow> string \<Rightarrow> 'w event_handler \<Rightarrow> 'w event_handler" where
  "dedup_With mark unmark handlerName handler = (\<lambda>c payload. do {
     oc \<leftarrow> dedup_run mark unmark handlerName handler c payload;
     ret (outcome_err oc) })"

text \<open>A sequence of deliveries to one wrapped handler, and their outcomes.\<close>

fun dedup_deliveries ::
  "(ctx \<Rightarrow> payload \<Rightarrow> ('w, dedup_outcome) state) \<Rightarrow> (ctx \<times> payload) list \<Rightarrow> ('w, dedup_outcome list) state" where
  "dedup_deliveries h [] = ret []"
| "dedup_deliveries h ((c, p) # ds) = do {
     oc \<leftarrow> h c p;
     ocs \<leftarrow> dedup_deliveries h ds;
     ret (oc # ocs) }"

section \<open>The contract of the repository\<close>

locale processed_store =
  fixes key :: "string \<Rightarrow> uuid option"
    and marked :: "'w \<Rightarrow> (uuid \<times> string) set"
    and mark :: "string \<Rightarrow> string \<Rightarrow> ('w, go_error + bool) state"
    and unmark :: "string \<Rightarrow> string \<Rightarrow> ('w, go_error option) state"
  assumes mark_law: "wp (mark e h) (\<lambda>r w'. case r of
        Inl _ \<Rightarrow> marked w' = marked w
      | Inr fresh \<Rightarrow> (\<exists>k. key e = Some k \<and> fresh = ((k, h) \<notin> marked w) \<and>
          marked w' = insert (k, h) (marked w))) w"
    and unmark_law: "wp (unmark e h) (\<lambda>r w'. marked w' = marked w \<or>
        (\<exists>k. key e = Some k \<and> marked w' = marked w - {(k, h)})) w"
begin

definition payload_key :: "payload \<Rightarrow> uuid option" where
  "payload_key p = (case eventIDPayload p of None \<Rightarrow> None | Some e \<Rightarrow> key e)"

text \<open>The outcomes after which an event is settled for a handler.\<close>

definition settled :: "dedup_outcome \<Rightarrow> bool" where
  "settled oc = (case oc of Ran None \<Rightarrow> True | Ran (Some e) \<Rightarrow> \<not> as_Retryable e | _ \<Rightarrow> False)"

definition run_post :: "string \<Rightarrow> payload \<Rightarrow> 'w \<Rightarrow> dedup_outcome \<Rightarrow> 'w \<Rightarrow> bool" where
  "run_post h p w oc w' \<longleftrightarrow>
     (\<forall>k. (k, h) \<in> marked w \<longrightarrow> (k, h) \<in> marked w') \<and>
     (\<forall>k. payload_key p = Some k \<longrightarrow> (k, h) \<in> marked w \<longrightarrow>
        oc = AlreadyProcessed \<or> oc = MissingID \<or> (\<exists>e. oc = MarkError e)) \<and>
     (\<forall>k. payload_key p \<noteq> Some k \<longrightarrow> ((k, h) \<in> marked w') = ((k, h) \<in> marked w)) \<and>
     (settled oc \<longrightarrow> (\<exists>k. payload_key p = Some k \<and> (k, h) \<notin> marked w \<and> (k, h) \<in> marked w'))"

lemma run_post_unchanged:
  "marked w' = marked w \<Longrightarrow> oc = BadPayload \<and> payload_key p = None \<or> oc = MissingID \<or> (\<exists>e. oc = MarkError e) \<or>
     oc = AlreadyProcessed \<Longrightarrow> run_post h p w oc w'"
  by (auto simp: run_post_def settled_def)

lemma run_post_mono: "run_post h p w oc w' \<Longrightarrow> (k, h) \<in> marked w \<Longrightarrow> (k, h) \<in> marked w'"
  by (simp add: run_post_def)

lemma run_post_settled:
  "run_post h p w oc w' \<Longrightarrow> payload_key p = Some k \<and> settled oc \<Longrightarrow>
     (k, h) \<notin> marked w \<and> (k, h) \<in> marked w'"
  by (auto simp: run_post_def)

lemma run_law:
  assumes frame: "\<And>c p v. wp (handler c p) (\<lambda>r v'. marked v' = marked v) v"
  shows "wp (dedup_run mark (Some unmark) h handler c p) (run_post h p w) w"
proof (cases "eventIDPayload p")
  case None
  then show ?thesis by (simp add: dedup_run_def wp_simps payload_key_def run_post_unchanged)
next
  case (Some eid)
  then have pk: "payload_key p = key eid" by (simp add: payload_key_def)
  show ?thesis
  proof (cases "eid = ''''")
    case True
    then show ?thesis using Some by (simp add: dedup_run_def wp_simps run_post_unchanged)
  next
    case False
    show ?thesis
      unfolding dedup_run_def Some option.case if_not_P [OF False] wp_on_err
    proof (rule wp_mono [OF mark_law [of eid h w]], goal_cases)
      case (1 r w1)
      show ?case
      proof (cases r)
        case (Inl e)
        then show ?thesis using 1 by (simp add: wp_simps run_post_unchanged)
      next
        case (Inr fresh)
        then obtain k where k: "key eid = Some k" "fresh = ((k, h) \<notin> marked w)" "marked w1 = insert (k, h) (marked w)"
          using 1 by auto
        show ?thesis
        proof (cases fresh)
          case False
          then show ?thesis using Inr k by (simp add: wp_simps run_post_unchanged insert_absorb)
        next
          case True
          have "wp (handler c p) (\<lambda>r. wp (case r of None \<Rightarrow> ret (Ran None)
              | Some e \<Rightarrow> if as_Retryable e then unmark eid h \<bind> (\<lambda>_. ret (Ran (Some e))) else ret (Ran (Some e)))
              (run_post h p w)) w1"
          proof (rule wp_mono [OF frame], goal_cases)
            case (1 r w2)
            then have m: "marked w2 = insert (k, h) (marked w)" using k by simp
            have fresh: "(k, h) \<notin> marked w" using True k by simp
            show ?case
            proof (cases r)
              case None
              then show ?thesis using m fresh pk k by (auto simp: wp_simps run_post_def)
            next
              case (Some e)
              have "wp (unmark eid h) (\<lambda>_. run_post h p w (Ran (Some e))) w2" if "as_Retryable e"
                by (rule wp_mono [OF unmark_law [of eid h w2]])
                  (use m k(1) fresh pk that in \<open>auto simp: run_post_def settled_def\<close>)
              moreover have "run_post h p w (Ran (Some e)) w2"
                using m fresh pk k(1) by (auto simp: run_post_def)
              ultimately show ?thesis
                using Some by (simp add: wp_simps)
            qed
          qed
          then show ?thesis unfolding Inr using True by (simp add: wp_bind)
        qed
      qed
    qed
  qed
qed

text \<open>How many of a sequence of deliveries settled the event with key \<open>k\<close>.\<close>

definition settled_count :: "uuid \<Rightarrow> (ctx \<times> payload) list \<Rightarrow> dedup_outcome list \<Rightarrow> nat" where
  "settled_count k ds ocs =
     length (filter (\<lambda>((c, p), oc). payload_key p = Some k \<and> settled oc) (zip ds ocs))"

lemma deliveries_law:
  assumes frame: "\<And>c p v. wp (handler c p) (\<lambda>r v'. marked v' = marked v) v"
  shows "wp (dedup_deliveries (dedup_run mark (Some unmark) h handler) ds)
    (\<lambda>ocs w'. length ocs = length ds \<and> settled_count k ds ocs \<le> (if (k, h) \<in> marked w then 0 else 1)) w"
proof (induction ds arbitrary: w)
  case (Cons d ds)
  obtain c p where d: "d = (c, p)" by fastforce
  show ?case
    unfolding d dedup_deliveries.simps wp_bind
  proof (rule wp_mono [OF run_law [OF frame, where h = h and c = c and p = p]], goal_cases)
    case (1 oc w1)
    note run = 1
    show ?case
    proof (rule wp_mono [OF Cons.IH], goal_cases)
      case (1 ocs w2)
      have cnt: "settled_count k (d # ds) (oc # ocs) =
          (if payload_key p = Some k \<and> settled oc then Suc (settled_count k ds ocs) else settled_count k ds ocs)"
        by (simp add: settled_count_def d)
      have "settled_count k (d # ds) (oc # ocs) \<le> (if (k, h) \<in> marked w then 0 else 1)"
      proof (cases "payload_key p = Some k \<and> settled oc")
        case True
        then have "(k, h) \<notin> marked w \<and> (k, h) \<in> marked w1"
          using run_post_settled [OF run] by simp
        then show ?thesis using cnt True 1 by simp
      next
        case False
        have "(k, h) \<in> marked w \<longrightarrow> (k, h) \<in> marked w1"
          using run_post_mono [OF run] by simp
        then show ?thesis using cnt False 1 by (cases "(k, h) \<in> marked w") (simp_all split: if_splits)
      qed
      then show ?case using 1 d by (simp add: wp_simps)
    qed
  qed
qed (simp add: wp_simps settled_count_def)

end

section \<open>The repository keeps the contract\<close>

definition marked_rows :: "world \<Rightarrow> (uuid \<times> string) set" where
  "marked_rows w = processed_key ` set (t_processed (w_db w))"

lemma processed_key_filter:
  "processed_key ` {p \<in> A. processed_key p \<noteq> kh} = processed_key ` A - {kh}"
  by auto

lemma processed_key_row [simp]:
  "processed_key \<lparr>pe_EventID = i, pe_HandlerName = h, pe_ProcessedAt = now\<rparr> = (i, h)"
  by (simp add: processed_key_def)

lemma list_ex_key: "list_ex (\<lambda>y. x = f y) t \<longleftrightarrow> x \<in> f ` set t"
  by (auto simp: list_ex_iff)

lemma MarkProcessed_law:
  "wp (MarkProcessed S e h) (\<lambda>r w'. case r of
        Inl _ \<Rightarrow> marked_rows w' = marked_rows w
      | Inr fresh \<Rightarrow> (\<exists>k. uuid_Parse (sv_uuid S) e = Some k \<and> fresh = ((k, h) \<notin> marked_rows w) \<and>
          marked_rows w' = insert (k, h) (marked_rows w))) w"
  by (auto simp: MarkProcessed_def wp_simps marked_rows_def or_violation_def tbl_insert_def list_ex_key
      isUniqueViolation_def insert_absorb
      intro!: db_exec_cases split: option.splits if_splits)

lemma UnmarkProcessed_law:
  "wp (UnmarkProcessed S e h) (\<lambda>r w'. marked_rows w' = marked_rows w \<or>
        (\<exists>k. uuid_Parse (sv_uuid S) e = Some k \<and> marked_rows w' = marked_rows w - {(k, h)})) w"
  by (auto simp: UnmarkProcessed_def wp_simps marked_rows_def processed_key_filter
      intro!: db_exec_cases split: option.splits)

interpretation dedup_store: processed_store "uuid_Parse (sv_uuid S)" marked_rows "MarkProcessed S" "UnmarkProcessed S"
  for S
  by unfold_locales (fact MarkProcessed_law UnmarkProcessed_law)+

section \<open>Properties\<close>

definition run_dedup :: "services \<Rightarrow> string \<Rightarrow> world event_handler \<Rightarrow> ctx \<Rightarrow> payload \<Rightarrow> (world, dedup_outcome) state" where
  "run_dedup S = dedup_run (MarkProcessed S) (Some (UnmarkProcessed S))"

text \<open>
  C19. An event is settled at most once per handler: however often its message is delivered, and
  whatever fails, at most one delivery ends with a run of the handler that succeeded or failed for
  good; all other deliveries are skipped, fail to record the mark, or end in a retryable error. The
  wrapped handler only has to leave the table of processed events alone.
\<close>

theorem dedup_at_most_once:
  assumes "\<And>c p v. wp (handler c p) (\<lambda>r v'. marked_rows v' = marked_rows v) v"
    and "run_state (dedup_deliveries (run_dedup S name handler) ds) w = (ocs, w')"
  shows "length ocs = length ds \<and> dedup_store.settled_count S k ds ocs \<le> 1"
  using wpD [OF dedup_store.deliveries_law [OF assms(1)]] assms(2)
  by (fastforce simp: run_dedup_def split: if_splits)

definition sample_payload :: payload where
  "sample_payload = Wellformed (JObj [(''eventId'', JStr ''7'')])"

theorem dedup_at_most_once_witness:
  "\<exists>ocs w'. run_state (dedup_deliveries (run_dedup sample_services ''h'' (\<lambda>c p. ret None))
      [(None, sample_payload), (None, sample_payload)]) sample_world = (ocs, w') \<and>
     length ocs = 2 \<and> dedup_store.settled_count sample_services 7
       [(None, sample_payload), (None, sample_payload)] ocs \<le> 1"
proof -
  obtain ocs w' where r: "run_state (dedup_deliveries (run_dedup sample_services ''h'' (\<lambda>c p. ret None))
      [(None, sample_payload), (None, sample_payload)]) sample_world = (ocs, w')"
    by (meson surj_pair)
  show ?thesis
    using r dedup_at_most_once [OF _ r, of 7] by (simp add: wp_simps)
qed

lemma MarkProcessed_ok:
  assumes "\<And>n. w_db_fault w n = None" "uuid_Parse (sv_uuid S) eid = Some k" "(k, h) \<notin> marked_rows w"
  shows "wp (MarkProcessed S eid h) (\<lambda>r w'. r = Inr True \<and> marked_rows w' = insert (k, h) (marked_rows w) \<and>
    w_db_fault w' = w_db_fault w) w"
  using assms
  by (auto simp: MarkProcessed_def wp_simps marked_rows_def or_violation_def tbl_insert_def list_ex_key
      db_fault_free wp_db_exec split: option.splits)

lemma UnmarkProcessed_ok:
  assumes "\<And>n. w_db_fault w n = None" "uuid_Parse (sv_uuid S) eid = Some k"
  shows "wp (UnmarkProcessed S eid h) (\<lambda>r w'. marked_rows w' = marked_rows w - {(k, h)} \<and>
    w_db_fault w' = w_db_fault w) w"
  using assms
  by (auto simp: UnmarkProcessed_def wp_simps marked_rows_def processed_key_filter
      db_fault_free wp_db_exec split: option.splits)

lemma dedup_With_fresh:
  assumes "\<And>n. w_db_fault w n = None" "\<And>v. wp (handler c p) (\<lambda>r v'. marked_rows v' = marked_rows v \<and>
      w_db_fault v' = w_db_fault v \<and> r = res) v"
    and "eventIDPayload p = Some eid" "eid \<noteq> ''''" "uuid_Parse (sv_uuid S) eid = Some k"
    and "(k, name) \<notin> marked_rows w"
  shows "wp (dedup_With (MarkProcessed S) (Some (UnmarkProcessed S)) name handler c p)
    (\<lambda>r w'. r = res \<and> ((k, name) \<in> marked_rows w' \<longleftrightarrow> \<not> (\<exists>e. res = Some e \<and> as_Retryable e)) \<and>
      w_db_fault w' = w_db_fault w) w"
  unfolding dedup_With_def dedup_run_def assms(3) option.case if_not_P [OF assms(4)] wp_bind wp_on_err
proof (rule wp_mono [OF MarkProcessed_ok [OF assms(1,5,6)]], goal_cases)
  case (1 r w1)
  then have r: "r = Inr True" and m1: "marked_rows w1 = insert (k, name) (marked_rows w)"
    and f1: "w_db_fault w1 = w_db_fault w" by simp_all
  show ?case
    unfolding r sum.case not_True_eq_False if_False wp_bind
  proof (rule wp_mono [OF assms(2)], goal_cases)
    case (1 r v)
    then have v: "r = res" "marked_rows v = insert (k, name) (marked_rows w)"
      and vf: "w_db_fault v = w_db_fault w"
      using f1 m1 by simp_all
    have f: "\<And>n. w_db_fault v n = None" using vf assms(1) by simp
    have release: "wp (UnmarkProcessed S eid name) (\<lambda>_ v'. (k, name) \<notin> marked_rows v' \<and>
          w_db_fault v' = w_db_fault w) v"
      by (rule wp_mono [OF UnmarkProcessed_ok [OF f assms(5)]]) (simp add: vf)
    show ?case
    proof (cases res)
      case None
      then show ?thesis using v vf by (simp add: wp_ret outcome_err_def)
    next
      case (Some e)
      then show ?thesis
        using v vf release by (cases "as_Retryable e") (simp_all add: wp_ret wp_bind outcome_err_def)
    qed
  qed
qed

text \<open>
  A mark is given back exactly for a retry: when the handler ran on an unmarked event and nothing
  fails in the database, the event is marked afterwards unless the handler returned a retryable error.
  An error that is in neither class therefore leaves the event marked, and a redelivery is skipped.
\<close>

theorem dedup_release:
  assumes "\<And>n. w_db_fault w n = None" "\<And>v. wp (handler c p) (\<lambda>r v'. marked_rows v' = marked_rows v \<and>
      w_db_fault v' = w_db_fault v \<and> r = res) v"
    and "eventIDPayload p = Some eid" "eid \<noteq> ''''" "uuid_Parse (sv_uuid S) eid = Some k"
    and "(k, name) \<notin> marked_rows w"
    and "run_state (dedup_With (MarkProcessed S) (Some (UnmarkProcessed S)) name handler c p) w = (r, w')"
  shows "r = res \<and> ((k, name) \<in> marked_rows w' \<longleftrightarrow> \<not> (\<exists>e. res = Some e \<and> as_Retryable e))"
  using wpD [OF dedup_With_fresh [of w handler c p res eid S k name, OF assms(1-6)] assms(7)] by simp

theorem dedup_release_witness:
  "\<exists>r w'. run_state (dedup_With (MarkProcessed sample_services) (Some (UnmarkProcessed sample_services)) ''h''
       (\<lambda>c p. ret (Some (ErrorText ''tx''))) None sample_payload) sample_world = (r, w') \<and>
     r = Some (ErrorText ''tx'') \<and> (7, ''h'') \<in> marked_rows w'"
proof -
  obtain r w' where r: "run_state (dedup_With (MarkProcessed sample_services)
       (Some (UnmarkProcessed sample_services)) ''h''
       (\<lambda>c p. ret (Some (ErrorText ''tx''))) None sample_payload) sample_world = (r, w')"
    by (meson surj_pair)
  have p: "eventIDPayload sample_payload = Some ''7''"
    by (simp add: eventIDPayload_def sample_payload_def)
  have k: "uuid_Parse (sv_uuid sample_services) ''7'' = Some 7"
    by code_simp
  show ?thesis
    using r dedup_release [OF _ _ p _ k _ r, of "Some (ErrorText ''tx'')"]
    by (auto simp: wp_simps sample_world_def marked_rows_def empty_db_def)
qed

end
