(* ===== verification/Consumer.thy ===== *)
theory Consumer
  imports Dedup
begin

text \<open>
  The receiving side of the broker: \<open>internal/application/registry/handler_registry.go\<close>,
  \<open>internal/infrastructure/messaging/rabbitmq/consumer.go\<close> and \<open>topology.go\<close>. What the consumer tells the
  broker about a delivery is the list of its actions; \<open>message_life\<close> follows one message through the
  queues the topology declares: a rejected delivery goes to the retry queue and comes back, with its
  count of deaths increased, until a delivery is acknowledged.
\<close>

section \<open>The registry\<close>

type_synonym 'w registry = "string \<Rightarrow> 'w event_handler list"

definition empty_registry :: "'w registry" where
  "empty_registry = (\<lambda>_. [])"

definition Register :: "string \<Rightarrow> 'w event_handler \<Rightarrow> 'w registry \<Rightarrow> 'w registry" where
  "Register eventType h r = r(eventType := r eventType @ [h])"

fun dispatch_loop :: "string \<Rightarrow> ctx \<Rightarrow> payload \<Rightarrow> 'w event_handler list \<Rightarrow> ('w, go_error option) state" where
  "dispatch_loop eventType c payload [] = ret None"
| "dispatch_loop eventType c payload (h # hs) =
     if_err (h c payload)
       (\<lambda>e. ret (Some (Errorf ''handler failed'' e)))
       (dispatch_loop eventType c payload hs)"

definition Dispatch :: "'w registry \<Rightarrow> ctx \<Rightarrow> string \<Rightarrow> payload \<Rightarrow> ('w, go_error option) state" where
  "Dispatch r c eventType payload = dispatch_loop eventType c payload (r eventType)"

section \<open>The topology\<close>

record Topology =
  to_Exchange :: string
  to_Queue :: string
  to_RoutingKey :: string
  to_RetryQueue :: string
  to_DLQ :: string
  to_DLX :: string
  to_RetryTTLMillis :: int

definition to_int32 :: "int \<Rightarrow> int" where
  "to_int32 n = (n + 2 ^ 31) mod 2 ^ 32 - 2 ^ 31"

definition DefaultTopology :: "string \<Rightarrow> string \<Rightarrow> string \<Rightarrow> int \<Rightarrow> Topology" where
  "DefaultTopology exchange queue routingKey retryTTLMillis0 =
     (let retryTTLMillis = (if retryTTLMillis0 \<le> 0 then 30000 else retryTTLMillis0)
      in \<lparr>to_Exchange = exchange, to_Queue = queue, to_RoutingKey = routingKey,
          to_RetryQueue = queue @ ''.retry'', to_DLQ = queue @ ''.dlq'', to_DLX = queue @ ''.dlx'',
          to_RetryTTLMillis = to_int32 retryTTLMillis\<rparr>)"

definition splitRoutingKeys :: "string \<Rightarrow> string list" where
  "splitRoutingKeys raw =
     (let keys = filter (\<lambda>k. k \<noteq> '''') (map TrimSpace (Split raw (CHR '','')))
      in if length keys = 0 then [''#''] else keys)"

text \<open>
  The bindings \<open>declare\<close> makes: queue, routing key, exchange; and the exchange and key to which a queue
  sends the messages that die in it.
\<close>

definition declared_bindings :: "Topology \<Rightarrow> (string \<times> string \<times> string) list" where
  "declared_bindings t =
     map (\<lambda>k. (to_Queue t, k, to_Exchange t)) (splitRoutingKeys (to_RoutingKey t)) @
     [(to_Queue t, ''main'', to_DLX t), (to_RetryQueue t, ''retry'', to_DLX t), (to_DLQ t, ''dlq'', to_DLX t)]"

definition dead_letter_target :: "Topology \<Rightarrow> string \<Rightarrow> (string \<times> string) option" where
  "dead_letter_target t q =
     (if q = to_Queue t then Some (to_DLX t, ''retry'')
      else if q = to_RetryQueue t then Some (to_DLX t, ''main'')
      else None)"

text \<open>Where a direct exchange routes a message with a key.\<close>

definition route :: "Topology \<Rightarrow> string \<times> string \<Rightarrow> string list" where
  "route t target = (case target of (exchange, key) \<Rightarrow>
     map fst (filter (\<lambda>(q, k, x). x = exchange \<and> k = key) (declared_bindings t)))"

section \<open>Deliveries\<close>

text \<open>The values of the header \<open>x-death\<close>, as the client library decodes them.\<close>

datatype amqp_value =
    Int64 int
  | Int32 int
  | IntV int
  | Float64 real
  | AmqpTable "(string \<times> amqp_value) list"
  | AmqpArray "amqp_value list"
  | AmqpOther

record delivery =
  dl_Body :: payload
  dl_XDeath :: "amqp_value option"

definition retryCount :: "delivery \<Rightarrow> int" where
  "retryCount m =
     (case dl_XDeath m of
        Some (AmqpArray (entry # _)) \<Rightarrow>
          (case entry of
             AmqpTable entries \<Rightarrow>
               (case map_of entries ''count'' of
                  Some (Int64 n) \<Rightarrow> n
                | Some (Int32 n) \<Rightarrow> n
                | Some (IntV n) \<Rightarrow> n
                | Some (Float64 x) \<Rightarrow> (if x < 0 then \<lceil>x\<rceil> else \<lfloor>x\<rfloor>)
                | _ \<Rightarrow> 0)
           | _ \<Rightarrow> 0)
      | _ \<Rightarrow> 0)"

text \<open>The envelope of a delivery: its type and the raw payload (absent: no bytes).\<close>

fun dec_raw :: "payload \<Rightarrow> json \<Rightarrow> payload option" where
  "dec_raw old j = Some (Wellformed j)"

fun dec_any_text :: "unit \<Rightarrow> json \<Rightarrow> unit option" where
  "dec_any_text old JNull = Some ()"
| "dec_any_text old (JStr s) = Some ()"
| "dec_any_text old (JTime t) = Some ()"
| "dec_any_text old _ = None"

definition Unmarshal_envelope :: "payload \<Rightarrow> (string \<times> payload) option" where
  "Unmarshal_envelope p = do {
     ms \<leftarrow> payload_members p;
     eventId \<leftarrow> dec_field dec_str '''' ''eventId'' ms;
     eventType \<leftarrow> dec_field dec_str '''' ''type'' ms;
     aggregateId \<leftarrow> dec_field dec_str '''' ''aggregateId'' ms;
     occurredAt \<leftarrow> dec_field dec_any_text () ''occurredAt'' ms;
     body \<leftarrow> dec_field dec_raw Malformed ''payload'' ms;
     Some (eventType, body) }"

definition Marshal_envelope :: "EventEnvelope \<Rightarrow> json" where
  "Marshal_envelope en = JObj
     (enc ''eventId'' (JStr (en_EventID en)) @
      enc ''type'' (JStr (en_Type en)) @
      enc ''aggregateId'' (JStr (en_AggregateID en)) @
      enc ''occurredAt'' (JTime (en_OccurredAt en)) @
      enc ''payload'' (en_Payload en))"

datatype consumer_action =
    Ack
  | Nack bool                      \<comment> \<open>whether to requeue\<close>
  | ToDLQ string                   \<comment> \<open>published to the dead-letter queue, with the reason\<close>
  | LostDLQ string                 \<comment> \<open>that publication failed and was only logged\<close>

record 'w consumer =
  co_registry :: "'w registry"
  co_maxRetries :: int
  co_publishDLQ :: "delivery \<Rightarrow> string \<Rightarrow> ('w, go_error option) state"

definition NewConsumer ::
  "'w registry \<Rightarrow> int \<Rightarrow> (delivery \<Rightarrow> string \<Rightarrow> ('w, go_error option) state) \<Rightarrow> 'w consumer" where
  "NewConsumer reg maxRetries publishDLQ =
     \<lparr>co_registry = reg, co_maxRetries = (if maxRetries \<le> 0 then 3 else maxRetries),
      co_publishDLQ = publishDLQ\<rparr>"

definition sendToDLQ :: "'w consumer \<Rightarrow> delivery \<Rightarrow> string \<Rightarrow> ('w, consumer_action) state" where
  "sendToDLQ co m reason =
     if_err (co_publishDLQ co m reason) (\<lambda>_. ret (LostDLQ reason)) (ret (ToDLQ reason))"

definition handleDelivery :: "'w consumer \<Rightarrow> ctx \<Rightarrow> delivery \<Rightarrow> ('w, consumer_action list) state" where
  "handleDelivery co c m =
     (case Unmarshal_envelope (dl_Body m) of
        None \<Rightarrow> do { a \<leftarrow> sendToDLQ co m ''invalid_envelope''; ret [a, Ack] }
      | Some (eventType, body) \<Rightarrow>
          let attempts = retryCount m
          in do {
            err \<leftarrow> Dispatch (co_registry co) (WithAttempt c attempts (co_maxRetries co)) eventType body;
            case err of
              None \<Rightarrow> ret [Ack]
            | Some e \<Rightarrow>
                if as_NonRetryable e \<or> attempts \<ge> co_maxRetries co
                then do { a \<leftarrow> sendToDLQ co m ''handler_failed''; ret [a, Ack] }
                else ret [Nack False] })"

text \<open>
  The delivery of a message that died \<open>n\<close> times, and its life from there on, for at most \<open>fuel\<close>
  deliveries: the actions of each, and whether the last was an acknowledgement.
\<close>

definition delivery_after :: "payload \<Rightarrow> nat \<Rightarrow> delivery" where
  "delivery_after body n = \<lparr>dl_Body = body,
     dl_XDeath = (if n = 0 then None
                  else Some (AmqpArray [AmqpTable [(''count'', Int64 (int n))]]))\<rparr>"

fun message_life :: "'w consumer \<Rightarrow> ctx \<Rightarrow> payload \<Rightarrow> nat \<Rightarrow> nat \<Rightarrow> ('w, consumer_action list list \<times> bool) state" where
  "message_life co c body n 0 = ret ([], False)"
| "message_life co c body n (Suc fuel) = do {
     acts \<leftarrow> handleDelivery co c (delivery_after body n);
     if Nack False \<in> set acts then do {
       (rest, finished) \<leftarrow> message_life co c body (Suc n) fuel;
       ret (acts # rest, finished) }
     else ret ([acts], True) }"

section \<open>Facts\<close>

lemma retryCount_after [simp]: "retryCount (delivery_after body n) = int n"
  by (simp add: retryCount_def delivery_after_def)

text \<open>The three verdicts on a delivery.\<close>

definition verdicts :: "consumer_action list list" where
  "verdicts = [[Ack], [Nack False],
     [ToDLQ ''invalid_envelope'', Ack], [LostDLQ ''invalid_envelope'', Ack],
     [ToDLQ ''handler_failed'', Ack], [LostDLQ ''handler_failed'', Ack]]"

lemma sendToDLQ_cases: "wp (sendToDLQ co m why) (\<lambda>a w'. a = ToDLQ why \<or> a = LostDLQ why) w"
  by (auto simp: sendToDLQ_def wp_simps wp_def split: prod.splits option.splits)

lemma wp_anything: "(\<And>a t. Q a t) \<Longrightarrow> wp m Q s"
  by (rule wp_mono [OF wp_True])

lemma handleDelivery_verdicts:
  "wp (handleDelivery co c m) (\<lambda>acts w'. acts \<in> set verdicts \<and>
     (Nack False \<in> set acts \<longrightarrow> retryCount m < co_maxRetries co)) w"
  by (cases "Unmarshal_envelope (dl_Body m)")
    (auto simp: handleDelivery_def wp_simps verdicts_def Let_def split: option.splits
      intro!: wp_anything wp_mono [OF sendToDLQ_cases])

text \<open>
  C21. Each delivery gets exactly one verdict: it is acknowledged once, possibly after a copy was sent to
  the dead-letter queue, or rejected once without requeueing, and it is rejected only below the limit of
  retries.
\<close>

theorem delivery_verdict:
  "wp (handleDelivery co c m) (\<lambda>acts w'. acts \<in> set verdicts \<and>
     (Nack False \<in> set acts \<longrightarrow> retryCount m < co_maxRetries co)) w"
  by (rule handleDelivery_verdicts)

text \<open>A handler that always fails: rejected below the limit, sent to the dead-letter queue at it.\<close>

theorem delivery_verdict_witness:
  "\<exists>acts w'. run_state (handleDelivery (NewConsumer (Register ''t'' (\<lambda>_ _. ret (Some DeadlineExceeded)) empty_registry)
       3 (\<lambda>_ _. ret None)) None \<lparr>dl_Body = Wellformed (JObj [(''type'', JStr ''t'')]), dl_XDeath = None\<rparr>)
      sample_world = (acts, w') \<and> acts \<in> set verdicts"
proof -
  obtain acts w' where r: "run_state (handleDelivery (NewConsumer
       (Register ''t'' (\<lambda>_ _. ret (Some DeadlineExceeded)) empty_registry)
       3 (\<lambda>_ _. ret None)) None \<lparr>dl_Body = Wellformed (JObj [(''type'', JStr ''t'')]), dl_XDeath = None\<rparr>)
      sample_world = (acts, w')" by (metis surj_pair)
  show ?thesis using wpD [OF delivery_verdict r] r by blast
qed

lemma Nack_verdict: "acts \<in> set verdicts \<Longrightarrow> Nack False \<in> set acts \<longleftrightarrow> acts = [Nack False]"
  by (auto simp: verdicts_def)

lemma Ack_verdict: "acts \<in> set verdicts \<Longrightarrow> Nack False \<notin> set acts \<longleftrightarrow> last acts = Ack"
  by (auto simp: verdicts_def)

lemma message_life_bounded:
  "fuel = Suc (nat (co_maxRetries co - int n)) \<Longrightarrow>
     wp (message_life co c body n fuel) (\<lambda>(life, finished) w'. finished \<and> life \<noteq> [] \<and>
       length life \<le> fuel \<and> last (last life) = Ack \<and> (\<forall>acts \<in> set (butlast life). acts = [Nack False])) w"
proof (induction fuel arbitrary: n w)
  case (Suc fuel)
  show ?case
    unfolding message_life.simps wp_bind
  proof (rule wp_mono [OF handleDelivery_verdicts], goal_cases)
    case (1 acts w1)
    show ?case
    proof (cases "Nack False \<in> set acts")
      case True
      then have acts: "acts = [Nack False]" and lt: "int n < co_maxRetries co"
        using 1 Nack_verdict by auto
      then have "fuel = Suc (nat (co_maxRetries co - int (Suc n)))"
        using Suc.prems by auto
      then have "wp (message_life co c body (Suc n) fuel) (\<lambda>(life, finished) w'. finished \<and> life \<noteq> [] \<and>
         length life \<le> fuel \<and> last (last life) = Ack \<and> (\<forall>acts \<in> set (butlast life). acts = [Nack False])) w1"
        by (rule Suc.IH)
      then show ?thesis
        using True acts by (auto simp: wp_simps elim!: wp_mono)
    next
      case False
      then show ?thesis using 1 Ack_verdict by (auto simp: wp_simps)
    qed
  qed
qed simp

text \<open>
  C22. A message is not delivered for ever: after \<open>n\<close> deaths it is delivered at most
  \<open>maxRetries - n + 1\<close> more times, the last delivery is acknowledged and all before it were rejected.
\<close>

theorem message_life_ends:
  assumes "fuel = Suc (nat ((if limit \<le> 0 then 3 else limit) - int n))"
    and "run_state (message_life (NewConsumer reg limit dlq) c body n fuel) w = ((life, finished), w')"
  shows "finished \<and> life \<noteq> [] \<and> length life \<le> fuel \<and>
         last (last life) = Ack \<and> (\<forall>acts \<in> set (butlast life). acts = [Nack False])"
proof -
  have "fuel = Suc (nat (co_maxRetries (NewConsumer reg limit dlq) - int n))"
    using assms(1) by (simp add: NewConsumer_def)
  from wpD [OF message_life_bounded [OF this] assms(2)] show ?thesis by simp
qed

theorem message_life_ends_witness:
  "\<exists>life w'. run_state (message_life (NewConsumer empty_registry 0 (\<lambda>_ _. ret None)) None Malformed 0 4)
      sample_world = ((life, True), w') \<and> length life \<le> 4 \<and> last (last life) = Ack"
proof -
  obtain life finished w' where r: "run_state (message_life (NewConsumer empty_registry 0 (\<lambda>_ _. ret None))
      None Malformed 0 4) sample_world = ((life, finished), w')"
    by (metis surj_pair)
  have "finished" "length life \<le> 4" "last (last life) = Ack"
    using message_life_ends [OF _ r] by simp_all
  then show ?thesis using r by auto
qed

section \<open>Deduplication and retries together\<close>

text \<open>The worker's set-up for one event type: the handler, wrapped, in a registry of its own.\<close>

definition wrapped_consumer ::
  "services \<Rightarrow> string \<Rightarrow> string \<Rightarrow> world event_handler \<Rightarrow> int \<Rightarrow> (delivery \<Rightarrow> string \<Rightarrow> (world, go_error option) state)
     \<Rightarrow> world consumer" where
  "wrapped_consumer S eventType name handler limit dlq =
     NewConsumer
       (Register eventType (dedup_With (MarkProcessed S) (Some (UnmarkProcessed S)) name handler) empty_registry)
       limit dlq"

lemma dedup_With_marked:
  assumes "eventIDPayload p = Some eid" "eid \<noteq> ''''" "uuid_Parse (sv_uuid S) eid = Some k"
    and "(k, name) \<in> marked_rows w" "\<And>n. w_db_fault w n = None"
  shows "wp (dedup_With (MarkProcessed S) (Some (UnmarkProcessed S)) name handler c p)
    (\<lambda>r w'. r = None \<and> w_db w' = w_db w \<and> w_effects w' = w_effects w) w"
  using assms
  by (auto simp: dedup_With_def dedup_run_def MarkProcessed_def wp_simps marked_rows_def or_violation_def
      tbl_insert_def list_ex_key db_fault_free wp_db_exec isUniqueViolation_def outcome_err_def
      split: option.splits)

text \<open>
  C23. An error outside the two classes loses the event: if the wrapped handler returns one (and nothing
  else fails), the first delivery is rejected for a retry, but the event stays marked as processed, so
  the redelivery is skipped and acknowledged; the message neither reaches the handler again nor the
  dead-letter queue.
\<close>

theorem unclassified_error_loses_event:
  assumes "\<And>n. w_db_fault w n = None"
    and "\<And>c v. wp (handler c p) (\<lambda>r v'. marked_rows v' = marked_rows v \<and>
      w_db_fault v' = w_db_fault v \<and> r = Some e) v"
    and "\<not> classified e" "Unmarshal_envelope body = Some (eventType, p)"
    and "eventIDPayload p = Some eid" "eid \<noteq> ''''" "uuid_Parse (sv_uuid S) eid = Some k"
    and "(k, name) \<notin> marked_rows w"
  shows "fst (run_state (message_life (wrapped_consumer S eventType name handler limit dlq) c body 0 2) w) =
         ([[Nack False], [Ack]], True)"
proof -
  let ?co = "wrapped_consumer S eventType name handler limit dlq"
  let ?h = "dedup_With (MarkProcessed S) (Some (UnmarkProcessed S)) name handler"
  have max: "0 < co_maxRetries ?co" and reg: "co_registry ?co eventType = [?h]"
    by (simp_all add: wrapped_consumer_def NewConsumer_def Register_def empty_registry_def)
  have e: "\<not> as_NonRetryable e" "\<not> as_Retryable e"
    using assms(3) by (simp_all add: classified_def)
  have first: "wp (handleDelivery ?co c (delivery_after body 0))
    (\<lambda>acts w'. acts = [Nack False] \<and> (k, name) \<in> marked_rows w' \<and> w_db_fault w' = w_db_fault w) w"
    unfolding handleDelivery_def Dispatch_def
    by (simp add: delivery_after_def assms(4) reg Let_def wp_simps)
      (rule wp_mono [OF dedup_With_fresh [of w handler _ p "Some e" eid S k name, OF assms(1,2,5-8)]],
        use e max in \<open>simp add: wp_simps retryCount_def\<close>)
  have second: "wp (handleDelivery ?co c (delivery_after body (Suc 0))) (\<lambda>acts w'. acts = [Ack]) w1"
    if "(k, name) \<in> marked_rows w1" "w_db_fault w1 = w_db_fault w" for w1
    unfolding handleDelivery_def Dispatch_def
    by (simp add: delivery_after_def assms(4) reg Let_def wp_simps)
      (rule wp_mono [OF dedup_With_marked [OF assms(5-7) that(1)]],
        use assms(1) that(2) in \<open>simp_all add: wp_simps\<close>)
  have "wp (message_life ?co c body 0 2) (\<lambda>r w'. r = ([[Nack False], [Ack]], True)) w"
    unfolding numeral_2_eq_2 message_life.simps wp_bind
    by (rule wp_mono [OF first]) (auto simp: wp_simps intro!: wp_mono [OF second])
  then show ?thesis by (simp add: wp_def split: prod.splits)
qed

definition sample_body :: payload where
  "sample_body = Wellformed (JObj [(''type'', JStr ''t''), (''payload'', JObj [(''eventId'', JStr ''7'')])])"

lemma sample_body_simps:
  "Unmarshal_envelope sample_body = Some (''t'', sample_payload)"
  "eventIDPayload sample_payload = Some ''7''" "uuid_Parse decimal_lib ''7'' = Some 7"
proof -
  show "uuid_Parse decimal_lib ''7'' = Some 7" by code_simp
qed (simp_all add: Unmarshal_envelope_def sample_body_def sample_payload_def eventIDPayload_def)

theorem unclassified_error_loses_event_witness:
  "fst (run_state (message_life (wrapped_consumer sample_services ''t'' ''h''
     (\<lambda>c p. ret (Some (ErrorText ''tx''))) 3 (\<lambda>_ _. ret None)) None sample_body 0 2) sample_world) =
   ([[Nack False], [Ack]], True)"
  by (rule unclassified_error_loses_event [where e = "ErrorText ''tx''" and p = sample_payload
        and eid = "''7''" and k = 7])
    (simp_all add: sample_body_simps wp_simps sample_world_def marked_rows_def empty_db_def classified_def)

text \<open>
  A message that cannot be copied to the dead-letter queue is lost: when that publication fails, the
  failure is only logged and the delivery is acknowledged all the same.
\<close>

theorem dlq_failure_loses_message:
  assumes "Unmarshal_envelope (dl_Body m) = None \<or>
      (\<exists>ty p. Unmarshal_envelope (dl_Body m) = Some (ty, p) \<and> retryCount m \<ge> co_maxRetries co \<and>
        (\<forall>c v. wp (Dispatch (co_registry co) c ty p) (\<lambda>r v'. r \<noteq> None) v))"
    and "\<And>d why v. wp (co_publishDLQ co d why) (\<lambda>r v'. r \<noteq> None) v"
  shows "wp (handleDelivery co c m) (\<lambda>acts w'. \<exists>why. acts = [LostDLQ why, Ack]) w"
proof -
  have dlq: "wp (sendToDLQ co m why) (\<lambda>a v'. a = LostDLQ why) v" for why v
    unfolding sendToDLQ_def wp_if_err
    by (rule wp_mono [OF assms(2)]) (auto simp: wp_simps)
  from assms(1) show ?thesis
  proof
    assume "Unmarshal_envelope (dl_Body m) = None"
    then show ?thesis
      by (auto simp: handleDelivery_def wp_simps intro!: wp_mono [OF dlq])
  next
    assume "\<exists>ty p. Unmarshal_envelope (dl_Body m) = Some (ty, p) \<and> retryCount m \<ge> co_maxRetries co \<and>
      (\<forall>c v. wp (Dispatch (co_registry co) c ty p) (\<lambda>r v'. r \<noteq> None) v)"
    then obtain ty p where tp: "Unmarshal_envelope (dl_Body m) = Some (ty, p)"
      "retryCount m \<ge> co_maxRetries co"
      and bad: "\<And>c v. wp (Dispatch (co_registry co) c ty p) (\<lambda>r v'. r \<noteq> None) v"
      by blast
    show ?thesis
      unfolding handleDelivery_def tp(1) option.case prod.case Let_def wp_bind
      by (rule wp_mono [OF bad]) (use tp(2) in \<open>auto simp: wp_simps intro!: wp_mono [OF dlq]\<close>)
  qed
qed

theorem dlq_failure_loses_message_witness:
  "wp (handleDelivery (NewConsumer empty_registry 3 (\<lambda>_ _. ret (Some Canceled))) None
     \<lparr>dl_Body = Malformed, dl_XDeath = None\<rparr>) (\<lambda>acts w'. \<exists>why. acts = [LostDLQ why, Ack]) sample_world"
  by (rule dlq_failure_loses_message) (simp_all add: Unmarshal_envelope_def NewConsumer_def wp_simps)

section \<open>The queues\<close>

text \<open>
  The topology is closed: a rejected message goes to the retry queue and nowhere else, one that
  expires there goes back to the main queue and nowhere else, the dead-letter queue is reached only by
  what the consumer publishes to it and leads nowhere, and the main queue is bound to the configured
  keys, to all keys when none is configured.
\<close>

theorem topology_closed:
  assumes "to_DLX t \<noteq> to_Exchange t" "to_Queue t \<noteq> to_RetryQueue t" "to_DLQ t \<noteq> to_Queue t"
    and "to_DLQ t \<noteq> to_RetryQueue t"
  shows "map_option (route t) (dead_letter_target t (to_Queue t)) = Some [to_RetryQueue t] \<and>
         map_option (route t) (dead_letter_target t (to_RetryQueue t)) = Some [to_Queue t] \<and>
         route t (to_DLX t, ''dlq'') = [to_DLQ t] \<and> dead_letter_target t (to_DLQ t) = None \<and>
         splitRoutingKeys (to_RoutingKey t) \<noteq> [] \<and>
         (\<forall>k. to_Queue t \<in> set (route t (to_Exchange t, k)) \<longleftrightarrow> k \<in> set (splitRoutingKeys (to_RoutingKey t)))"
proof -
  have keys: "splitRoutingKeys (to_RoutingKey t) \<noteq> []"
    by (simp add: splitRoutingKeys_def Let_def)
  have none: "filter (\<lambda>(q, k, x). x = to_DLX t \<and> k = key)
      (map (\<lambda>k. (to_Queue t, k, to_Exchange t)) (splitRoutingKeys (to_RoutingKey t))) = []" for key
    using assms(1) by (auto simp: filter_empty_conv)
  show ?thesis
    using assms keys none by (auto simp: dead_letter_target_def route_def declared_bindings_def image_iff)
qed

theorem topology_closed_witness:
  "let t = DefaultTopology ''events'' ''worker'' ''video.#, user.#'' 0 in
     map_option (route t) (dead_letter_target t (to_Queue t)) = Some [''worker.retry''] \<and>
     route t (to_DLX t, ''dlq'') = [''worker.dlq'']"
  using topology_closed [of "DefaultTopology ''events'' ''worker'' ''video.#, user.#'' 0"]
  by (simp add: DefaultTopology_def)

end
