(* ===== verification/Handlers.thy ===== *)
theory Handlers
  imports Outbox
begin

text \<open>
  What the command handlers of \<open>internal/application/command\<close> share: the single-transaction helper, the
  invariant of the database at rest, and a calculus of triples that carries it through a handler.

  A triple \<open>holds P R m\<close> says: from every world whose database satisfies \<open>P\<close>, whatever statements and
  services fail, \<open>m\<close> ends with a database that satisfies \<open>P\<close> and returns a value that satisfies \<open>R\<close>.
\<close>

text \<open>\<open>WithTransaction\<close> around a body that writes no variable of the enclosing function.\<close>

definition Transaction :: "(world, go_error option) state \<Rightarrow> (world, go_error option) state" where
  "Transaction m = do {
     (err, _) \<leftarrow> WithTransaction () (\<lambda>_. do { err \<leftarrow> m; ret (err, ()) });
     ret err }"

section \<open>Triples\<close>

definition holds :: "(db \<Rightarrow> bool) \<Rightarrow> ('a \<Rightarrow> bool) \<Rightarrow> (world, 'a) state \<Rightarrow> bool" where
  "holds P R m \<longleftrightarrow> (\<forall>w. P (w_db w) \<longrightarrow> wp m (\<lambda>a w'. P (w_db w') \<and> R a) w)"

lemma holdsI: "(\<And>w. P (w_db w) \<Longrightarrow> wp m (\<lambda>a w'. P (w_db w') \<and> R a) w) \<Longrightarrow> holds P R m"
  by (simp add: holds_def)

lemma holds_wp: "holds P R m \<Longrightarrow> P (w_db w) \<Longrightarrow> wp m (\<lambda>a w'. P (w_db w') \<and> R a) w"
  by (simp add: holds_def)

lemma holdsD:
  "holds P R m \<Longrightarrow> P (w_db w) \<Longrightarrow> run_state m w = (a, w') \<Longrightarrow> P (w_db w') \<and> R a"
  using wpD [OF holds_wp] by fastforce

lemma holds_weaken: "holds P Q m \<Longrightarrow> (\<And>a. Q a \<Longrightarrow> R a) \<Longrightarrow> holds P R m"
  by (auto simp: holds_def intro: wp_mono)

lemma holds_conj: "holds P Q m \<Longrightarrow> holds P R m \<Longrightarrow> holds P (\<lambda>a. Q a \<and> R a) m"
  by (auto simp: holds_def wp_def split: prod.splits)

lemma holds_ret: "R a \<Longrightarrow> holds P R (ret a)"
  by (simp add: holds_def wp_simps)

lemma holds_bind:
  "holds P Q m \<Longrightarrow> (\<And>a. Q a \<Longrightarrow> holds P R (f a)) \<Longrightarrow> holds P R (State_Monad.bind m f)"
  unfolding holds_def wp_bind by (blast intro: wp_mono)

lemma holds_on_err:
  "holds P Q m \<Longrightarrow> (\<And>e. Q (Inl e) \<Longrightarrow> holds P R (h e)) \<Longrightarrow> (\<And>x. Q (Inr x) \<Longrightarrow> holds P R (k x)) \<Longrightarrow>
     holds P R (on_err m h k)"
  unfolding on_err_def by (rule holds_bind [where Q = Q]) (auto split: sum.splits)

lemma holds_if_err:
  "holds P Q m \<Longrightarrow> (\<And>e. Q (Some e) \<Longrightarrow> holds P R (h e)) \<Longrightarrow> (Q None \<Longrightarrow> holds P R k) \<Longrightarrow>
     holds P R (if_err m h k)"
  unfolding if_err_def by (rule holds_bind [where Q = Q]) (auto split: option.splits)

lemma holds_if: "(b \<Longrightarrow> holds P R m) \<Longrightarrow> (\<not> b \<Longrightarrow> holds P R n) \<Longrightarrow> holds P R (if b then m else n)"
  by simp

lemma holds_case_option:
  "(x = None \<Longrightarrow> holds P R m) \<Longrightarrow> (\<And>y. x = Some y \<Longrightarrow> holds P R (f y)) \<Longrightarrow>
     holds P R (case x of None \<Rightarrow> m | Some y \<Rightarrow> f y)"
  by (simp split: option.splits)

lemma holds_case_sum:
  "(\<And>y. x = Inl y \<Longrightarrow> holds P R (f y)) \<Longrightarrow> (\<And>z. x = Inr z \<Longrightarrow> holds P R (g z)) \<Longrightarrow>
     holds P R (case x of Inl y \<Rightarrow> f y | Inr z \<Rightarrow> g z)"
  by (simp split: sum.splits)

lemma holds_case_prod:
  "(\<And>a b. p = (a, b) \<Longrightarrow> holds P R (f a b)) \<Longrightarrow> holds P R (case p of (a, b) \<Rightarrow> f a b)"
  by (simp split: prod.splits)

lemma holds_let: "(\<And>y. y = x \<Longrightarrow> holds P R (f y)) \<Longrightarrow> holds P R (Let x f)"
  by simp

lemma holds_True: "(\<And>w. P (w_db w) \<Longrightarrow> wp m (\<lambda>_ w'. P (w_db w')) w) \<Longrightarrow> holds P (\<lambda>_. True) m"
  by (simp add: holds_def)

lemma holds_svc: "holds P (\<lambda>_. True) (svc f)"
  by (simp add: holds_def wp_simps)

lemma holds_svc_val: "(\<And>n. R (f n)) \<Longrightarrow> holds P R (svc f)"
  by (simp add: holds_def wp_simps)

lemma holds_note_effect: "holds P (\<lambda>_. True) (note_effect e)"
  by (simp add: holds_def wp_simps)

lemma holds_rt_op: "(\<And>r. wp m (\<lambda>a _. R a) r) \<Longrightarrow> holds P R (rt_op m)"
  by (auto simp: holds_def wp_simps intro: wp_mono)

lemma holds_rt_True: "holds P (\<lambda>_. True) (rt_op m)"
  by (rule holds_rt_op) simp

lemma holds_db_op:
  assumes "\<And>d x d'. P d \<Longrightarrow> f d = Inr (x, d') \<Longrightarrow> P d' \<and> R (Inr x)" and "\<And>e. R (Inl e)"
  shows "holds P R (db_op f)"
proof (rule holdsI, rule db_op_cases)
  fix w x d
  assume "P (w_db w)" "f (w_db w) = Inr (x, d)"
  from assms(1) [OF this]
  show "P (w_db (w\<lparr>w_db_calls := Suc (w_db_calls w), w_db := d\<rparr>)) \<and> R (Inr x)" by simp
qed (use assms in simp)

lemma holds_db_query:
  "(\<And>d. P d \<Longrightarrow> R (Inr (f d))) \<Longrightarrow> (\<And>e. R (Inl e)) \<Longrightarrow> holds P R (db_query f)"
  unfolding db_query_def by (rule holds_db_op) auto

lemma holds_db_exec:
  assumes "\<And>d d'. P d \<Longrightarrow> f d = Inr d' \<Longrightarrow> P d'"
  shows "holds P (\<lambda>_. True) (db_exec f)"
proof (rule holdsI, rule db_exec_cases)
  fix w d
  assume "P (w_db w)" "f (w_db w) = Inr d"
  from assms [OF this] show "P (w_db (w\<lparr>w_db_calls := Suc (w_db_calls w), w_db := d\<rparr>)) \<and> True" by simp
qed simp

text \<open>A transaction: its own failures leave the captured variables as the body left them.\<close>

lemma holds_WithTransaction:
  assumes "Q c" and "holds P (\<lambda>(err, c'). Q c') (body c)"
  shows "holds P (\<lambda>(err, c'). Q c') (WithTransaction c body)"
proof (rule holdsI, rule WithTransaction_cases)
  fix w :: world
  assume P: "P (w_db w)"
  then have "wp (body c) (\<lambda>(err, c') w1. P (w_db w1) \<and> Q c') (w\<lparr>w_db_calls := Suc (w_db_calls w)\<rparr>)"
    by (intro wp_mono [OF holds_wp [OF assms(2)]]) auto
  then show "wp (body c) (\<lambda>(err, c') w1. case err of
        Some e \<Rightarrow> P (w_db (w1\<lparr>w_db := w_db w\<rparr>)) \<and> (case (Some e, c') of (err, c') \<Rightarrow> Q c')
      | None \<Rightarrow>
          (\<forall>n. P (w_db (w1\<lparr>w_db_calls := n\<rparr>)) \<and> (case (None, c') of (err, c') \<Rightarrow> Q c')) \<and>
          (\<forall>e n. P (w_db (w1\<lparr>w_db_calls := n, w_db := w_db w\<rparr>)) \<and>
            (case (Some e, c') of (err, c') \<Rightarrow> Q c')))
      (w\<lparr>w_db_calls := Suc (w_db_calls w)\<rparr>)"
    by (rule wp_mono) (use P in \<open>auto split: option.splits\<close>)
qed (use assms in auto)

lemma holds_Transaction:
  assumes "holds P (\<lambda>_. True) m"
  shows "holds P (\<lambda>_. True) (Transaction m)"
  unfolding Transaction_def
  by (rule holds_bind [OF holds_WithTransaction [where Q = "\<lambda>_. True"]])
    (auto intro!: holds_bind [OF assms] holds_ret holds_case_prod)

lemmas holds_control =
  holds_bind holds_on_err holds_if_err holds_if holds_case_option holds_case_sum holds_case_prod
  holds_let

text \<open>
  Atomicity: when a transaction returns an error, the tables are those of before.
\<close>

lemma WithTransaction_atomic:
  assumes "run_state (WithTransaction c body) w = (res, w')" "fst res \<noteq> None"
  shows "w_db w' = w_db w"
proof -
  have "wp (WithTransaction c body) (\<lambda>res w'. fst res \<noteq> None \<longrightarrow> w_db w' = w_db w) w"
    by (rule WithTransaction_cases) (auto intro!: wpI split: option.splits)
  from wpD [OF this assms(1)] assms(2) show ?thesis by blast
qed

lemma Transaction_atomic:
  "run_state (Transaction m) w = (Some e, w') \<Longrightarrow> w_db w' = w_db w"
  unfolding Transaction_def
  by (auto simp: State_Monad.bind_def dest: WithTransaction_atomic split: prod.splits)

section \<open>Fault-free runs\<close>

text \<open>
  Symbolic execution of a run in which no statement fails: the congruences keep the simplifier out of
  the continuations until the value they wait for is known.
\<close>

lemma wp_lazy: "m = m' \<Longrightarrow> w = w' \<Longrightarrow> wp m Q w = wp m' Q w'"
  by simp

lemma bind_lazy: "m = m' \<Longrightarrow> State_Monad.bind m f = State_Monad.bind m' f"
  by simp

lemma on_err_lazy: "m = m' \<Longrightarrow> on_err m h k = on_err m' h k"
  by simp

lemma if_err_lazy: "m = m' \<Longrightarrow> if_err m h k = if_err m' h k"
  by simp

lemmas lazy_congs = wp_lazy bind_lazy on_err_lazy if_err_lazy

lemmas quiet_simps = wp_simps wp_WithTransaction wp_db_exec db_fault_free Transaction_def db_query_def

lemma fault_free_run:
  assumes "wp m Q w" shows "\<exists>a w'. run_state m w = (a, w') \<and> Q a w'"
  using assms by (simp add: wp_def split: prod.splits)

end
