(* ===== verification/DbInvariant.thy ===== *)
theory DbInvariant
  imports Handlers
begin

text \<open>
  The invariant of the database at rest, \<open>db_ok\<close>, and the proof that every statement of the write
  repositories keeps it when it is given well-formed rows. The handlers' theories add that the rows they
  write are well-formed.
\<close>

section \<open>Well-formed rows\<close>

text \<open>A video in memory, and one at rest, which carries no pending event.\<close>

definition video_ok :: "uuid_lib \<Rightarrow> video \<Rightarrow> bool" where
  "video_ok U v \<longleftrightarrow>
     v_Status v \<in> set video_statuses \<and>
     (v_FinishedAt v \<noteq> None \<longleftrightarrow> v_Status v = StatusSuccess) \<and>
     v_StorageKey v = NewStorageKey U (v_ID v)"

text \<open>A message of the outbox is an event of the program, under the event's own id.\<close>

definition outbox_row_ok :: "uuid_lib \<Rightarrow> outbox_row \<Rightarrow> bool" where
  "outbox_row_ok U r \<longleftrightarrow>
     (\<exists>e \<in> range of_video_event \<union> range of_user_event.
        uuid_Parse U (de_EventID e) = Some (ob_ID r) \<and> ob_EventType r = de_EventType e \<and>
        ob_AggregateID r = de_AggregateID e \<and> ob_Payload r = de_Payload e \<and>
        ob_CreatedAt r = de_OccurredAt e)"

section \<open>Well-formed tables\<close>

definition videos_ok :: "uuid_lib \<Rightarrow> video list \<Rightarrow> bool" where
  "videos_ok U t \<longleftrightarrow> distinct (map v_ID t) \<and> distinct (map v_StorageKey t) \<and>
     (\<forall>v \<in> set t. video_ok U v \<and> v_events v = [])"

definition jobs_ok :: "job list \<Rightarrow> bool" where
  "jobs_ok t \<longleftrightarrow> distinct (map j_ID t) \<and> distinct (map (\<lambda>j. (j_VideoID j, j_Type j)) t) \<and>
     (\<forall>j \<in> set t. job_life.consistent j)"

definition segments_ok :: "segment list \<Rightarrow> bool" where
  "segments_ok t \<longleftrightarrow> distinct (map s_ID t) \<and> distinct (map segment_key t) \<and>
     (\<forall>s \<in> set t. segment_life.consistent s)"

definition users_ok :: "user list \<Rightarrow> bool" where
  "users_ok t \<longleftrightarrow> distinct (map u_ID t) \<and> distinct (map u_ClerkID t) \<and> distinct (map u_Email t) \<and>
     (\<forall>u \<in> set t. u_events u = [])"

definition db_ok :: "uuid_lib \<Rightarrow> db \<Rightarrow> bool" where
  "db_ok U d \<longleftrightarrow>
     videos_ok U (t_videos d) \<and> jobs_ok (t_jobs d) \<and> segments_ok (t_segments d) \<and> users_ok (t_users d) \<and>
     distinct (map f_ID (t_frames d)) \<and> distinct (map frame_key (t_frames d)) \<and>
     distinct (map o_ID (t_ocrs d)) \<and> distinct (map o_FrameID (t_ocrs d)) \<and>
     distinct (map c_ID (t_classifications d)) \<and> distinct (map c_FrameID (t_classifications d)) \<and>
     distinct (map ob_ID (t_outbox d)) \<and> (\<forall>r \<in> set (t_outbox d). outbox_row_ok U r)"

lemma empty_db_ok [simp]: "db_ok U empty_db"
  by (simp add: db_ok_def empty_db_def videos_ok_def jobs_ok_def segments_ok_def users_ok_def)

text \<open>
  What a video may have become since it was \<open>v0\<close>: its identity and creation are the same, its status has moved
  along the state machine, and once it has succeeded its finish time stays.
\<close>

definition evolved :: "video \<Rightarrow> video \<Rightarrow> bool" where
  "evolved v0 v \<longleftrightarrow> v_StorageKey v = v_StorageKey v0 \<and> v_OriginalFilename v = v_OriginalFilename v0 \<and>
     v_CreatedAt v = v_CreatedAt v0 \<and> (v_Status v0, v_Status v) \<in> (set video_moves)\<^sup>* \<and>
     (v_Status v0 = StatusSuccess \<longrightarrow> v_FinishedAt v = v_FinishedAt v0)"

text \<open>
  The invariant over a history \<open>H\<close>, the videos there once were: they are still there, as what they may have
  become. The empty history asks for nothing.
\<close>

definition grown :: "(uuid \<rightharpoonup> video) \<Rightarrow> video \<Rightarrow> bool" where
  "grown H v \<longleftrightarrow> (\<forall>v0. H (v_ID v) = Some v0 \<longrightarrow> evolved v0 v)"

definition video_after :: "(uuid \<rightharpoonup> video) \<Rightarrow> uuid_lib \<Rightarrow> video \<Rightarrow> bool" where
  "video_after H U v \<longleftrightarrow> video_ok U v \<and> grown H v"

definition videos_after :: "(uuid \<rightharpoonup> video) \<Rightarrow> uuid_lib \<Rightarrow> video list \<Rightarrow> bool" where
  "videos_after H U t \<longleftrightarrow> videos_ok U t \<and> dom H \<subseteq> v_ID ` set t \<and> (\<forall>v \<in> set t. grown H v)"

definition db_after :: "(uuid \<rightharpoonup> video) \<Rightarrow> uuid_lib \<Rightarrow> db \<Rightarrow> bool" where
  "db_after H U d \<longleftrightarrow> db_ok U d \<and> videos_after H U (t_videos d)"

lemma grown_empty [simp]: "grown Map.empty v"
  by (simp add: grown_def)

lemma db_after_empty [simp]: "db_after Map.empty U d \<longleftrightarrow> db_ok U d"
  by (auto simp: db_after_def videos_after_def db_ok_def)

lemma grown_same:
  "v_ID v' = v_ID v \<Longrightarrow> v_StorageKey v' = v_StorageKey v \<Longrightarrow> v_OriginalFilename v' = v_OriginalFilename v \<Longrightarrow>
     v_CreatedAt v' = v_CreatedAt v \<Longrightarrow> v_Status v' = v_Status v \<Longrightarrow> v_FinishedAt v' = v_FinishedAt v \<Longrightarrow>
     grown H v' = grown H v"
  by (simp add: grown_def evolved_def)

lemma success_stays: "(StatusSuccess, s) \<in> (set video_moves)\<^sup>* \<Longrightarrow> s = StatusSuccess"
  by (erule converse_rtranclE) (auto dest: video_moves_closed)

lemma evolved_step:
  assumes "evolved v0 v" "video_frame U r v v' r'" "status_step v v'"
  shows "evolved v0 v'"
proof -
  have path: "(v_Status v0, v_Status v) \<in> (set video_moves)\<^sup>*" using assms(1) by (simp add: evolved_def)
  have "(v_Status v0, v_Status v') \<in> (set video_moves)\<^sup>*"
    using path assms(3) by (auto simp: status_step_def intro: rtrancl_into_rtrancl)
  moreover have "v_FinishedAt v' = v_FinishedAt v0" if "v_Status v0 = StatusSuccess"
  proof -
    have "v_Status v = StatusSuccess" using success_stays path that by metis
    then show ?thesis
      using assms(1,3) that video_moves_closed [of StatusSuccess "v_Status v'"] by (auto simp: status_step_def evolved_def)
  qed
  ultimately show ?thesis using assms(1,2) by (simp add: evolved_def video_frame_def)
qed

section \<open>The statements\<close>

lemma tbl_find_Some: "tbl_find P t = Some x \<Longrightarrow> x \<in> set t \<and> P x"
  by (auto simp: tbl_find_def find_Some_iff)

lemma tbl_insert_set: "tbl_insert clash x t = Some t' \<Longrightarrow> set t' = insert x (set t)"
  by (auto simp: tbl_insert_def split: if_splits)

lemma tbl_save_set: "tbl_save pk clash x t = Some t' \<Longrightarrow> set t' \<subseteq> insert x (set t)"
  by (auto simp: tbl_save_def split: if_splits)

lemma upsert_row_set:
  "upsert_row key pk merge x t = Some t' \<Longrightarrow>
     set t' \<subseteq> insert x (set t) \<union> (\<lambda>y. merge y x) ` set t"
  by (auto simp: upsert_row_def split: if_splits)

lemma upsert_rows_Ball:
  assumes "upsert_rows key pk merge xs t = Some t'" "\<forall>y \<in> set t. P y"
    and "\<forall>x \<in> set xs. P x" "\<forall>x \<in> set xs. \<forall>y. P y \<longrightarrow> P (merge y x)"
  shows "\<forall>y \<in> set t'. P y"
  using assms
proof (induction xs arbitrary: t)
  case (Cons x xs)
  then obtain u where u: "upsert_row key pk merge x t = Some u" "upsert_rows key pk merge xs u = Some t'"
    by (auto split: option.splits)
  have "\<forall>y \<in> set u. P y"
  proof
    fix y
    assume "y \<in> set u"
    then consider "y = x" | "y \<in> set t" | z where "z \<in> set t" "y = merge z x"
      using upsert_row_set [OF u(1)] by blast
    then show "P y" using Cons.prems(2-4) by cases auto
  qed
  then show ?case using Cons.IH [OF u(2)] Cons.prems(3,4) by simp
qed simp

lemma upsert_row_pk:
  assumes "upsert_row key pk merge x t = Some t'" "distinct (map pk t)" "\<forall>x y. pk (merge y x) = pk y"
  shows "distinct (map pk t')"
proof (cases "list_ex (\<lambda>y. key y = key x) t")
  case True
  then have "t' = map (\<lambda>y. if key y = key x then merge y x else y) t"
    using assms(1) by (simp add: upsert_row_def)
  then have "map pk t' = map pk t" using assms(3) by simp
  then show ?thesis using assms(2) by simp
next
  case False
  then have t': "t' = t @ [x]" and n: "\<not> list_ex (\<lambda>y. pk y = pk x) t"
    using assms(1) by (auto simp: upsert_row_def split: if_splits)
  have "pk x \<notin> pk ` set t"
    using n by (auto simp: list_ex_iff image_iff)
  then show ?thesis using assms(2) t' by simp
qed

lemma upsert_rows_pk:
  assumes "upsert_rows key pk merge xs t = Some t'" "distinct (map pk t)" "\<forall>x y. pk (merge y x) = pk y"
  shows "distinct (map pk t')"
  using assms(1,2)
proof (induction xs arbitrary: t)
  case (Cons x xs)
  then obtain u where u: "upsert_row key pk merge x t = Some u" "upsert_rows key pk merge xs u = Some t'"
    by (auto split: option.splits)
  from Cons.IH [OF u(2) upsert_row_pk [OF u(1) Cons.prems(2) assms(3)]] show ?case .
qed simp

lemma tbl_upsert_all_distinct:
  assumes "tbl_upsert_all key pk merge xs t = Some t'"
    and "distinct (map pk t)" "distinct (map key t)"
    and "\<forall>x y. pk (merge y x) = pk y" "\<forall>x y. key y = key x \<longrightarrow> key (merge y x) = key x"
  shows "distinct (map pk t') \<and> distinct (map key t')"
proof -
  have u: "upsert_rows key pk merge xs t = Some t'"
    using assms(1) by (simp add: tbl_upsert_all_def split: if_splits)
  have "distinct (map key t')"
    using upsert_rows_distinct [OF u assms(3)] assms(5) by blast
  then show ?thesis using upsert_rows_pk [OF u assms(2,4)] by blast
qed

lemma tbl_upsert_all_rows: "tbl_upsert_all key pk merge xs t = Some t' \<Longrightarrow> upsert_rows key pk merge xs t = Some t'"
  by (simp add: tbl_upsert_all_def split: if_splits)

lemma or_violation_Inr: "or_violation f t = Inr d \<Longrightarrow> \<exists>x. t = Some x \<and> d = f x"
  by (auto simp: or_violation_def split: option.splits)


section \<open>The repositories keep the invariant\<close>

lemma db_after_videos: "db_after H U d \<Longrightarrow> videos_after H U t \<Longrightarrow> db_after H U (d\<lparr>t_videos := t\<rparr>)"
  by (simp add: db_after_def db_ok_def videos_after_def)

lemma db_after_jobs: "db_after H U d \<Longrightarrow> jobs_ok t \<Longrightarrow> db_after H U (d\<lparr>t_jobs := t\<rparr>)"
  by (simp add: db_after_def db_ok_def)

lemma db_after_segments: "db_after H U d \<Longrightarrow> segments_ok t \<Longrightarrow> db_after H U (d\<lparr>t_segments := t\<rparr>)"
  by (simp add: db_after_def db_ok_def)

lemma video_ok_model [simp]: "video_ok U (videoModelFromDomain v) = video_ok U v"
  by (simp add: video_ok_def videoModelFromDomain_def)

lemma video_after_model [simp]: "video_after H U (videoModelFromDomain v) = video_after H U v"
  by (simp add: video_after_def grown_def evolved_def videoModelFromDomain_def video_ok_def)

lemma video_after_stamp [simp]: "video_after H U (v\<lparr>v_UpdatedAt := n\<rparr>) = video_after H U v"
  by (simp add: video_after_def video_ok_def grown_def evolved_def)

lemma videoModel_simps [simp]:
  "v_ID (videoModelFromDomain v) = v_ID v" "v_StorageKey (videoModelFromDomain v) = v_StorageKey v"
  "v_events (videoModelFromDomain v) = []"
  by (simp_all add: videoModelFromDomain_def)

lemma videos_ok_insert:
  assumes "tbl_insert video_clash x t = Some t'" "videos_ok U t" "video_ok U x" "v_events x = []"
  shows "videos_ok U t'"
proof -
  have "distinct (map v_ID t')" "distinct (map v_StorageKey t')"
    using tbl_insert_distinct [OF assms(1), of v_ID] tbl_insert_distinct [OF assms(1), of v_StorageKey]
      assms(2) by (auto simp: videos_ok_def video_clash_def)
  then show ?thesis
    using tbl_insert_set [OF assms(1)] assms(2-4) by (auto simp: videos_ok_def)
qed

lemma videos_ok_save:
  assumes "tbl_save v_ID video_clash x t = Some t'" "videos_ok U t" "video_ok U x" "v_events x = []"
  shows "videos_ok U t'"
proof -
  have "distinct (map v_ID t')" "distinct (map v_StorageKey t')"
    using tbl_save_distinct [OF assms(1), of v_ID] tbl_save_distinct [OF assms(1), of v_StorageKey]
      assms(2) by (auto simp: videos_ok_def video_clash_def)
  then show ?thesis
    using tbl_save_set [OF assms(1)] assms(2-4) by (auto simp: videos_ok_def)
qed

lemma videos_after_insert:
  assumes "tbl_insert video_clash x t = Some t'" "videos_after H U t" "video_ok U x" "v_events x = []"
  shows "videos_after H U t'"
proof -
  have "v_ID x \<notin> v_ID ` set t"
    using assms(1) by (auto simp: tbl_insert_def video_clash_def list_ex_iff split: if_splits)
  then have "grown H x" using assms(2) by (auto simp: grown_def videos_after_def)
  then show ?thesis
    using tbl_insert_set [OF assms(1)] videos_ok_insert [OF assms(1) _ assms(3,4)] assms(2) by (auto simp: videos_after_def)
qed

lemma tbl_save_keys:
  assumes "tbl_save pk clash x t = Some t'"
  shows "pk ` set t \<subseteq> pk ` set t'"
proof -
  have "(\<lambda>y. pk (if pk y = pk x then x else y)) = pk" by auto
  then have "pk ` set (map (\<lambda>y. if pk y = pk x then x else y) t) = pk ` set t"
    unfolding set_map image_image by (rule arg_cong)
  then show ?thesis using assms by (auto simp: tbl_save_def simp del: set_map split: if_splits)
qed

lemma videos_after_save:
  assumes "tbl_save v_ID video_clash x t = Some t'" "videos_after H U t" "video_after H U x" "v_events x = []"
  shows "videos_after H U t'"
proof -
  have "videos_ok U t'" using videos_ok_save [OF assms(1)] assms(2-4) by (simp add: videos_after_def video_after_def)
  moreover have "dom H \<subseteq> v_ID ` set t'" using tbl_save_keys [OF assms(1)] assms(2) unfolding videos_after_def by blast
  moreover have "grown H v" if "v \<in> set t'" for v
    using tbl_save_set [OF assms(1)] that assms(2,3) by (auto simp: videos_after_def video_after_def)
  ultimately show ?thesis by (simp add: videos_after_def)
qed

lemma db_after_kept: "db_after H U d \<Longrightarrow> db_ok U d' \<Longrightarrow> t_videos d' = t_videos d \<Longrightarrow> db_after H U d'"
  by (simp add: db_after_def)

lemma db_afterD: "db_after H U d \<Longrightarrow> db_ok U d" "db_after H U d \<Longrightarrow> videos_after H U (t_videos d)"
  by (simp_all add: db_after_def)

lemma holds_videos_Save: "video_ok U v \<Longrightarrow> holds (db_after H U) (\<lambda>_. True) (videos_Save v)"
  unfolding videos_Save_def
  by (rule holds_db_exec, drule or_violation_Inr)
    (auto intro!: db_after_videos elim!: videos_after_insert dest: db_afterD)

lemma holds_videos_Update: "video_after H U v \<Longrightarrow> holds (db_after H U) (\<lambda>_. True) (videos_Update v)"
  unfolding videos_Update_def
  by (rule holds_bind [OF holds_rt_True], rule holds_db_exec, drule or_violation_Inr)
    (auto intro!: db_after_videos elim!: videos_after_save dest: db_afterD)

lemma db_ok_video: "db_ok U d \<Longrightarrow> v \<in> set (t_videos d) \<Longrightarrow> video_ok U v \<and> v_events v = []"
  by (simp add: db_ok_def videos_ok_def)

lemma db_after_video: "db_after H U d \<Longrightarrow> v \<in> set (t_videos d) \<Longrightarrow> video_after H U v"
  using db_ok_video [OF db_afterD(1)] db_afterD(2) by (auto simp: videos_after_def video_after_def)

definition found_video :: "(uuid \<rightharpoonup> video) \<Rightarrow> uuid_lib \<Rightarrow> go_error + video option \<Rightarrow> bool" where
  "found_video H U r \<longleftrightarrow> (\<forall>v. r = Inr (Some v) \<longrightarrow> video_after H U v)"

lemma found_video_simps [simp]:
  "found_video H U (Inl e)" "found_video H U (Inr None)" "found_video H U (Inr (Some v)) = video_after H U v"
  by (simp_all add: found_video_def)

lemma holds_videos_GetByID: "holds (db_after H U) (found_video H U) (videos_GetByID i)"
  unfolding videos_GetByID_def
  by (rule holds_db_query) (auto simp: found_video_def dest!: tbl_find_Some db_after_video)

lemma holds_videos_GetByStorageKey: "holds (db_after H U) (found_video H U) (videos_GetByStorageKey k)"
  unfolding videos_GetByStorageKey_def
  by (rule holds_db_query) (auto simp: found_video_def dest!: tbl_find_Some db_after_video)

lemma videos_ok_map:
  assumes "videos_ok U t" and "\<And>v. v_ID (f v) = v_ID v" "\<And>v. v_StorageKey (f v) = v_StorageKey v"
    and "\<And>v. video_ok U v \<Longrightarrow> video_ok U (f v)" "\<And>v. v_events (f v) = v_events v"
  shows "videos_ok U (map f t)"
proof -
  have "map v_ID (map f t) = map v_ID t" "map v_StorageKey (map f t) = map v_StorageKey t"
    using assms(2,3) by simp_all
  then show ?thesis using assms by (simp add: videos_ok_def del: map_map)
qed

lemma videos_after_map:
  assumes "videos_after H U t" and same: "\<And>v. v_ID (f v) = v_ID v" "\<And>v. v_StorageKey (f v) = v_StorageKey v"
    and "\<And>v. video_after H U v \<Longrightarrow> video_after H U (f v)" "\<And>v. video_ok U v \<Longrightarrow> video_ok U (f v)"
    and "\<And>v. v_events (f v) = v_events v"
  shows "videos_after H U (map f t)"
proof -
  have "videos_ok U (map f t)"
    by (rule videos_ok_map) (use assms in \<open>auto simp: videos_after_def\<close>)
  moreover have "v_ID ` set (map f t) = v_ID ` set t" by (simp add: image_image same)
  moreover have "grown H (f v)" if "v \<in> set t" for v
    using assms(1) assms(4) [of v] that by (auto simp: videos_after_def video_after_def videos_ok_def)
  ultimately show ?thesis using assms(1) by (simp add: videos_after_def)
qed

lemma holds_videos_UpdateThumbnailKey: "holds (db_after H U) (\<lambda>_. True) (videos_UpdateThumbnailKey i k)"
  unfolding videos_UpdateThumbnailKey_def
  by (rule holds_bind [OF holds_rt_True], rule holds_db_exec)
    (auto intro!: db_after_videos videos_after_map dest: db_afterD simp: video_after_def video_ok_def grown_def evolved_def)

lemma holds_videos_ListExpiredPending:
  "holds (db_after H U) (\<lambda>r. \<forall>vs. r = Inr vs \<longrightarrow> (\<forall>v \<in> set vs. video_after H U v)) (videos_ListExpiredPending c)"
  unfolding videos_ListExpiredPending_def
  by (rule holds_db_query) (auto dest: db_after_video)


section \<open>Jobs and segments\<close>

abbreviation job_ok :: "job \<Rightarrow> bool" where "job_ok \<equiv> job_life.consistent"
abbreviation segment_ok :: "segment \<Rightarrow> bool" where "segment_ok \<equiv> segment_life.consistent"

lemma jobs_ok_insert:
  assumes "tbl_insert job_clash x t = Some t'" "jobs_ok t" "job_ok x"
  shows "jobs_ok t'"
proof -
  have "distinct (map j_ID t')" "distinct (map (\<lambda>j. (j_VideoID j, j_Type j)) t')"
    using tbl_insert_distinct [OF assms(1), of j_ID]
      tbl_insert_distinct [OF assms(1), of "\<lambda>j. (j_VideoID j, j_Type j)"]
      assms(2) by (auto simp: jobs_ok_def job_clash_def)
  then show ?thesis
    using tbl_insert_set [OF assms(1)] assms(2,3) by (auto simp: jobs_ok_def)
qed

lemma jobs_ok_save:
  assumes "tbl_save j_ID job_clash x t = Some t'" "jobs_ok t" "job_ok x"
  shows "jobs_ok t'"
proof -
  have "distinct (map j_ID t')" "distinct (map (\<lambda>j. (j_VideoID j, j_Type j)) t')"
    using tbl_save_distinct [OF assms(1), of j_ID]
      tbl_save_distinct [OF assms(1), of "\<lambda>j. (j_VideoID j, j_Type j)"]
      assms(2) by (auto simp: jobs_ok_def job_clash_def)
  then show ?thesis
    using tbl_save_set [OF assms(1)] assms(2,3) by (auto simp: jobs_ok_def)
qed

lemma holds_jobs_Save: "job_ok j \<Longrightarrow> holds (db_after H U) (\<lambda>_. True) (jobs_Save j)"
  unfolding jobs_Save_def
  by (rule holds_db_exec, drule or_violation_Inr)
    (auto intro!: db_after_jobs elim!: jobs_ok_insert simp: db_after_def db_ok_def)

lemma holds_jobs_Update: "job_ok j \<Longrightarrow> holds (db_after H U) (\<lambda>_. True) (jobs_Update j)"
  unfolding jobs_Update_def
  by (rule holds_db_exec, drule or_violation_Inr)
    (auto intro!: db_after_jobs elim!: jobs_ok_save simp: db_after_def db_ok_def)

definition found_job :: "go_error + job option \<Rightarrow> bool" where
  "found_job r \<longleftrightarrow> (\<forall>j. r = Inr (Some j) \<longrightarrow> job_ok j)"

lemma found_job_simps [simp]:
  "found_job (Inl e)" "found_job (Inr None)" "found_job (Inr (Some j)) = job_ok j"
  by (simp_all add: found_job_def)

lemma db_after_job: "db_after H U d \<Longrightarrow> j \<in> set (t_jobs d) \<Longrightarrow> job_ok j"
  by (simp add: db_after_def db_ok_def jobs_ok_def)

lemma holds_jobs_GetByID: "holds (db_after H U) found_job (jobs_GetByID i)"
  unfolding jobs_GetByID_def
  by (rule holds_db_query) (auto simp: found_job_def dest!: tbl_find_Some db_after_job)

lemma holds_jobs_GetByVideoIDAndType: "holds (db_after H U) found_job (jobs_GetByVideoIDAndType v ty)"
  unfolding jobs_GetByVideoIDAndType_def
  by (rule holds_db_query) (auto simp: found_job_def dest!: tbl_find_Some db_after_job)

lemma jobs_ok_map:
  assumes "jobs_ok t" and "\<And>j. j_ID (f j) = j_ID j" "\<And>j. j_VideoID (f j) = j_VideoID j"
    and "\<And>j. j_Type (f j) = j_Type j" "\<And>j. job_ok j \<Longrightarrow> job_ok (f j)"
  shows "jobs_ok (map f t)"
proof -
  have "map j_ID (map f t) = map j_ID t"
    "map (\<lambda>j. (j_VideoID j, j_Type j)) (map f t) = map (\<lambda>j. (j_VideoID j, j_Type j)) t"
    using assms(2-4) by simp_all
  then show ?thesis using assms by (simp add: jobs_ok_def del: map_map)
qed

lemma holds_jobs_IncrementCompletedSegmentCount:
  "holds (db_after H U) (\<lambda>_. True) (jobs_IncrementCompletedSegmentCount i)"
  unfolding jobs_IncrementCompletedSegmentCount_def
  by (rule holds_if_err [where Q = "\<lambda>_. True"], rule holds_db_exec)
    (auto intro!: db_after_jobs jobs_ok_map holds_ret holds_on_err [OF holds_jobs_GetByID]
      split: option.splits simp: job_life.consistent_def, simp add: db_after_def db_ok_def)

lemma segments_ok_save:
  assumes "tbl_save s_ID segment_clash x t = Some t'" "segments_ok t" "segment_ok x"
  shows "segments_ok t'"
proof -
  have "distinct (map s_ID t')" "distinct (map segment_key t')"
    using tbl_save_distinct [OF assms(1), of s_ID] tbl_save_distinct [OF assms(1), of segment_key]
      assms(2) by (auto simp: segments_ok_def segment_clash_def)
  then show ?thesis
    using tbl_save_set [OF assms(1)] assms(2,3) by (auto simp: segments_ok_def)
qed

lemma merge_segment_ok: "segment_ok new \<Longrightarrow> segment_ok (merge_segment old new)"
  by (simp add: segment_life.consistent_def merge_segment_def)

lemma segments_ok_upsert:
  assumes "tbl_upsert_all segment_key s_ID merge_segment xs t = Some t'" "segments_ok t"
    and "\<forall>s \<in> set xs. segment_ok s"
  shows "segments_ok t'"
proof -
  have "\<forall>s \<in> set t'. segment_ok s"
    by (rule upsert_rows_Ball [OF tbl_upsert_all_rows [OF assms(1)]])
      (use assms(2,3) merge_segment_ok in \<open>auto simp: segments_ok_def\<close>)
  moreover have "distinct (map s_ID t') \<and> distinct (map segment_key t')"
    by (rule tbl_upsert_all_distinct [OF assms(1)])
      (use assms(2) in \<open>auto simp: segments_ok_def merge_segment_def segment_key_def\<close>)
  ultimately show ?thesis by (simp add: segments_ok_def)
qed

lemma holds_segments_SaveAll:
  "\<forall>s \<in> set ss. segment_ok s \<Longrightarrow> holds (db_after H U) (\<lambda>_. True) (segments_SaveAll ss)"
  unfolding segments_SaveAll_def
  by (rule holds_if, rule holds_ret, simp, rule holds_db_exec, drule or_violation_Inr)
    (auto intro!: db_after_segments elim!: segments_ok_upsert simp: db_after_def db_ok_def)

lemma holds_segments_Update: "segment_ok s \<Longrightarrow> holds (db_after H U) (\<lambda>_. True) (segments_Update s)"
  unfolding segments_Update_def
  by (rule holds_db_exec, drule or_violation_Inr)
    (auto intro!: db_after_segments elim!: segments_ok_save simp: db_after_def db_ok_def)

definition found_segment :: "go_error + segment option \<Rightarrow> bool" where
  "found_segment r \<longleftrightarrow> (\<forall>s. r = Inr (Some s) \<longrightarrow> segment_ok s)"

lemma found_segment_simps [simp]:
  "found_segment (Inl e)" "found_segment (Inr None)" "found_segment (Inr (Some s)) = segment_ok s"
  by (simp_all add: found_segment_def)

lemma db_after_segment: "db_after H U d \<Longrightarrow> s \<in> set (t_segments d) \<Longrightarrow> segment_ok s"
  by (simp add: db_after_def db_ok_def segments_ok_def)

lemma holds_segments_GetByID: "holds (db_after H U) found_segment (segments_GetByID i)"
  unfolding segments_GetByID_def
  by (rule holds_db_query) (auto simp: found_segment_def dest!: tbl_find_Some db_after_segment)

lemma holds_segments_ListByVideoID:
  "holds (db_after H U) (\<lambda>r. \<forall>ss. r = Inr ss \<longrightarrow> (\<forall>s \<in> set ss. segment_ok s)) (segments_ListByVideoID i)"
  unfolding segments_ListByVideoID_def
  by (rule holds_db_query) (auto dest: db_after_segment)


section \<open>Frames, results, users and the outbox\<close>

lemma holds_frames_UpsertAll: "holds (db_after H U) (\<lambda>_. True) (frames_UpsertAll fs)"
proof -
  have "db_after H U (d\<lparr>t_frames := t\<rparr>)"
    if "db_after H U d" "tbl_upsert_all frame_key f_ID merge_frame fs (t_frames d) = Some t" for d t
    using tbl_upsert_all_distinct [OF that(2)] that(1)
    by (simp add: db_after_def db_ok_def merge_frame_def frame_key_def)
  then show ?thesis
    unfolding frames_UpsertAll_def
    by (auto intro!: holds_if holds_ret holds_db_op split: option.splits)
qed

lemma holds_frames_read:
  "holds (db_after H U) (\<lambda>_. True) (frames_ListByVideoID i)" "holds (db_after H U) (\<lambda>_. True) (frames_CountByVideoID i)"
  by (auto simp: frames_ListByVideoID_def frames_CountByVideoID_def intro!: holds_db_query)

lemma holds_ocrs_UpsertAll: "holds (db_after H U) (\<lambda>_. True) (ocrs_UpsertAll rs)"
proof -
  have "db_after H U (d\<lparr>t_ocrs := t\<rparr>)"
    if "db_after H U d" "tbl_upsert_all o_FrameID o_ID merge_ocr rs (t_ocrs d) = Some t" for d t
    using tbl_upsert_all_distinct [OF that(2)] that(1) by (simp add: db_after_def db_ok_def merge_ocr_def)
  then show ?thesis
    unfolding ocrs_UpsertAll_def
    by (auto intro!: holds_if holds_ret holds_db_exec dest!: or_violation_Inr)
qed

lemma holds_classifications_UpsertAll: "holds (db_after H U) (\<lambda>_. True) (classifications_UpsertAll cs)"
proof -
  have "db_after H U (d\<lparr>t_classifications := t\<rparr>)"
    if "db_after H U d" "tbl_upsert_all c_FrameID c_ID merge_classification cs (t_classifications d) = Some t" for d t
    using tbl_upsert_all_distinct [OF that(2)] that(1) by (simp add: db_after_def db_ok_def merge_classification_def)
  then show ?thesis
    unfolding classifications_UpsertAll_def
    by (auto intro!: holds_if holds_ret holds_db_exec dest!: or_violation_Inr)
qed

lemma holds_results_read:
  "holds (db_after H U) (\<lambda>_. True) (ocrs_ListByFrameIDs ids)"
  "holds (db_after H U) (\<lambda>_. True) (classifications_ListByFrameIDs ids)"
  by (auto simp: ocrs_ListByFrameIDs_def classifications_ListByFrameIDs_def
      intro!: holds_if holds_ret holds_db_query)

lemma users_ok_insert:
  "tbl_insert user_clash x t = Some t' \<Longrightarrow> users_ok t \<Longrightarrow> u_events x = [] \<Longrightarrow> users_ok t'"
  using tbl_insert_distinct [of user_clash x t t' u_ID] tbl_insert_distinct [of user_clash x t t' u_ClerkID]
    tbl_insert_distinct [of user_clash x t t' u_Email] tbl_insert_set [of user_clash x t t']
  by (simp add: users_ok_def user_clash_def)

lemma users_ok_save:
  "tbl_save u_ID user_clash x t = Some t' \<Longrightarrow> users_ok t \<Longrightarrow> u_events x = [] \<Longrightarrow> users_ok t'"
  using tbl_save_distinct [of u_ID user_clash x t t' u_ID] tbl_save_distinct [of u_ID user_clash x t t' u_ClerkID]
    tbl_save_distinct [of u_ID user_clash x t t' u_Email] tbl_save_set [of u_ID user_clash x t t']
  by (auto simp: users_ok_def user_clash_def)

lemma userModel_events [simp]: "u_events (userModelFromDomain u) = []"
  by (simp add: userModelFromDomain_def)

lemma holds_users_Save: "holds (db_after H U) (\<lambda>_. True) (users_Save u)"
  unfolding users_Save_def
  by (rule holds_db_exec, drule or_violation_Inr) (auto elim!: users_ok_insert simp: db_after_def db_ok_def)

lemma holds_users_Update: "holds (db_after H U) (\<lambda>_. True) (users_Update u)"
  unfolding users_Update_def
  by (rule holds_bind [OF holds_rt_True], rule holds_db_exec, drule or_violation_Inr)
    (auto elim!: users_ok_save simp: db_after_def db_ok_def)

lemma distinct_map_filter: "distinct (map f t) \<Longrightarrow> distinct (map f (filter P t))"
  by (induction t) auto

lemma delete_users_ok: "db_after H U d \<Longrightarrow> db_after H U (delete_users P d)"
  unfolding delete_users_def Let_def
  by (rule db_after_videos)
    (auto simp: db_after_def db_ok_def users_ok_def video_after_def video_ok_def grown_def evolved_def
      intro!: videos_after_map distinct_map_filter)

lemma holds_users_delete:
  "holds (db_after H U) (\<lambda>_. True) (users_Delete i)" "holds (db_after H U) (\<lambda>_. True) (users_DeleteByClerkID c)"
  unfolding users_Delete_def users_DeleteByClerkID_def
  by (auto intro!: holds_db_exec delete_users_ok)

lemma holds_users_read:
  "holds (db_after H U) (\<lambda>_. True) (users_GetByID i)" "holds (db_after H U) (\<lambda>_. True) (users_GetByClerkID c)"
  by (auto simp: users_GetByID_def users_GetByClerkID_def intro!: holds_db_query)

lemma rows_of_ok:
  "rows_of U es = Inr rows \<Longrightarrow> set es \<subseteq> range of_video_event \<union> range of_user_event \<Longrightarrow>
     \<forall>r \<in> set rows. outbox_row_ok U r"
proof (induction es arbitrary: rows)
  case (Cons e es)
  then obtain i rs where i: "uuid_Parse U (de_EventID e) = Some i" and rs: "rows_of U es = Inr rs"
    and rows: "rows = \<lparr>ob_ID = i, ob_AggregateID = de_AggregateID e, ob_EventType = de_EventType e,
            ob_Payload = de_Payload e, ob_CreatedAt = de_OccurredAt e, ob_PublishedAt = None\<rparr> # rs"
    by (cases "rows_of U es") (auto split: option.splits)
  have "\<forall>r \<in> set rs. outbox_row_ok U r" using Cons.IH [OF rs] Cons.prems(2) by simp
  moreover have "outbox_row_ok U (hd rows)"
    unfolding outbox_row_ok_def rows using i Cons.prems(2) by (intro bexI [of _ e]) auto
  ultimately show ?case using rows by simp
qed simp

lemma holds_StoreEvents:
  assumes "sv_uuid S = U" "set es \<subseteq> range of_video_event \<union> range of_user_event"
  shows "holds (db_after H U) (\<lambda>_. True) (StoreEvents S es)"
proof -
  have "db_after H U (d\<lparr>t_outbox := tbl_insert_ignore ob_ID rows (t_outbox d)\<rparr>)"
    if "db_after H U d" "rows_of U es = Inr rows" for d rows
  proof -
    define t where "t = tbl_insert_ignore ob_ID rows (t_outbox d)"
    have "set t \<subseteq> set (t_outbox d) \<union> set rows"
      using tbl_insert_ignore_prefix [of ob_ID rows "t_outbox d"] unfolding t_def by force
    then have "\<forall>r \<in> set t. outbox_row_ok U r"
      using rows_of_ok [OF that(2) assms(2)] that(1) unfolding db_after_def db_ok_def by blast
    moreover have "distinct (map ob_ID t)"
      unfolding t_def using that(1) by (intro tbl_insert_ignore_distinct) (simp add: db_after_def db_ok_def)
    ultimately show ?thesis
      using that(1) by (simp add: db_after_def db_ok_def t_def)
  qed
  then show ?thesis
    unfolding StoreEvents_def assms(1)
    by (intro holds_if holds_ret holds_case_sum holds_db_exec) auto
qed

section \<open>The methods of the entities\<close>

lemma method_video_after: "method_ok U v r (err, v') r' \<Longrightarrow> video_after H U v \<Longrightarrow> video_after H U v'"
  using status_step_closed evolved_step
  by (fastforce simp: method_ok_def video_after_def video_ok_def grown_def video_frame_def)

lemma holds_method:
  assumes "\<And>r. wp m (method_ok U v r) r" "video_after H U v"
  shows "holds P (\<lambda>(err, v'). video_after H U v') (rt_op m)"
  by (rule holds_rt_op, rule wp_mono, rule assms(1)) (use method_video_after assms(2) in auto)

lemmas video_methods_ok =
  MarkUploaded_ok MarkExtractionQueued_ok MarkExtracting_ok MarkFramesReady_ok MarkExtractionFailed_ok
  MarkOCRProcessing_ok RecordOCRProgress_ok MarkOCRReady_ok MarkOCRFailed_ok MarkClassifying_ok
  MarkClassified_ok MarkClassifyFailed_ok MarkUploadExpired_ok

lemmas holds_video_methods = video_methods_ok [THEN holds_method]

lemma holds_recorder:
  assumes "\<And>r. wp m (recorder_ok U v r) r" "video_after H U v"
  shows "holds P (video_after H U) (rt_op m)"
  by (rule holds_rt_op, rule wp_mono, rule assms(1))
    (use assms(2) in \<open>auto simp: recorder_ok_def video_after_def video_ok_def video_frame_def grown_def evolved_def\<close>)

lemmas video_recorders_ok =
  RecordSegmentReady_ok SetThumbnailKey_ok RequestOCRFrames_ok RequestClassifyFrames_ok

lemmas holds_video_recorders = video_recorders_ok [THEN holds_recorder]

lemma PullEvents_ok [simp]: "video_after H U (snd (PullEvents v)) = video_after H U v"
  by (simp add: PullEvents_def video_after_def video_ok_def grown_def evolved_def)

lemma holds_job_methods:
  "holds P job_ok (rt_op (job_MarkProcessing j))" "holds P job_ok (rt_op (job_MarkSuccess j))"
  "holds P job_ok (rt_op (job_MarkFailed why j))"
  by (auto intro!: holds_rt_op simp: job_MarkProcessing_def job_MarkSuccess_def job_MarkFailed_def
      start_if_unset_def job_life.consistent_def wp_simps)

lemma holds_new_jobs:
  "holds P job_ok (rt_op (NewSegmentJob i))" "holds P job_ok (rt_op (NewFrameJob i))"
  "holds P job_ok (rt_op (NewOCRJob i))" "holds P job_ok (rt_op (NewClassifyJob i))"
  by (auto intro!: holds_rt_op simp: new_job_defs zero_job_def job_life.consistent_def wp_simps)

lemma job_ok_setters [simp]:
  "job_ok (SetExpectedFrameCount n j) = job_ok j" "job_ok (SetSegmentProgress n m j) = job_ok j"
  "job_ok (SetOCRProgress n m j) = job_ok j" "job_ok (AddOCRCompleted n j) = job_ok j"
  "job_ok (AddCompletedSegment n j) = job_ok j"
  by (auto simp: job_life.consistent_def SetExpectedFrameCount_def SetSegmentProgress_def
      SetOCRProgress_def AddOCRCompleted_def AddCompletedSegment_def)

lemma segment_ok_processing [simp]: "segment_ok (segment_MarkProcessing s)"
  by (simp add: segment_MarkProcessing_def segment_life.consistent_def)

lemma holds_segment_methods:
  "holds P segment_ok (rt_op (segment_MarkSuccess s))" "holds P segment_ok (rt_op (segment_MarkFailed why s))"
  "holds P segment_ok (rt_op (NewSegment a b c d e f))"
  by (auto intro!: holds_rt_op simp: segment_MarkSuccess_def segment_MarkFailed_def NewSegment_def
      segment_life.consistent_def wp_simps)


lemmas holds_repos =
  holds_videos_Save holds_videos_Update holds_videos_GetByID holds_videos_GetByStorageKey
  holds_videos_UpdateThumbnailKey holds_videos_ListExpiredPending holds_jobs_Save holds_jobs_Update
  holds_jobs_GetByID holds_jobs_GetByVideoIDAndType holds_jobs_IncrementCompletedSegmentCount
  holds_segments_SaveAll holds_segments_Update holds_segments_GetByID holds_segments_ListByVideoID
  holds_frames_UpsertAll holds_frames_read holds_ocrs_UpsertAll holds_classifications_UpsertAll
  holds_results_read holds_users_Save holds_users_Update holds_users_delete holds_users_read

lemmas holds_entities =
  holds_video_methods holds_video_recorders holds_job_methods holds_new_jobs holds_segment_methods

text \<open>
  The rules a handler's proof applies one after the other, statement by statement; what is left are the
  well-formedness conditions of the rows it writes.
\<close>

lemmas holds_steps =
  holds_control holds_Transaction holds_repos holds_entities holds_svc holds_note_effect holds_rt_True

end
