(* ===== verification/Uploads.thy ===== *)
theory Uploads
  imports DbInvariant
begin

text \<open>
  The commands that bring a video in, of \<open>internal/application/command/video\<close>: \<open>request_upload_url.go\<close>,
  \<open>confirm_upload.go\<close>, \<open>expire_stale_uploads.go\<close>, \<open>request_ingest.go\<close> and \<open>ingest_remote.go\<close>. A
  handler's repositories act on the world, its other ports are the \<open>services\<close>; the fields of a handler
  that configure it are arguments.
\<close>

text \<open>\<open>outbox.StoreEvents(txCtx, video.PullEvents())\<close>, with the video it leaves.\<close>

definition store_pulled :: "services \<Rightarrow> video \<Rightarrow> (world, go_error option \<times> video) state" where
  "store_pulled S v = (let (es, v') = PullEvents v in do {
     err \<leftarrow> StoreEvents S (map of_video_event es);
     ret (err, v') })"

section \<open>ConfirmUpload\<close>

record ConfirmUploadCommand =
  cu_StorageKey :: string
  cu_ContentType :: string
  cu_SizeBytes :: int

definition ConfirmUpload :: "services \<Rightarrow> int \<Rightarrow> ConfirmUploadCommand \<Rightarrow> (world, go_error option) state" where
  "ConfirmUpload S maxSize cmd =
     (if maxSize > 0 \<and> cu_SizeBytes cmd > maxSize then ret (Some ErrVideoTooLarge)
      else Transaction (on_err (videos_GetByStorageKey (cu_StorageKey cmd))
        (\<lambda>e. ret (Some e))
        (\<lambda>found. case found of
           None \<Rightarrow> ret (Some ErrVideoNotFound)
         | Some video \<Rightarrow> do {
             (err, video) \<leftarrow> rt_op (MarkUploaded (sv_uuid S) (cu_ContentType cmd) (cu_SizeBytes cmd) video);
             case err of
               Some e \<Rightarrow> ret (Some e)
             | None \<Rightarrow> on_err (jobs_GetByVideoIDAndType (v_ID video) TypeSegment)
                 (\<lambda>e. ret (Some e))
                 (\<lambda>existingJob. if_err
                    (if existingJob = None
                     then do { job \<leftarrow> rt_op (NewSegmentJob (v_ID video)); jobs_Save job }
                     else ret None)
                    (\<lambda>e. ret (Some e))
                    (if_err (videos_Update video) (\<lambda>e. ret (Some e)) (do {
                       (err, _) \<leftarrow> store_pulled S video;
                       ret err }))) })))"

section \<open>RequestUploadURL\<close>

definition DefaultUploadURLTTL :: duration where
  "DefaultUploadURLTTL = 15 * 60 * 10 ^ 9"

record RequestUploadURLCommand =
  ru_UserID :: uuid
  ru_Filename :: string
  ru_ContentType :: string
  ru_SizeBytes :: int

record RequestUploadURLResult =
  rr_VideoID :: string
  rr_UploadURL :: string
  rr_ExpiresAt :: time

text \<open>The constructors of both handlers replace a lifetime that is not positive.\<close>

definition upload_ttl :: "duration \<Rightarrow> duration" where
  "upload_ttl ttl = (if ttl \<le> 0 then DefaultUploadURLTTL else ttl)"

text \<open>\<open>WithTransaction\<close> of \<open>Save\<close> and \<open>StoreEvents\<close>, as both handlers that create a video do.\<close>

definition create_video :: "services \<Rightarrow> video \<Rightarrow> (world, go_error option) state" where
  "create_video S video = Transaction (if_err (videos_Save video) (\<lambda>e. ret (Some e)) (do {
     (err, _) \<leftarrow> store_pulled S video;
     ret err }))"

definition RequestUploadURL ::
  "services \<Rightarrow> duration \<Rightarrow> RequestUploadURLCommand \<Rightarrow> (world, go_error + RequestUploadURLResult) state" where
  "RequestUploadURL S ttl cmd =
     on_err (rt_op (NewPresignedVideo (sv_uuid S) (sv_mime S) (ru_UserID cmd) (ru_Filename cmd)
               (ru_ContentType cmd) (ru_SizeBytes cmd)))
       (\<lambda>e. ret (Inl e))
       (\<lambda>video. on_err (svc (\<lambda>n. sv_presign_put S n (v_StorageKey video) (upload_ttl ttl)))
          (\<lambda>e. ret (Inl e))
          (\<lambda>url. if_err (create_video S video)
             (\<lambda>_. ret (Inl (ErrorText ''failed to create video upload'')))
             (ret (Inr \<lparr>rr_VideoID = uuid_String (sv_uuid S) (v_ID video), rr_UploadURL = url,
                       rr_ExpiresAt = v_CreatedAt video + upload_ttl ttl\<rparr>))))"

section \<open>RequestIngest\<close>

record RequestIngestCommand =
  ri_RemoteURL :: string
  ri_Filename :: string
  ri_ContentType :: string
  ri_SizeBytes :: int

definition RequestIngest ::
  "services \<Rightarrow> RequestIngestCommand \<Rightarrow> (world, go_error + string) state" where
  "RequestIngest S cmd =
     on_err (rt_op (NewWebhookVideo (sv_uuid S) (sv_mime S) (ri_Filename cmd) (ri_ContentType cmd)
               (ri_RemoteURL cmd) (ri_SizeBytes cmd)))
       (\<lambda>e. ret (Inl e))
       (\<lambda>video. if_err (create_video S video)
          (\<lambda>_. ret (Inl (ErrorText ''failed to create video ingest'')))
          (ret (Inr (uuid_String (sv_uuid S) (v_ID video)))))"

section \<open>ExpireStaleUploads\<close>

text \<open>One video of the list: a failed transition is skipped, a failed transaction only logged.\<close>

definition expire_video :: "services \<Rightarrow> video \<Rightarrow> (world, unit) state" where
  "expire_video S video = do {
     (err, video) \<leftarrow> rt_op (MarkUploadExpired (sv_uuid S) video);
     case err of
       Some _ \<Rightarrow> ret ()
     | None \<Rightarrow> do {
         _ \<leftarrow> Transaction (if_err (videos_Update video) (\<lambda>e. ret (Some e)) (do {
                (err, _) \<leftarrow> store_pulled S video;
                ret err }));
         ret () } }"

fun expire_loop :: "services \<Rightarrow> video list \<Rightarrow> (world, unit) state" where
  "expire_loop S [] = ret ()"
| "expire_loop S (video # videos) = do { _ \<leftarrow> expire_video S video; expire_loop S videos }"

definition ExpireStaleUploads :: "services \<Rightarrow> duration \<Rightarrow> (world, go_error option) state" where
  "ExpireStaleUploads S ttl = do {
     now \<leftarrow> rt_op time_Now;
     on_err (videos_ListExpiredPending (now - upload_ttl ttl))
       (\<lambda>e. ret (Some e))
       (\<lambda>videos. do { _ \<leftarrow> expire_loop S videos; ret None }) }"

section \<open>IngestRemote\<close>

record IngestRemoteCommand =
  ir_VideoID :: uuid
  ir_RemoteURL :: string

text \<open>
  \<open>io.Copy\<close> from the response, through \<open>io.LimitReader\<close> when a limit is set. A limit that is not
  positive reads nothing; the error past the body is met only when the limit lets the copy reach it.
\<close>

definition copy_body :: "remote_object \<Rightarrow> int option \<Rightarrow> go_error + bytes" where
  "copy_body remote limit =
     (case limit of
        Some n \<Rightarrow>
          if n \<le> int (length (ro_Body remote)) then Inr (take (nat n) (ro_Body remote))
          else (case ro_ReadErr remote of Some e \<Rightarrow> Inl e | None \<Rightarrow> Inr (ro_Body remote))
      | None \<Rightarrow> (case ro_ReadErr remote of Some e \<Rightarrow> Inl e | None \<Rightarrow> Inr (ro_Body remote)))"

definition IngestRemote :: "services \<Rightarrow> int \<Rightarrow> IngestRemoteCommand \<Rightarrow> (world, go_error option) state" where
  "IngestRemote S maxSize cmd =
     on_err (videos_GetByID (ir_VideoID cmd))
       (\<lambda>e. ret (Retryable (Some e)))
       (\<lambda>found. case found of
          None \<Rightarrow> ret (NonRetryable (Some ErrVideoNotFound))
        | Some video \<Rightarrow>
            if v_Status video \<noteq> StatusPending then ret None
            else on_err (svc (\<lambda>n. sv_fetch S n (ir_RemoteURL cmd)))
              (\<lambda>e. if errors_Is e ErrRemoteURLForbidden then ret (NonRetryable (Some e))
                 else ret (Retryable (Some e)))
              (\<lambda>remote. if_err (svc (sv_file S))    \<comment> \<open>CreateTemp\<close>
                 (\<lambda>e. ret (Retryable (Some e)))
                 (if_err (svc (sv_file S))    \<comment> \<open>the writes of io.Copy\<close>
                    (\<lambda>e. ret (Retryable (Some e)))
                    (case copy_body remote (if maxSize > 0 then Some (wrap64 (maxSize + 1)) else None) of
                       Inl e \<Rightarrow> ret (Retryable (Some e))
                     | Inr content \<Rightarrow>
                         if maxSize > 0 \<and> int (length content) > maxSize
                         then ret (NonRetryable (Some ErrVideoTooLarge))
                         else if_err (svc (sv_file S))    \<comment> \<open>Seek\<close>
                           (\<lambda>e. ret (Retryable (Some e)))
                           (let contentType = (if ro_ContentType remote = '''' then v_ContentType video
                                               else ro_ContentType remote)
                            in if_err (storage_Put S (v_StorageKey video) content contentType)
                                 (\<lambda>e. ret (Retryable (Some e)))
                                 (if_err (ConfirmUpload S maxSize
                                     \<lparr>cu_StorageKey = v_StorageKey video, cu_ContentType = contentType,
                                      cu_SizeBytes = int (length content)\<rparr>)
                                    (\<lambda>e. ret (Retryable (Some e)))
                                    (ret None)))))))"

section \<open>The commands keep the invariant\<close>

lemma holds_store_pulled:
  "sv_uuid S = U \<Longrightarrow> video_after H U v \<Longrightarrow>
     holds (db_after H U) (\<lambda>(err, v'). video_after H U v') (store_pulled S v)"
  unfolding store_pulled_def Let_def
  by (auto intro!: holds_case_prod holds_bind [OF holds_StoreEvents] holds_ret
      simp: PullEvents_def video_after_def video_ok_def grown_def evolved_def)

lemma holds_store_new: "sv_uuid S = U \<Longrightarrow> holds (db_after H U) (\<lambda>_. True) (store_pulled S v)"
  unfolding store_pulled_def Let_def
  by (auto intro!: holds_case_prod holds_bind [OF holds_StoreEvents] holds_ret simp: PullEvents_def)

lemma ConfirmUpload_ok:
  "sv_uuid S = U \<Longrightarrow> holds (db_after H U) (\<lambda>_. True) (ConfirmUpload S m cmd)"
  unfolding ConfirmUpload_def
  by (rule holds_steps holds_store_pulled holds_ret | force)+

definition new_video_ok :: "uuid_lib \<Rightarrow> go_error + video \<Rightarrow> bool" where
  "new_video_ok U r \<longleftrightarrow> (\<forall>v. r = Inr v \<longrightarrow> video_ok U v)"

lemma new_video_ok_simps [simp]: "new_video_ok U (Inl e)" "new_video_ok U (Inr v) = video_ok U v"
  by (simp_all add: new_video_ok_def)

lemma holds_new_videos:
  "holds P (new_video_ok U) (rt_op (NewPresignedVideo U mime uid fn ct sz))"
  "holds P (new_video_ok U) (rt_op (NewWebhookVideo U mime fn ct url sz))"
  by (auto intro!: holds_rt_op simp: NewPresignedVideo_def NewWebhookVideo_def recordCreated_def
      recordEvent_def video_ok_def video_statuses_def Let_def wp_simps split: if_splits)

lemma holds_create_video: "sv_uuid S = U \<Longrightarrow> video_ok U v \<Longrightarrow> holds (db_after H U) (\<lambda>_. True) (create_video S v)"
  unfolding create_video_def by (rule holds_steps holds_store_new holds_ret | force)+

lemma RequestUploadURL_ok: "sv_uuid S = U \<Longrightarrow> holds (db_after H U) (\<lambda>_. True) (RequestUploadURL S ttl cmd)"
  unfolding RequestUploadURL_def
  by (rule holds_steps holds_new_videos holds_create_video holds_ret | force)+

lemma RequestIngest_ok: "sv_uuid S = U \<Longrightarrow> holds (db_after H U) (\<lambda>_. True) (RequestIngest S cmd)"
  unfolding RequestIngest_def
  by (rule holds_steps holds_new_videos holds_create_video holds_ret | force)+

lemma expire_video_ok: "sv_uuid S = U \<Longrightarrow> video_after H U v \<Longrightarrow> holds (db_after H U) (\<lambda>_. True) (expire_video S v)"
  unfolding expire_video_def by (rule holds_steps holds_store_pulled holds_ret | force)+

lemma expire_loop_ok:
  "sv_uuid S = U \<Longrightarrow> \<forall>v \<in> set vs. video_after H U v \<Longrightarrow> holds (db_after H U) (\<lambda>_. True) (expire_loop S vs)"
  by (induction vs) (auto intro!: holds_ret holds_bind [OF expire_video_ok])

lemma ExpireStaleUploads_ok: "sv_uuid S = U \<Longrightarrow> holds (db_after H U) (\<lambda>_. True) (ExpireStaleUploads S ttl)"
  unfolding ExpireStaleUploads_def
  by (rule holds_steps expire_loop_ok holds_ret | force)+

lemma holds_storage: "holds P (\<lambda>_. True) (storage_Put S k c t)" "holds P (\<lambda>_. True) (storage_Delete S k)"
  unfolding storage_Put_def storage_Delete_def
  by (rule holds_bind holds_case_option holds_svc holds_note_effect holds_ret | force)+

lemma IngestRemote_ok: "sv_uuid S = U \<Longrightarrow> holds (db_after H U) (\<lambda>_. True) (IngestRemote S m cmd)"
  unfolding IngestRemote_def Let_def
  by (rule holds_steps holds_storage ConfirmUpload_ok holds_ret | force)+

section \<open>What the commands do\<close>


lemma tbl_save_existing:
  assumes "videos_ok U t" "v \<in> set t" "v_ID x = v_ID v" "v_StorageKey x = v_StorageKey v"
  shows "tbl_save v_ID video_clash x t = Some (map (\<lambda>y. if v_ID y = v_ID v then x else y) t)"
proof -
  have "v_StorageKey y \<noteq> v_StorageKey v" if "y \<in> set t" "v_ID y \<noteq> v_ID v" for y
    using assms(1,2) that by (auto simp: videos_ok_def distinct_map dest: inj_onD)
  then have "\<not> list_ex (\<lambda>y. v_ID y \<noteq> v_ID x \<and> video_clash x y) t"
    using assms(3,4) by (auto simp: list_ex_iff video_clash_def)
  moreover have "list_ex (\<lambda>y. v_ID y = v_ID x) t"
    using assms(2,3) by (auto simp: list_ex_iff)
  ultimately show ?thesis using assms(3) by (simp add: tbl_save_def)
qed

lemma tbl_insert_fresh: "(\<forall>y \<in> set t. \<not> clash x y) \<Longrightarrow> tbl_insert clash x t = Some (t @ [x])"
  by (simp add: tbl_insert_def list_ex_iff)


text \<open>\<open>MarkUploaded\<close>, with the content type and the size it settles for.\<close>

lemma MarkUploaded_pending:
  assumes "v_Status v = StatusPending" "v_events v = []" "sz > 0"
  shows "\<exists>ty. (ct \<noteq> '''' \<longrightarrow> ty = ct) \<and> (\<forall>Q. wp (MarkUploaded U ct sz v) Q = (\<lambda>r.
    Q (None, v\<lparr>v_ContentType := ty, v_SizeBytes := sz, v_Status := StatusProcessing,
         v_UpdatedAt := clock r (clock_reads r), v_events := [VideoUploaded
           (uuid_String U (uuid_source r (uuid_draws r))) (uuid_String U (v_ID v)) (ownerUserID U v)
           (v_StorageKey v) ty sz StatusProcessing (clock r (clock_reads r))]\<rparr>)
      (r\<lparr>clock_reads := Suc (clock_reads r), uuid_draws := Suc (uuid_draws r)\<rparr>)))"
proof (intro exI [of _ "if ct = '''' then v_ContentType v else ct"] conjI allI)
  fix Q
  have "v\<lparr>v_ContentType := v_ContentType v\<rparr> = v" by simp
  then show "wp (MarkUploaded U ct sz v) Q = (\<lambda>r.
    Q (None, v\<lparr>v_ContentType := if ct = '''' then v_ContentType v else ct, v_SizeBytes := sz,
         v_Status := StatusProcessing, v_UpdatedAt := clock r (clock_reads r), v_events := [VideoUploaded
           (uuid_String U (uuid_source r (uuid_draws r))) (uuid_String U (v_ID v)) (ownerUserID U v)
           (v_StorageKey v) (if ct = '''' then v_ContentType v else ct) sz StatusProcessing
           (clock r (clock_reads r))]\<rparr>)
      (r\<lparr>clock_reads := Suc (clock_reads r), uuid_draws := Suc (uuid_draws r)\<rparr>))"
    using assms by (cases "ct = ''''") (simp_all add: MarkUploaded_def Let_def wp_simps recordEvent_def ownerUserID_def)
qed simp

lemma MarkUploaded_again:
  assumes "v_Status v = StatusProcessing \<or> v_Status v = StatusSuccess"
  shows "\<exists>ty n. \<forall>Q. wp (MarkUploaded U ct sz v) Q = (\<lambda>r.
    Q (None, v\<lparr>v_ContentType := ty, v_SizeBytes := n, v_UpdatedAt := clock r (clock_reads r)\<rparr>)
      (r\<lparr>clock_reads := Suc (clock_reads r)\<rparr>))"
proof (intro exI [of _ "if ct = '''' then v_ContentType v else ct"]
    exI [of _ "if sz > 0 then sz else v_SizeBytes v"] allI)
  fix Q
  have "v\<lparr>v_ContentType := v_ContentType v\<rparr> = v" "v\<lparr>v_SizeBytes := v_SizeBytes v\<rparr> = v" for v :: video
    by simp_all
  then show "wp (MarkUploaded U ct sz v) Q = (\<lambda>r.
    Q (None, v\<lparr>v_ContentType := if ct = '''' then v_ContentType v else ct,
        v_SizeBytes := if sz > 0 then sz else v_SizeBytes v, v_UpdatedAt := clock r (clock_reads r)\<rparr>)
      (r\<lparr>clock_reads := Suc (clock_reads r)\<rparr>))"
    using assms by (cases "ct = ''''"; cases "sz > 0") (auto simp: MarkUploaded_def Let_def wp_simps)
qed

text \<open>
  C31. An uploaded object starts the pipeline: when the statements succeed, the confirmation of a pending
  video stores exactly three things: the video, now processing and with the size and type of the object,
  one pending segment job for it, and one unpublished message \<open>VideoUploaded\<close> with the video's id and key.
\<close>

theorem confirm_upload_effect:
  assumes U: "uuid_lib_ok (sv_uuid S)" and quiet: "\<forall>n. w_db_fault w n = None"
    and size: "maxSize \<le> 0 \<or> cu_SizeBytes cmd \<le> maxSize" "cu_SizeBytes cmd > 0"
    and found: "tbl_find (\<lambda>v. v_StorageKey v = cu_StorageKey cmd) (t_videos (w_db w)) = Some v"
    and pending: "v_Status v = StatusPending" and ok: "db_ok (sv_uuid S) (w_db w)"
    and nojob: "\<forall>j \<in> set (t_jobs (w_db w)). \<not> (j_VideoID j = v_ID v \<and> j_Type j = TypeSegment)"
    and fresh: "uuid_source (w_rt w) (uuid_draws (w_rt w)) \<notin> ob_ID ` set (t_outbox (w_db w))"
      "uuid_source (w_rt w) (Suc (uuid_draws (w_rt w))) \<notin> j_ID ` set (t_jobs (w_db w))"
  shows "\<exists>w' v' j r. run_state (ConfirmUpload S maxSize cmd) w = (None, w') \<and>
    w_db w' = (w_db w)\<lparr>t_jobs := t_jobs (w_db w) @ [j],
      t_videos := map (\<lambda>x. if v_ID x = v_ID v then v' else x) (t_videos (w_db w)), t_outbox := t_outbox (w_db w) @ [r]\<rparr> \<and>
    v_ID v' = v_ID v \<and> v_Status v' = StatusProcessing \<and> v_SizeBytes v' = cu_SizeBytes cmd \<and>
    (cu_ContentType cmd \<noteq> '''' \<longrightarrow> v_ContentType v' = cu_ContentType cmd) \<and>
    j_VideoID j = v_ID v \<and> j_Type j = TypeSegment \<and> j_Status j = JobPending \<and>
    ob_PublishedAt r = None \<and> ob_EventType r = ''video.uploaded.v1'' \<and>
    (\<exists>e. ob_Payload r = video_Marshal e \<and> video_EventType e = ''video.uploaded.v1'' \<and>
       e_VideoID e = uuid_String (sv_uuid S) (v_ID v) \<and> e_StorageKey e = v_StorageKey v)"
proof -
  let ?rt = "w_rt w" and ?d = "w_db w"
  have v: "v \<in> set (t_videos ?d)" "v_events v = []"
    using tbl_find_Some [OF found] ok by (auto dest: db_ok_video)
  have vs: "videos_ok (sv_uuid S) (t_videos ?d)" using ok by (simp add: db_ok_def)
  note save = tbl_save_existing [OF vs v(1)]
  have parse: "uuid_Parse (sv_uuid S) (uuid_String (sv_uuid S) u) = Some u" for u
    using U by (simp add: uuid_lib_ok_def)
  have noj: "tbl_find (\<lambda>j. j_VideoID j = v_ID v \<and> j_Type j = TypeSegment) (t_jobs ?d) = None"
    using nojob by (simp add: tbl_find_def find_None_iff)
  have ins: "tbl_insert job_clash j (t_jobs ?d) = Some (t_jobs ?d @ [j])"
    if "j_ID j = uuid_source ?rt (Suc (uuid_draws ?rt))" "j_VideoID j = v_ID v" "j_Type j = TypeSegment" for j
    by (rule tbl_insert_fresh) (use that nojob fresh(2) in \<open>auto simp: job_clash_def image_iff\<close>)
  have out: "\<not> list_ex (\<lambda>y. ob_ID y = uuid_source ?rt (uuid_draws ?rt)) (t_outbox ?d)"
    using fresh(1) unfolding list_ex_iff by (metis imageI)
  have fits: "\<not> (maxSize > 0 \<and> cu_SizeBytes cmd > maxSize)" using size(1) by auto
  obtain ty where ty: "cu_ContentType cmd \<noteq> '''' \<longrightarrow> ty = cu_ContentType cmd"
    and mark: "\<And>Q. wp (MarkUploaded (sv_uuid S) (cu_ContentType cmd) (cu_SizeBytes cmd) v) Q = (\<lambda>r.
    Q (None, v\<lparr>v_ContentType := ty, v_SizeBytes := cu_SizeBytes cmd, v_Status := StatusProcessing,
         v_UpdatedAt := clock r (clock_reads r), v_events := [VideoUploaded
           (uuid_String (sv_uuid S) (uuid_source r (uuid_draws r))) (uuid_String (sv_uuid S) (v_ID v))
           (ownerUserID (sv_uuid S) v) (v_StorageKey v) ty (cu_SizeBytes cmd) StatusProcessing
           (clock r (clock_reads r))]\<rparr>)
      (r\<lparr>clock_reads := Suc (clock_reads r), uuid_draws := Suc (uuid_draws r)\<rparr>))"
    using MarkUploaded_pending [OF pending v(2) size(2)] by blast
  let ?v' = "\<lambda>t. v\<lparr>v_ContentType := ty, v_SizeBytes := cu_SizeBytes cmd, v_Status := StatusProcessing,
    v_events := [], v_UpdatedAt := t\<rparr>"
  have "wp (ConfirmUpload S maxSize cmd) (\<lambda>res w'. res = None \<and> (\<exists>t j r e.
      w_db w' = ?d\<lparr>t_jobs := t_jobs ?d @ [j],
        t_videos := map (\<lambda>x. if v_ID x = v_ID v then ?v' t else x) (t_videos ?d), t_outbox := t_outbox ?d @ [r]\<rparr> \<and>
      j_VideoID j = v_ID v \<and> j_Type j = TypeSegment \<and> j_Status j = JobPending \<and>
      ob_PublishedAt r = None \<and> ob_EventType r = ''video.uploaded.v1'' \<and> ob_Payload r = video_Marshal e \<and>
      video_EventType e = ''video.uploaded.v1'' \<and> e_VideoID e = uuid_String (sv_uuid S) (v_ID v) \<and>
      e_StorageKey e = v_StorageKey v)) w"
    using fits found quiet
    by (simp add: ConfirmUpload_def videos_GetByStorageKey_def quiet_simps mark
        jobs_GetByVideoIDAndType_def noj NewSegmentJob_def jobs_Save_def ins
        videos_Update_def save videoModelFromDomain_def store_pulled_def PullEvents_def StoreEvents_def
        of_video_event_def parse or_violation_def out del: video_Marshal.simps cong: lazy_congs)
      (intro exI conjI, (rule refl | simp del: video_Marshal.simps)+)
  from fault_free_run [OF this] ty show ?thesis by fastforce
qed

definition upload_world :: world where
  "upload_world = sample_world\<lparr>w_db := empty_db\<lparr>t_videos := [
     \<lparr>v_ID = 900, v_UserID = Some 7, v_OriginalFilename = ''a.mp4'', v_StorageKey = NewStorageKey decimal_lib 900,
      v_ThumbnailKey = '''', v_SizeBytes = 0, v_ContentType = ''video/mp4'', v_Status = StatusPending,
      v_CreatedAt = 0, v_UpdatedAt = 0, v_FinishedAt = None, v_events = []\<rparr>]\<rparr>\<rparr>"

lemma upload_world_ok: "db_ok decimal_lib (w_db upload_world)"
  by (simp add: db_ok_def upload_world_def empty_db_def videos_ok_def jobs_ok_def segments_ok_def users_ok_def
      video_ok_def video_statuses_def)

theorem confirm_upload_effect_witness:
  "\<exists>w'. run_state (ConfirmUpload sample_services 100
       \<lparr>cu_StorageKey = NewStorageKey decimal_lib 900, cu_ContentType = '''', cu_SizeBytes = 5\<rparr>) upload_world =
     (None, w') \<and> length (t_outbox (w_db w')) = 1"
proof -
  have "\<exists>w' v' j r. run_state (ConfirmUpload sample_services 100
       \<lparr>cu_StorageKey = NewStorageKey decimal_lib 900, cu_ContentType = '''', cu_SizeBytes = 5\<rparr>) upload_world =
     (None, w') \<and> t_outbox (w_db w') = t_outbox (w_db upload_world) @ [r]"
    using confirm_upload_effect [of sample_services upload_world 100
        "\<lparr>cu_StorageKey = NewStorageKey decimal_lib 900, cu_ContentType = '''', cu_SizeBytes = 5\<rparr>"
        "hd (t_videos (w_db upload_world))"] upload_world_ok decimal_lib_ok
    by (force simp: upload_world_def sample_world_def tbl_find_def empty_db_def)
  then show ?thesis by (auto simp: upload_world_def sample_world_def empty_db_def)
qed

lemma run_rt_op_db: "run_state (rt_op m) w = (a, w') \<Longrightarrow> w_db w' = w_db w"
  by (auto simp: rt_op_def split: prod.splits)

lemma run_svc_db: "run_state (svc f) w = (a, w') \<Longrightarrow> w_db w' = w_db w"
  by (auto simp: svc_def)

text \<open>
  C32. The upload commands are all or nothing: when \<open>ConfirmUpload\<close>, \<open>RequestUploadURL\<close> or
  \<open>RequestIngest\<close> reports an error, whatever failed and wherever, the tables are as they were.
\<close>

theorem upload_commands_atomic:
  "(\<forall>e w'. run_state (ConfirmUpload S maxSize cu) w = (Some e, w') \<longrightarrow> w_db w' = w_db w) \<and>
   (\<forall>e w'. run_state (RequestUploadURL S ttl ru) w = (Inl e, w') \<longrightarrow> w_db w' = w_db w) \<and>
   (\<forall>e w'. run_state (RequestIngest S ri) w = (Inl e, w') \<longrightarrow> w_db w' = w_db w)"
proof (intro conjI allI impI)
  fix e w'
  assume "run_state (ConfirmUpload S maxSize cu) w = (Some e, w')"
  then show "w_db w' = w_db w"
    by (auto simp: ConfirmUpload_def split: if_splits dest: Transaction_atomic)
next
  fix e w'
  assume "run_state (RequestUploadURL S ttl ru) w = (Inl e, w')"
  then show "w_db w' = w_db w"
    by (auto simp: RequestUploadURL_def create_video_def split: prod.splits sum.splits option.splits
        dest!: Transaction_atomic run_rt_op_db run_svc_db)
next
  fix e w'
  assume "run_state (RequestIngest S ri) w = (Inl e, w')"
  then show "w_db w' = w_db w"
    by (auto simp: RequestIngest_def create_video_def split: prod.splits sum.splits option.splits
        dest!: Transaction_atomic run_rt_op_db)
qed

definition failing_world :: world where
  "failing_world = upload_world\<lparr>w_db_fault := (\<lambda>n. if n = 4 then Some DeadlineExceeded else None)\<rparr>"

theorem upload_commands_atomic_witness:
  "\<exists>e w'. run_state (ConfirmUpload sample_services 100
       \<lparr>cu_StorageKey = NewStorageKey decimal_lib 900, cu_ContentType = '''', cu_SizeBytes = 5\<rparr>) failing_world =
     (Some e, w') \<and> w_db w' = w_db failing_world"
proof -
  have "fst (run_state (ConfirmUpload sample_services 100
       \<lparr>cu_StorageKey = NewStorageKey decimal_lib 900, cu_ContentType = '''', cu_SizeBytes = 5\<rparr>) failing_world) =
     Some (Errorf ''database'' DeadlineExceeded)"
    by code_simp
  then show ?thesis using upload_commands_atomic [of sample_services 100] by (metis prod.collapse)
qed

text \<open>
  A repeated confirmation does nothing twice: on a video that is processing or done and has its
  segment job, it succeeds, creates no job, sends no message and leaves every video's status as it is.
\<close>

theorem confirm_upload_repeated:
  assumes quiet: "\<forall>n. w_db_fault w n = None" and ok: "db_ok (sv_uuid S) (w_db w)"
    and size: "maxSize \<le> 0 \<or> cu_SizeBytes cmd \<le> maxSize"
    and found: "tbl_find (\<lambda>v. v_StorageKey v = cu_StorageKey cmd) (t_videos (w_db w)) = Some v"
    and status: "v_Status v = StatusProcessing \<or> v_Status v = StatusSuccess"
    and job: "tbl_find (\<lambda>j. j_VideoID j = v_ID v \<and> j_Type j = TypeSegment) (t_jobs (w_db w)) = Some j"
  shows "\<exists>w'. run_state (ConfirmUpload S maxSize cmd) w = (None, w') \<and>
    t_jobs (w_db w') = t_jobs (w_db w) \<and> t_outbox (w_db w') = t_outbox (w_db w) \<and>
    map (\<lambda>v. (v_ID v, v_Status v)) (t_videos (w_db w')) = map (\<lambda>v. (v_ID v, v_Status v)) (t_videos (w_db w))"
proof -
  have v: "v \<in> set (t_videos (w_db w))" "v_events v = []"
    using tbl_find_Some [OF found] ok by (auto dest: db_ok_video)
  have vs: "videos_ok (sv_uuid S) (t_videos (w_db w))" using ok by (simp add: db_ok_def)
  note save = tbl_save_existing [OF vs v(1)]
  have fits: "\<not> (maxSize > 0 \<and> cu_SizeBytes cmd > maxSize)" using size by auto
  have same: "y = v" if "y \<in> set (t_videos (w_db w))" "v_ID y = v_ID v" for y
    using vs v(1) that by (auto simp: videos_ok_def distinct_map dest: inj_onD)
  obtain ty n where mark: "\<And>Q. wp (MarkUploaded (sv_uuid S) (cu_ContentType cmd) (cu_SizeBytes cmd) v) Q = (\<lambda>r.
    Q (None, v\<lparr>v_ContentType := ty, v_SizeBytes := n, v_UpdatedAt := clock r (clock_reads r)\<rparr>)
      (r\<lparr>clock_reads := Suc (clock_reads r)\<rparr>))"
    using MarkUploaded_again [OF status] by blast
  have "wp (ConfirmUpload S maxSize cmd) (\<lambda>res w'. res = None \<and>
      t_jobs (w_db w') = t_jobs (w_db w) \<and> t_outbox (w_db w') = t_outbox (w_db w) \<and>
      map (\<lambda>v. (v_ID v, v_Status v)) (t_videos (w_db w')) = map (\<lambda>v. (v_ID v, v_Status v)) (t_videos (w_db w))) w"
    using fits found v quiet job
    by (auto simp: ConfirmUpload_def videos_GetByStorageKey_def quiet_simps mark
        jobs_GetByVideoIDAndType_def videos_Update_def save videoModelFromDomain_def
        store_pulled_def PullEvents_def StoreEvents_def or_violation_def cong: lazy_congs dest: same)
  from fault_free_run [OF this] show ?thesis by blast
qed

definition repeated_world :: world where
  "repeated_world = sample_world\<lparr>w_db := empty_db\<lparr>
     t_videos := [(hd (t_videos (w_db upload_world)))\<lparr>v_Status := StatusProcessing\<rparr>],
     t_jobs := [zero_job\<lparr>j_ID := 5, j_VideoID := 900, j_Type := TypeSegment, j_Status := JobPending\<rparr>]\<rparr>\<rparr>"

theorem confirm_upload_repeated_witness:
  "\<exists>w'. run_state (ConfirmUpload sample_services 0
      \<lparr>cu_StorageKey = NewStorageKey decimal_lib 900, cu_ContentType = '''', cu_SizeBytes = 5\<rparr>) repeated_world =
     (None, w') \<and> t_outbox (w_db w') = []"
proof -
  have ok: "db_ok (sv_uuid sample_services) (w_db repeated_world)"
    by (simp add: db_ok_def repeated_world_def upload_world_def empty_db_def videos_ok_def jobs_ok_def
        segments_ok_def users_ok_def video_ok_def video_statuses_def job_life.consistent_def zero_job_def)
  have "\<exists>w'. run_state (ConfirmUpload sample_services 0
      \<lparr>cu_StorageKey = NewStorageKey decimal_lib 900, cu_ContentType = '''', cu_SizeBytes = 5\<rparr>) repeated_world =
     (None, w') \<and> t_jobs (w_db w') = t_jobs (w_db repeated_world) \<and>
     t_outbox (w_db w') = t_outbox (w_db repeated_world) \<and>
     map (\<lambda>v. (v_ID v, v_Status v)) (t_videos (w_db w')) =
       map (\<lambda>v. (v_ID v, v_Status v)) (t_videos (w_db repeated_world))"
    by (rule confirm_upload_repeated [OF _ ok, where v = "hd (t_videos (w_db repeated_world))"
          and j = "hd (t_jobs (w_db repeated_world))"])
      (simp_all add: repeated_world_def upload_world_def sample_world_def empty_db_def tbl_find_def)
  then show ?thesis by (auto simp: repeated_world_def empty_db_def)
qed

end
