(* ===== verification/SegmentVideo.thy ===== *)
theory SegmentVideo
  imports Uploads SegmentPlan
begin

text \<open>
  \<open>internal/application/command/video/segment_video.go\<close>: the handler that cuts an uploaded video into
  segments. The context's deadline shows as a service or a statement that fails with \<open>DeadlineExceeded\<close>.
  A helper that writes the video or the job it is given returns them.
\<close>

section \<open>What the handlers of the pipeline share\<close>

text \<open>
  The transaction that updates the video, then its job, then stores the video's events; the video keeps
  what was written to it, and its events are gone once they were pulled.
\<close>

definition save_video_job :: "services \<Rightarrow> video \<Rightarrow> job \<Rightarrow> (world, go_error option \<times> video) state" where
  "save_video_job S video job = WithTransaction video (\<lambda>video.
     if_err (videos_Update video) (\<lambda>e. ret (Some e, video))
       (if_err (jobs_Update job) (\<lambda>e. ret (Some e, video))
         (store_pulled S video)))"

definition publicReason :: "go_error option \<Rightarrow> string" where
  "publicReason err = (case err of
     None \<Rightarrow> ''frame extraction failed''
   | Some e \<Rightarrow> if errors_Is e DeadlineExceeded then ''frame extraction timed out'' else ''unreadable video'')"

definition isNonRetryableExtract :: "go_error \<Rightarrow> bool" where
  "isNonRetryableExtract e = as_NonRetryable e"

section \<open>The steps of SegmentVideo\<close>

definition segmentContentType :: string where
  "segmentContentType = ''video/mp4''"

definition segment_load :: "uuid \<Rightarrow> (world, go_error + video \<times> job) state" where
  "segment_load videoID =
     on_err (videos_GetByID videoID)
       (\<lambda>e. ret (Inl (RetryableError e)))
       (\<lambda>video. case video of
          None \<Rightarrow> ret (Inl (NonRetryableError ErrVideoNotFound))
        | Some video \<Rightarrow> on_err (jobs_GetByVideoIDAndType (v_ID video) TypeSegment)
            (\<lambda>e. ret (Inl (RetryableError e)))
            (\<lambda>job. case job of
               None \<Rightarrow> ret (Inl (NonRetryableError (ErrorText ''segment job not found'')))
             | Some job \<Rightarrow> ret (Inr (video, job))))"

definition segment_markExtracting ::
  "services \<Rightarrow> video \<Rightarrow> job \<Rightarrow> (world, go_error option \<times> video \<times> job) state" where
  "segment_markExtracting S video job =
     (if j_Status job = JobProcessing then ret (None, video, job)
      else do {
        job \<leftarrow> rt_op (job_MarkProcessing job);
        (err, video) \<leftarrow> rt_op (MarkExtracting (sv_uuid S) (j_ID job) (j_Type job) (j_Status job) video);
        case err of
          Some e \<Rightarrow> ret (NonRetryable (Some e), video, job)
        | None \<Rightarrow> do {
            (err, video) \<leftarrow> save_video_job S video job;
            case err of
              Some e \<Rightarrow> ret (Retryable (Some e), video, job)
            | None \<Rightarrow> ret (None, video, job) } })"

text \<open>A handler without an extractor (\<open>extractor == nil\<close>) stores no thumbnail.\<close>

definition storeThumbnail ::
  "services \<Rightarrow> bool \<Rightarrow> video \<Rightarrow> bytes \<Rightarrow> (world, go_error option \<times> video) state" where
  "storeThumbnail S hasExtractor video content =
     (if \<not> hasExtractor then ret (None, video)
      else on_err (svc (\<lambda>n. sv_thumbnail S n content))
        (\<lambda>e. ret (Some e, video))
        (\<lambda>data. let key = NewThumbnailStorageKey (sv_uuid S) (v_ID video)
          in if_err (storage_Put S key data ''image/jpeg'')
               (\<lambda>e. ret (Some e, video))
               (do {
                  video \<leftarrow> rt_op (SetThumbnailKey key video);
                  err \<leftarrow> videos_UpdateThumbnailKey (v_ID video) key;
                  ret (err, video) })))"

text \<open>The loop that stores the files of the split, one object and one segment each.\<close>

fun store_segment_files ::
  "services \<Rightarrow> video \<Rightarrow> job \<Rightarrow> SegmentFile list \<Rightarrow> segment list \<Rightarrow> (world, go_error + segment list) state" where
  "store_segment_files S video job [] segments = ret (Inr segments)"
| "store_segment_files S video job (file # files) segments =
     (let key = NewSegmentStorageKey (sv_uuid S) (v_ID video) (sf_Index file)
      in on_err (svc (\<lambda>n. sv_read_file S n (sf_Path file)))    \<comment> \<open>os.Open\<close>
           (\<lambda>e. ret (Inl e))
           (\<lambda>content. if_err (svc (sv_file S))    \<comment> \<open>Stat\<close>
              (\<lambda>e. ret (Inl e))
              (if_err (storage_Put S key content segmentContentType)
                 (\<lambda>e. ret (Inl e))
                 (do {
                    segment \<leftarrow> rt_op (NewSegment (v_ID video) (j_ID job) (sf_Index file) (sf_OffsetMs file)
                                       (sf_DurationMs file) key);
                    store_segment_files S video job files (segments @ [segment]) }))))"

definition splitAndStore ::
  "services \<Rightarrow> bool \<Rightarrow> video \<Rightarrow> job \<Rightarrow> (world, (go_error + segment list) \<times> video) state" where
  "splitAndStore S hasExtractor video job =
     if_err (svc (sv_file S))    \<comment> \<open>CreateTemp\<close>
       (\<lambda>e. ret (Inl e, video))
       (on_err (svc (\<lambda>n. sv_get S n (v_StorageKey video)))
         (\<lambda>e. ret (Inl e, video))
         (\<lambda>content. if_err (svc (sv_file S))    \<comment> \<open>io.Copy\<close>
            (\<lambda>e. ret (Inl e, video))
            (if_err (svc (sv_file S))    \<comment> \<open>Close\<close>
               (\<lambda>e. ret (Inl e, video))
               (do {
                  (_, video) \<leftarrow> storeThumbnail S hasExtractor video content;    \<comment> \<open>an error is only logged\<close>
                  on_err (svc (\<lambda>n. sv_probe S n content))
                    (\<lambda>e. ret (Inl (NonRetryableError e), video))
                    (\<lambda>durationMs.
                       let plan = PlanSegments (real_of_int durationMs / 1000)
                             \<lparr>pc_SegmentDurationSeconds = j_SegmentDurationSeconds job,
                              pc_MinVideoDurationForSplitSeconds = j_MinVideoDurationForSplitSeconds job,
                              pc_MaxSegments = j_MaxSegments job\<rparr>
                       in if pl_SkipSplit plan
                          then do {
                            seg \<leftarrow> rt_op (NewSegment (v_ID video) (j_ID job) 0 0 durationMs (v_StorageKey video));
                            ret (Inr [seg], video) }
                          else if_err (svc (sv_file S))    \<comment> \<open>MkdirTemp\<close>
                            (\<lambda>e. ret (Inl e, video))
                            (on_err (svc (\<lambda>n. sv_split S n content (pl_EffectiveDurationSeconds plan)))
                              (\<lambda>e. ret (Inl (NonRetryableError e), video))
                              (\<lambda>files. on_err (store_segment_files S video job files [])
                                 (\<lambda>e. ret (Inl e, video))
                                 (\<lambda>segments.
                                    if length segments = 0
                                    then ret (Inl (NonRetryableError (ErrorText ''no segments produced'')), video)
                                    else ret (Inr segments, video))))) }))))"

fun record_segments_ready ::
  "uuid_lib \<Rightarrow> job \<Rightarrow> segment list \<Rightarrow> video \<Rightarrow> (runtime, video) state" where
  "record_segments_ready U job [] video = ret video"
| "record_segments_ready U job (seg # segs) video = do {
     video \<leftarrow> RecordSegmentReady U (j_ID job) (s_ID seg) (s_SegmentIndex seg) (s_OffsetMs seg)
       (s_DurationMs seg) (s_StorageKey seg) video;
     record_segments_ready U job segs video }"

text \<open>The frame job of the video: created, or told how many segments to expect.\<close>

definition upsert_frame_job :: "uuid \<Rightarrow> int \<Rightarrow> (world, go_error option) state" where
  "upsert_frame_job videoID count =
     on_err (jobs_GetByVideoIDAndType videoID TypeFrame)
       (\<lambda>e. ret (Some e))
       (\<lambda>frameJob. case frameJob of
          None \<Rightarrow> do {
            frameJob \<leftarrow> rt_op (NewFrameJob videoID);
            jobs_Save (SetSegmentProgress count 0 frameJob) }
        | Some frameJob \<Rightarrow> do {
            let frameJob = SetSegmentProgress count (j_CompletedSegmentCount frameJob) frameJob;
            frameJob \<leftarrow> (if j_Status frameJob = JobPending then rt_op (job_MarkProcessing frameJob)
                         else ret frameJob);
            jobs_Update frameJob })"

definition commitSegments ::
  "services \<Rightarrow> video \<Rightarrow> job \<Rightarrow> segment list \<Rightarrow> (world, go_error option) state" where
  "commitSegments S video job segments = do {
     job \<leftarrow> rt_op (job_MarkSuccess (SetSegmentProgress (int (length segments)) 0 job));
     video \<leftarrow> rt_op (record_segments_ready (sv_uuid S) job segments video);
     (err, _) \<leftarrow> WithTransaction video (\<lambda>video.
       if_err (segments_SaveAll segments) (\<lambda>e. ret (Some e, video))
         (if_err (jobs_Update job) (\<lambda>e. ret (Some e, video))
           (if_err (upsert_frame_job (v_ID video) (int (length segments))) (\<lambda>e. ret (Some e, video))
             (if_err (videos_Update video) (\<lambda>e. ret (Some e, video))
               (store_pulled S video)))));
     ret err }"

definition pending_segments :: "segment list \<Rightarrow> segment list" where
  "pending_segments segments = filter (\<lambda>s. s_Status s = ''pending'' \<or> s_Status s = ''failed'') segments"

definition republishPending ::
  "services \<Rightarrow> video \<Rightarrow> job \<Rightarrow> segment list \<Rightarrow> (world, go_error option) state" where
  "republishPending S video job segments =
     (let pending = pending_segments segments in
      if length pending = 0 then ret None
      else do {
        video \<leftarrow> rt_op (record_segments_ready (sv_uuid S) job pending video);
        (err, _) \<leftarrow> WithTransaction video (store_pulled S);
        ret err })"

definition segment_markFailed ::
  "services \<Rightarrow> video \<Rightarrow> job \<Rightarrow> string \<Rightarrow> (world, go_error option) state" where
  "segment_markFailed S video job why = do {
     job \<leftarrow> rt_op (job_MarkFailed why job);
     (err, video) \<leftarrow> rt_op (MarkExtractionFailed (sv_uuid S) (j_ID job) (j_Type job) (j_Status job) why video);
     case err of
       Some e \<Rightarrow> ret (Some e)
     | None \<Rightarrow> do { (err, _) \<leftarrow> save_video_job S video job; ret err } }"

section \<open>The handler\<close>

definition SegmentVideo :: "services \<Rightarrow> bool \<Rightarrow> uuid \<Rightarrow> (world, go_error option) state" where
  "SegmentVideo S hasExtractor videoID =
     on_err (segment_load videoID) (\<lambda>e. ret (Some e)) (\<lambda>(video, job).
       if v_Status video = StatusSuccess then ret None
       else on_err (segments_ListByVideoID (v_ID video))
         (\<lambda>e. ret (Retryable (Some e)))
         (\<lambda>existing.
            if j_Status job = JobSuccess \<or> (length existing > 0 \<and> j_ExpectedSegmentCount job > 0)
            then republishPending S video job existing
            else do {
              (err, video, job) \<leftarrow> segment_markExtracting S video job;
              case err of
                Some e \<Rightarrow> ret (Some e)
              | None \<Rightarrow> do {
                  (segments, video) \<leftarrow> splitAndStore S hasExtractor video job;
                  case segments of
                    Inl splitErr \<Rightarrow> do {
                      _ \<leftarrow> segment_markFailed S video job (publicReason (Some splitErr));
                      if isNonRetryableExtract splitErr
                      then ret (NonRetryable (Some splitErr))
                      else ret (Retryable (Some splitErr)) }
                  | Inr segments \<Rightarrow> commitSegments S video job segments } }))"

section \<open>The handler keeps the invariant\<close>

lemma holds_save_video_job:
  assumes "sv_uuid S = U" "video_after H U v" "job_ok j"
  shows "holds (db_after H U) (\<lambda>(err, v'). video_after H U v') (save_video_job S v j)"
  unfolding save_video_job_def using assms
  by (intro holds_WithTransaction) (rule holds_steps holds_store_pulled holds_ret | force)+

definition loaded :: "(uuid \<rightharpoonup> video) \<Rightarrow> uuid_lib \<Rightarrow> go_error + video \<times> job \<Rightarrow> bool" where
  "loaded H U r \<longleftrightarrow> (\<forall>v j. r = Inr (v, j) \<longrightarrow> video_after H U v \<and> job_ok j)"

lemma loaded_simps [simp]:
  "loaded H U (Inl e)" "loaded H U (Inr (v, j)) \<longleftrightarrow> video_after H U v \<and> job_ok j"
  by (simp_all add: loaded_def)

lemma segment_load_ok: "holds (db_after H U) (loaded H U) (segment_load i)"
  unfolding segment_load_def by (rule holds_steps holds_ret | force)+

lemma segment_markExtracting_ok:
  "sv_uuid S = U \<Longrightarrow> video_after H U v \<Longrightarrow> job_ok j \<Longrightarrow>
     holds (db_after H U) (\<lambda>(err, v, j). video_after H U v \<and> job_ok j) (segment_markExtracting S v j)"
  unfolding segment_markExtracting_def
  by (rule holds_steps holds_save_video_job holds_ret | force)+

lemma storeThumbnail_ok:
  "sv_uuid S = U \<Longrightarrow> video_after H U v \<Longrightarrow> holds (db_after H U) (\<lambda>(err, v). video_after H U v) (storeThumbnail S b v c)"
  unfolding storeThumbnail_def
  by (rule holds_steps holds_storage holds_ret | force)+

abbreviation made_segments :: "go_error + segment list \<Rightarrow> bool" where
  "made_segments r \<equiv> (\<forall>ss. r = Inr ss \<longrightarrow> (\<forall>s \<in> set ss. segment_ok s))"

lemma store_segment_files_ok:
  "\<forall>s \<in> set ss. segment_ok s \<Longrightarrow> holds (db_after H U) made_segments (store_segment_files S v j fs ss)"
proof (induction fs arbitrary: ss)
  case (Cons f fs)
  show ?case
    unfolding store_segment_files.simps
    by (rule holds_control holds_entities holds_storage holds_svc holds_ret Cons.IH | use Cons.prems in force)+
qed (simp add: holds_ret)

lemma splitAndStore_ok:
  "sv_uuid S = U \<Longrightarrow> video_after H U v \<Longrightarrow>
     holds (db_after H U) (\<lambda>(r, v). made_segments r \<and> video_after H U v) (splitAndStore S b v j)"
  unfolding splitAndStore_def
  by (rule holds_steps storeThumbnail_ok store_segment_files_ok holds_ret | force)+

lemma record_segments_ready_ok: "wp (record_segments_ready U j ss v) (recorder_ok U v r) r"
proof (induction ss arbitrary: v r)
  case (Cons s ss)
  show ?case
    unfolding record_segments_ready.simps wp_bind
    by (rule wp_mono [OF RecordSegmentReady_ok]) (blast intro: wp_mono [OF Cons.IH] recorder_ok_trans)
qed (simp add: wp_simps recorder_ok_def)

lemmas holds_record_segments = record_segments_ready_ok [THEN holds_recorder]

lemma holds_started:
  "job_ok j \<Longrightarrow> holds P job_ok (if b then rt_op (job_MarkProcessing j) else ret j)"
  by (auto intro!: holds_job_methods holds_ret)

lemma upsert_frame_job_ok: "holds (db_after H U) (\<lambda>_. True) (upsert_frame_job i n)"
  unfolding upsert_frame_job_def
  by (rule holds_started holds_on_err holds_case_option holds_let holds_bind holds_repos holds_new_jobs
      holds_ret | force)+

lemma holds_fst:
  "holds P (\<lambda>(err, c). Q c) m \<Longrightarrow> holds P (\<lambda>_. True) (do { (err, _) \<leftarrow> m; ret err })"
  by (rule holds_bind [where Q = "\<lambda>_. True"]) (auto elim: holds_weaken intro!: holds_case_prod holds_ret)

lemma commitSegments_ok:
  assumes U: "sv_uuid S = U" and "video_after H U v" "job_ok j" "\<forall>s \<in> set ss. segment_ok s"
  shows "holds (db_after H U) (\<lambda>_. True) (commitSegments S v j ss)"
  using assms(2-4) unfolding commitSegments_def U
  by - (rule holds_bind, rule holds_job_methods, rule holds_bind, rule holds_record_segments, assumption,
      rule holds_fst [where Q = "video_after H U"], rule holds_WithTransaction, assumption,
      (rule holds_steps upsert_frame_job_ok holds_store_pulled [OF U] holds_ret | force)+)

lemma republishPending_ok:
  assumes U: "sv_uuid S = U" and "video_after H U v"
  shows "holds (db_after H U) (\<lambda>_. True) (republishPending S v j ss)"
  using assms(2) unfolding republishPending_def Let_def U
  by - (rule holds_if, rule holds_ret, simp, rule holds_bind, rule holds_record_segments, assumption,
      rule holds_fst [where Q = "video_after H U"], rule holds_WithTransaction, assumption,
      (rule holds_store_pulled [OF U] | force)+)

lemma segment_markFailed_ok:
  "sv_uuid S = U \<Longrightarrow> video_after H U v \<Longrightarrow> job_ok j \<Longrightarrow>
     holds (db_after H U) (\<lambda>_. True) (segment_markFailed S v j why)"
  unfolding segment_markFailed_def
  by (rule holds_steps holds_save_video_job holds_ret | force)+

lemma SegmentVideo_ok: "sv_uuid S = U \<Longrightarrow> holds (db_after H U) (\<lambda>_. True) (SegmentVideo S b i)"
  unfolding SegmentVideo_def
  by (rule holds_steps segment_load_ok segment_markExtracting_ok splitAndStore_ok segment_markFailed_ok
      commitSegments_ok republishPending_ok holds_ret | force)+

end
