(* ===== verification/ExtractFrames.thy ===== *)
theory ExtractFrames
  imports SegmentVideo
begin

text \<open>
  \<open>internal/application/command/video/extract_frames.go\<close>: the handler that extracts the frames of one
  segment, stores each of them, asks for its OCR at once, and completes the segment.

  The pool runs one goroutine per submitted frame. Their steps are independent but for the pool's own
  fields, which a mutex protects, and \<open>publishOCRRequest\<close>, which \<open>publishMu\<close> serialises; the model runs
  each of them to its end when it is submitted, which is one of their interleavings.
\<close>

definition frameContentType :: string where
  "frameContentType = ''image/jpeg''"

text \<open>\<open>DefaultFrameMaxWidthPx\<close>, and the constructor's default.\<close>

definition frame_max_width :: "int \<Rightarrow> int" where
  "frame_max_width n = (if n \<le> 0 then 960 else n)"

definition extract_load :: "uuid \<Rightarrow> uuid \<Rightarrow> (world, go_error + video \<times> job \<times> segment) state" where
  "extract_load videoID segmentID =
     on_err (videos_GetByID videoID)
       (\<lambda>e. ret (Inl (RetryableError e)))
       (\<lambda>video. case video of
          None \<Rightarrow> ret (Inl (NonRetryableError ErrVideoNotFound))
        | Some video \<Rightarrow> on_err (jobs_GetByVideoIDAndType (v_ID video) TypeFrame)
            (\<lambda>e. ret (Inl (RetryableError e)))
            (\<lambda>job. case job of
               None \<Rightarrow> ret (Inl (NonRetryableError (ErrorText ''frame job not found'')))
             | Some job \<Rightarrow> on_err (segments_GetByID segmentID)
                 (\<lambda>e. ret (Inl (RetryableError e)))
                 (\<lambda>segment. case segment of
                    None \<Rightarrow> ret (Inl (NonRetryableError (ErrorText ''segment not found'')))
                  | Some segment \<Rightarrow>
                      if s_VideoID segment \<noteq> v_ID video
                      then ret (Inl (NonRetryableError (ErrorText ''segment not found'')))
                      else ret (Inr (video, job, segment)))))"

section \<open>The pool\<close>

text \<open>\<open>p_ocrJob\<close> is None until \<open>ocrJobOnce\<close> has run, then the job's id or the error it met.\<close>

record frame_pool =
  p_video :: video
  p_err :: "go_error option"
  p_frames :: "ExtractedFramePayload list"
  p_ocrJob :: "(go_error + uuid) option"

definition newFramePersistPool :: "video \<Rightarrow> frame_pool" where
  "newFramePersistPool video = \<lparr>p_video = video, p_err = None, p_frames = [], p_ocrJob = None\<rparr>"

definition setErr :: "go_error \<Rightarrow> frame_pool \<Rightarrow> frame_pool" where
  "setErr e p = (if p_err p = None then p\<lparr>p_err := Some e\<rparr> else p)"

definition ensureOCRJob :: "frame_pool \<Rightarrow> (world, (go_error + uuid) \<times> frame_pool) state" where
  "ensureOCRJob p = (case p_ocrJob p of
     Some r \<Rightarrow> ret (r, p)
   | None \<Rightarrow> do {
       r \<leftarrow> on_err (jobs_GetByVideoIDAndType (v_ID (p_video p)) TypeOCR)
         (\<lambda>e. ret (Inl e))
         (\<lambda>job. case job of
            Some job \<Rightarrow> ret (Inr (j_ID job))
          | None \<Rightarrow> do {
              job \<leftarrow> rt_op (NewOCRJob (v_ID (p_video p)));
              if_err (jobs_Save job) (\<lambda>e. ret (Inl e)) (ret (Inr (j_ID job))) });
       ret (r, p\<lparr>p_ocrJob := Some r\<rparr>) })"

definition publishOCRRequest ::
  "services \<Rightarrow> ExtractedFramePayload \<Rightarrow> frame_pool \<Rightarrow> (world, go_error option \<times> frame_pool) state" where
  "publishOCRRequest S payload p = do {
     (r, p) \<leftarrow> ensureOCRJob p;
     case r of
       Inl e \<Rightarrow> ret (Some e, p)
     | Inr ocrJobID \<Rightarrow> do {
         video \<leftarrow> rt_op (RequestOCRFrames (sv_uuid S) ocrJobID [payload] (p_video p));
         (err, video) \<leftarrow> WithTransaction video (store_pulled S);
         ret (err, p\<lparr>p_video := video\<rparr>) } }"

definition payload_of_frame :: "uuid_lib \<Rightarrow> frame \<Rightarrow> ExtractedFramePayload" where
  "payload_of_frame U f = \<lparr>xf_ID = uuid_String U (f_ID f), xf_Index = f_Index f,
     xf_TimestampMs = f_TimestampMs f, xf_StorageKey = f_StorageKey f,
     xf_SelectionReason = f_SelectionReason f, xf_PHashDistance = f_PHashDistance f\<rparr>"

text \<open>The goroutine of one frame.\<close>

definition persist_frame :: "services \<Rightarrow> segment \<Rightarrow> ExtractedFrame \<Rightarrow> frame_pool \<Rightarrow> (world, frame_pool) state" where
  "persist_frame S segment item p = do {
     interrupted \<leftarrow> svc (sv_ctx S);
     case interrupted of
       Some e \<Rightarrow> ret (setErr (Errorf2 ErrPersistFrame e) p)
     | None \<Rightarrow>
         if p_err p \<noteq> None then ret p
         else let storageKey = NewFrameStorageKey (sv_uuid S) (v_ID (p_video p)) (s_SegmentIndex segment) (ef_Index item)
           in if_err (storage_Put S storageKey (ef_Data item) frameContentType)
                (\<lambda>e. ret (setErr (Errorf2 ErrPersistFrame e) p))
                (do {
                   frame \<leftarrow> rt_op (NewFrame (v_ID (p_video p)) (s_SegmentIndex segment) (ef_Index item)
                     (s_OffsetMs segment + ef_TimestampMs item) storageKey (ef_SelectionReason item)
                     (ef_PHashDistance item));
                   on_err (frames_UpsertAll [frame])
                     (\<lambda>e. ret (setErr (Errorf2 ErrPersistFrame e) p))
                     (\<lambda>stored. let payload = payload_of_frame (sv_uuid S) (hd stored) in do {
                        (err, p) \<leftarrow> publishOCRRequest S payload p;
                        case err of
                          Some e \<Rightarrow> ret (setErr (Errorf2 ErrPersistFrame e) p)
                        | None \<Rightarrow> ret (p\<lparr>p_frames := p_frames p @ [payload]\<rparr>) }) }) }"

text \<open>
  The extractor calls \<open>Submit\<close> once per frame and stops with the error of the first call that fails;
  otherwise it ends with its own result.
\<close>

fun submit_all ::
  "services \<Rightarrow> segment \<Rightarrow> ExtractedFrame list \<Rightarrow> go_error option \<Rightarrow> frame_pool
     \<Rightarrow> (world, go_error option \<times> frame_pool) state" where
  "submit_all S segment [] final p = ret (final, p)"
| "submit_all S segment (item # items) final p =
     (case p_err p of
        Some e \<Rightarrow> ret (Some e, p)
      | None \<Rightarrow> do { p \<leftarrow> persist_frame S segment item p; submit_all S segment items final p })"

definition extractAndStore ::
  "services \<Rightarrow> int \<Rightarrow> video \<Rightarrow> job \<Rightarrow> segment
     \<Rightarrow> (world, (go_error + ExtractedFramePayload list) \<times> video) state" where
  "extractAndStore S maxWidthPx video job segment =
     if_err (svc (sv_file S))    \<comment> \<open>CreateTemp\<close>
       (\<lambda>e. ret (Inl e, video))
       (on_err (svc (\<lambda>n. sv_get S n (s_StorageKey segment)))
         (\<lambda>e. ret (Inl e, video))
         (\<lambda>content. if_err (svc (sv_file S))    \<comment> \<open>io.Copy\<close>
            (\<lambda>e. ret (Inl e, video))
            (if_err (svc (sv_file S))    \<comment> \<open>Close\<close>
               (\<lambda>e. ret (Inl e, video))
               (do {
                  (items, final) \<leftarrow> svc (\<lambda>n. sv_extract S n content
                    \<lparr>fp_AnalysisFPS = j_AnalysisFPS job, fp_PHashDistanceThreshold = j_PHashDistanceThreshold job,
                     fp_MaxIntervalSeconds = j_MaxIntervalSeconds job, fp_MaxWidthPx = frame_max_width maxWidthPx\<rparr>);
                  (extractErr, p) \<leftarrow> submit_all S segment items final (newFramePersistPool video);
                  let payloads = sort_key xf_TimestampMs (p_frames p);
                  ret (case extractErr of
                      Some e \<Rightarrow>
                        if errors_Is e ErrPersistFrame \<or> errors_Is e DeadlineExceeded \<or> errors_Is e Canceled
                        then Inl e
                        else (case p_err p of
                            Some waitErr \<Rightarrow> Inl waitErr
                          | None \<Rightarrow> Inl (NonRetryableError e))
                    | None \<Rightarrow> (case p_err p of Some waitErr \<Rightarrow> Inl waitErr | None \<Rightarrow> Inr payloads),
                    p_video p) }))))"

section \<open>Completing a segment\<close>

definition toExtractedPayloads :: "uuid_lib \<Rightarrow> frame list \<Rightarrow> ExtractedFramePayload list" where
  "toExtractedPayloads U frames = sort_key xf_TimestampMs (map (payload_of_frame U) frames)"

text \<open>\<open>existing == nil\<close>, then save a new OCR job, as both ways of finishing do.\<close>

definition ensure_ocr_job :: "uuid \<Rightarrow> (world, go_error option) state" where
  "ensure_ocr_job videoID =
     on_err (jobs_GetByVideoIDAndType videoID TypeOCR)
       (\<lambda>e. ret (Some e))
       (\<lambda>ocrJob. case ocrJob of
          None \<Rightarrow> do { j \<leftarrow> rt_op (NewOCRJob videoID); jobs_Save j }
        | Some _ \<Rightarrow> ret None)"

text \<open>The variables \<open>completeSegment\<close> writes inside its transaction.\<close>

record completion =
  cp_video :: video
  cp_job :: job
  cp_segment :: segment
  cp_allDone :: bool

text \<open>The segment's own completion: counted once, however often the message is delivered.\<close>

definition settle_segment :: "completion \<Rightarrow> (world, go_error option \<times> completion) state" where
  "settle_segment c =
     on_err (segments_GetByID (s_ID (cp_segment c)))
       (\<lambda>e. ret (Some e, c))
       (\<lambda>current. case current of
          None \<Rightarrow> ret (Some (ErrorText ''segment not found''), c)
        | Some current \<Rightarrow>
            if s_Status current = ''success''
            then on_err (jobs_GetByID (j_ID (cp_job c)))
              (\<lambda>e. ret (Some e, c))
              (\<lambda>reloaded. let c = (case reloaded of None \<Rightarrow> c | Some j \<Rightarrow> c\<lparr>cp_job := j\<rparr>)
                 in ret (None, c\<lparr>cp_allDone := SegmentsComplete (cp_job c)\<rparr>))
            else do {
              segment \<leftarrow> rt_op (segment_MarkSuccess (cp_segment c));
              let c = c\<lparr>cp_segment := segment\<rparr>;
              if_err (segments_Update segment)
                (\<lambda>e. ret (Some e, c))
                (on_err (jobs_IncrementCompletedSegmentCount (j_ID (cp_job c)))
                  (\<lambda>e. ret (Some e, c))
                  (\<lambda>(completed, expected). ret (None, c\<lparr>
                     cp_job := (cp_job c)\<lparr>j_CompletedSegmentCount := completed, j_ExpectedSegmentCount := expected\<rparr>,
                     cp_allDone := expected > 0 \<and> completed \<ge> expected\<rparr>))) })"

text \<open>When the last segment is done: the frame job succeeds and the video gets its frames.\<close>

definition finish_frames :: "services \<Rightarrow> completion \<Rightarrow> (world, go_error option \<times> completion) state" where
  "finish_frames S c =
     (if cp_allDone c \<and> j_Status (cp_job c) \<noteq> JobSuccess
      then on_err (frames_ListByVideoID (v_ID (cp_video c)))
        (\<lambda>e. ret (Some e, c))
        (\<lambda>listed. let allFrames = toExtractedPayloads (sv_uuid S) listed in do {
           job \<leftarrow> rt_op (job_MarkSuccess (SetExpectedFrameCount (int (length allFrames)) (cp_job c)));
           (err, video) \<leftarrow> rt_op (MarkFramesReady (sv_uuid S) (j_ID job) (j_Type job) (j_Status job) allFrames (cp_video c));
           let c = c\<lparr>cp_job := job, cp_video := video\<rparr>;
           case err of
             Some e \<Rightarrow> ret (Some e, c)
           | None \<Rightarrow> do { err \<leftarrow> jobs_Update job; ret (err, c) } })
      else ret (None, c))"

definition cleanupSegmentObject :: "services \<Rightarrow> video \<Rightarrow> segment \<Rightarrow> (world, unit) state" where
  "cleanupSegmentObject S video segment =
     (if s_StorageKey segment = '''' \<or> s_StorageKey segment = v_StorageKey video then ret ()
      else do { _ \<leftarrow> storage_Delete S (s_StorageKey segment); ret () })"

fun cleanup_objects :: "services \<Rightarrow> video \<Rightarrow> segment list \<Rightarrow> (world, unit) state" where
  "cleanup_objects S video [] = ret ()"
| "cleanup_objects S video (s # ss) = do { _ \<leftarrow> cleanupSegmentObject S video s; cleanup_objects S video ss }"

definition cleanupAllSegmentObjects :: "services \<Rightarrow> video \<Rightarrow> (world, unit) state" where
  "cleanupAllSegmentObjects S video =
     on_err (segments_ListByVideoID (v_ID video)) (\<lambda>_. ret ()) (cleanup_objects S video)"

definition completeSegment ::
  "services \<Rightarrow> video \<Rightarrow> job \<Rightarrow> segment \<Rightarrow> (world, go_error option) state" where
  "completeSegment S video job segment = do {
     (err, c) \<leftarrow> WithTransaction \<lparr>cp_video = video, cp_job = job, cp_segment = segment, cp_allDone = False\<rparr>
       (\<lambda>c. do {
          (err, c) \<leftarrow> settle_segment c;
          case err of Some e \<Rightarrow> ret (Some e, c) | None \<Rightarrow>
            if_err (ensure_ocr_job (v_ID (cp_video c)))
              (\<lambda>e. ret (Some e, c))
              (do {
                 (err, c) \<leftarrow> finish_frames S c;
                 case err of Some e \<Rightarrow> ret (Some e, c) | None \<Rightarrow>
                   if_err (videos_Update (cp_video c))
                     (\<lambda>e. ret (Some e, c))
                     (do { (err, video) \<leftarrow> store_pulled S (cp_video c); ret (err, c\<lparr>cp_video := video\<rparr>) }) }) });
     case err of
       Some e \<Rightarrow> ret (Some e)
     | None \<Rightarrow> do {
         _ \<leftarrow> cleanupSegmentObject S (cp_video c) (cp_segment c);
         _ \<leftarrow> (if cp_allDone c then cleanupAllSegmentObjects S (cp_video c) else ret ());
         ret None } }"

definition maybeFinalize :: "services \<Rightarrow> video \<Rightarrow> job \<Rightarrow> (world, go_error option) state" where
  "maybeFinalize S video job =
     (if \<not> SegmentsComplete job \<or> j_Status job = JobSuccess then ret None
      else on_err (frames_ListByVideoID (v_ID video))
        (\<lambda>e. ret (Retryable (Some e)))
        (\<lambda>listed. let payloads = toExtractedPayloads (sv_uuid S) listed in do {
           job \<leftarrow> rt_op (job_MarkSuccess (SetExpectedFrameCount (int (length payloads)) job));
           (err, video) \<leftarrow> rt_op (MarkFramesReady (sv_uuid S) (j_ID job) (j_Type job) (j_Status job) payloads video);
           case err of
             Some e \<Rightarrow> ret (NonRetryable (Some e))
           | None \<Rightarrow> do {
               (err, video) \<leftarrow> WithTransaction video (\<lambda>video.
                 if_err (jobs_Update job) (\<lambda>e. ret (Some e, video))
                   (if_err (videos_Update video) (\<lambda>e. ret (Some e, video))
                     (if_err (ensure_ocr_job (v_ID video)) (\<lambda>e. ret (Some e, video))
                       (store_pulled S video))));
               case err of
                 Some e \<Rightarrow> ret (Some e)
               | None \<Rightarrow> do { _ \<leftarrow> cleanupAllSegmentObjects S video; ret None } } }))"

definition failSegment ::
  "services \<Rightarrow> video \<Rightarrow> job \<Rightarrow> segment \<Rightarrow> string \<Rightarrow> (world, go_error option) state" where
  "failSegment S video job segment why = do {
     segment \<leftarrow> rt_op (segment_MarkFailed why segment);
     job \<leftarrow> rt_op (job_MarkFailed why job);
     (err, video) \<leftarrow> rt_op (MarkExtractionFailed (sv_uuid S) (j_ID job) (j_Type job) (j_Status job) why video);
     case err of
       Some e \<Rightarrow> ret (Some e)
     | None \<Rightarrow> do {
         (err, _) \<leftarrow> WithTransaction video (\<lambda>video.
           if_err (segments_Update segment) (\<lambda>e. ret (Some e, video))
             (if_err (videos_Update video) (\<lambda>e. ret (Some e, video))
               (if_err (jobs_Update job) (\<lambda>e. ret (Some e, video))
                 (store_pulled S video))));
         ret err } }"

section \<open>The handler\<close>

record ExtractFramesCommand =
  ex_VideoID :: uuid
  ex_SegmentID :: uuid

definition ExtractFrames :: "services \<Rightarrow> int \<Rightarrow> ExtractFramesCommand \<Rightarrow> (world, go_error option) state" where
  "ExtractFrames S maxWidthPx cmd =
     on_err (extract_load (ex_VideoID cmd) (ex_SegmentID cmd)) (\<lambda>e. ret (Some e)) (\<lambda>(video, job, segment).
       if j_Status job = JobSuccess then ret None
       else if v_Status video = StatusFailed then ret None
       else if s_Status segment = ''success'' then maybeFinalize S video job
       else let segment = segment_MarkProcessing segment in
         if_err (segments_Update segment)
           (\<lambda>e. ret (Retryable (Some e)))
           (do {
              (frames, video) \<leftarrow> extractAndStore S maxWidthPx video job segment;
              case frames of
                Inl extractErr \<Rightarrow>
                  if isNonRetryableExtract extractErr
                  then do {
                    _ \<leftarrow> failSegment S video job segment (publicReason (Some extractErr));
                    ret (NonRetryable (Some extractErr)) }
                  else ret (Retryable (Some extractErr))
              | Inr _ \<Rightarrow>
                  if_err (completeSegment S video job segment)
                    (\<lambda>e. ret (Retryable (Some e)))
                    (ret None) }))"

section \<open>The handler keeps the invariant\<close>

definition loaded3 :: "(uuid \<rightharpoonup> video) \<Rightarrow> uuid_lib \<Rightarrow> go_error + video \<times> job \<times> segment \<Rightarrow> bool" where
  "loaded3 H U r \<longleftrightarrow> (\<forall>v j s. r = Inr (v, j, s) \<longrightarrow> video_after H U v \<and> job_ok j \<and> segment_ok s)"

lemma loaded3_simps [simp]:
  "loaded3 H U (Inl e)" "loaded3 H U (Inr (v, j, s)) \<longleftrightarrow> video_after H U v \<and> job_ok j \<and> segment_ok s"
  by (simp_all add: loaded3_def)

lemma extract_load_ok: "holds (db_after H U) (loaded3 H U) (extract_load i k)"
  unfolding extract_load_def by (rule holds_steps holds_ret | force)+

abbreviation pool_ok :: "(uuid \<rightharpoonup> video) \<Rightarrow> uuid_lib \<Rightarrow> frame_pool \<Rightarrow> bool" where
  "pool_ok H U p \<equiv> video_after H U (p_video p)"

lemma p_video_setErr [simp]: "p_video (setErr e p) = p_video p"
  by (simp add: setErr_def)

lemma ensureOCRJob_ok: "pool_ok H U p \<Longrightarrow> holds (db_after H U) (\<lambda>(r, p). pool_ok H U p) (ensureOCRJob p)"
  unfolding ensureOCRJob_def
  by (rule holds_case_option holds_ret holds_bind [where Q = "\<lambda>_. True"] holds_on_err holds_if_err
      holds_repos holds_new_jobs
      holds_bind [OF holds_new_jobs(3)] | force)+

lemma publishOCRRequest_ok:
  assumes U: "sv_uuid S = U" and "pool_ok H U p"
  shows "holds (db_after H U) (\<lambda>(err, p). pool_ok H U p) (publishOCRRequest S x p)"
  unfolding publishOCRRequest_def U using assms(2)
  by - (rule holds_case_prod holds_case_sum ensureOCRJob_ok holds_bind [OF ensureOCRJob_ok]
      holds_bind [OF holds_video_recorders(3)]
      holds_bind [OF holds_WithTransaction [where Q = "video_after H U"]] holds_store_pulled [OF U]
      holds_ret | force)+

lemma persist_frame_ok:
  assumes "sv_uuid S = U" "pool_ok H U p"
  shows "holds (db_after H U) (pool_ok H U) (persist_frame S s x p)"
  unfolding persist_frame_def using assms
  by - (rule holds_control holds_storage holds_svc holds_rt_True holds_frames_UpsertAll publishOCRRequest_ok
      holds_ret | force)+

lemma submit_all_ok:
  "sv_uuid S = U \<Longrightarrow> pool_ok H U p \<Longrightarrow> holds (db_after H U) (\<lambda>(err, p). pool_ok H U p) (submit_all S s xs fin p)"
  by (induction xs arbitrary: p)
    (auto intro!: holds_ret holds_case_option holds_bind [OF persist_frame_ok])

lemma extractAndStore_ok:
  assumes "sv_uuid S = U" "video_after H U v"
  shows "holds (db_after H U) (\<lambda>(r, v). video_after H U v) (extractAndStore S m v j s)"
  unfolding extractAndStore_def using assms
  by - (rule holds_control holds_svc submit_all_ok holds_ret | force simp: newFramePersistPool_def)+

lemma ensure_ocr_job_ok: "holds (db_after H U) (\<lambda>_. True) (ensure_ocr_job i)"
  unfolding ensure_ocr_job_def by (rule holds_steps holds_ret | force)+

abbreviation completion_ok :: "(uuid \<rightharpoonup> video) \<Rightarrow> uuid_lib \<Rightarrow> completion \<Rightarrow> bool" where
  "completion_ok H U c \<equiv> video_after H U (cp_video c) \<and> job_ok (cp_job c)"

lemma job_ok_counts [simp]:
  "job_ok (j\<lparr>j_CompletedSegmentCount := n, j_ExpectedSegmentCount := m\<rparr>) = job_ok j"
  by (auto simp: job_life.consistent_def)

lemma settle_segment_ok:
  "completion_ok H U c \<Longrightarrow> holds (db_after H U) (\<lambda>(err, c). completion_ok H U c) (settle_segment c)"
  unfolding settle_segment_def
  by (rule holds_steps holds_ret | force split: option.splits)+

lemma finish_frames_ok:
  "sv_uuid S = U \<Longrightarrow> completion_ok H U c \<Longrightarrow>
     holds (db_after H U) (\<lambda>(err, c). completion_ok H U c) (finish_frames S c)"
  unfolding finish_frames_def
  by (rule holds_steps holds_ret | force)+

lemma cleanup_objects_ok: "holds P (\<lambda>_. True) (cleanup_objects S v ss)"
  by (induction ss)
    (auto simp: cleanupSegmentObject_def intro!: holds_ret holds_bind [where Q = "\<lambda>_. True"] holds_if holds_storage)

lemma cleanup_ok:
  "holds P (\<lambda>_. True) (cleanupSegmentObject S v s)"
  "holds (db_after H U) (\<lambda>_. True) (cleanupAllSegmentObjects S v)"
  by (auto simp: cleanupSegmentObject_def cleanupAllSegmentObjects_def
      intro!: holds_ret holds_bind [where Q = "\<lambda>_. True"] holds_if holds_storage
        holds_on_err [OF holds_segments_ListByVideoID] cleanup_objects_ok)

lemma completeSegment_ok:
  assumes U: "sv_uuid S = U" and "video_after H U v" "job_ok j"
  shows "holds (db_after H U) (\<lambda>_. True) (completeSegment S v j s)"
  unfolding completeSegment_def using assms(2,3)
  by - (rule holds_bind, rule holds_WithTransaction [where Q = "completion_ok H U"], simp,
      (rule cleanup_ok settle_segment_ok finish_frames_ok [OF U] ensure_ocr_job_ok holds_store_pulled [OF U]
        holds_steps holds_ret | force)+)

lemma maybeFinalize_ok:
  assumes U: "sv_uuid S = U" and "video_after H U v" "job_ok j"
  shows "holds (db_after H U) (\<lambda>_. True) (maybeFinalize S v j)"
  unfolding maybeFinalize_def using assms
  by - (rule cleanup_ok ensure_ocr_job_ok holds_store_pulled holds_WithTransaction [where Q = "video_after H U"]
      holds_steps holds_ret | force)+

lemma failSegment_ok:
  assumes U: "sv_uuid S = U" and "video_after H U v" "job_ok j"
  shows "holds (db_after H U) (\<lambda>_. True) (failSegment S v j s why)"
  unfolding failSegment_def using assms
  by - (rule holds_store_pulled holds_WithTransaction [where Q = "video_after H U"] holds_steps holds_ret | force)+

lemma ExtractFrames_ok: "sv_uuid S = U \<Longrightarrow> holds (db_after H U) (\<lambda>_. True) (ExtractFrames S m cmd)"
  unfolding ExtractFrames_def
  by (rule extract_load_ok extractAndStore_ok completeSegment_ok maybeFinalize_ok failSegment_ok
      holds_steps holds_ret | force)+

end
