(* ===== verification/OcrFrames.thy ===== *)
theory OcrFrames
  imports ExtractFrames
begin

text \<open>
  \<open>internal/application/command/video/ocr_frames.go\<close>: the handler that stores the OCR results of frames,
  asks for their classification, and finishes the OCR of a video.
\<close>

section \<open>What the engine answers, normalised\<close>

definition toOCRLine :: "OCRLinePayload \<Rightarrow> ocr_line option" where
  "toOCRLine item =
     (let text = TrimSpace (ln_Text item)
      in if text = '''' then None
         else let box = map (\<lambda>p. \<lparr>op_X = pt_X p, op_Y = pt_Y p\<rparr>) (ln_Box item)
           in Some \<lparr>ol_Text = text, ol_Confidence = ln_Confidence item,
                    ol_Box = (if length box \<noteq> 4 then [] else box)\<rparr>)"

definition toOCRLines :: "OCRLinePayload list \<Rightarrow> ocr_line list" where
  "toOCRLines items = List.map_filter toOCRLine items"

definition normalizeResult ::
  "real \<Rightarrow> uuid \<Rightarrow> string \<Rightarrow> real \<Rightarrow> string \<Rightarrow> OCRLinePayload list \<Rightarrow> (runtime, ocr_result) state" where
  "normalizeResult minConfidence frameID text0 confidence status0 ls =
     (let text = TrimSpace text0;
          status = (if status0 = '''' then (if text = '''' then OCREmpty else OCRSuccess) else status0)
      in if status = OCRFailed
         then NewResult frameID '''' confidence OCRFailed ''ocr engine failed'' []
         else if status = OCREmpty
         then NewResult frameID '''' 0 OCREmpty '''' []
         else if text = '''' then NewResult frameID '''' 0 OCREmpty '''' []
         else if minConfidence > 0 \<and> confidence < minConfidence
         then NewResult frameID '''' confidence OCRFailed ''low_confidence'' []
         else NewResult frameID text confidence OCRSuccess '''' (toOCRLines ls))"

fun normalizePayloads ::
  "uuid_lib \<Rightarrow> real \<Rightarrow> OCRFrameResultPayload list \<Rightarrow> (runtime, ocr_result list) state" where
  "normalizePayloads U minConfidence [] = ret []"
| "normalizePayloads U minConfidence (item # items) =
     (case uuid_Parse U (or_FrameID item) of
        None \<Rightarrow> normalizePayloads U minConfidence items
      | Some frameID \<Rightarrow> do {
          r \<leftarrow> normalizeResult minConfidence frameID (or_Text item) (or_Confidence item) (or_Status item)
                 (or_Lines item);
          rs \<leftarrow> normalizePayloads U minConfidence items;
          ret (r # rs) })"

definition frameIDs :: "frame list \<Rightarrow> uuid list" where
  "frameIDs frames = map f_ID frames"

text \<open>A Go map from frame to result; a later result replaces an earlier one.\<close>

definition resultsByFrame :: "ocr_result list \<Rightarrow> (uuid \<rightharpoonup> ocr_result)" where
  "resultsByFrame results = foldl (\<lambda>m r. m(o_FrameID r \<mapsto> r)) Map.empty results"

definition countFinal :: "ocr_result list \<Rightarrow> int" where
  "countFinal results = int (length (filter ocr_IsFinal results))"

definition toOCRPayloads :: "uuid_lib \<Rightarrow> frame list \<Rightarrow> ocr_result list \<Rightarrow> OCRFrameResultPayload list" where
  "toOCRPayloads U frames results =
     (let byID = foldl (\<lambda>m f. m(f_ID f \<mapsto> f)) Map.empty frames
      in map (\<lambda>r. \<lparr>or_FrameID = uuid_String U (o_FrameID r),
           or_FrameIndex = (case byID (o_FrameID r) of Some f \<Rightarrow> f_Index f | None \<Rightarrow> 0),
           or_TimestampMs = (case byID (o_FrameID r) of Some f \<Rightarrow> f_TimestampMs f | None \<Rightarrow> 0),
           or_Text = o_Text r, or_Confidence = o_Confidence r, or_Status = o_Status r, or_Lines = []\<rparr>) results)"

section \<open>The steps\<close>

text \<open>\<open>GetByVideoIDAndType\<close>, then save a new job when there is none: the way both handlers create theirs.\<close>

definition find_or_save_job ::
  "uuid \<Rightarrow> string \<Rightarrow> (uuid \<Rightarrow> (runtime, job) state) \<Rightarrow> (world, go_error + job) state" where
  "find_or_save_job videoID ty new =
     on_err (jobs_GetByVideoIDAndType videoID ty)
       (\<lambda>e. ret (Inl e))
       (\<lambda>job. case job of
          Some job \<Rightarrow> ret (Inr job)
        | None \<Rightarrow> do {
            job \<leftarrow> rt_op (new videoID);
            if_err (jobs_Save job) (\<lambda>e. ret (Inl e)) (ret (Inr job)) })"

definition ocr_load :: "uuid \<Rightarrow> (world, go_error + video \<times> job \<times> job) state" where
  "ocr_load videoID =
     on_err (videos_GetByID videoID)
       (\<lambda>e. ret (Inl (RetryableError e)))
       (\<lambda>video. case video of
          None \<Rightarrow> ret (Inl (NonRetryableError ErrVideoNotFound))
        | Some video \<Rightarrow> on_err (jobs_GetByVideoIDAndType (v_ID video) TypeFrame)
            (\<lambda>e. ret (Inl (RetryableError e)))
            (\<lambda>extractJob. case extractJob of
               None \<Rightarrow> ret (Inl (NonRetryableError (ErrorText ''frame job not found'')))
             | Some extractJob \<Rightarrow> on_err (find_or_save_job (v_ID video) TypeOCR NewOCRJob)
                 (\<lambda>e. ret (Inl (RetryableError e)))
                 (\<lambda>job. ret (Inr (video, job, extractJob)))))"

definition ocr_markProcessing ::
  "services \<Rightarrow> video \<Rightarrow> job \<Rightarrow> int \<Rightarrow> int \<Rightarrow> (world, go_error option \<times> video \<times> job) state" where
  "ocr_markProcessing S video job expected alreadyCompleted = do {
     job \<leftarrow> rt_op (job_MarkProcessing (SetOCRProgress expected alreadyCompleted job));
     (err, video) \<leftarrow> rt_op (MarkOCRProcessing (sv_uuid S) (j_ID job) (j_Type job) (j_Status job) expected
                            alreadyCompleted video);
     case err of
       Some e \<Rightarrow> ret (NonRetryable (Some e), video, job)
     | None \<Rightarrow> do {
         (err, video) \<leftarrow> save_video_job S video job;
         case err of
           Some e \<Rightarrow> ret (Retryable (Some e), video, job)
         | None \<Rightarrow> ret (None, video, job) } }"

text \<open>The frames that get their first final result with this message.\<close>

definition new_frame_ids :: "ocr_result list \<Rightarrow> (uuid \<rightharpoonup> ocr_result) \<Rightarrow> uuid list" where
  "new_frame_ids results known = map o_FrameID (filter (\<lambda>r.
     case known (o_FrameID r) of None \<Rightarrow> True | Some old \<Rightarrow> \<not> ocr_IsFinal old) results)"

definition persistResults ::
  "services \<Rightarrow> video \<Rightarrow> job \<Rightarrow> ocr_result list \<Rightarrow> (uuid \<rightharpoonup> ocr_result)
     \<Rightarrow> (world, go_error option \<times> video \<times> job \<times> (uuid \<rightharpoonup> ocr_result)) state" where
  "persistResults S video job results known =
     (if length results = 0 then ret (None, video, job, known)
      else let newFrameIDs = new_frame_ids results known;
               added = int (length newFrameIDs);
               previousCompleted = j_OCRCompletedCount job;
               job = AddOCRCompleted added job;
               undone = job\<lparr>j_OCRCompletedCount := previousCompleted\<rparr>
        in do {
          (err, video) \<leftarrow> (if added > 0
            then rt_op (RecordOCRProgress (sv_uuid S) (j_ID job) (j_Type job) (j_Status job)
                   (j_ExpectedFrameCount job) (j_OCRCompletedCount job) video)
            else ret (None, video));
          case err of
            Some e \<Rightarrow> ret (Some e, video, undone, known)
          | None \<Rightarrow> on_err (find_or_save_job (v_ID video) TypeClassify NewClassifyJob)
              (\<lambda>e. ret (Some e, video, undone, known))
              (\<lambda>classifyJob. do {
                 video \<leftarrow> rt_op (if length newFrameIDs > 0
                   then RequestClassifyFrames (sv_uuid S) (j_ID classifyJob) newFrameIDs video
                   else ret video);
                 (err, video) \<leftarrow> WithTransaction video (\<lambda>video.
                   if_err (ocrs_UpsertAll results) (\<lambda>e. ret (Some e, video))
                     (if_err (jobs_Update job) (\<lambda>e. ret (Some e, video))
                       (store_pulled S video)));
                 case err of
                   Some e \<Rightarrow> ret (Some e, video, undone, known)
                 | None \<Rightarrow> ret (None, video, job, foldl (\<lambda>m r. m(o_FrameID r \<mapsto> r)) known results) }) })"

definition ocr_markFailed ::
  "services \<Rightarrow> video \<Rightarrow> job \<Rightarrow> string \<Rightarrow> (world, go_error option) state" where
  "ocr_markFailed S video job why = do {
     job \<leftarrow> rt_op (job_MarkFailed why job);
     (err, video) \<leftarrow> rt_op (MarkOCRFailed (sv_uuid S) (j_ID job) (j_Type job) (j_Status job) why
       (j_ExpectedFrameCount job) (j_OCRCompletedCount job) video);
     case err of
       Some e \<Rightarrow> ret (Some e)
     | None \<Rightarrow> do { (err, _) \<leftarrow> save_video_job S video job; ret err } }"

text \<open>Both handlers' \<open>failOrRetry\<close>: retry until the last attempt, then mark the failure (\<open>mark\<close>).\<close>

definition fail_or_retry ::
  "ctx \<Rightarrow> (world, go_error option) state \<Rightarrow> go_error \<Rightarrow> (world, go_error option) state" where
  "fail_or_retry ctx mark err =
     (if \<not> LastAttempt ctx then ret (Retryable (Some err))
      else if_err mark
        (\<lambda>markErr. ret (NonRetryable (Some (ErrorsJoin err markErr))))
        (ret (NonRetryable (Some err))))"

definition ocr_failOrRetry ::
  "services \<Rightarrow> ctx \<Rightarrow> video \<Rightarrow> job \<Rightarrow> go_error \<Rightarrow> string \<Rightarrow> (world, go_error option) state" where
  "ocr_failOrRetry S ctx video job err why = fail_or_retry ctx (ocr_markFailed S video job why) err"

definition ocr_markReady ::
  "services \<Rightarrow> video \<Rightarrow> job \<Rightarrow> frame list \<Rightarrow> ocr_result list \<Rightarrow> (world, go_error option) state" where
  "ocr_markReady S video job frames results = do {
     job \<leftarrow> rt_op (job_MarkSuccess job);
     (err, video) \<leftarrow> rt_op (MarkOCRReady (sv_uuid S) (j_ID job) (j_Type job) (j_Status job)
       (j_ExpectedFrameCount job) (j_OCRCompletedCount job) (toOCRPayloads (sv_uuid S) frames results) video);
     case err of
       Some e \<Rightarrow> ret (Some e)
     | None \<Rightarrow> do {
         (err, _) \<leftarrow> WithTransaction video (\<lambda>video.
           if_err (videos_Update video) (\<lambda>e. ret (Some e, video))
             (if_err (jobs_Update job) (\<lambda>e. ret (Some e, video))
               (on_err (find_or_save_job (v_ID video) TypeClassify NewClassifyJob) (\<lambda>e. ret (Some e, video))
                 (\<lambda>_. store_pulled S video))));
         ret err } }"

section \<open>The handler\<close>

record PersistOCRFrameCommand =
  po_VideoID :: uuid
  po_Results :: "OCRFrameResultPayload list"

definition PersistFrame ::
  "services \<Rightarrow> real \<Rightarrow> ctx \<Rightarrow> PersistOCRFrameCommand \<Rightarrow> (world, go_error option) state" where
  "PersistFrame S minConfidence ctx cmd =
     on_err (ocr_load (po_VideoID cmd)) (\<lambda>e. ret (Some e)) (\<lambda>(video, job, extractJob).
       if j_Status job = JobSuccess \<or> v_Status video = StatusSuccess then ret None
       else on_err (frames_ListByVideoID (v_ID video))
         (\<lambda>e. ocr_failOrRetry S ctx video job e ''failed to load frames'')
         (\<lambda>frames. on_err (ocrs_ListByFrameIDs (frameIDs frames))
            (\<lambda>e. ocr_failOrRetry S ctx video job e ''failed to load ocr'')
            (\<lambda>existing. do {
               (err, video, job) \<leftarrow> (if j_Status job = JobPending
                 then ocr_markProcessing S video job (int (length frames)) (countFinal existing)
                 else ret (None, video, job));
               case err of
                 Some e \<Rightarrow> ret (Some e)
               | None \<Rightarrow> do {
                   incoming \<leftarrow> rt_op (normalizePayloads (sv_uuid S) minConfidence (po_Results cmd));
                   (err, video, job, _) \<leftarrow> persistResults S video job incoming (resultsByFrame existing);
                   case err of
                     Some e \<Rightarrow> ocr_failOrRetry S ctx video job e ''failed to persist ocr''
                   | None \<Rightarrow>
                       if j_Status extractJob \<noteq> JobSuccess then ret None
                       else on_err (ocrs_ListByFrameIDs (frameIDs frames))
                         (\<lambda>e. ocr_failOrRetry S ctx video job e ''failed to load ocr'')
                         (\<lambda>stored.
                            if length stored < length frames \<or> length frames = 0 then ret None
                            else if_err (ocr_markReady S video job frames stored)
                              (\<lambda>e. ret (Retryable (Some e)))
                              (ret None)) } })))"

section \<open>The handler keeps the invariant\<close>

lemma holds_find_or_save_job:
  "(\<And>i. holds (db_after H U) job_ok (rt_op (new i))) \<Longrightarrow>
     holds (db_after H U) (\<lambda>r. \<forall>j. r = Inr j \<longrightarrow> job_ok j) (find_or_save_job v ty new)"
  unfolding find_or_save_job_def
  by (rule holds_control holds_repos holds_ret | assumption | force)+

lemmas holds_ensured_jobs =
  holds_new_jobs(3) [THEN holds_find_or_save_job] holds_new_jobs(4) [THEN holds_find_or_save_job]

definition loaded2 :: "(uuid \<rightharpoonup> video) \<Rightarrow> uuid_lib \<Rightarrow> go_error + video \<times> job \<times> job \<Rightarrow> bool" where
  "loaded2 H U r \<longleftrightarrow> (\<forall>v j k. r = Inr (v, j, k) \<longrightarrow> video_after H U v \<and> job_ok j \<and> job_ok k)"

lemma loaded2_simps [simp]:
  "loaded2 H U (Inl e)" "loaded2 H U (Inr (v, j, k)) \<longleftrightarrow> video_after H U v \<and> job_ok j \<and> job_ok k"
  by (simp_all add: loaded2_def)

lemma ocr_load_ok: "holds (db_after H U) (loaded2 H U) (ocr_load i)"
  unfolding ocr_load_def by (rule holds_ensured_jobs holds_steps holds_ret | force)+

lemma ocr_markProcessing_ok:
  "sv_uuid S = U \<Longrightarrow> video_after H U v \<Longrightarrow> job_ok j \<Longrightarrow>
     holds (db_after H U) (\<lambda>(err, v, j). video_after H U v \<and> job_ok j) (ocr_markProcessing S v j n m)"
  unfolding ocr_markProcessing_def
  by (rule holds_steps holds_save_video_job holds_ret | force)+

lemma job_ok_ocr_count [simp]: "job_ok (j\<lparr>j_OCRCompletedCount := n\<rparr>) = job_ok j"
  by (auto simp: job_life.consistent_def)

lemma holds_progress:
  "video_after H U v \<Longrightarrow> holds P (\<lambda>(err, v). video_after H U v)
     (if b then rt_op (RecordOCRProgress U i t s n m v) else ret (None, v))"
  by (auto intro!: holds_video_methods holds_ret)

lemma holds_request_classify:
  "video_after H U v \<Longrightarrow> holds P (video_after H U) (rt_op (if b then RequestClassifyFrames U i ids v else ret v))"
  by (cases b) (simp_all add: holds_video_recorders holds_rt_op wp_simps)

lemma persistResults_ok:
  assumes U: "sv_uuid S = U" and "video_after H U v" "job_ok j"
  shows "holds (db_after H U) (\<lambda>(err, v, j, k). video_after H U v \<and> job_ok j) (persistResults S v j rs known)"
  unfolding persistResults_def using assms
  by - (rule holds_progress holds_request_classify holds_ensured_jobs holds_store_pulled
      holds_WithTransaction [where Q = "video_after H U"] holds_steps holds_ret | force)+

lemma ocr_markFailed_ok:
  "sv_uuid S = U \<Longrightarrow> video_after H U v \<Longrightarrow> job_ok j \<Longrightarrow> holds (db_after H U) (\<lambda>_. True) (ocr_markFailed S v j why)"
  unfolding ocr_markFailed_def
  by (rule holds_steps holds_save_video_job holds_ret | force)+

lemma holds_fail_or_retry:
  "holds P (\<lambda>_. True) mark \<Longrightarrow> holds P (\<lambda>_. True) (fail_or_retry ctx mark e)"
  unfolding fail_or_retry_def
  by (rule holds_control holds_ret | assumption | force)+

lemma ocr_failOrRetry_ok:
  "sv_uuid S = U \<Longrightarrow> video_after H U v \<Longrightarrow> job_ok j \<Longrightarrow>
     holds (db_after H U) (\<lambda>_. True) (ocr_failOrRetry S ctx v j e why)"
  unfolding ocr_failOrRetry_def by (intro holds_fail_or_retry ocr_markFailed_ok)

lemma ocr_markReady_ok:
  assumes U: "sv_uuid S = U" and "video_after H U v" "job_ok j"
  shows "holds (db_after H U) (\<lambda>_. True) (ocr_markReady S v j fs rs)"
  unfolding ocr_markReady_def using assms
  by - (rule holds_ensured_jobs holds_store_pulled holds_WithTransaction [where Q = "video_after H U"]
      holds_steps holds_ret | force)+

lemma holds_maybe_processing:
  "sv_uuid S = U \<Longrightarrow> video_after H U v \<Longrightarrow> job_ok j \<Longrightarrow>
     holds (db_after H U) (\<lambda>(err, v, j). video_after H U v \<and> job_ok j)
       (if b then ocr_markProcessing S v j n m else ret (None, v, j))"
  by (auto intro!: ocr_markProcessing_ok holds_ret)

lemma PersistFrame_ok: "sv_uuid S = U \<Longrightarrow> holds (db_after H U) (\<lambda>_. True) (PersistFrame S mc ctx cmd)"
  unfolding PersistFrame_def
  by (rule ocr_load_ok holds_maybe_processing persistResults_ok ocr_failOrRetry_ok ocr_markReady_ok
      holds_steps holds_ret | force)+

end
