(* ===== verification/ClassifyFrames.thy ===== *)
theory ClassifyFrames
  imports OcrFrames
begin

text \<open>
  \<open>internal/application/command/video/classify_frames.go\<close>: the handler that classifies the text of a frame
  and finishes a video once every frame is extracted, read and classified.
\<close>

section \<open>Pure parts\<close>

text \<open>The constructor's default for the threshold.\<close>

definition classify_threshold :: "real \<Rightarrow> real" where
  "classify_threshold t = (if t \<le> 0 then 7 / 10 else t)"

definition toClassificationPayloads :: "uuid_lib \<Rightarrow> classification list \<Rightarrow> ClassificationPayload list" where
  "toClassificationPayloads U items = map (\<lambda>c. \<lparr>cp_FrameID = uuid_String U (c_FrameID c),
     cp_Confidential = c_Confidential c, cp_Probability = c_Probability c,
     cp_Categories = map (\<lambda>a. \<lparr>cc_Name = ca_Name a, cc_Probability = ca_Probability a\<rparr>) (c_Categories c),
     cp_Status = c_Status c\<rparr>) items"

definition classificationsByFrame :: "classification list \<Rightarrow> (uuid \<rightharpoonup> classification)" where
  "classificationsByFrame items = foldl (\<lambda>m c. m(c_FrameID c \<mapsto> c)) Map.empty items"

text \<open>
  One answer of the classifier for a frame it was asked about; no answer counts as a failed one.
  \<open>toDomainCategories\<close> copies field by field.
\<close>

definition normalizeClassification ::
  "uuid \<Rightarrow> ClassifyItemResult option \<Rightarrow> (runtime, classification) state" where
  "normalizeClassification frameID answer = (case answer of
     None \<Rightarrow> NewClassification frameID False 0 [] ClassificationFailed ''missing classify result''
   | Some item \<Rightarrow>
       let status = (if ci_Status item = '''' then ClassificationSuccess else ci_Status item);
           reason = (if status = ClassificationFailed then ''classify engine failed'' else '''')
       in NewClassification frameID (ci_Confidential item) (ci_Probability item) (ci_Categories item)
            status reason)"

fun normalizeResults ::
  "uuid_lib \<Rightarrow> ClassifyFrame list \<Rightarrow> ClassifyItemResult list \<Rightarrow> (runtime, classification list) state" where
  "normalizeResults U [] raw = ret []"
| "normalizeResults U (frame # frames) raw =
     (case uuid_Parse U (cf_FrameID frame) of
        None \<Rightarrow> normalizeResults U frames raw
      | Some frameID \<Rightarrow> do {
          c \<leftarrow> normalizeClassification frameID
            (foldl (\<lambda>m item. m(ci_FrameID item \<mapsto> item)) Map.empty raw (cf_FrameID frame));
          cs \<leftarrow> normalizeResults U frames raw;
          ret (c # cs) })"

text \<open>The frames left to classify, and a skipped classification for each frame without text.\<close>

fun pendingClassifyFrames ::
  "uuid_lib \<Rightarrow> frame list \<Rightarrow> ocr_result list \<Rightarrow> classification list
     \<Rightarrow> (runtime, ClassifyFrame list \<times> classification list) state" where
  "pendingClassifyFrames U [] ocrResults items = ret ([], [])"
| "pendingClassifyFrames U (frame # frames) ocrResults items =
     (if f_ID frame \<in> set (map c_FrameID (filter classification_IsFinal items))
      then pendingClassifyFrames U frames ocrResults items
      else let text = (case resultsByFrame ocrResults (f_ID frame) of
                         Some result \<Rightarrow> TrimSpace (o_Text result) | None \<Rightarrow> '''')
        in if text = ''''
           then do {
             c \<leftarrow> NewClassification (f_ID frame) False 0 [] ClassificationSkipped '''';
             (pending, skipped) \<leftarrow> pendingClassifyFrames U frames ocrResults items;
             ret (pending, c # skipped) }
           else do {
             (pending, skipped) \<leftarrow> pendingClassifyFrames U frames ocrResults items;
             ret (\<lparr>cf_FrameID = uuid_String U (f_ID frame), cf_Text = text\<rparr> # pending, skipped) })"

section \<open>The steps\<close>

text \<open>The OCR job is loaded, but only to pass it on; nothing reads it.\<close>

definition classify_load :: "uuid \<Rightarrow> (world, go_error + video \<times> job \<times> job) state" where
  "classify_load videoID =
     on_err (videos_GetByID videoID)
       (\<lambda>e. ret (Inl (RetryableError e)))
       (\<lambda>video. case video of
          None \<Rightarrow> ret (Inl (NonRetryableError ErrVideoNotFound))
        | Some video \<Rightarrow> on_err (jobs_GetByVideoIDAndType (v_ID video) TypeFrame)
            (\<lambda>e. ret (Inl (RetryableError e)))
            (\<lambda>extractJob. case extractJob of
               None \<Rightarrow> ret (Inl (NonRetryableError (ErrorText ''frame job not found'')))
             | Some extractJob \<Rightarrow> on_err (jobs_GetByVideoIDAndType (v_ID video) TypeOCR)
                 (\<lambda>e. ret (Inl (RetryableError e)))
                 (\<lambda>ocrJob. on_err (find_or_save_job (v_ID video) TypeClassify NewClassifyJob)
                    (\<lambda>e. ret (Inl (RetryableError e)))
                    (\<lambda>job. ret (Inr (video, job, extractJob))))))"

definition classify_markProcessing ::
  "services \<Rightarrow> video \<Rightarrow> job \<Rightarrow> int \<Rightarrow> (world, go_error option \<times> video \<times> job) state" where
  "classify_markProcessing S video job expected =
     (if j_Status job = JobProcessing then ret (None, video, job)
      else do {
        job \<leftarrow> rt_op (job_MarkProcessing (SetExpectedFrameCount expected job));
        (err, video) \<leftarrow> rt_op (MarkClassifying (sv_uuid S) (j_ID job) (j_Type job) (j_Status job) expected video);
        case err of
          Some e \<Rightarrow> ret (NonRetryable (Some e), video, job)
        | None \<Rightarrow> do {
            (err, video) \<leftarrow> save_video_job S video job;
            case err of
              Some e \<Rightarrow> ret (Retryable (Some e), video, job)
            | None \<Rightarrow> ret (None, video, job) } })"

definition persistClassifications ::
  "classification list \<Rightarrow> (uuid \<rightharpoonup> classification)
     \<Rightarrow> (world, go_error option \<times> (uuid \<rightharpoonup> classification)) state" where
  "persistClassifications items known =
     (if length items = 0 then ret (None, known)
      else if_err (classifications_UpsertAll items)
        (\<lambda>e. ret (Some e, known))
        (ret (None, foldl (\<lambda>m c. m(c_FrameID c \<mapsto> c)) known items)))"

definition classify_markFailed ::
  "services \<Rightarrow> video \<Rightarrow> job \<Rightarrow> string \<Rightarrow> (world, go_error option) state" where
  "classify_markFailed S video job why = do {
     job \<leftarrow> rt_op (job_MarkFailed why job);
     (err, video) \<leftarrow> rt_op (MarkClassifyFailed (sv_uuid S) (j_ID job) (j_Type job) (j_Status job) why
       (j_ExpectedFrameCount job) video);
     case err of
       Some e \<Rightarrow> ret (Some e)
     | None \<Rightarrow> do { (err, _) \<leftarrow> save_video_job S video job; ret err } }"

definition classify_failOrRetry ::
  "services \<Rightarrow> ctx \<Rightarrow> video \<Rightarrow> job \<Rightarrow> go_error \<Rightarrow> string \<Rightarrow> (world, go_error option) state" where
  "classify_failOrRetry S ctx video job err why = fail_or_retry ctx (classify_markFailed S video job why) err"

definition classify_markReady ::
  "services \<Rightarrow> video \<Rightarrow> job \<Rightarrow> classification list \<Rightarrow> (world, go_error option) state" where
  "classify_markReady S video job items = do {
     job \<leftarrow> rt_op (job_MarkSuccess (SetExpectedFrameCount (int (length items)) job));
     (err, video) \<leftarrow> rt_op (MarkClassified (sv_uuid S) (j_ID job) (j_Type job) (j_Status job)
       (j_ExpectedFrameCount job) (toClassificationPayloads (sv_uuid S) items) video);
     case err of
       Some e \<Rightarrow> ret (Some e)
     | None \<Rightarrow> do { (err, _) \<leftarrow> save_video_job S video job; ret err } }"

definition tryFinalize ::
  "services \<Rightarrow> ctx \<Rightarrow> video \<Rightarrow> job \<Rightarrow> job \<Rightarrow> (world, go_error option) state" where
  "tryFinalize S ctx video job frameJob =
     (if j_Status frameJob \<noteq> JobSuccess then ret None
      else on_err (frames_ListByVideoID (v_ID video))
        (\<lambda>e. classify_failOrRetry S ctx video job e ''failed to load frames'')
        (\<lambda>frames. if length frames = 0 then classify_markReady S video job []
           else on_err (ocrs_ListByFrameIDs (frameIDs frames))
             (\<lambda>e. classify_failOrRetry S ctx video job e ''failed to load ocr'')
             (\<lambda>ocrResults. if length ocrResults < length frames then ret None
                else on_err (classifications_ListByFrameIDs (frameIDs frames))
                  (\<lambda>e. classify_failOrRetry S ctx video job e ''failed to load classifications'')
                  (\<lambda>stored. if length stored < length frames then ret None
                     else if_err (classify_markReady S video job stored)
                       (\<lambda>e. ret (Retryable (Some e)))
                       (ret None)))))"

section \<open>The two handlers\<close>

record ClassifyFrameCommand =
  cl_VideoID :: uuid
  cl_FrameID :: uuid

definition HandleFrame ::
  "services \<Rightarrow> real \<Rightarrow> ctx \<Rightarrow> ClassifyFrameCommand \<Rightarrow> (world, go_error option) state" where
  "HandleFrame S threshold ctx cmd =
     on_err (classify_load (cl_VideoID cmd)) (\<lambda>e. ret (Some e)) (\<lambda>(video, job, frameJob).
       if j_Status job = JobSuccess \<or> v_Status video = StatusSuccess then ret None
       else on_err (frames_ListByVideoID (v_ID video))
         (\<lambda>e. classify_failOrRetry S ctx video job e ''failed to load frames'')
         (\<lambda>frames. case List.find (\<lambda>f. f_ID f = cl_FrameID cmd) frames of
            None \<Rightarrow> ret (NonRetryable (Some (ErrorText ''frame not found'')))
          | Some target \<Rightarrow> on_err (ocrs_ListByFrameIDs [cl_FrameID cmd])
              (\<lambda>e. classify_failOrRetry S ctx video job e ''failed to load ocr'')
              (\<lambda>ocrResults. on_err (classifications_ListByFrameIDs [cl_FrameID cmd])
                 (\<lambda>e. classify_failOrRetry S ctx video job e ''failed to load classifications'')
                 (\<lambda>existing.
                    if length existing > 0 \<and> classification_IsFinal (hd existing)
                    then tryFinalize S ctx video job frameJob
                    else do {
                      (err, video, job) \<leftarrow> classify_markProcessing S video job (int (length frames));
                      case err of
                        Some e \<Rightarrow> ret (Some e)
                      | None \<Rightarrow> do {
                          (pending, skipped) \<leftarrow> rt_op (pendingClassifyFrames (sv_uuid S) [target] ocrResults existing);
                          (err, known) \<leftarrow> persistClassifications skipped (classificationsByFrame existing);
                          case err of
                            Some e \<Rightarrow> classify_failOrRetry S ctx video job e ''failed to persist classifications''
                          | None \<Rightarrow>
                              if length pending > 0
                              then on_err (svc (\<lambda>n. sv_classify S n pending (classify_threshold threshold)))
                                (\<lambda>e. classify_failOrRetry S ctx video job e ''classify service unavailable'')
                                (\<lambda>raw. do {
                                   results \<leftarrow> rt_op (normalizeResults (sv_uuid S) pending raw);
                                   (err, known) \<leftarrow> persistClassifications results known;
                                   case err of
                                     Some e \<Rightarrow> classify_failOrRetry S ctx video job e
                                       ''failed to persist classifications''
                                   | None \<Rightarrow> tryFinalize S ctx video job frameJob })
                              else tryFinalize S ctx video job frameJob } }))))"

definition Finalize :: "services \<Rightarrow> ctx \<Rightarrow> uuid \<Rightarrow> (world, go_error option) state" where
  "Finalize S ctx videoID =
     on_err (classify_load videoID) (\<lambda>e. ret (Some e)) (\<lambda>(video, job, frameJob).
       if j_Status job = JobSuccess \<or> v_Status video = StatusSuccess then ret None
       else tryFinalize S ctx video job frameJob)"

section \<open>The handlers keep the invariant\<close>

lemma classify_load_ok: "holds (db_after H U) (loaded2 H U) (classify_load i)"
  unfolding classify_load_def by (rule holds_ensured_jobs holds_steps holds_ret | force)+

lemma classify_markProcessing_ok:
  "sv_uuid S = U \<Longrightarrow> video_after H U v \<Longrightarrow> job_ok j \<Longrightarrow>
     holds (db_after H U) (\<lambda>(err, v, j). video_after H U v \<and> job_ok j) (classify_markProcessing S v j n)"
  unfolding classify_markProcessing_def
  by (rule holds_steps holds_save_video_job holds_ret | force)+

lemma persistClassifications_ok: "holds (db_after H U) (\<lambda>_. True) (persistClassifications cs k)"
  unfolding persistClassifications_def by (rule holds_steps holds_ret | force)+

lemma classify_markFailed_ok:
  "sv_uuid S = U \<Longrightarrow> video_after H U v \<Longrightarrow> job_ok j \<Longrightarrow> holds (db_after H U) (\<lambda>_. True) (classify_markFailed S v j why)"
  unfolding classify_markFailed_def
  by (rule holds_steps holds_save_video_job holds_ret | force)+

lemma classify_failOrRetry_ok:
  "sv_uuid S = U \<Longrightarrow> video_after H U v \<Longrightarrow> job_ok j \<Longrightarrow>
     holds (db_after H U) (\<lambda>_. True) (classify_failOrRetry S ctx v j e why)"
  unfolding classify_failOrRetry_def by (intro holds_fail_or_retry classify_markFailed_ok)

lemma classify_markReady_ok:
  "sv_uuid S = U \<Longrightarrow> video_after H U v \<Longrightarrow> job_ok j \<Longrightarrow> holds (db_after H U) (\<lambda>_. True) (classify_markReady S v j cs)"
  unfolding classify_markReady_def
  by (rule holds_steps holds_save_video_job holds_ret | force)+

lemma tryFinalize_ok:
  "sv_uuid S = U \<Longrightarrow> video_after H U v \<Longrightarrow> job_ok j \<Longrightarrow> holds (db_after H U) (\<lambda>_. True) (tryFinalize S ctx v j k)"
  unfolding tryFinalize_def
  by (rule classify_failOrRetry_ok classify_markReady_ok holds_steps holds_ret | force)+

lemma HandleFrame_ok: "sv_uuid S = U \<Longrightarrow> holds (db_after H U) (\<lambda>_. True) (HandleFrame S t ctx cmd)"
  unfolding HandleFrame_def
  by (rule classify_load_ok classify_markProcessing_ok persistClassifications_ok classify_failOrRetry_ok
      tryFinalize_ok holds_steps holds_ret | force)+

lemma Finalize_ok: "sv_uuid S = U \<Longrightarrow> holds (db_after H U) (\<lambda>_. True) (Finalize S ctx i)"
  unfolding Finalize_def
  by (rule classify_load_ok tryFinalize_ok holds_steps holds_ret | force)+

end
