(* ===== verification/Realtime.thy ===== *)
theory Realtime
  imports DbInvariant Consumer "HOL-Library.AList" "HOL-Library.List_Lexorder" "HOL-Library.Char_ord"
begin

text \<open>
  Pushing events to the browsers: \<open>internal/application/realtime/publisher.go\<close> and
  \<open>internal/infrastructure/centrifugo/publisher.go\<close>. The transport writes the payload, reads it back as a
  map, sets its member \<open>type\<close> and writes the map, so the members come out sorted by name. A number that
  goes through the map becomes a \<open>float64\<close>; the payloads hold only counts, which that leaves alone.
\<close>

definition EventType :: "string \<Rightarrow> string \<Rightarrow> string" where
  "EventType entity action = entity @ ''.'' @ action"

section \<open>The transport\<close>

definition UserChannel :: "services \<Rightarrow> uuid \<Rightarrow> string" where
  "UserChannel S userID = ''users:'' @ uuid_String (sv_uuid S) userID"

text \<open>A map as a list without duplicate keys; \<open>json.Marshal\<close> writes it in the order of its keys.\<close>

definition map_fields :: "members \<Rightarrow> members" where
  "map_fields ms = foldl (\<lambda>acc (k, j). AList.update k j acc) [] ms"

definition marshalRealtimeEvent :: "string \<Rightarrow> json \<Rightarrow> go_error + json" where
  "marshalRealtimeEvent eventType payload =
     (case members_of payload of
        None \<Rightarrow> Inl (External ''invalid JSON'')
      | Some ms \<Rightarrow> Inr (JObj (sort_key fst (AList.update ''type'' (JStr eventType) (map_fields ms)))))"

definition PublishToUser :: "services \<Rightarrow> uuid \<Rightarrow> string \<Rightarrow> json \<Rightarrow> (world, go_error option) state" where
  "PublishToUser S userID eventType payload =
     (case marshalRealtimeEvent eventType payload of
        Inl e \<Rightarrow> ret (Some (Errorf ''failed to marshal centrifugo event'' e))
      | Inr body \<Rightarrow> do {
          let channel = UserChannel S userID;
          r \<leftarrow> svc (\<lambda>n. sv_realtime S n channel body);
          case r of
            Some e \<Rightarrow> ret (Some (Errorf ''failed to publish to centrifugo channel'' e))
          | None \<Rightarrow> do { _ \<leftarrow> note_effect (RealtimeSent channel body); ret None } })"

section \<open>The publisher\<close>

fun ToMembers :: "services \<Rightarrow> string \<Rightarrow> string \<Rightarrow> uuid list \<Rightarrow> json \<Rightarrow> (world, go_error option) state" where
  "ToMembers S entity action [] payload = ret None"
| "ToMembers S entity action (memberID # memberIDs) payload =
     if_err (PublishToUser S memberID (EventType entity action) payload)
       (\<lambda>e. ret (Retryable (Some e)))
       (ToMembers S entity action memberIDs payload)"

definition ToUser :: "services \<Rightarrow> string \<Rightarrow> string \<Rightarrow> string \<Rightarrow> json \<Rightarrow> (world, go_error option) state" where
  "ToUser S entity action userIDRaw payload =
     (case uuid_Parse (sv_uuid S) userIDRaw of
        None \<Rightarrow> ret (NonRetryable (Some (External ''invalid UUID'')))
      | Some userID \<Rightarrow>
          if_err (PublishToUser S userID (EventType entity action) payload)
            (\<lambda>e. ret (Retryable (Some e)))
            (ret None))"

fun ToUsers :: "services \<Rightarrow> string \<Rightarrow> string \<Rightarrow> string list \<Rightarrow> json \<Rightarrow> (world, go_error option) state" where
  "ToUsers S entity action [] payload = ret None"
| "ToUsers S entity action (userIDRaw # userIDsRaw) payload =
     if_err (ToUser S entity action userIDRaw payload)
       (\<lambda>e. ret (Some e))
       (ToUsers S entity action userIDsRaw payload)"

section \<open>What they give\<close>

definition classified_result :: "go_error option \<Rightarrow> bool" where
  "classified_result r \<longleftrightarrow> (\<forall>e. r = Some e \<longrightarrow> classified e)"

lemma classified_result_simps [simp]:
  "classified_result None" "classified_result (Some e) \<longleftrightarrow> classified e"
  by (simp_all add: classified_result_def)

lemma holds_PublishToUser: "holds P (\<lambda>_. True) (PublishToUser S u t j)"
  unfolding PublishToUser_def Let_def
  by (rule holds_case_sum holds_bind [OF holds_svc] holds_bind [OF holds_note_effect] holds_case_option
      holds_ret TrueI)+

lemma holds_ToUser: "holds P classified_result (ToUser S entity action u j)"
  unfolding ToUser_def
  by (rule holds_case_option holds_if_err [OF holds_PublishToUser] holds_ret | simp)+

lemma map_fields_other:
  "map_of (foldl (\<lambda>acc (k, j). AList.update k j acc) acc ms) k =
     (case map_of (rev ms) k of None \<Rightarrow> map_of acc k | Some j \<Rightarrow> Some j)"
  by (induction ms arbitrary: acc) (auto simp: AList.update_conv map_add_def split: option.splits)

lemma distinct_map_fields: "distinct (map fst (foldl (\<lambda>acc (k, j). AList.update k j acc) acc ms)) \<longleftrightarrow>
    distinct (map fst acc)" if "distinct (map fst acc)"
  using that by (induction ms arbitrary: acc) (auto simp: distinct_update)

lemma map_of_sort_key_fst: "distinct (map fst xs) \<Longrightarrow> map_of (sort_key fst xs) = map_of xs"
  by (intro map_of_inject_set [THEN iffD2])
    (auto simp: distinct_map inj_on_def distinct_sort)

end
