(* ===== verification/UserCommands.thy ===== *)
theory UserCommands
  imports DbInvariant
begin

text \<open>
  The commands on users, of \<open>internal/application/command/user\<close>: create, update, delete by the id of the
  identity provider, and the lookup the webhook uses.
\<close>

definition user_store_pulled :: "services \<Rightarrow> user \<Rightarrow> (world, go_error option) state" where
  "user_store_pulled S u = StoreEvents S (map of_user_event (fst (user_PullEvents u)))"

record CreateUserCommand =
  nu_ClerkID :: string
  nu_FirstName :: string
  nu_LastName :: string
  nu_Email :: string
  nu_Banned :: bool

definition CreateUser :: "services \<Rightarrow> CreateUserCommand \<Rightarrow> (world, go_error + user) state" where
  "CreateUser S cmd = do {
     u \<leftarrow> rt_op (NewUser (sv_uuid S) (nu_ClerkID cmd) (nu_FirstName cmd) (nu_LastName cmd) (nu_Email cmd)
                (nu_Banned cmd));
     if_err (Transaction (if_err (users_Save u) (\<lambda>e. ret (Some e)) (user_store_pulled S u)))
       (\<lambda>_. ret (Inl (ErrorText ''failed to create user'')))
       (ret (Inr (snd (user_PullEvents u)))) }"

definition GetUserByExternalID :: "string \<Rightarrow> (world, go_error + user option) state" where
  "GetUserByExternalID externalID =
     on_err (users_GetByClerkID externalID)
       (\<lambda>_. ret (Inl (ErrorText ''failed to get user by external ID'')))
       (\<lambda>u. ret (Inr u))"

record UpdateUserCommand =
  uu_User :: "user option"
  uu_FirstName :: string
  uu_LastName :: string
  uu_Email :: string
  uu_Banned :: bool

definition UpdateUser :: "services \<Rightarrow> UpdateUserCommand \<Rightarrow> (world, go_error option) state" where
  "UpdateUser S cmd = (case uu_User cmd of
     None \<Rightarrow> ret (Some (ErrorText ''user is required''))
   | Some u \<Rightarrow> do {
       u \<leftarrow> rt_op (ApplyUpdate (sv_uuid S) (uu_FirstName cmd) (uu_LastName cmd) (uu_Email cmd) (uu_Banned cmd) u);
       Transaction (if_err (users_Update u)
         (\<lambda>_. ret (Some (ErrorText ''failed to update user'')))
         (user_store_pulled S u)) })"

definition DeleteUserByExternalID :: "services \<Rightarrow> string \<Rightarrow> (world, go_error option) state" where
  "DeleteUserByExternalID S externalID = Transaction
     (on_err (users_GetByClerkID externalID)
       (\<lambda>_. ret (Some (ErrorText ''failed to get user by external ID'')))
       (\<lambda>found. case found of
          None \<Rightarrow> ret None
        | Some user \<Rightarrow> do {
            user \<leftarrow> rt_op (MarkDeleted (sv_uuid S) user);
            let (events, user) = user_PullEvents user;
            if_err (users_Delete (u_ID user))
              (\<lambda>_. ret (Some (ErrorText ''failed to delete user by external ID'')))
              (StoreEvents S (map of_user_event events)) }))"

section \<open>They keep the invariant\<close>

lemma holds_user_store: "sv_uuid S = U \<Longrightarrow> holds (db_after H U) (\<lambda>_. True) (user_store_pulled S u)"
  unfolding user_store_pulled_def by (rule holds_StoreEvents) auto

lemma CreateUser_ok: "sv_uuid S = U \<Longrightarrow> holds (db_after H U) (\<lambda>_. True) (CreateUser S cmd)"
  unfolding CreateUser_def by (rule holds_user_store holds_steps holds_ret | force)+

lemma GetUserByExternalID_ok: "holds (db_after H U) (\<lambda>_. True) (GetUserByExternalID c)"
  unfolding GetUserByExternalID_def by (rule holds_steps holds_ret | force)+

lemma UpdateUser_ok: "sv_uuid S = U \<Longrightarrow> holds (db_after H U) (\<lambda>_. True) (UpdateUser S cmd)"
  unfolding UpdateUser_def by (rule holds_user_store holds_steps holds_ret | force)+

lemma DeleteUserByExternalID_ok: "sv_uuid S = U \<Longrightarrow> holds (db_after H U) (\<lambda>_. True) (DeleteUserByExternalID S c)"
  unfolding DeleteUserByExternalID_def Let_def
  by (rule holds_control holds_Transaction holds_repos holds_rt_True holds_StoreEvents holds_ret | force)+

section \<open>What they do\<close>

lemma user_store_quiet:
  assumes "uuid_lib_ok (sv_uuid S)" "\<forall>n. w_db_fault w n = None"
    and "u_events u = [e]" "user_EventID e = uuid_String (sv_uuid S) k" "k \<notin> ob_ID ` set (t_outbox (w_db w))"
  shows "wp (user_store_pulled S u) Q w \<longleftrightarrow>
    Q None (w\<lparr>w_db_calls := Suc (w_db_calls w), w_db := (w_db w)\<lparr>t_outbox := t_outbox (w_db w) @
      [\<lparr>ob_ID = k, ob_AggregateID = user_AggregateID e, ob_EventType = user_EventType e,
        ob_Payload = user_Marshal e, ob_CreatedAt = ue_Timestamp e, ob_PublishedAt = None\<rparr>]\<rparr>\<rparr>)"
proof -
  have "\<not> list_ex (\<lambda>y. ob_ID y = k) (t_outbox (w_db w))"
    using assms(5) unfolding list_ex_iff by (metis imageI)
  moreover have "uuid_Parse (sv_uuid S) (uuid_String (sv_uuid S) k) = Some k"
    using assms(1) by (simp add: uuid_lib_ok_def)
  ultimately show ?thesis
    using assms(2-4)
    by (simp add: user_store_pulled_def user_PullEvents_def StoreEvents_def of_user_event_def quiet_simps
        del: user_Marshal.simps user_EventType.simps cong: lazy_congs)
qed

text \<open>
  C34. Deleting a user by the provider's id removes exactly that user, leaves all videos in place, those of
  the user without an owner, and sends one message \<open>UserDeleted\<close> about the user.
\<close>

theorem delete_user_effect:
  assumes U: "uuid_lib_ok (sv_uuid S)" and quiet: "\<forall>n. w_db_fault w n = None"
    and ok: "db_ok (sv_uuid S) (w_db w)"
    and found: "tbl_find (\<lambda>u. u_ClerkID u = cid) (t_users (w_db w)) = Some u"
    and fresh: "uuid_source (w_rt w) (uuid_draws (w_rt w)) \<notin> ob_ID ` set (t_outbox (w_db w))"
  shows "\<exists>w' r. run_state (DeleteUserByExternalID S cid) w = (None, w') \<and>
    t_users (w_db w') = filter (\<lambda>x. u_ID x \<noteq> u_ID u) (t_users (w_db w)) \<and>
    map (\<lambda>v. (v_ID v, v_Status v, v_UserID v)) (t_videos (w_db w')) =
      map (\<lambda>v. (v_ID v, v_Status v, if v_UserID v = Some (u_ID u) then None else v_UserID v))
        (t_videos (w_db w)) \<and>
    t_outbox (w_db w') = t_outbox (w_db w) @ [r] \<and> ob_EventType r = ''user.deleted.v1'' \<and>
    (\<exists>i t. ob_Payload r = user_Marshal (UserDeleted i (uuid_String (sv_uuid S) (u_ID u)) cid t))"
proof -
  have u: "u \<in> set (t_users (w_db w))" "u_ClerkID u = cid" "u_events u = []"
    using tbl_find_Some [OF found] ok by (auto simp: db_ok_def users_ok_def)
  let ?k = "uuid_source (w_rt w) (uuid_draws (w_rt w))"
  have out: "\<not> list_ex (\<lambda>y. ob_ID y = ?k) (t_outbox (w_db w))"
    using fresh unfolding list_ex_iff by (metis imageI)
  have parse: "uuid_Parse (sv_uuid S) (uuid_String (sv_uuid S) k) = Some k" for k
    using U by (simp add: uuid_lib_ok_def)
  have gone: "map u_ID (filter (\<lambda>x. u_ID x = u_ID u) (t_users (w_db w))) \<noteq> []"
    "set (map u_ID (filter (\<lambda>x. u_ID x = u_ID u) (t_users (w_db w)))) = {u_ID u}"
    using u(1) by (auto simp: filter_empty_conv)
  have "wp (DeleteUserByExternalID S cid) (\<lambda>e w'. e = None \<and> (\<exists>r.
    t_users (w_db w') = filter (\<lambda>x. u_ID x \<noteq> u_ID u) (t_users (w_db w)) \<and>
    map (\<lambda>v. (v_ID v, v_Status v, v_UserID v)) (t_videos (w_db w')) =
      map (\<lambda>v. (v_ID v, v_Status v, if v_UserID v = Some (u_ID u) then None else v_UserID v))
        (t_videos (w_db w)) \<and>
    t_outbox (w_db w') = t_outbox (w_db w) @ [r] \<and> ob_EventType r = ''user.deleted.v1'' \<and>
    (\<exists>i t. ob_Payload r = user_Marshal (UserDeleted i (uuid_String (sv_uuid S) (u_ID u)) cid t)))) w"
    using quiet found u out
    by (simp add: DeleteUserByExternalID_def users_GetByClerkID_def quiet_simps MarkDeleted_def
        user_recordEvent_def user_PullEvents_def users_Delete_def delete_users_def Let_def StoreEvents_def
        of_user_event_def parse image_iff del: user_Marshal.simps cong: lazy_congs) blast
  from fault_free_run [OF this] show ?thesis by blast
qed

definition users_world :: world where
  "users_world = sample_world\<lparr>w_db := empty_db\<lparr>
     t_users := [\<lparr>u_ID = 70, u_ClerkID = ''c'', u_FirstName = ''A'', u_LastName = ''B'', u_Banned = False,
       u_Email = ''a@b'', u_ActiveProjectID = None, u_CreatedAt = 0, u_UpdatedAt = 0, u_events = []\<rparr>]\<rparr>\<rparr>"

theorem delete_user_effect_witness:
  "\<exists>w' r. run_state (DeleteUserByExternalID sample_services ''c'') users_world = (None, w') \<and>
     t_users (w_db w') = [] \<and> t_outbox (w_db w') = [r] \<and> ob_EventType r = ''user.deleted.v1''"
proof -
  have "db_ok (sv_uuid sample_services) (w_db users_world)"
    by (simp add: db_ok_def users_world_def empty_db_def videos_ok_def jobs_ok_def segments_ok_def users_ok_def)
  then show ?thesis
    using delete_user_effect [of sample_services users_world "''c''" "hd (t_users (w_db users_world))"] decimal_lib_ok
    by (fastforce simp: users_world_def sample_world_def empty_db_def tbl_find_def)
qed

end
