(* ===== verification/EventHandlers.thy ===== *)
theory EventHandlers
  imports Realtime UserCommands ClassifyFrames
begin

text \<open>
  The event handlers of \<open>internal/application/event/user\<close> and \<open>internal/application/event/video\<close>: each
  reads its event from the payload of a delivery (a payload that does not decode is a failure for good),
  parses the identifiers it needs, and hands over to a command or to the realtime publisher. What they
  log is left out.
\<close>

section \<open>Reading a payload\<close>

definition invalid_json :: go_error where
  "invalid_json = External ''invalid JSON''"

definition invalid_uuid :: go_error where
  "invalid_uuid = External ''invalid UUID''"

text \<open>\<open>json.Unmarshal\<close> into the event of a handler, and \<open>uuid.Parse\<close>, with their failures classified.\<close>

definition with_event :: "'e option \<Rightarrow> ('e \<Rightarrow> (world, go_error option) state) \<Rightarrow> (world, go_error option) state" where
  "with_event evt k = (case evt of None \<Rightarrow> ret (NonRetryable (Some invalid_json)) | Some e \<Rightarrow> k e)"

definition with_uuid :: "services \<Rightarrow> string \<Rightarrow> (uuid \<Rightarrow> (world, go_error option) state) \<Rightarrow> (world, go_error option) state" where
  "with_uuid S raw k =
     (case uuid_Parse (sv_uuid S) raw of None \<Rightarrow> ret (NonRetryable (Some invalid_uuid)) | Some i \<Rightarrow> k i)"

section \<open>Handlers of user events\<close>

definition UserCreatedHandler :: "world event_handler" where
  "UserCreatedHandler ctx payload = with_event (Unmarshal_UserCreated payload) (\<lambda>evt. ret None)"

definition UserUpdatedHandler :: "world event_handler" where
  "UserUpdatedHandler ctx payload = with_event (Unmarshal_UserUpdated payload) (\<lambda>evt. ret None)"

definition UserDeletedHandler :: "world event_handler" where
  "UserDeletedHandler ctx payload = with_event (Unmarshal_UserDeleted payload) (\<lambda>evt. ret None)"

text \<open>The notifier of the worker writes a line to the log and returns nil.\<close>

definition notifier_Send :: "string \<Rightarrow> string \<Rightarrow> (world, go_error option) state" where
  "notifier_Send userID message = ret None"

definition NotifyUserOnCreatedHandler :: "world event_handler" where
  "NotifyUserOnCreatedHandler ctx payload = with_event (Unmarshal_UserCreated payload) (\<lambda>evt.
     let msg = ''User created: '' @ ue_FirstName evt @ '' '' @ ue_LastName evt @ '' ('' @ ue_Email evt @ '')''
     in if_err (notifier_Send (ue_UserID evt) msg) (\<lambda>e. ret (Retryable (Some e))) (ret None))"

definition user_OnCreated :: "services \<Rightarrow> world event_handler" where
  "user_OnCreated S ctx payload = with_event (Unmarshal_UserCreated payload) (\<lambda>evt.
     ToUser S ''user'' ''created'' (ue_UserID evt) (user_Marshal evt))"

definition user_OnUpdated :: "services \<Rightarrow> world event_handler" where
  "user_OnUpdated S ctx payload = with_event (Unmarshal_UserUpdated payload) (\<lambda>evt.
     ToUser S ''user'' ''updated'' (ue_UserID evt) (user_Marshal evt))"

definition user_OnDeleted :: "services \<Rightarrow> world event_handler" where
  "user_OnDeleted S ctx payload = with_event (Unmarshal_UserDeleted payload) (\<lambda>evt.
     ToUser S ''user'' ''deleted'' (ue_UserID evt) (user_Marshal evt))"

section \<open>Handlers of video events that run a command\<close>

definition IngestRemoteOnRequested :: "services \<Rightarrow> int \<Rightarrow> world event_handler" where
  "IngestRemoteOnRequested S maxSize ctx payload = with_event (Unmarshal_VideoIngestRequested payload) (\<lambda>evt.
     with_uuid S (e_VideoID evt) (\<lambda>videoID.
       IngestRemote S maxSize \<lparr>ir_VideoID = videoID, ir_RemoteURL = e_RemoteURL evt\<rparr>))"

definition SegmentVideoOnUploaded :: "services \<Rightarrow> world event_handler" where
  "SegmentVideoOnUploaded S ctx payload = with_event (Unmarshal_VideoUploaded payload) (\<lambda>evt.
     with_uuid S (e_VideoID evt) (\<lambda>videoID. SegmentVideo S True videoID))"

definition ExtractFramesOnSegmentReady :: "services \<Rightarrow> int \<Rightarrow> world event_handler" where
  "ExtractFramesOnSegmentReady S maxWidthPx ctx payload = with_event (Unmarshal_VideoSegmentReady payload) (\<lambda>evt.
     with_uuid S (e_VideoID evt) (\<lambda>videoID.
     with_uuid S (e_SegmentID evt) (\<lambda>segmentID.
       ExtractFrames S maxWidthPx \<lparr>ex_VideoID = videoID, ex_SegmentID = segmentID\<rparr>)))"

definition PersistOCRFrameHandler :: "services \<Rightarrow> real \<Rightarrow> world event_handler" where
  "PersistOCRFrameHandler S minConfidence ctx payload = with_event (Unmarshal_VideoOCRFrameCompleted payload) (\<lambda>evt.
     with_uuid S (e_VideoID evt) (\<lambda>videoID.
       PersistFrame S minConfidence ctx \<lparr>po_VideoID = videoID, po_Results = e_Results evt\<rparr>))"

definition ClassifyFrameRequestedHandler :: "services \<Rightarrow> real \<Rightarrow> world event_handler" where
  "ClassifyFrameRequestedHandler S threshold ctx payload = with_event (Unmarshal_VideoClassifyFrameRequested payload) (\<lambda>evt.
     with_uuid S (e_VideoID evt) (\<lambda>videoID.
     with_uuid S (e_FrameID evt) (\<lambda>frameID.
       HandleFrame S threshold ctx \<lparr>cl_VideoID = videoID, cl_FrameID = frameID\<rparr>)))"

definition ClassifyFramesOnOCRCompleted :: "services \<Rightarrow> world event_handler" where
  "ClassifyFramesOnOCRCompleted S ctx payload = with_event (Unmarshal_VideoFramesOCRCompleted payload) (\<lambda>evt.
     with_uuid S (e_VideoID evt) (\<lambda>videoID. Finalize S ctx videoID))"

section \<open>Handlers of video events that push to the browser\<close>

record videoRealtimePayload =
  vr_VideoID :: string
  vr_OriginalFilename :: string
  vr_Status :: string
  vr_OccurredAt :: time

record jobRealtimePayload =
  jr_ID :: string
  jr_VideoID :: string
  jr_Type :: string
  jr_Status :: string
  jr_VideoStatus :: string
  jr_FrameCount :: int
  jr_ExpectedFrameCount :: int
  jr_OCRCompletedCount :: int
  jr_FailureReason :: string
  jr_OccurredAt :: time

definition enc_videoRealtimePayload :: "videoRealtimePayload \<Rightarrow> json" where
  "enc_videoRealtimePayload r = JObj
     (enc ''videoId'' (JStr (vr_VideoID r)) @
      enc_omit ''originalFilename'' (vr_OriginalFilename r) @
      enc ''status'' (JStr (vr_Status r)) @
      enc ''occurredAt'' (JTime (vr_OccurredAt r)))"

definition enc_jobRealtimePayload :: "jobRealtimePayload \<Rightarrow> json" where
  "enc_jobRealtimePayload r = JObj
     (enc ''id'' (JStr (jr_ID r)) @
      enc ''videoId'' (JStr (jr_VideoID r)) @
      enc ''jobType'' (JStr (jr_Type r)) @
      enc ''status'' (JStr (jr_Status r)) @
      enc ''videoStatus'' (JStr (jr_VideoStatus r)) @
      enc ''frameCount'' (JInt (jr_FrameCount r)) @
      enc ''expectedFrameCount'' (JInt (jr_ExpectedFrameCount r)) @
      enc ''ocrCompletedCount'' (JInt (jr_OCRCompletedCount r)) @
      enc_omit ''failureReason'' (jr_FailureReason r) @
      enc ''occurredAt'' (JTime (jr_OccurredAt r)))"

definition decodeVideoEvent :: "'e option \<Rightarrow> go_error + 'e" where
  "decodeVideoEvent evt = (case evt of
     None \<Rightarrow> Inl (NonRetryableError invalid_json)
   | Some e \<Rightarrow> Inr e)"

definition publishToOwner ::
  "services \<Rightarrow> string \<Rightarrow> string \<Rightarrow> string \<Rightarrow> json \<Rightarrow> (world, go_error option) state" where
  "publishToOwner S entity action userID payload =
     (if userID = '''' then ret None else ToUser S entity action userID payload)"

definition OnCreated :: "services \<Rightarrow> world event_handler" where
  "OnCreated S ctx payload = (case decodeVideoEvent (Unmarshal_VideoCreated payload) of
     Inl e \<Rightarrow> ret (Some e)
   | Inr evt \<Rightarrow> publishToOwner S ''video'' ''created'' (e_UserID evt) (enc_videoRealtimePayload
       \<lparr>vr_VideoID = e_VideoID evt, vr_OriginalFilename = e_Filename evt, vr_Status = e_Status evt,
        vr_OccurredAt = e_Timestamp evt\<rparr>))"

definition OnUploaded :: "services \<Rightarrow> world event_handler" where
  "OnUploaded S ctx payload = (case decodeVideoEvent (Unmarshal_VideoUploaded payload) of
     Inl e \<Rightarrow> ret (Some e)
   | Inr evt \<Rightarrow> publishToOwner S ''video'' ''uploaded'' (e_UserID evt) (enc_videoRealtimePayload
       \<lparr>vr_VideoID = e_VideoID evt, vr_OriginalFilename = '''', vr_Status = e_Status evt,
        vr_OccurredAt = e_Timestamp evt\<rparr>))"

definition OnExtracting :: "services \<Rightarrow> world event_handler" where
  "OnExtracting S ctx payload = (case decodeVideoEvent (Unmarshal_VideoExtracting payload) of
     Inl e \<Rightarrow> ret (Some e)
   | Inr evt \<Rightarrow> publishToOwner S ''job'' ''updated'' (e_UserID evt) (enc_jobRealtimePayload
       \<lparr>jr_ID = e_JobID evt, jr_VideoID = e_VideoID evt, jr_Type = e_JobType evt, jr_Status = e_JobStatus evt,
        jr_VideoStatus = e_Status evt, jr_FrameCount = 0, jr_ExpectedFrameCount = 0,
        jr_OCRCompletedCount = 0, jr_FailureReason = '''', jr_OccurredAt = e_Timestamp evt\<rparr>))"

definition OnFramesExtracted :: "services \<Rightarrow> world event_handler" where
  "OnFramesExtracted S ctx payload = (case decodeVideoEvent (Unmarshal_VideoFramesExtracted payload) of
     Inl e \<Rightarrow> ret (Some e)
   | Inr evt \<Rightarrow> publishToOwner S ''job'' ''updated'' (e_UserID evt) (enc_jobRealtimePayload
       \<lparr>jr_ID = e_JobID evt, jr_VideoID = e_VideoID evt, jr_Type = e_JobType evt, jr_Status = e_JobStatus evt,
        jr_VideoStatus = e_Status evt, jr_FrameCount = e_FrameCount evt, jr_ExpectedFrameCount = 0,
        jr_OCRCompletedCount = 0, jr_FailureReason = '''', jr_OccurredAt = e_Timestamp evt\<rparr>))"

definition OnExtractionFailed :: "services \<Rightarrow> world event_handler" where
  "OnExtractionFailed S ctx payload = (case decodeVideoEvent (Unmarshal_VideoFrameExtractionFailed payload) of
     Inl e \<Rightarrow> ret (Some e)
   | Inr evt \<Rightarrow> publishToOwner S ''job'' ''updated'' (e_UserID evt) (enc_jobRealtimePayload
       \<lparr>jr_ID = e_JobID evt, jr_VideoID = e_VideoID evt, jr_Type = e_JobType evt, jr_Status = e_JobStatus evt,
        jr_VideoStatus = e_Status evt, jr_FrameCount = 0, jr_ExpectedFrameCount = 0,
        jr_OCRCompletedCount = 0, jr_FailureReason = e_Reason evt, jr_OccurredAt = e_Timestamp evt\<rparr>))"

definition OnOCRProcessing :: "services \<Rightarrow> world event_handler" where
  "OnOCRProcessing S ctx payload = (case decodeVideoEvent (Unmarshal_VideoOCRProcessing payload) of
     Inl e \<Rightarrow> ret (Some e)
   | Inr evt \<Rightarrow> publishToOwner S ''job'' ''updated'' (e_UserID evt) (enc_jobRealtimePayload
       \<lparr>jr_ID = e_JobID evt, jr_VideoID = e_VideoID evt, jr_Type = e_JobType evt, jr_Status = e_JobStatus evt,
        jr_VideoStatus = e_Status evt, jr_FrameCount = 0, jr_ExpectedFrameCount = e_ExpectedFrameCount evt,
        jr_OCRCompletedCount = e_OCRCompletedCount evt, jr_FailureReason = '''', jr_OccurredAt = e_Timestamp evt\<rparr>))"

definition OnOCRCompleted :: "services \<Rightarrow> world event_handler" where
  "OnOCRCompleted S ctx payload = (case decodeVideoEvent (Unmarshal_VideoFramesOCRCompleted payload) of
     Inl e \<Rightarrow> ret (Some e)
   | Inr evt \<Rightarrow> publishToOwner S ''job'' ''updated'' (e_UserID evt) (enc_jobRealtimePayload
       \<lparr>jr_ID = e_JobID evt, jr_VideoID = e_VideoID evt, jr_Type = e_JobType evt, jr_Status = e_JobStatus evt,
        jr_VideoStatus = e_Status evt, jr_FrameCount = e_ExpectedFrameCount evt, jr_ExpectedFrameCount = e_ExpectedFrameCount evt,
        jr_OCRCompletedCount = e_OCRCompletedCount evt, jr_FailureReason = '''', jr_OccurredAt = e_Timestamp evt\<rparr>))"

definition OnClassifying :: "services \<Rightarrow> world event_handler" where
  "OnClassifying S ctx payload = (case decodeVideoEvent (Unmarshal_VideoClassifying payload) of
     Inl e \<Rightarrow> ret (Some e)
   | Inr evt \<Rightarrow> publishToOwner S ''job'' ''updated'' (e_UserID evt) (enc_jobRealtimePayload
       \<lparr>jr_ID = e_JobID evt, jr_VideoID = e_VideoID evt, jr_Type = e_JobType evt, jr_Status = e_JobStatus evt,
        jr_VideoStatus = e_Status evt, jr_FrameCount = 0, jr_ExpectedFrameCount = e_ExpectedFrameCount evt,
        jr_OCRCompletedCount = 0, jr_FailureReason = '''', jr_OccurredAt = e_Timestamp evt\<rparr>))"

definition OnClassified :: "services \<Rightarrow> world event_handler" where
  "OnClassified S ctx payload = (case decodeVideoEvent (Unmarshal_VideoFramesClassified payload) of
     Inl e \<Rightarrow> ret (Some e)
   | Inr evt \<Rightarrow> publishToOwner S ''job'' ''updated'' (e_UserID evt) (enc_jobRealtimePayload
       \<lparr>jr_ID = e_JobID evt, jr_VideoID = e_VideoID evt, jr_Type = e_JobType evt, jr_Status = e_JobStatus evt,
        jr_VideoStatus = e_Status evt, jr_FrameCount = e_ExpectedFrameCount evt, jr_ExpectedFrameCount = e_ExpectedFrameCount evt,
        jr_OCRCompletedCount = 0, jr_FailureReason = '''', jr_OccurredAt = e_Timestamp evt\<rparr>))"

definition OnClassifyFailed :: "services \<Rightarrow> world event_handler" where
  "OnClassifyFailed S ctx payload = (case decodeVideoEvent (Unmarshal_VideoClassifyFailed payload) of
     Inl e \<Rightarrow> ret (Some e)
   | Inr evt \<Rightarrow> publishToOwner S ''job'' ''updated'' (e_UserID evt) (enc_jobRealtimePayload
       \<lparr>jr_ID = e_JobID evt, jr_VideoID = e_VideoID evt, jr_Type = e_JobType evt, jr_Status = e_JobStatus evt,
        jr_VideoStatus = e_Status evt, jr_FrameCount = 0, jr_ExpectedFrameCount = e_ExpectedFrameCount evt,
        jr_OCRCompletedCount = 0, jr_FailureReason = e_Reason evt, jr_OccurredAt = e_Timestamp evt\<rparr>))"

definition OnOCRFailed :: "services \<Rightarrow> world event_handler" where
  "OnOCRFailed S ctx payload = (case decodeVideoEvent (Unmarshal_VideoOCRFailed payload) of
     Inl e \<Rightarrow> ret (Some e)
   | Inr evt \<Rightarrow> publishToOwner S ''job'' ''updated'' (e_UserID evt) (enc_jobRealtimePayload
       \<lparr>jr_ID = e_JobID evt, jr_VideoID = e_VideoID evt, jr_Type = e_JobType evt, jr_Status = e_JobStatus evt,
        jr_VideoStatus = e_Status evt, jr_FrameCount = 0, jr_ExpectedFrameCount = e_ExpectedFrameCount evt,
        jr_OCRCompletedCount = e_OCRCompletedCount evt, jr_FailureReason = e_Reason evt, jr_OccurredAt = e_Timestamp evt\<rparr>))"

end
