(* ===== verification/Config.thy ===== *)
theory Config
  imports Prelude "HOL-Library.Monad_Syntax"
begin

text \<open>
  \<open>internal/infrastructure/config/config.go\<close>: the settings of the programs, read from the environment.
  \<open>log.Panicf\<close>, which ends the program, is the result \<open>None\<close>. Text is turned into numbers by
  \<open>strconv\<close> and \<open>time\<close>: decimal integers and durations are written out, the reading of a \<open>float64\<close> is a
  parameter.
\<close>

section \<open>The environment and the numbers in it\<close>

text \<open>\<open>os.Getenv\<close>: an unset variable is the empty string.\<close>

type_synonym environment = "string \<Rightarrow> string"

type_synonym strconv_lib = "string \<Rightarrow> real option"    \<comment> \<open>\<open>strconv.ParseFloat\<close>\<close>

definition is_digit :: "char \<Rightarrow> bool" where
  "is_digit c \<longleftrightarrow> 48 \<le> (of_char c :: nat) \<and> (of_char c :: nat) \<le> 57"

definition digit_value :: "char \<Rightarrow> int" where
  "digit_value c = of_char c - 48"

definition digits_value :: "string \<Rightarrow> int" where
  "digits_value s = foldl (\<lambda>n c. 10 * n + digit_value c) 0 s"

text \<open>\<open>strconv.ParseInt(s, 10, 64)\<close>, and \<open>strconv.Atoi\<close> on a 64-bit machine.\<close>

definition ParseInt :: "string \<Rightarrow> int option" where
  "ParseInt s = (
     let neg = (case s of c # _ \<Rightarrow> c = CHR ''-'' | [] \<Rightarrow> False);
         digits = (case s of c # t \<Rightarrow> if c = CHR ''-'' \<or> c = CHR ''+'' then t else s | [] \<Rightarrow> s);
         n = (if neg then - digits_value digits else digits_value digits)
     in if digits \<noteq> '''' \<and> list_all is_digit digits \<and> - (2 ^ 63) \<le> n \<and> n < 2 ^ 63 then Some n else None)"

section \<open>Durations\<close>

text \<open>
  \<open>time.ParseDuration\<close>: an optional sign and a sequence of decimal numbers with units. A fraction is
  computed over the reals, where the library rounds to \<open>float64\<close>.
\<close>

definition duration_unit :: "string \<Rightarrow> int option" where
  "duration_unit u =
     (if u = ''ns'' then Some 1
      else if u = ''us'' then Some (10 ^ 3)
      else if u = ''ms'' then Some (10 ^ 6)
      else if u = ''s'' then Some (10 ^ 9)
      else if u = ''m'' then Some (60 * 10 ^ 9)
      else if u = ''h'' then Some (3600 * 10 ^ 9)
      else None)"

definition unit_char :: "char \<Rightarrow> bool" where
  "unit_char c \<longleftrightarrow> c \<noteq> CHR ''.'' \<and> \<not> is_digit c"

function duration_parts :: "string \<Rightarrow> int \<Rightarrow> int option" where
  "duration_parts s d = (
     if s = '''' then Some d
     else let pre = takeWhile is_digit s;
              s1 = dropWhile is_digit s;
              dot = (case s1 of c # _ \<Rightarrow> c = CHR ''.'' | [] \<Rightarrow> False);
              post = (if dot then takeWhile is_digit (tl s1) else '''');
              s2 = (if dot then dropWhile is_digit (tl s1) else s1);
              u = takeWhile unit_char s2;
              s3 = dropWhile unit_char s2
          in if (pre = '''' \<and> post = '''') \<or> u = '''' \<or> digits_value pre > 2 ^ 63 then None
             else case duration_unit u of
                    None \<Rightarrow> None
                  | Some unit \<Rightarrow>
                      let v = digits_value pre * unit +
                              \<lfloor>of_int (digits_value post) * of_int unit / (10 ^ length post :: real)\<rfloor>
                      in if v > 2 ^ 63 \<or> d + v > 2 ^ 63 then None else duration_parts s3 (d + v))"
  by auto

lemma length_dropWhile_less: "takeWhile P s \<noteq> [] \<Longrightarrow> length (dropWhile P s) < length s"
  by (cases s) (auto simp: le_imp_less_Suc length_dropWhile_le split: if_splits)

termination duration_parts
proof (relation "measure (\<lambda>(s, d). length s)")
  show "wf (measure (\<lambda>(s :: string, d :: int). length s))" by simp
next
  fix s :: string and d :: int and pre s1 dot post s2 u s3 unit v
  assume "s1 = dropWhile is_digit s" "s2 = (if dot then dropWhile is_digit (tl s1) else s1)"
    "u = takeWhile unit_char s2" "s3 = dropWhile unit_char s2"
    and u: "\<not> ((pre = '''' \<and> post = '''') \<or> u = '''' \<or> digits_value pre > 2 ^ 63)"
  have "length s3 < length s2"
    using \<open>u = _\<close> \<open>s3 = _\<close> u by (simp add: length_dropWhile_less)
  also have "length s2 \<le> length s1"
    using \<open>s2 = _\<close> by (auto intro: order_trans [OF length_dropWhile_le])
  also have "length s1 \<le> length s"
    using \<open>s1 = _\<close> by (simp add: length_dropWhile_le)
  finally show "((s3, d + v), (s, d)) \<in> measure (\<lambda>(s, d). length s)" by simp
qed

definition ParseDuration :: "string \<Rightarrow> duration option" where
  "ParseDuration s0 = (
     let neg = (case s0 of c # _ \<Rightarrow> c = CHR ''-'' | [] \<Rightarrow> False);
         s = (case s0 of c # t \<Rightarrow> if c = CHR ''-'' \<or> c = CHR ''+'' then t else s0 | [] \<Rightarrow> s0)
     in if s = ''0'' then Some 0
        else if s = '''' then None
        else case duration_parts s 0 of
               None \<Rightarrow> None
             | Some d \<Rightarrow> if neg then Some (- d) else if d > 2 ^ 63 - 1 then None else Some d)"

section \<open>Reading a variable\<close>

definition getEnv :: "environment \<Rightarrow> string \<Rightarrow> string option" where
  "getEnv g key = (let value = g key in if value \<noteq> '''' then Some value else None)"

definition getEnvOrDefault :: "environment \<Rightarrow> string \<Rightarrow> string \<Rightarrow> string option" where
  "getEnvOrDefault g key defaultValue = (let value = g key in if value \<noteq> '''' then Some value else Some defaultValue)"

definition getEnvBool :: "environment \<Rightarrow> string \<Rightarrow> bool option" where
  "getEnvBool g key = (let value = g key in if value = '''' then Some False else Some (value = ''true''))"

definition getEnvBoolOrDefault :: "environment \<Rightarrow> string \<Rightarrow> bool \<Rightarrow> bool option" where
  "getEnvBoolOrDefault g key defaultValue =
     (let value = g key in if value = '''' then Some defaultValue else Some (value = ''true''))"

definition getEnvInt :: "environment \<Rightarrow> string \<Rightarrow> int option" where
  "getEnvInt g key = (let value = g key in if value = '''' then None else ParseInt value)"

definition getEnvIntOrDefault :: "environment \<Rightarrow> string \<Rightarrow> int \<Rightarrow> int option" where
  "getEnvIntOrDefault g key defaultValue =
     (let value = g key in if value = '''' then Some defaultValue else ParseInt value)"

definition getEnvInt64OrDefault :: "environment \<Rightarrow> string \<Rightarrow> int \<Rightarrow> int option" where
  "getEnvInt64OrDefault g key defaultValue =
     (let value = g key in if value = '''' then Some defaultValue else ParseInt value)"

definition getEnvFloatOrDefault :: "strconv_lib \<Rightarrow> environment \<Rightarrow> string \<Rightarrow> real \<Rightarrow> real option" where
  "getEnvFloatOrDefault L g key defaultValue =
     (let value = g key in if value = '''' then Some defaultValue else L value)"

definition getEnvDuration :: "environment \<Rightarrow> string \<Rightarrow> duration \<Rightarrow> duration option" where
  "getEnvDuration g key defaultValue =
     (let value = g key in if value = '''' then Some defaultValue else ParseDuration value)"

fun firstNonEmpty :: "string list \<Rightarrow> string" where
  "firstNonEmpty [] = ''''"
| "firstNonEmpty (value # values) =
     (if TrimSpace value \<noteq> '''' then TrimSpace value else firstNonEmpty values)"

definition splitCSV :: "string \<Rightarrow> string list" where
  "splitCSV raw = filter (\<lambda>v. v \<noteq> '''') (map TrimSpace (Split raw (CHR '','')))"

section \<open>The settings\<close>

record Config =
  env_DatabaseURL :: string
  env_ClerkWebhookSecret :: string
  env_Port :: string
  env_Environment :: string
  env_ClerkSecretKey :: string
  env_ClerkFrontendAPI :: string
  env_CORSAllowedOrigins :: "string list"
  env_CORSAllowCredentials :: bool
  env_CORSAllowMethods :: "string list"
  env_CORSAllowHeaders :: "string list"
  env_CORSMaxAge :: int
  env_RateLimitMax :: int
  env_RabbitMQURL :: string
  env_RabbitMQExchange :: string
  env_RabbitMQQueue :: string
  env_RabbitMQRoutingKey :: string
  env_RabbitMQRetryTTLMS :: int
  env_WorkerMaxRetries :: int
  env_OutboxPollInterval :: duration
  env_WorkerConcurrency :: int
  env_CentrifugoURL :: string
  env_CentrifugoAPIKey :: string
  env_CentrifugoTokenSecret :: string
  env_CentrifugoPublicWSURL :: string
  env_StorageEndpoint :: string
  env_StorageInternalEndpoint :: string
  env_StorageRegion :: string
  env_StorageAccessKey :: string
  env_StorageSecretKey :: string
  env_StorageBucket :: string
  env_StorageUsePathStyle :: bool
  env_MinIOWebhookSecret :: string
  env_VideoWebhookSecret :: string
  env_VideoIngestAllowedHosts :: "string list"
  env_UploadURLTTL :: duration
  env_FrameQueue :: string
  env_FrameRoutingKey :: string
  env_FrameConcurrency :: int
  env_FrameExtractionTimeout :: duration
  env_FrameMaxWidthPx :: int
  env_FrameUploadConcurrency :: int
  env_SegmentQueue :: string
  env_SegmentRoutingKey :: string
  env_SegmentConcurrency :: int
  env_SegmentTimeout :: duration
  env_ExpireUploadsInterval :: duration
  env_VideoMaxSizeBytes :: int
  env_OCRQueue :: string
  env_OCRRoutingKey :: string
  env_OCRMinConfidence :: real
  env_OCRLang :: string
  env_ClassifyQueue :: string
  env_ClassifyRoutingKey :: string
  env_ClassifyConcurrency :: int
  env_ClassifyEngineTimeout :: duration
  env_ClassifyTimeout :: duration
  env_ClassifyThreshold :: real
  env_ClassifyEngine :: string
  env_AIGatewayURL :: string
  env_AIGatewayAPIKey :: string
  env_JevModel :: string

definition Load :: "strconv_lib \<Rightarrow> environment \<Rightarrow> Config option" where
  "Load L g = do {
     databaseURL \<leftarrow> getEnv g ''DATABASE_URL'';
     clerkWebhookSecret \<leftarrow> getEnv g ''CLERK_WEBHOOK_SECRET'';
     port \<leftarrow> getEnv g ''PORT'';
     environment \<leftarrow> getEnv g ''GO_ENV'';
     clerkSecretKey \<leftarrow> getEnv g ''CLERK_SECRET_KEY'';
     clerkFrontendAPI \<leftarrow> getEnv g ''CLERK_FRONTEND_API'';
     corsAllowedOrigins \<leftarrow> map_option (\<lambda>v. Split v (CHR '','')) (getEnv g ''CORS_ALLOWED_ORIGINS'');
     corsAllowCredentials \<leftarrow> getEnvBool g ''CORS_ALLOW_CREDENTIALS'';
     corsAllowMethods \<leftarrow> map_option (\<lambda>v. Split v (CHR '','')) (getEnv g ''CORS_ALLOW_METHODS'');
     corsAllowHeaders \<leftarrow> map_option (\<lambda>v. Split v (CHR '','')) (getEnv g ''CORS_ALLOW_HEADERS'');
     corsMaxAge \<leftarrow> getEnvInt g ''CORS_MAX_AGE'';
     rateLimitMax \<leftarrow> getEnvInt g ''RATE_LIMIT_MAX'';
     rabbitMQURL \<leftarrow> getEnv g ''RABBITMQ_URL'';
     rabbitMQExchange \<leftarrow> getEnvOrDefault g ''RABBITMQ_EXCHANGE'' ''domain.events'';
     rabbitMQQueue \<leftarrow> getEnvOrDefault g ''RABBITMQ_QUEUE'' ''domain.events'';
     rabbitMQRoutingKey \<leftarrow> getEnvOrDefault g ''RABBITMQ_ROUTING_KEY'' ''user.#,video.#'';
     rabbitMQRetryTTLMS \<leftarrow> getEnvIntOrDefault g ''RABBITMQ_RETRY_TTL_MS'' 30000;
     workerMaxRetries \<leftarrow> getEnvIntOrDefault g ''WORKER_MAX_RETRIES'' 3;
     outboxPollInterval \<leftarrow> getEnvDuration g ''OUTBOX_POLL_INTERVAL'' (2 * 10 ^ 9);
     workerConcurrency \<leftarrow> getEnvIntOrDefault g ''WORKER_CONCURRENCY'' 4;
     centrifugoURL \<leftarrow> getEnv g ''CENTRIFUGO_URL'';
     centrifugoAPIKey \<leftarrow> getEnv g ''CENTRIFUGO_API_KEY'';
     centrifugoTokenSecret \<leftarrow> getEnv g ''CENTRIFUGO_TOKEN_SECRET'';
     centrifugoPublicWSURL \<leftarrow> getEnvOrDefault g ''CENTRIFUGO_PUBLIC_WS_URL'' '''';
     storageEndpoint \<leftarrow> getEnv g ''STORAGE_ENDPOINT'';
     storageInternalEndpoint \<leftarrow> getEnvOrDefault g ''STORAGE_INTERNAL_ENDPOINT'' '''';
     storageRegion \<leftarrow> getEnvOrDefault g ''STORAGE_REGION'' ''us-east-1'';
     storageAccessKey \<leftarrow> getEnv g ''STORAGE_ACCESS_KEY'';
     storageSecretKey \<leftarrow> getEnv g ''STORAGE_SECRET_KEY'';
     storageBucket \<leftarrow> getEnv g ''STORAGE_BUCKET'';
     storageUsePathStyle \<leftarrow> getEnvBoolOrDefault g ''STORAGE_USE_PATH_STYLE'' True;
     minIOWebhookSecret \<leftarrow> getEnvOrDefault g ''MINIO_WEBHOOK_SECRET'' '''';
     videoWebhookSecret \<leftarrow> getEnvOrDefault g ''VIDEO_WEBHOOK_SECRET'' '''';
     videoIngestAllowedHosts \<leftarrow> map_option splitCSV (getEnvOrDefault g ''VIDEO_INGEST_ALLOWED_HOSTS'' '''');
     uploadURLTTL \<leftarrow> getEnvDuration g ''UPLOAD_URL_TTL'' (15 * 60 * 10 ^ 9);
     frameQueue \<leftarrow> getEnvOrDefault g ''FRAME_QUEUE'' ''frame'';
     frameRoutingKey \<leftarrow> getEnvOrDefault g ''FRAME_ROUTING_KEY'' ''video.segment_ready.v1'';
     frameConcurrency \<leftarrow> getEnvIntOrDefault g ''FRAME_CONCURRENCY'' 2;
     frameExtractionTimeout \<leftarrow> getEnvDuration g ''FRAME_EXTRACTION_TIMEOUT'' (10 * 60 * 10 ^ 9);
     frameMaxWidthPx \<leftarrow> getEnvIntOrDefault g ''FRAME_MAX_WIDTH_PX'' 960;
     frameUploadConcurrency \<leftarrow> getEnvIntOrDefault g ''FRAME_UPLOAD_CONCURRENCY'' 4;
     segmentQueue \<leftarrow> getEnvOrDefault g ''SEGMENT_QUEUE'' ''segment'';
     segmentRoutingKey \<leftarrow> getEnvOrDefault g ''SEGMENT_ROUTING_KEY'' ''video.uploaded.v1'';
     segmentConcurrency \<leftarrow> getEnvIntOrDefault g ''SEGMENT_CONCURRENCY'' 2;
     segmentTimeout \<leftarrow> getEnvDuration g ''SEGMENT_TIMEOUT'' (10 * 60 * 10 ^ 9);
     expireUploadsInterval \<leftarrow> getEnvDuration g ''EXPIRE_UPLOADS_INTERVAL'' (60 * 10 ^ 9);
     videoMaxSizeBytes \<leftarrow> getEnvInt64OrDefault g ''VIDEO_MAX_SIZE_BYTES'' (2 * 1024 * 1024 * 1024);
     ocrQueue \<leftarrow> getEnvOrDefault g ''OCR_QUEUE'' ''ocr'';
     ocrRoutingKey \<leftarrow> getEnvOrDefault g ''OCR_ROUTING_KEY'' ''video.ocr_frame_requested.v1'';
     ocrMinConfidence \<leftarrow> getEnvFloatOrDefault L g ''OCR_MIN_CONFIDENCE'' (1 / 2);
     ocrLang \<leftarrow> getEnvOrDefault g ''OCR_LANG'' ''fr+en'';
     classifyQueue \<leftarrow> getEnvOrDefault g ''CLASSIFY_QUEUE'' ''classify'';
     classifyRoutingKey \<leftarrow> getEnvOrDefault g ''CLASSIFY_ROUTING_KEY'' ''video.classify_frame_requested.v1,video.frames_ocr_completed.v1'';
     classifyConcurrency \<leftarrow> getEnvIntOrDefault g ''CLASSIFY_CONCURRENCY'' 4;
     classifyEngineTimeout \<leftarrow> getEnvDuration g ''CLASSIFY_ENGINE_TIMEOUT'' (30 * 10 ^ 9);
     classifyTimeout \<leftarrow> getEnvDuration g ''CLASSIFY_TIMEOUT'' (10 * 60 * 10 ^ 9);
     classifyThreshold \<leftarrow> getEnvFloatOrDefault L g ''CLASSIFY_THRESHOLD'' (7 / 10);
     classifyEngine \<leftarrow> getEnvOrDefault g ''CLASSIFY_ENGINE'' ''jev'';
     aiGatewayURL \<leftarrow> getEnvOrDefault g ''AI_GATEWAY_URL'' ''https://ai-gateway.vercel.sh'';
     aiGatewayAPIKey \<leftarrow> Some (firstNonEmpty [g ''AI_GATEWAY_API_KEY'', g ''JEV_API_KEY'']);
     jevModel \<leftarrow> getEnvOrDefault g ''JEV_MODEL'' ''typesafe-ai/jev'';
     Some \<lparr>env_DatabaseURL = databaseURL,
       env_ClerkWebhookSecret = clerkWebhookSecret,
       env_Port = port,
       env_Environment = environment,
       env_ClerkSecretKey = clerkSecretKey,
       env_ClerkFrontendAPI = clerkFrontendAPI,
       env_CORSAllowedOrigins = corsAllowedOrigins,
       env_CORSAllowCredentials = corsAllowCredentials,
       env_CORSAllowMethods = corsAllowMethods,
       env_CORSAllowHeaders = corsAllowHeaders,
       env_CORSMaxAge = corsMaxAge,
       env_RateLimitMax = rateLimitMax,
       env_RabbitMQURL = rabbitMQURL,
       env_RabbitMQExchange = rabbitMQExchange,
       env_RabbitMQQueue = rabbitMQQueue,
       env_RabbitMQRoutingKey = rabbitMQRoutingKey,
       env_RabbitMQRetryTTLMS = rabbitMQRetryTTLMS,
       env_WorkerMaxRetries = workerMaxRetries,
       env_OutboxPollInterval = outboxPollInterval,
       env_WorkerConcurrency = workerConcurrency,
       env_CentrifugoURL = centrifugoURL,
       env_CentrifugoAPIKey = centrifugoAPIKey,
       env_CentrifugoTokenSecret = centrifugoTokenSecret,
       env_CentrifugoPublicWSURL = centrifugoPublicWSURL,
       env_StorageEndpoint = storageEndpoint,
       env_StorageInternalEndpoint = storageInternalEndpoint,
       env_StorageRegion = storageRegion,
       env_StorageAccessKey = storageAccessKey,
       env_StorageSecretKey = storageSecretKey,
       env_StorageBucket = storageBucket,
       env_StorageUsePathStyle = storageUsePathStyle,
       env_MinIOWebhookSecret = minIOWebhookSecret,
       env_VideoWebhookSecret = videoWebhookSecret,
       env_VideoIngestAllowedHosts = videoIngestAllowedHosts,
       env_UploadURLTTL = uploadURLTTL,
       env_FrameQueue = frameQueue,
       env_FrameRoutingKey = frameRoutingKey,
       env_FrameConcurrency = frameConcurrency,
       env_FrameExtractionTimeout = frameExtractionTimeout,
       env_FrameMaxWidthPx = frameMaxWidthPx,
       env_FrameUploadConcurrency = frameUploadConcurrency,
       env_SegmentQueue = segmentQueue,
       env_SegmentRoutingKey = segmentRoutingKey,
       env_SegmentConcurrency = segmentConcurrency,
       env_SegmentTimeout = segmentTimeout,
       env_ExpireUploadsInterval = expireUploadsInterval,
       env_VideoMaxSizeBytes = videoMaxSizeBytes,
       env_OCRQueue = ocrQueue,
       env_OCRRoutingKey = ocrRoutingKey,
       env_OCRMinConfidence = ocrMinConfidence,
       env_OCRLang = ocrLang,
       env_ClassifyQueue = classifyQueue,
       env_ClassifyRoutingKey = classifyRoutingKey,
       env_ClassifyConcurrency = classifyConcurrency,
       env_ClassifyEngineTimeout = classifyEngineTimeout,
       env_ClassifyTimeout = classifyTimeout,
       env_ClassifyThreshold = classifyThreshold,
       env_ClassifyEngine = classifyEngine,
       env_AIGatewayURL = aiGatewayURL,
       env_AIGatewayAPIKey = aiGatewayAPIKey,
       env_JevModel = jevModel\<rparr> }"

section \<open>When the programs start\<close>

definition required_vars :: "string list" where
  "required_vars =
    [''DATABASE_URL'', ''CLERK_WEBHOOK_SECRET'', ''PORT'', ''GO_ENV'', ''CLERK_SECRET_KEY'', 
     ''CLERK_FRONTEND_API'', ''CORS_ALLOWED_ORIGINS'', ''CORS_ALLOW_METHODS'', 
     ''CORS_ALLOW_HEADERS'', ''RABBITMQ_URL'', ''CENTRIFUGO_URL'', ''CENTRIFUGO_API_KEY'', 
     ''CENTRIFUGO_TOKEN_SECRET'', ''STORAGE_ENDPOINT'', ''STORAGE_ACCESS_KEY'', 
     ''STORAGE_SECRET_KEY'', ''STORAGE_BUCKET'']"

definition int_vars :: "string list" where
  "int_vars =
    [''RABBITMQ_RETRY_TTL_MS'', ''WORKER_MAX_RETRIES'', ''WORKER_CONCURRENCY'', 
     ''FRAME_CONCURRENCY'', ''FRAME_MAX_WIDTH_PX'', ''FRAME_UPLOAD_CONCURRENCY'', 
     ''SEGMENT_CONCURRENCY'', ''VIDEO_MAX_SIZE_BYTES'', ''CLASSIFY_CONCURRENCY'']"

definition duration_vars :: "string list" where
  "duration_vars =
    [''OUTBOX_POLL_INTERVAL'', ''UPLOAD_URL_TTL'', ''FRAME_EXTRACTION_TIMEOUT'', 
     ''SEGMENT_TIMEOUT'', ''EXPIRE_UPLOADS_INTERVAL'', ''CLASSIFY_ENGINE_TIMEOUT'', 
     ''CLASSIFY_TIMEOUT'']"

definition float_vars :: "string list" where
  "float_vars =
    [''OCR_MIN_CONFIDENCE'', ''CLASSIFY_THRESHOLD'']"

text \<open>A variable that is not set, or holds something that can be read.\<close>

definition readable :: "environment \<Rightarrow> (string \<Rightarrow> 'a option) \<Rightarrow> string \<Rightarrow> bool" where
  "readable g parse k = (if g k = '''' then True else parse (g k) \<noteq> None)"

lemma option_bind_defined:
  "Option.bind m f \<noteq> None \<longleftrightarrow> m \<noteq> None \<and> (\<forall>x. m = Some x \<longrightarrow> f x \<noteq> None)"
  by (cases m) auto

lemma getEnv_defined:
  "getEnv g k \<noteq> None \<longleftrightarrow> g k \<noteq> ''''"
  "getEnvOrDefault g k s \<noteq> None" "getEnvBool g k \<noteq> None" "getEnvBoolOrDefault g k b \<noteq> None"
  "getEnvInt g k \<noteq> None \<longleftrightarrow> g k \<noteq> '''' \<and> ParseInt (g k) \<noteq> None"
  "getEnvIntOrDefault g k n \<noteq> None \<longleftrightarrow> readable g ParseInt k"
  "getEnvInt64OrDefault g k n \<noteq> None \<longleftrightarrow> readable g ParseInt k"
  "getEnvFloatOrDefault L g k x \<noteq> None \<longleftrightarrow> readable g L k"
  "getEnvDuration g k d \<noteq> None \<longleftrightarrow> readable g ParseDuration k"
  by (auto simp: readable_def getEnv_def getEnvOrDefault_def getEnvBool_def getEnvBoolOrDefault_def getEnvInt_def
      getEnvIntOrDefault_def getEnvInt64OrDefault_def getEnvFloatOrDefault_def getEnvDuration_def Let_def)

lemma Load_defined:
  "Load L g \<noteq> None \<longleftrightarrow>
     list_all (\<lambda>k. g k \<noteq> '''') required_vars \<and>
     list_all (\<lambda>k. ParseInt (g k) \<noteq> None) [''CORS_MAX_AGE'', ''RATE_LIMIT_MAX''] \<and>
     list_all (readable g ParseInt) int_vars \<and>
     list_all (readable g ParseDuration) duration_vars \<and>
     list_all (readable g L) float_vars"
proof -
  have nonempty: "g k \<noteq> '''' \<and> ParseInt (g k) \<noteq> None \<longleftrightarrow> ParseInt (g k) \<noteq> None" for k
    by (auto simp: ParseInt_def)
  have map: "map_option f m \<noteq> None \<longleftrightarrow> m \<noteq> None" for f :: "string \<Rightarrow> string list" and m by (cases m) auto
  have all: "(\<forall>x. m = Some x \<longrightarrow> P) \<longleftrightarrow> (m \<noteq> None \<longrightarrow> P)" for m :: "'a option" and P by auto
  have again: "A \<and> (A \<longrightarrow> P) \<longleftrightarrow> A \<and> P" for A P by blast
  have some: "Some x \<noteq> None \<longleftrightarrow> True" for x :: 'b by simp
  show ?thesis
    unfolding Load_def required_vars_def int_vars_def duration_vars_def float_vars_def
    by (simp only: option_bind_defined all some getEnv_defined nonempty map again conj_assoc simp_thms list.pred_inject)
      (rule iffI, (elim conjE, (intro conjI)?, assumption+)+)
qed


text \<open>The settings the topologies of the workers are made of.\<close>

lemma option_bindE:
  "Option.bind m f = Some y \<Longrightarrow> (\<And>x. m = Some x \<Longrightarrow> f x = Some y \<Longrightarrow> P) \<Longrightarrow> P"
  by (cases m) auto

lemma Load_routing:
  assumes "Load L g = Some env"
  shows "getEnvOrDefault g ''RABBITMQ_EXCHANGE'' ''domain.events'' = Some (env_RabbitMQExchange env) \<and>
    getEnvOrDefault g ''RABBITMQ_ROUTING_KEY'' ''user.#,video.#'' = Some (env_RabbitMQRoutingKey env) \<and>
    getEnvOrDefault g ''SEGMENT_ROUTING_KEY'' ''video.uploaded.v1'' = Some (env_SegmentRoutingKey env) \<and>
    getEnvOrDefault g ''FRAME_ROUTING_KEY'' ''video.segment_ready.v1'' = Some (env_FrameRoutingKey env) \<and>
    getEnvOrDefault g ''CLASSIFY_ROUTING_KEY'' ''video.classify_frame_requested.v1,video.frames_ocr_completed.v1'' =
       Some (env_ClassifyRoutingKey env)"
  using assms unfolding Load_def by (elim option_bindE) (simp only: option.inject, elim subst, simp)

definition sample_environment :: environment where
  "sample_environment k = (if k \<in> set (required_vars @ [''CORS_MAX_AGE'', ''RATE_LIMIT_MAX'']) then ''1'' else '''')"

definition default_env :: Config where
  "default_env = the (Load (\<lambda>_. None) sample_environment)"

end
