(* ===== verification/Workers.thy ===== *)
theory Workers
  imports EventHandlers Config
begin

text \<open>
  The four Go workers, as their dependency-injection containers put them together
  (\<open>cmd/worker/di\<close>, \<open>cmd/segment/di\<close>, \<open>cmd/frame/di\<close>, \<open>cmd/classify/di\<close>): the handlers each registers, under
  which event and name, wrapped for deduplication, and its queue and bindings. \<open>system_step\<close> is one step
  of the whole application: a command of the API, a delivery to a worker, or a tick of a timer.
\<close>

section \<open>The handlers of each worker\<close>

type_synonym registration = "string \<times> string \<times> world event_handler"

definition main_handlers :: "services \<Rightarrow> Config \<Rightarrow> registration list" where
  "main_handlers S env =
    [(''user.created.v1'', ''user_created'', UserCreatedHandler),
     (''user.created.v1'', ''notify_user_on_created'', NotifyUserOnCreatedHandler),
     (''user.created.v1'', ''publish_user_created_realtime'', (user_OnCreated S)),
     (''user.updated.v1'', ''user_updated'', UserUpdatedHandler),
     (''user.updated.v1'', ''publish_user_updated_realtime'', (user_OnUpdated S)),
     (''user.deleted.v1'', ''user_deleted'', UserDeletedHandler),
     (''user.deleted.v1'', ''publish_user_deleted_realtime'', (user_OnDeleted S)),
     (''video.ingest_requested.v1'', ''ingest_remote_video'', (IngestRemoteOnRequested S (env_VideoMaxSizeBytes env))),
     (''video.created.v1'', ''publish_video_created_realtime'', (OnCreated S)),
     (''video.uploaded.v1'', ''publish_video_uploaded_realtime'', (OnUploaded S)),
     (''video.extracting.v1'', ''publish_video_extracting_realtime'', (OnExtracting S)),
     (''video.frames_extracted.v1'', ''publish_video_frames_extracted_realtime'', (OnFramesExtracted S)),
     (''video.ocr_frame_completed.v1'', ''persist_ocr_frame'', (PersistOCRFrameHandler S (env_OCRMinConfidence env))),
     (''video.frame_extraction_failed.v1'', ''publish_video_extraction_failed_realtime'', (OnExtractionFailed S)),
     (''video.ocr_processing.v1'', ''publish_video_ocr_processing_realtime'', (OnOCRProcessing S)),
     (''video.frames_ocr_completed.v1'', ''publish_video_ocr_completed_realtime'', (OnOCRCompleted S)),
     (''video.ocr_failed.v1'', ''publish_video_ocr_failed_realtime'', (OnOCRFailed S)),
     (''video.classifying.v1'', ''publish_video_classifying_realtime'', (OnClassifying S)),
     (''video.frames_classified.v1'', ''publish_video_classified_realtime'', (OnClassified S)),
     (''video.classify_failed.v1'', ''publish_video_classify_failed_realtime'', (OnClassifyFailed S))]"

definition segment_handlers :: "services \<Rightarrow> Config \<Rightarrow> registration list" where
  "segment_handlers S env =
    [(''video.uploaded.v1'', ''segment_video_on_video_uploaded'', SegmentVideoOnUploaded S)]"

definition frame_handlers :: "services \<Rightarrow> Config \<Rightarrow> registration list" where
  "frame_handlers S env =
    [(''video.segment_ready.v1'', ''extract_frames_on_segment_ready'',
      ExtractFramesOnSegmentReady S (env_FrameMaxWidthPx env))]"

definition classify_handlers :: "services \<Rightarrow> Config \<Rightarrow> registration list" where
  "classify_handlers S env =
    [(''video.classify_frame_requested.v1'', ''classify_frame_requested'',
      ClassifyFrameRequestedHandler S (env_ClassifyThreshold env)),
     (''video.frames_ocr_completed.v1'', ''classify_finalize_on_ocr_completed'',
      ClassifyFramesOnOCRCompleted S)]"

datatype worker = MainWorker | SegmentWorker | FrameWorker | ClassifyWorker

fun handlers_of :: "services \<Rightarrow> Config \<Rightarrow> worker \<Rightarrow> registration list" where
  "handlers_of S env MainWorker = main_handlers S env"
| "handlers_of S env SegmentWorker = segment_handlers S env"
| "handlers_of S env FrameWorker = frame_handlers S env"
| "handlers_of S env ClassifyWorker = classify_handlers S env"

fun topology_of :: "Config \<Rightarrow> worker \<Rightarrow> Topology" where
  "topology_of env MainWorker = DefaultTopology (env_RabbitMQExchange env) (env_RabbitMQQueue env)
     (env_RabbitMQRoutingKey env) (env_RabbitMQRetryTTLMS env)"
| "topology_of env SegmentWorker = DefaultTopology (env_RabbitMQExchange env) (env_SegmentQueue env)
     (env_SegmentRoutingKey env) (env_RabbitMQRetryTTLMS env)"
| "topology_of env FrameWorker = DefaultTopology (env_RabbitMQExchange env) (env_FrameQueue env)
     (env_FrameRoutingKey env) (env_RabbitMQRetryTTLMS env)"
| "topology_of env ClassifyWorker = DefaultTopology (env_RabbitMQExchange env) (env_ClassifyQueue env)
     (env_ClassifyRoutingKey env) (env_RabbitMQRetryTTLMS env)"

text \<open>Each handler is registered inside the deduplication under its name.\<close>

fun register_all :: "services \<Rightarrow> registration list \<Rightarrow> world registry \<Rightarrow> world registry" where
  "register_all S [] reg = reg"
| "register_all S ((eventType, name, handler) # rs) reg =
     register_all S rs (Register eventType
       (dedup_With (MarkProcessed S) (Some (UnmarkProcessed S)) name handler) reg)"

text \<open>The publication to the dead-letter queue is a call of the broker.\<close>

definition publish_dead_letter ::
  "(nat \<Rightarrow> delivery \<Rightarrow> string \<Rightarrow> go_error option) \<Rightarrow> delivery \<Rightarrow> string \<Rightarrow> (world, go_error option) state" where
  "publish_dead_letter dlq m reason = svc (\<lambda>n. dlq n m reason)"

definition worker_consumer ::
  "services \<Rightarrow> Config \<Rightarrow> (nat \<Rightarrow> delivery \<Rightarrow> string \<Rightarrow> go_error option) \<Rightarrow> worker \<Rightarrow> world consumer" where
  "worker_consumer S env dlq k =
     NewConsumer (register_all S (handlers_of S env k) empty_registry) (env_WorkerMaxRetries env)
       (publish_dead_letter dlq)"

section \<open>The wiring\<close>

definition workers :: "worker list" where
  "workers = [MainWorker, SegmentWorker, FrameWorker, ClassifyWorker]"

definition registered_types :: "services \<Rightarrow> Config \<Rightarrow> string list" where
  "registered_types S env = concat (map (map fst \<circ> handlers_of S env) workers)"

lemma handlers_bound:
  assumes "Load L g = Some env"
    and "g ''RABBITMQ_ROUTING_KEY'' = ''''" "g ''SEGMENT_ROUTING_KEY'' = ''''" "g ''FRAME_ROUTING_KEY'' = ''''"
      "g ''CLASSIFY_ROUTING_KEY'' = ''''"
    and topic: "\<And>k. topic k k" "\<And>p k. topic (p @ ''.#'') (p @ ''.'' @ k)"
    and "t \<in> set (map fst (handlers_of S env k))"
  shows "\<exists>p \<in> set (splitRoutingKeys (to_RoutingKey (topology_of env k))). topic p t \<and> (k = FrameWorker \<longrightarrow> p = ''video.segment_ready.v1'')"
proof -
  have keys: "env_RabbitMQRoutingKey env = ''user.#,video.#''" "env_SegmentRoutingKey env = ''video.uploaded.v1''"
    "env_FrameRoutingKey env = ''video.segment_ready.v1''"
    "env_ClassifyRoutingKey env = ''video.classify_frame_requested.v1,video.frames_ocr_completed.v1''"
    using Load_routing [OF assms(1)] assms(2-5) by (simp_all add: getEnvOrDefault_def)
  have split: "splitRoutingKeys ''user.#,video.#'' = [''user.#'', ''video.#'']"
    "splitRoutingKeys ''video.uploaded.v1'' = [''video.uploaded.v1'']"
    "splitRoutingKeys ''video.segment_ready.v1'' = [''video.segment_ready.v1'']"
    "splitRoutingKeys ''video.classify_frame_requested.v1,video.frames_ocr_completed.v1'' =
      [''video.classify_frame_requested.v1'', ''video.frames_ocr_completed.v1'']"
    by code_simp+
  have user: "topic ''user.#'' (''user.'' @ k)" and video: "topic ''video.#'' (''video.'' @ k)" for k
    using topic(2) [of "''user''" k] topic(2) [of "''video''" k] by simp_all
  show ?thesis
  proof (cases k)
    case MainWorker
    have "\<exists>r. t = ''user.'' @ r \<or> t = ''video.'' @ r"
      using assms(8) by (auto simp: MainWorker main_handlers_def)
    then show ?thesis using user video by (auto simp: MainWorker DefaultTopology_def keys split)
  qed (use assms(8) topic(1) in \<open>auto simp: segment_handlers_def frame_handlers_def classify_handlers_def
      DefaultTopology_def keys split\<close>)
qed


lemma default_env_loads: "Load (\<lambda>_. None) sample_environment = Some default_env"
proof -
  have "Load (\<lambda>_. None) sample_environment \<noteq> None"
    unfolding Load_defined by code_simp
  then show ?thesis by (simp add: default_env_def)
qed

text \<open>The matching of a topic exchange, for these patterns.\<close>

definition sample_topic :: "string \<Rightarrow> string \<Rightarrow> bool" where
  "sample_topic p k \<longleftrightarrow> p = k \<or> (HasSuffix p ''.#'' \<and> HasPrefix k (butlast p))"


end
