(* ===== verification/Regexp.thy ===== *)
theory Regexp
  imports Prelude "HOL-Library.Sublist"
begin

text \<open>
  The regular expressions of \<open>regexp\<close> as far as the repository uses them: classes, sequences,
  alternatives, greedy repetitions and word boundaries. A position is the character before it and the
  text after it; \<open>ends r\<close> lists where a match that begins at a position may end, in the order in which
  the leftmost-first search prefers them, so that the first is the match the library reports. A
  character stands for a Unicode code point below 256.
\<close>

datatype regex =
    Chars "char \<Rightarrow> bool"
  | Eps
  | Boundary
  | Seq regex regex
  | Alt regex regex
  | Rep nat "nat option" regex     \<comment> \<open>at least, at most\<close>

type_synonym pos = "char option \<times> string"

definition word_char :: "char \<Rightarrow> bool" where
  "word_char c = (let n = of_char c :: nat
    in (48 \<le> n \<and> n \<le> 57) \<or> (65 \<le> n \<and> n \<le> 90) \<or> (97 \<le> n \<and> n \<le> 122) \<or> n = 95)"

text \<open>\<open>\b\<close>: exactly one of the neighbours is a word character.\<close>

fun at_boundary :: "pos \<Rightarrow> bool" where
  "at_boundary (p, s) =
     ((case p of None \<Rightarrow> False | Some c \<Rightarrow> word_char c) \<noteq> (case s of [] \<Rightarrow> False | c # _ \<Rightarrow> word_char c))"

text \<open>Greedy repetition: as many rounds as possible first; a round that matches nothing is not repeated.\<close>

fun rep_ends :: "(pos \<Rightarrow> pos list) \<Rightarrow> nat \<Rightarrow> nat \<Rightarrow> pos \<Rightarrow> pos list" where
  "rep_ends f (Suc n) m x = concat (map (rep_ends f n m) (f x))"
| "rep_ends f 0 (Suc m) x =
     concat (map (rep_ends f 0 m) (filter (\<lambda>y. length (snd y) < length (snd x)) (f x))) @ [x]"
| "rep_ends f 0 0 x = [x]"

primrec ends :: "regex \<Rightarrow> pos \<Rightarrow> pos list" where
  "ends (Chars f) x = (case snd x of c # t \<Rightarrow> if f c then [(Some c, t)] else [] | [] \<Rightarrow> [])"
| "ends Eps x = [x]"
| "ends Boundary x = (if at_boundary x then [x] else [])"
| "ends (Seq a b) x = concat (map (ends b) (ends a x))"
| "ends (Alt a b) x = ends a x @ ends b x"
| "ends (Rep n mx r) x =
     rep_ends (ends r) n (case mx of None \<Rightarrow> length (snd x) | Some k \<Rightarrow> k - n) x"

section \<open>Searching\<close>

fun match_from :: "regex \<Rightarrow> char option \<Rightarrow> string \<Rightarrow> bool" where
  "match_from r p [] = (ends r (p, []) \<noteq> [])"
| "match_from r p (c # s) = (if ends r (p, c # s) \<noteq> [] then True else match_from r (Some c) s)"

definition MatchString :: "regex \<Rightarrow> string \<Rightarrow> bool" where
  "MatchString r s = match_from r None s"

text \<open>
  \<open>FindAllString\<close>: the leftmost matches that do not overlap. The patterns of the program match no empty
  text, so the library's rules for empty matches are left out.
\<close>

definition match_at :: "regex \<Rightarrow> pos \<Rightarrow> pos option" where
  "match_at r x = (case filter (\<lambda>y. length (snd y) < length (snd x)) (ends r x) of [] \<Rightarrow> None | y # _ \<Rightarrow> Some y)"

lemma match_at_shorter: "match_at r x = Some y \<Longrightarrow> length (snd y) < length (snd x)"
  by (auto simp: match_at_def filter_eq_Cons_iff split: list.splits)

function find_all_from :: "regex \<Rightarrow> char option \<Rightarrow> string \<Rightarrow> string list" where
  "find_all_from r p s =
     (case match_at r (p, s) of
        Some y \<Rightarrow> take (length s - length (snd y)) s # find_all_from r (fst y) (snd y)
      | None \<Rightarrow> (case s of [] \<Rightarrow> [] | c # t \<Rightarrow> find_all_from r (Some c) t))"
  by auto

termination find_all_from
  by (relation "measure (\<lambda>(r, p, s). length s)") (auto dest: match_at_shorter)

definition FindAllString :: "regex \<Rightarrow> string \<Rightarrow> string list" where
  "FindAllString r s = find_all_from r None s"

text \<open>
  \<open>FindAllStringSubmatch\<close> for a pattern of two groups and what stands between them: the texts of the
  groups of each match.
\<close>

definition groups_at :: "regex \<Rightarrow> regex \<Rightarrow> regex \<Rightarrow> pos \<Rightarrow> (pos \<times> pos \<times> pos) option" where
  "groups_at a m b x =
     (case [(y, z, e). y \<leftarrow> ends a x, z \<leftarrow> ends m y, e \<leftarrow> ends b z, length (snd e) < length (snd x)] of
        [] \<Rightarrow> None | g # _ \<Rightarrow> Some g)"

lemma case_hd_set: "(case l of [] \<Rightarrow> None | g # _ \<Rightarrow> Some g) = Some x \<Longrightarrow> x \<in> set l"
  by (cases l) auto

lemma groups_at_shorter: "groups_at a m b x = Some (y, z, e) \<Longrightarrow> length (snd e) < length (snd x)"
proof -
  let ?l = "[(y, z, e). y \<leftarrow> ends a x, z \<leftarrow> ends m y, e \<leftarrow> ends b z, length (snd e) < length (snd x)]"
  assume "groups_at a m b x = Some (y, z, e)"
  then have "(y, z, e) \<in> set ?l" unfolding groups_at_def by (rule case_hd_set)
  then show ?thesis by auto
qed

definition text_between :: "pos \<Rightarrow> pos \<Rightarrow> string" where
  "text_between x y = take (length (snd x) - length (snd y)) (snd x)"

function submatches_from :: "regex \<Rightarrow> regex \<Rightarrow> regex \<Rightarrow> char option \<Rightarrow> string \<Rightarrow> (string \<times> string) list" where
  "submatches_from a m b p s =
     (case groups_at a m b (p, s) of
        Some g \<Rightarrow> (text_between (p, s) (fst g), text_between (fst (snd g)) (snd (snd g))) #
                 submatches_from a m b (fst (snd (snd g))) (snd (snd (snd g)))
      | None \<Rightarrow> (case s of [] \<Rightarrow> [] | c # t \<Rightarrow> submatches_from a m b (Some c) t))"
  by auto

termination submatches_from
  by (relation "measure (\<lambda>(a, m, b, p, s). length s)") (auto dest: groups_at_shorter)

definition FindAllStringSubmatch :: "regex \<Rightarrow> regex \<Rightarrow> regex \<Rightarrow> string \<Rightarrow> (string \<times> string) list" where
  "FindAllStringSubmatch a m b s = submatches_from a m b None s"

text \<open>\<open>Split(s, -1)\<close> at the runs of a class of characters.\<close>

function split_runs :: "(char \<Rightarrow> bool) \<Rightarrow> string \<Rightarrow> string list" where
  "split_runs P s =
     (let rest = dropWhile (\<lambda>c. \<not> P c) s
      in takeWhile (\<lambda>c. \<not> P c) s # (if rest = [] then [] else split_runs P (dropWhile P rest)))"
  by auto

termination split_runs
proof (relation "measure (\<lambda>(P, s). length s)")
  fix P :: "char \<Rightarrow> bool" and s rest
  assume "rest = dropWhile (\<lambda>c. \<not> P c) s" "rest \<noteq> []"
  then have "P (hd rest)" using hd_dropWhile [of "\<lambda>c. \<not> P c" s] by simp
  then obtain c t where "rest = c # t" "P c" using \<open>rest \<noteq> []\<close> by (metis list.collapse)
  then have "length (dropWhile P rest) < length rest"
    by (simp add: le_imp_less_Suc length_dropWhile_le)
  also have "length rest \<le> length s"
    using \<open>rest = dropWhile _ s\<close> by (simp add: length_dropWhile_le)
  finally show "((P, dropWhile P rest), (P, s)) \<in> measure (\<lambda>(P, s). length s)" by simp
qed simp

declare find_all_from.simps [simp del] submatches_from.simps [simp del] split_runs.simps [simp del]

section \<open>Writing patterns\<close>

text \<open>\<open>(?i)\<close>: a class holds a character when it holds either case of it.\<close>

definition swap_case :: "char \<Rightarrow> char" where
  "swap_case c = (let n = of_char c :: nat
    in if 65 \<le> n \<and> n \<le> 90 then char_of (n + 32) else if 97 \<le> n \<and> n \<le> 122 then char_of (n - 32) else c)"

primrec nocase :: "regex \<Rightarrow> regex" where
  "nocase (Chars f) = Chars (\<lambda>c. f c \<or> f (swap_case c))"
| "nocase Eps = Eps"
| "nocase Boundary = Boundary"
| "nocase (Seq a b) = Seq (nocase a) (nocase b)"
| "nocase (Alt a b) = Alt (nocase a) (nocase b)"
| "nocase (Rep n m r) = Rep n m (nocase r)"

definition lit :: "string \<Rightarrow> regex" where
  "lit s = foldr (\<lambda>c. Seq (Chars (\<lambda>d. d = c))) s Eps"

definition seqs :: "regex list \<Rightarrow> regex" where
  "seqs rs = foldr Seq rs Eps"

fun alts :: "regex list \<Rightarrow> regex" where
  "alts [] = Chars (\<lambda>_. False)"
| "alts [r] = r"
| "alts (r # rs) = Alt r (alts rs)"

text \<open>A class, from ranges of code points and single characters.\<close>

definition cls :: "(nat \<times> nat) list \<Rightarrow> string \<Rightarrow> regex" where
  "cls ranges cs = Chars (\<lambda>c. (\<exists>(a, b) \<in> set ranges. a \<le> (of_char c :: nat) \<and> of_char c \<le> b) \<or> c \<in> set cs)"

definition re_space :: "char \<Rightarrow> bool" where
  "re_space c \<longleftrightarrow> (of_char c :: nat) \<in> {9, 10, 12, 13, 32}"

abbreviation "AZ \<equiv> (65 :: nat, 90 :: nat)"
abbreviation "az \<equiv> (97 :: nat, 122 :: nat)"
abbreviation "d09 \<equiv> (48 :: nat, 57 :: nat)"
abbreviation "digit \<equiv> cls [d09] []"
abbreviation "space \<equiv> Chars re_space"
abbreviation "nonspace \<equiv> Chars (\<lambda>c. \<not> re_space c)"
abbreviation "opt r \<equiv> Rep 0 (Some 1) r"
abbreviation "star r \<equiv> Rep 0 None r"
abbreviation "plus1 r \<equiv> Rep 1 None r"
abbreviation "exactly n r \<equiv> Rep n (Some n) r"
abbreviation "between n m r \<equiv> Rep n (Some m) r"

section \<open>Facts\<close>

lemma match_from_Cons: "match_from r p s \<Longrightarrow> match_from r q (c # s)" if "p = Some c"
  using that by simp

text \<open>Every end of a match leaves a suffix of the text, so what the searches report are parts of the text.\<close>

lemma rep_ends_suffix:
  assumes f: "\<And>x y. y \<in> set (f x) \<Longrightarrow> suffix (snd y) (snd x)"
  shows "y \<in> set (rep_ends f n m x) \<Longrightarrow> suffix (snd y) (snd x)"
proof (induction n arbitrary: x)
  case 0
  then show ?case
  proof (induction m arbitrary: x)
    case (Suc m)
    then consider "y = x" | z where "z \<in> set (f x)" "y \<in> set (rep_ends f 0 m z)" by auto
    then show ?case using Suc.IH f by cases (simp, blast intro: suffix_order.trans)
  qed simp
next
  case (Suc n)
  then obtain z where "z \<in> set (f x)" "y \<in> set (rep_ends f n m z)" by auto
  then show ?case using Suc.IH f by (blast intro: suffix_order.trans)
qed

lemma ends_suffix: "y \<in> set (ends r x) \<Longrightarrow> suffix (snd y) (snd x)"
proof (induction r arbitrary: x y)
  case (Chars f)
  then show ?case by (cases "snd x") (auto split: if_splits intro: suffix_ConsI)
next
  case (Seq a b)
  then obtain z where "z \<in> set (ends a x)" "y \<in> set (ends b z)" by auto
  then show ?case using Seq.IH by (blast intro: suffix_order.trans)
next
  case (Rep n mx r)
  then show ?case by (auto elim!: rep_ends_suffix [rotated])
qed (auto split: if_splits)

end
