(* ===== verification/LocalDetector.thy ===== *)
theory LocalDetector
  imports Regexp Services Json
begin

text \<open>
  The built-in detector of secrets, \<open>internal/infrastructure/classify/local.go\<close>: its patterns, the rules
  over them, and the classification of the frames of a batch. Texts are of code points below 256; the
  signs of \<open>reDMSCoord\<close> outside this range (prime and double prime) are left out of their classes.
\<close>

section \<open>The patterns\<close>

definition deg_signs :: string where
  "deg_signs = [char_of (176 :: nat), char_of (186 :: nat)]"

definition reEmail :: regex where
  "reEmail = nocase (seqs [Boundary, plus1 (cls [AZ, d09] ''._%+-''), lit ''@'', plus1 (cls [AZ, d09] ''.-''),
     lit ''.'', Rep 2 None (cls [AZ] []), Boundary])"

definition reIBAN :: regex where
  "reIBAN = nocase (seqs [Boundary, exactly 2 (cls [AZ] []), exactly 2 digit,
     between 11 30 (Seq (opt (lit '' '')) (cls [AZ, d09] [])), Boundary])"

definition ident_chars :: regex where
  "ident_chars = between 1 80 (cls [AZ, az, d09] ''_.-'')"

definition reIdent :: regex where
  "reIdent = nocase (Alt
     (seqs [lit ''${'', cls [AZ, az] [], star (cls [AZ, az, d09] ''_''), lit ''}''])
     (Seq (cls [AZ, az] []) ident_chars))"

text \<open>The two groups of \<open>reAssignment\<close> and what stands between them.\<close>

definition reAssignment_name :: regex where
  "reAssignment_name = nocase (Seq (cls [AZ, az] []) ident_chars)"

definition reAssignment_sep :: regex where
  "reAssignment_sep = seqs [star space, cls [] '':='', star space]"

definition reAssignment_value :: regex where
  "reAssignment_value = Rep 2 None nonspace"

definition rePassword :: regex where
  "rePassword = nocase (seqs [Boundary,
     alts [lit ''password'', lit ''passwd'', lit ''pwd'', lit ''passphrase'', lit ''mot de passe''],
     star space, cls [] '':='', star space, plus1 nonspace])"

definition reTokenShape :: regex where
  "reTokenShape = nocase (seqs [Boundary,
     alts [lit ''sk'', lit ''pk'', lit ''ghp'', lit ''gho'', Seq (lit ''xox'') (cls [] ''baprs''),
       lit ''akia'', lit ''aiza'', lit ''whsec''],
     cls [] ''-_'', Rep 12 None (cls [AZ, az, d09] ''_-'')])"

definition reURI :: regex where
  "reURI = nocase (seqs [Boundary, cls [az] [], between 1 24 (cls [az, d09] ''+.-''), lit ''://'', plus1 nonspace])"

definition host_chars :: regex where
  "host_chars = plus1 (cls [AZ, az, d09] ''_.${}-'')"

definition reUserPass :: regex where
  "reUserPass =
     (let part = plus1 (Chars (\<lambda>c. \<not> re_space c \<and> c \<notin> set '':/@''))
      in seqs [part, lit '':'', part, lit ''@'', host_chars, opt (Seq (lit '':'') (between 2 5 digit))])"

definition reAtHostPort :: regex where
  "reAtHostPort = seqs [lit ''@'', host_chars, lit '':'', between 2 5 digit, Boundary]"

definition reInterpPort :: regex where
  "reInterpPort = seqs [lit ''${'', cls [AZ, az] [], star (cls [AZ, az, d09] ''_''), lit ''}:'', between 2 5 digit,
     Boundary]"

definition reCard :: regex where
  "reCard = seqs [Boundary, between 13 19 (Seq digit (opt (cls [] '' -''))), Boundary]"

definition rePrivateKey :: regex where
  "rePrivateKey = seqs [lit ''-----BEGIN '',
     opt (alts [lit ''RSA '', lit ''EC '', lit ''OPENSSH '', lit ''DSA '', lit ''ENCRYPTED '']),
     lit ''PRIVATE KEY-----'']"

definition rePersonalID :: regex where
  "rePersonalID = seqs [Boundary,
     Alt (seqs [exactly 3 digit, lit ''-'', exactly 2 digit, lit ''-'', exactly 4 digit])
       (seqs [cls [] ''12'', opt space, exactly 2 digit, opt space, exactly 2 digit, opt space, exactly 2 digit,
          opt space, exactly 3 digit, opt space, exactly 3 digit, opt space, exactly 2 digit]),
     Boundary]"

definition reJWT :: regex where
  "reJWT = (let part = plus1 (cls [AZ, az, d09] ''_-'')
     in seqs [Boundary, lit ''eyJ'', part, lit ''.'', part, lit ''.'', part, Boundary])"

definition reWallet :: regex where
  "reWallet = nocase (Alt
     (seqs [Boundary, alts [lit ''seed phrase'', lit ''recovery phrase'', lit ''mnemonic''], Boundary])
     (seqs [lit ''0x'', exactly 64 (cls [(97, 102), d09] []), Boundary]))"

definition rePostal :: regex where
  "rePostal = nocase (seqs [Boundary, between 1 4 digit, plus1 space, plus1 nonspace,
     between 0 6 (Seq (plus1 space) (plus1 nonspace)), plus1 space,
     alts [lit ''rue'', lit ''avenue'', lit ''boulevard'', lit ''street'', lit ''road'', lit ''place'', lit ''impasse'',
       lit ''chemin''],
     Boundary])"

definition rePersonName :: regex where
  "rePersonName = nocase (seqs [Boundary, alts [lit ''nom'', lit ''name'', lit ''full name''],
     star space, cls [] '':='', star space,
     cls [AZ, (192, 255)] [], plus1 (cls [az, (224, 255)] [CHR 0x27, CHR ''-'']), plus1 space,
     cls [AZ, (192, 255)] [], plus1 (cls [az, (224, 255)] [CHR 0x27, CHR ''-''])])"

definition phone_sep :: regex where
  "phone_sep = Chars (\<lambda>c. re_space c \<or> c \<in> set ''./-'')"

definition rePhoneFR :: regex where
  "rePhoneFR = nocase (alts
     [seqs [Alt (lit ''+33'') (lit ''0033''), star phone_sep, opt (lit ''(0)''), star phone_sep, cls [(49, 57)] [],
        exactly 4 (Seq (star phone_sep) (exactly 2 digit))],
      seqs [Boundary, lit ''0'', cls [(49, 57)] [], exactly 4 (Seq phone_sep (exactly 2 digit)), Boundary],
      seqs [Boundary, lit ''0'', cls [(49, 57)] [], exactly 8 digit, Boundary]])"

definition rePhoneUS :: regex where
  "rePhoneUS = seqs [opt (Seq (lit ''+1'') (star phone_sep)), opt (lit ''(''), exactly 3 digit, opt (lit '')''), phone_sep,
     exactly 3 digit, phone_sep, exactly 4 digit]"

definition rePhoneIntl :: regex where
  "rePhoneIntl = seqs [lit ''+'', between 1 3 digit, between 2 5 (Seq (plus1 phone_sep) (between 2 4 digit))]"

definition reGeoKeyword :: regex where
  "reGeoKeyword = nocase (seqs [Boundary,
     alts [Seq (lit ''lat'') (opt (lit ''itude'')), Seq (lit ''lon'') (opt (lit ''gitude'')), lit ''lng'', lit ''gps'',
       Seq (lit ''coord'') (Alt (lit (''onn'' @ [char_of (233 :: nat)] @ ''es'')) (lit ''inates'')), lit ''wgs84''],
     Boundary])"

definition hemisphere_letter :: regex where
  "hemisphere_letter = cls [] ''nsewo''"

definition reDecimalCoord :: regex where
  "reDecimalCoord = nocase (seqs [opt (cls [] ''+-''), between 1 3 digit, lit ''.'', Rep 2 None digit, star space,
     opt (cls [] deg_signs), star space, opt hemisphere_letter])"

definition reDMSCoord :: regex where
  "reDMSCoord = nocase (seqs [between 1 3 digit, star space, cls [] deg_signs, star space, between 1 2 digit,
     star space,
     opt (seqs [cls [] [CHR 0x27], star space, between 1 2 digit, star space,
       opt (cls [] [CHR 0x22])]),
     star space, hemisphere_letter])"

definition reHemisphere :: regex where
  "reHemisphere = nocase (Alt (cls [] deg_signs) (Seq hemisphere_letter Boundary))"

section \<open>Sensitive identifiers\<close>

definition sensitiveParts :: "string \<Rightarrow> string list" where
  "sensitiveParts kind =
     (if kind = ''password'' then [''pass'', ''password'', ''passwd'', ''pwd'', ''passphrase'', ''secret'']
      else if kind = ''api_key'' then [''key'', ''token'', ''apikey'', ''auth'', ''authtoken'', ''credential'', ''credentials'']
      else if kind = ''webhook_secret'' then [''webhook'', ''hmac'', ''signing'']
      else [])"

definition splitIdent :: "string \<Rightarrow> string list" where
  "splitIdent ident = filter (\<lambda>part. part \<noteq> '''') (split_runs (\<lambda>c. c \<in> set ''_-.'') (ToLower ident))"

definition identHasKind :: "string \<Rightarrow> string \<Rightarrow> bool" where
  "identHasKind ident kind =
     (let ident = TrimPrefix ident ''${''; ident = TrimSuffix ident ''}''
      in list_ex (\<lambda>part. part \<in> set (sensitiveParts kind)) (splitIdent ident))"

text \<open>The bytes of a text in UTF-8.\<close>

definition utf8_len :: "string \<Rightarrow> nat" where
  "utf8_len s = sum_list (map (\<lambda>c. if (of_char c :: nat) < 128 then 1 else 2) s)"

definition looksLikeSecretValue :: "string \<Rightarrow> bool" where
  "looksLikeSecretValue value0 =
     (let value = TrimSpace value0
      in if value = '''' \<or> value = ''*'' \<or> EqualFold value ''true'' \<or> EqualFold value ''false'' then False
         else if HasPrefix value ''${'' then True
         else utf8_len value \<ge> 3)"

definition hasSensitiveIdent :: "string \<Rightarrow> string \<Rightarrow> bool" where
  "hasSensitiveIdent text kind =
     (if list_ex (\<lambda>ident. identHasKind ident kind) (FindAllString reIdent text) then True
      else list_ex (\<lambda>(name, value). identHasKind name kind \<and> looksLikeSecretValue value)
             (FindAllStringSubmatch reAssignment_name reAssignment_sep reAssignment_value text))"

definition hasPassword :: "string \<Rightarrow> bool" where
  "hasPassword text \<longleftrightarrow> MatchString rePassword text \<or> hasSensitiveIdent text ''password''"

definition hasAPIKey :: "string \<Rightarrow> bool" where
  "hasAPIKey text \<longleftrightarrow> MatchString reTokenShape text \<or> hasSensitiveIdent text ''api_key''"

definition hasWebhookSecret :: "string \<Rightarrow> bool" where
  "hasWebhookSecret text \<longleftrightarrow> hasSensitiveIdent text ''webhook_secret''"

definition hasConnectionString :: "string \<Rightarrow> bool" where
  "hasConnectionString text =
     (if MatchString reUserPass text \<or> MatchString reAtHostPort text \<or> MatchString reInterpPort text then True
      else list_ex (\<lambda>uri. let lower = ToLower uri
             in if str_Contains uri ''@'' \<or> str_Contains uri ''${'' then True
                else \<not> HasPrefix lower ''http://'' \<and> \<not> HasPrefix lower ''https://'')
           (FindAllString reURI text))"

section \<open>Numbers\<close>

definition digit_char :: "char \<Rightarrow> bool" where
  "digit_char c \<longleftrightarrow> 48 \<le> (of_char c :: nat) \<and> (of_char c :: nat) \<le> 57"

definition countDigits :: "string \<Rightarrow> int" where
  "countDigits s = int (length (filter digit_char s))"

definition isDecimalCoordinate :: "string \<Rightarrow> bool" where
  "isDecimalCoordinate s =
     (let compact = rev (dropWhile (\<lambda>c. c \<in> set (''NnSsEeWwOo'' @ deg_signs @ [CHR '' '', CHR 0x09]))
                      (rev (TrimSpace s)))
      in if length (filter (\<lambda>c. c = CHR ''.'') compact) \<noteq> 1 then False
         else MatchString reDecimalCoord compact)"

definition group_sep :: "char \<Rightarrow> bool" where
  "group_sep c \<longleftrightarrow> re_space c \<or> c \<in> set ''/.-''"

definition hasLongDecimalGroup :: "string \<Rightarrow> bool" where
  "hasLongDecimalGroup s =
     (if \<not> str_Contains s ''.'' then False
      else list_ex (\<lambda>part. countDigits part \<ge> 5) (split_runs group_sep s))"

definition looksLikeGroupedDecimals :: "string \<Rightarrow> bool" where
  "looksLikeGroupedDecimals s =
     (let parts = split_runs group_sep (TrimSpace s)
      in if length parts < 2 then isDecimalCoordinate s
         else let decimals = length (filter (\<lambda>part. str_Contains part ''.'' \<or> MatchString reDecimalCoord part) parts)
              in decimals \<ge> 1 \<and> list_all (\<lambda>c. c \<notin> set '' /'') s \<and> length (filter (\<lambda>c. c = CHR ''.'') s) = 1)"

definition isPhoneCandidate :: "string \<Rightarrow> bool" where
  "isPhoneCandidate raw =
     (let trimmed = TrimSpace raw
      in if trimmed = '''' \<or> MatchString reHemisphere trimmed \<or> str_Contains trimmed '','' then False
         else if isDecimalCoordinate trimmed then False
         else if looksLikeGroupedDecimals trimmed \<or> hasLongDecimalGroup trimmed then False
         else let digits = countDigits trimmed in if digits < 10 \<or> digits > 15 then False else True)"

definition hasPhoneNumber :: "string \<Rightarrow> bool" where
  "hasPhoneNumber text =
     (if MatchString reGeoKeyword text \<or> MatchString reDMSCoord text then False
      else list_ex (\<lambda>re. list_ex isPhoneCandidate (FindAllString re text)) [rePhoneFR, rePhoneUS, rePhoneIntl])"

text \<open>The loop of \<open>luhnValid\<close> from the last digit on; \<open>alt\<close> tells whether to double the next.\<close>

fun luhn_loop :: "int list \<Rightarrow> int \<Rightarrow> bool \<Rightarrow> int" where
  "luhn_loop [] acc alt = acc"
| "luhn_loop (d # ds) acc alt =
     (let n = (if alt then (let n = d * 2 in if n > 9 then n - 9 else n) else d)
      in luhn_loop ds (acc + n) (\<not> alt))"

definition luhnValid :: "int list \<Rightarrow> bool" where
  "luhnValid ds =
     (if length ds < 13 \<or> length ds > 19 then False else luhn_loop (rev ds) 0 False mod 10 = 0)"

definition card_digits :: "string \<Rightarrow> int list" where
  "card_digits raw = map (\<lambda>c. of_char c - 48) (filter digit_char raw)"

definition hasLuhnNumber :: "string \<Rightarrow> bool" where
  "hasLuhnNumber text = list_ex
     (\<lambda>raw. if isDecimalCoordinate raw \<or> MatchString reGeoKeyword text then False else luhnValid (card_digits raw))
     (FindAllString reCard text)"

section \<open>The detector\<close>

definition local_rules :: "(string \<times> (string \<Rightarrow> bool)) list" where
  "local_rules =
    [(''email'', MatchString reEmail), (''iban'', MatchString reIBAN), (''api_key'', hasAPIKey),
     (''password'', hasPassword), (''credit_card'', hasLuhnNumber), (''phone'', hasPhoneNumber),
     (''private_key'', MatchString rePrivateKey), (''personal_id'', MatchString rePersonalID),
     (''connection_string'', hasConnectionString), (''jwt'', MatchString reJWT),
     (''wallet_secret'', MatchString reWallet), (''webhook_secret'', hasWebhookSecret),
     (''postal_address'', MatchString rePostal), (''person_name'', MatchString rePersonName)]"

definition localHitScore :: real where
  "localHitScore = 95 / 100"

fun evaluate_rules :: "(string \<times> (string \<Rightarrow> bool)) list \<Rightarrow> string \<Rightarrow> category list \<Rightarrow> real \<Rightarrow> category list \<times> real" where
  "evaluate_rules [] text categories probability = (categories, probability)"
| "evaluate_rules ((name, fn) # rules) text categories probability =
     (if \<not> fn text then evaluate_rules rules text categories probability
      else evaluate_rules rules text (categories @ [\<lparr>ca_Name = name, ca_Probability = localHitScore\<rparr>])
             (if localHitScore > probability then localHitScore else probability))"

definition evaluate :: "string \<Rightarrow> string \<Rightarrow> real \<Rightarrow> ClassifyItemResult" where
  "evaluate frameID text threshold =
     (let (categories, probability) = evaluate_rules local_rules text [] 0
      in \<lparr>ci_FrameID = frameID, ci_Confidential = probability \<ge> threshold, ci_Probability = probability,
          ci_Categories = categories, ci_Status = ''success''\<rparr>)"

definition skipped_item :: "string \<Rightarrow> ClassifyItemResult" where
  "skipped_item frameID = \<lparr>ci_FrameID = frameID, ci_Confidential = False, ci_Probability = 0, ci_Categories = [],
     ci_Status = ''skipped''\<rparr>"

definition local_Classify :: "ClassifyFrame list \<Rightarrow> real \<Rightarrow> go_error + ClassifyItemResult list" where
  "local_Classify frames threshold0 =
     (let threshold = (if threshold0 \<le> 0 then 7 / 10 else threshold0)
      in Inr (map (\<lambda>frame.
           let text = TrimSpace (cf_Text frame)
           in if text = '''' then skipped_item (cf_FrameID frame)
              else evaluate (cf_FrameID frame) text threshold) frames))"

section \<open>The check digit\<close>

definition luhn_term :: "bool \<Rightarrow> int \<Rightarrow> int" where
  "luhn_term alt d = (if alt then (if d * 2 > 9 then d * 2 - 9 else d * 2) else d)"

lemma luhn_loop_Cons: "luhn_loop (d # ds) acc alt = luhn_loop ds (acc + luhn_term alt d) (\<not> alt)"
  by (simp add: luhn_term_def Let_def)

lemma luhn_loop_acc: "luhn_loop ds (acc + n) alt = luhn_loop ds acc alt + n"
proof (induction ds arbitrary: acc alt)
  case (Cons d ds)
  from Cons.IH [of "acc + luhn_term alt d"] show ?case
    by (simp add: luhn_loop_Cons ac_simps del: luhn_loop.simps(2))
qed simp

lemma luhn_loop_update:
  "i < length ds \<Longrightarrow> luhn_loop (ds[i := d]) acc alt =
     luhn_loop ds acc alt + luhn_term (alt \<noteq> odd i) d - luhn_term (alt \<noteq> odd i) (ds ! i)"
proof (induction ds arbitrary: i acc alt)
  case (Cons x xs)
  show ?case
  proof (cases i)
    case 0
    then show ?thesis by (simp add: luhn_loop_Cons luhn_loop_acc del: luhn_loop.simps(2))
  next
    case (Suc j)
    then show ?thesis using Cons by (cases alt) (simp_all add: luhn_loop_Cons del: luhn_loop.simps(2))
  qed
qed simp

lemma luhn_term_inj:
  "0 \<le> d \<Longrightarrow> d \<le> 9 \<Longrightarrow> 0 \<le> e \<Longrightarrow> e \<le> 9 \<Longrightarrow> d \<noteq> e \<Longrightarrow> (luhn_term alt d - luhn_term alt e) mod 10 \<noteq> 0"
proof -
  have "d \<in> {0..9} \<Longrightarrow> e \<in> {0..9} \<Longrightarrow> d \<noteq> e \<Longrightarrow> (luhn_term alt d - luhn_term alt e) mod 10 \<noteq> 0"
    by (simp add: simp_from_to luhn_term_def) (elim disjE; simp)
  then show "0 \<le> d \<Longrightarrow> d \<le> 9 \<Longrightarrow> 0 \<le> e \<Longrightarrow> e \<le> 9 \<Longrightarrow> d \<noteq> e \<Longrightarrow> ?thesis" by simp
qed

text \<open>
  C36. The card check is the check-digit test of payment cards: a valid number with any one digit
  misread is not valid any more, so a one-digit error of the character recognition is never taken for a
  card.
\<close>

theorem luhn_single_digit:
  assumes "luhnValid ds" and "i < length ds" and "\<forall>d \<in> set ds. 0 \<le> d \<and> d \<le> 9"
    and "0 \<le> d" "d \<le> 9" "d \<noteq> ds ! i"
  shows "\<not> luhnValid (ds[i := d])"
proof -
  let ?j = "length ds - Suc i"
  have j: "?j < length (rev ds)" "rev ds ! ?j = ds ! i" "rev (ds[i := d]) = (rev ds)[?j := d]"
    using assms(2) by (simp_all add: rev_nth rev_update)
  have "0 \<le> ds ! i" "ds ! i \<le> 9" using assms(2,3) by auto
  then have "(luhn_term (odd ?j) d - luhn_term (odd ?j) (ds ! i)) mod 10 \<noteq> 0"
    using assms(4-6) by (intro luhn_term_inj) auto
  moreover have "luhn_loop (rev (ds[i := d])) 0 False =
      luhn_loop (rev ds) 0 False + (luhn_term (odd ?j) d - luhn_term (odd ?j) (ds ! i))"
    using luhn_loop_update [OF j(1), of d 0 False] by (simp add: j)
  ultimately show ?thesis
    using assms(1) by (auto simp: luhnValid_def mod_eq_0_iff_dvd dvd_add_right_iff split: if_splits)
qed

theorem luhn_single_digit_witness:
  "luhnValid (card_digits ''4111 1111 1111 1111'') \<and> \<not> luhnValid ((card_digits ''4111 1111 1111 1111'')[3 := 7])"
proof -
  have valid: "luhnValid (card_digits ''4111 1111 1111 1111'')" by code_simp
  have "length (card_digits ''4111 1111 1111 1111'') = 16" "(card_digits ''4111 1111 1111 1111'') ! 3 = 1"
    "\<forall>d \<in> set (card_digits ''4111 1111 1111 1111''). 0 \<le> d \<and> d \<le> 9" by code_simp+
  then show ?thesis using valid luhn_single_digit [OF valid, of 3 7] by simp
qed

section \<open>The results of a batch\<close>

lemma localHitScore_pos: "0 < localHitScore"
  by (simp add: localHitScore_def)

lemma evaluate_rules_eq:
  "evaluate_rules rules text cs (if cs = [] then 0 else localHitScore) =
     (cs @ map (\<lambda>r. \<lparr>ca_Name = fst r, ca_Probability = localHitScore\<rparr>) (filter (\<lambda>r. snd r text) rules),
      if cs = [] \<and> filter (\<lambda>r. snd r text) rules = [] then 0 else localHitScore)"
proof (induction rules arbitrary: cs)
  case (Cons r rules)
  obtain name fn where r: "r = (name, fn)" by (cases r)
  show ?case
    using Cons.IH [of "cs @ [\<lparr>ca_Name = name, ca_Probability = localHitScore\<rparr>]"] Cons.IH [of cs] localHitScore_pos
    by (auto simp: r)
qed simp

lemma evaluate_eq:
  "evaluate frameID text threshold =
     (let hits = filter (\<lambda>r. snd r text) local_rules; p = (if hits = [] then 0 else localHitScore)
      in \<lparr>ci_FrameID = frameID, ci_Confidential = p \<ge> threshold, ci_Probability = p,
          ci_Categories = map (\<lambda>r. \<lparr>ca_Name = fst r, ca_Probability = localHitScore\<rparr>) hits,
          ci_Status = ''success''\<rparr>)"
  using evaluate_rules_eq [of local_rules "text" "[]"] by (simp add: evaluate_def Let_def)


text \<open>
  The check of an assignment's value never decides: the name in front of it has already been found among
  the identifiers, so a setting that is merely switched on counts as a secret.
\<close>

lemma flag_counts_as_secret: "\<not> looksLikeSecretValue ''true'' \<and> hasSensitiveIdent ''key=true'' ''api_key''"
  by code_simp

end
