(* ===== verification/JevClient.thy ===== *)
theory JevClient
  imports LocalDetector
begin

text \<open>
  The detector that asks a model behind an HTTP gateway, \<open>internal/infrastructure/classify/client.go\<close>, and
  the choice between the two detectors, \<open>engine.go\<close>. The gateway is a parameter: what it answers to a
  request for a frame. The goroutines of a batch run here one after the other; with several errors the
  code returns whichever comes first in time, the model the first in order.
\<close>

section \<open>The client\<close>

record http_response =
  hr_Status :: int
  hr_ReadErr :: "go_error option"    \<comment> \<open>what reading the body gives\<close>
  hr_Body :: payload

type_synonym gateway = "nat \<Rightarrow> string \<Rightarrow> json \<Rightarrow> go_error + http_response"

record jev_client =
  jc_baseURL :: string
  jc_apiKey :: string
  jc_model :: string
  jc_concurrency :: int
  jc_timeout :: duration

definition TrimRightSlash :: "string \<Rightarrow> string" where
  "TrimRightSlash s = rev (dropWhile (\<lambda>c. c = CHR ''/'') (rev s))"

definition NewClient :: "string \<Rightarrow> string \<Rightarrow> string \<Rightarrow> duration \<Rightarrow> int \<Rightarrow> jev_client" where
  "NewClient baseURL apiKey model timeout concurrency =
     (let timeout = (if timeout \<le> 0 then 30 * 10 ^ 9 else timeout);
          concurrency = (if concurrency \<le> 0 then 4 else concurrency);
          model = (if model = '''' then ''typesafe-ai/jev'' else model);
          baseURL = (if baseURL = '''' then ''https://ai-gateway.vercel.sh'' else baseURL)
      in \<lparr>jc_baseURL = TrimRightSlash baseURL, jc_apiKey = TrimSpace apiKey, jc_model = model,
          jc_concurrency = concurrency, jc_timeout = timeout\<rparr>)"

text \<open>The questions and the category each stands for.\<close>

definition jevQuestions :: "(string \<times> string) list" where
  "jevQuestions =
    [(''has_email'', ''Does the on-screen text contain an email address?''),
     (''has_iban'', ''Does the text contain a bank IBAN or bank account number?''),
     (''has_api_key'', ''Does the text contain an API key, access token, client secret, or similar credential?''),
     (''has_password'', ''Does the text contain a password, passphrase, or login credential?''),
     (''has_credit_card'', ''Does the text contain a payment card number?''),
     (''has_phone'', ''Does the text contain a personal phone number?''),
     (''has_private_key'', ''Does the text contain a private cryptographic key or certificate?''),
     (''has_personal_id'', ''Does the text contain a national ID, social security number, or similar personal identifier?''),
     (''has_connection_string'', ''Does the text contain a database or service connection string (for example postgres://, mysql://, mongodb+srv, redis://, or a host with user and password)?''),
     (''has_jwt'', ''Does the text contain a JWT, session token, or session cookie value?''),
     (''has_wallet_secret'', ''Does the text contain a crypto wallet seed phrase, recovery phrase, or wallet private key?''),
     (''has_webhook_secret'', ''Does the text contain a webhook signing secret, HMAC secret, or similar callback credential?''),
     (''has_postal_address'', ''Does the text contain a postal or street address that identifies a person or household?''),
     (''has_person_name'', ''Does the text contain a person'' @ [CHR 0x27] @ ''s first and last name as personal identifying information, not a brand or product name?'')]"

definition categoryNames :: "(string \<times> string) list" where
  "categoryNames =
    [(''has_email'', ''email''), (''has_iban'', ''iban''), (''has_api_key'', ''api_key''),
     (''has_password'', ''password''), (''has_credit_card'', ''credit_card''), (''has_phone'', ''phone''),
     (''has_private_key'', ''private_key''), (''has_personal_id'', ''personal_id''),
     (''has_connection_string'', ''connection_string''), (''has_jwt'', ''jwt''),
     (''has_wallet_secret'', ''wallet_secret''), (''has_webhook_secret'', ''webhook_secret''),
     (''has_postal_address'', ''postal_address''), (''has_person_name'', ''person_name'')]"

definition evaluateRequest :: "jev_client \<Rightarrow> string \<Rightarrow> json" where
  "evaluateRequest c text = JObj
     (enc ''model'' (JStr (jc_model c)) @
      enc ''state'' (JObj (enc ''source'' (JStr ''ocr_frame'') @ enc ''text'' (JStr text))) @
      enc ''questions'' (JObj (map (\<lambda>(k, q). (k, JObj (enc ''type'' (JStr ''boolean'') @ enc ''instructions'' (JStr q))))
        jevQuestions)))"

section \<open>The answers\<close>

record jevAnswer =
  an_Type :: string
  an_Probability :: real
  an_Noul :: real

definition dec_jevAnswer :: "json \<Rightarrow> jevAnswer option" where
  "dec_jevAnswer j = do {
     ms \<leftarrow> members_of j;
     t \<leftarrow> dec_field dec_str '''' ''type'' ms;
     p \<leftarrow> dec_field dec_float 0 ''probability'' ms;
     n \<leftarrow> dec_field dec_float 0 ''noul'' ms;
     Some \<lparr>an_Type = t, an_Probability = p, an_Noul = n\<rparr> }"

text \<open>Members of a JSON object read into a Go map: a later member replaces an earlier one of the same key.\<close>

fun dec_answers :: "(string \<rightharpoonup> jevAnswer) \<Rightarrow> json \<Rightarrow> (string \<rightharpoonup> jevAnswer) option" where
  "dec_answers old JNull = Some Map.empty"
| "dec_answers old (JObj []) = Some old"
| "dec_answers old (JObj ((k, j) # ms)) =
     (case dec_jevAnswer j of None \<Rightarrow> None | Some a \<Rightarrow> dec_answers (old(k \<mapsto> a)) (JObj ms))"
| "dec_answers old _ = None"

definition Unmarshal_evaluateResponse :: "payload \<Rightarrow> (string \<rightharpoonup> jevAnswer) option" where
  "Unmarshal_evaluateResponse p = do {
     ms \<leftarrow> payload_members p;
     dec_field dec_answers Map.empty ''answers'' ms }"

definition answer_score :: "jevAnswer \<Rightarrow> real" where
  "answer_score answer =
     (let score = an_Probability answer in if score = 0 \<and> an_Noul answer > 0 then an_Noul answer else score)"

text \<open>The loop over \<open>categoryNames\<close>; Go leaves the order of a map open, here it is that of the source.\<close>

fun score_loop ::
  "(string \<times> string) list \<Rightarrow> (string \<rightharpoonup> jevAnswer) \<Rightarrow> category list \<Rightarrow> real \<Rightarrow> category list \<times> real" where
  "score_loop [] answers categories probability = (categories, probability)"
| "score_loop ((key, name) # names) answers categories probability =
     (case answers key of
        None \<Rightarrow> score_loop names answers categories probability
      | Some answer \<Rightarrow>
          let score = answer_score answer
          in score_loop names answers (categories @ [\<lparr>ca_Name = name, ca_Probability = score\<rparr>])
               (if score > probability then score else probability))"

definition failed_item :: "string \<Rightarrow> ClassifyItemResult" where
  "failed_item frameID = \<lparr>ci_FrameID = frameID, ci_Confidential = False, ci_Probability = 0, ci_Categories = [],
     ci_Status = ''failed''\<rparr>"

definition evaluateFrame ::
  "gateway \<Rightarrow> jev_client \<Rightarrow> ClassifyFrame \<Rightarrow> real \<Rightarrow> (world, go_error + ClassifyItemResult) state" where
  "evaluateFrame http c frame threshold =
     on_err (svc (\<lambda>n. http n (jc_baseURL c @ ''/v1/evaluate'') (evaluateRequest c (cf_Text frame))))
       (\<lambda>e. ret (Inl e))
       (\<lambda>resp. case hr_ReadErr resp of
          Some e \<Rightarrow> ret (Inl e)
        | None \<Rightarrow>
            if hr_Status resp = 429 \<or> hr_Status resp \<ge> 500
            then ret (Inl (ErrorText ''jev gateway returned an error status''))
            else if hr_Status resp < 200 \<or> hr_Status resp \<ge> 300
            then ret (Inr (failed_item (cf_FrameID frame)))
            else case Unmarshal_evaluateResponse (hr_Body resp) of
              None \<Rightarrow> ret (Inr (failed_item (cf_FrameID frame)))
            | Some answers \<Rightarrow>
                let (categories, probability) = score_loop categoryNames answers [] 0
                in ret (Inr \<lparr>ci_FrameID = cf_FrameID frame, ci_Confidential = probability \<ge> threshold,
                     ci_Probability = probability, ci_Categories = categories, ci_Status = ''success''\<rparr>))"

text \<open>The item a failed goroutine leaves in its place, never seen by a caller.\<close>

definition zero_item :: ClassifyItemResult where
  "zero_item = \<lparr>ci_FrameID = '''', ci_Confidential = False, ci_Probability = 0, ci_Categories = [], ci_Status = ''''\<rparr>"

definition keep_first :: "go_error option \<Rightarrow> go_error \<Rightarrow> go_error option" where
  "keep_first firstErr e = (case firstErr of None \<Rightarrow> Some e | Some e0 \<Rightarrow> Some e0)"

fun jev_frames ::
  "services \<Rightarrow> gateway \<Rightarrow> jev_client \<Rightarrow> real \<Rightarrow> ClassifyFrame list \<Rightarrow> ClassifyItemResult list \<Rightarrow> go_error option
     \<Rightarrow> (world, ClassifyItemResult list \<times> go_error option) state" where
  "jev_frames S http c threshold [] out firstErr = ret (out, firstErr)"
| "jev_frames S http c threshold (frame # frames) out firstErr =
     (if TrimSpace (cf_Text frame) = ''''
      then jev_frames S http c threshold frames (out @ [skipped_item (cf_FrameID frame)]) firstErr
      else do {
        done \<leftarrow> svc (\<lambda>n. sv_ctx S n);
        case done of
          Some e \<Rightarrow> jev_frames S http c threshold frames (out @ [zero_item]) (keep_first firstErr e)
        | None \<Rightarrow> on_err (evaluateFrame http c frame threshold)
            (\<lambda>e. jev_frames S http c threshold frames (out @ [zero_item]) (keep_first firstErr e))
            (\<lambda>item. jev_frames S http c threshold frames (out @ [item]) firstErr) })"

definition jev_Classify ::
  "services \<Rightarrow> gateway \<Rightarrow> jev_client \<Rightarrow> ClassifyFrame list \<Rightarrow> real \<Rightarrow> (world, go_error + ClassifyItemResult list) state" where
  "jev_Classify S http c frames threshold0 =
     (if jc_apiKey c = '''' then ret (Inl (ErrorText ''AI_GATEWAY_API_KEY is not configured''))
      else do {
        let threshold = (if threshold0 \<le> 0 then 7 / 10 else threshold0);
        (out, firstErr) \<leftarrow> jev_frames S http c threshold frames [] None;
        case firstErr of Some e \<Rightarrow> ret (Inl e) | None \<Rightarrow> ret (Inr out) })"

section \<open>Which detector\<close>

definition NewClassifier ::
  "services \<Rightarrow> gateway \<Rightarrow> string \<Rightarrow> string \<Rightarrow> string \<Rightarrow> string \<Rightarrow> duration \<Rightarrow> int
     \<Rightarrow> ClassifyFrame list \<Rightarrow> real \<Rightarrow> (world, go_error + ClassifyItemResult list) state" where
  "NewClassifier S http engine baseURL apiKey model timeout concurrency =
     (if ToLower (TrimSpace engine) \<in> {''local'', ''rules'', ''regex''}
      then (\<lambda>frames threshold. ret (local_Classify frames threshold))
      else jev_Classify S http (NewClient baseURL apiKey model timeout concurrency))"

section \<open>What a batch gives\<close>

definition scored :: "(string \<times> string) list \<Rightarrow> (string \<rightharpoonup> jevAnswer) \<Rightarrow> category list" where
  "scored names answers = List.map_filter
     (\<lambda>(k, name). map_option (\<lambda>a. \<lparr>ca_Name = name, ca_Probability = answer_score a\<rparr>) (answers k)) names"

lemma score_loop_eq:
  "score_loop names answers cs p = (cs @ scored names answers, fold max (map ca_Probability (scored names answers)) p)"
  by (induction names answers cs p rule: score_loop.induct)
    (auto simp: scored_def map_filter_simps max_def Let_def split: option.splits)

lemma fold_max_ge: "(t :: real) \<le> fold max xs p \<longleftrightarrow> t \<le> p \<or> (\<exists>x \<in> set xs. t \<le> x)"
  by (induction xs arbitrary: p) (auto simp: le_max_iff_disj)

text \<open>An item is about its frame; it is confidential exactly when a category reaches the threshold.\<close>

definition item_for :: "real \<Rightarrow> ClassifyFrame \<Rightarrow> ClassifyItemResult \<Rightarrow> bool" where
  "item_for threshold f r \<longleftrightarrow>
     ci_FrameID r = cf_FrameID f \<and>
     ci_Status r \<in> (if TrimSpace (cf_Text f) = '''' then {''skipped''} else {''success'', ''failed''}) \<and>
     (ci_Confidential r \<longleftrightarrow> (\<exists>c \<in> set (ci_Categories r). threshold \<le> ca_Probability c))"

lemma evaluateFrame_item:
  assumes "0 < threshold" "TrimSpace (cf_Text f) \<noteq> ''''"
  shows "wp (evaluateFrame http c f threshold) (\<lambda>r w'. \<forall>i. r = Inr i \<longrightarrow> item_for threshold f i) w"
  using assms
  by (auto simp: evaluateFrame_def wp_simps item_for_def failed_item_def score_loop_eq fold_max_ge Let_def
      split: sum.splits option.splits)

lemma jev_frames_items:
  assumes "0 < threshold" "firstErr = None \<longrightarrow> list_all2 (item_for threshold) before out"
  shows "wp (jev_frames S http c threshold frames out firstErr)
    (\<lambda>(rs, err) w'. err = None \<longrightarrow> list_all2 (item_for threshold) (before @ frames) rs) w"
  using assms(2)
proof (induction frames arbitrary: out firstErr before w)
  case (Cons f frames out firstErr before w)
  have skip: "TrimSpace (cf_Text f) = '''' \<Longrightarrow> item_for threshold f (skipped_item (cf_FrameID f))"
    by (simp add: item_for_def skipped_item_def)
  show ?case
  proof (cases "TrimSpace (cf_Text f) = ''''")
    case True
    then show ?thesis
      using Cons.IH [of firstErr "before @ [f]" "out @ [skipped_item (cf_FrameID f)]" w] Cons.prems skip
      by (auto simp: list_all2_appendI)
  next
    case False
    have lost: "wp (jev_frames S http c threshold frames (out @ [zero_item]) (keep_first firstErr e))
        (\<lambda>(rs, err) w'. err = None \<longrightarrow> list_all2 (item_for threshold) (before @ f # frames) rs) w" for e w
      using Cons.IH [of "keep_first firstErr e" "before @ [f]" "out @ [zero_item]" w]
      by (auto simp: keep_first_def split: option.splits)
    have kept: "wp (jev_frames S http c threshold frames (out @ [i]) firstErr)
        (\<lambda>(rs, err) w'. err = None \<longrightarrow> list_all2 (item_for threshold) (before @ f # frames) rs) w"
      if "item_for threshold f i" for i w
      using Cons.IH [of firstErr "before @ [f]" "out @ [i]" w] Cons.prems that by (auto simp: list_all2_appendI)
    show ?thesis
      using False
      by (auto simp: wp_simps lost split: option.splits sum.splits
          intro!: wp_mono [OF evaluateFrame_item [OF assms(1) False]] kept)
  qed
qed (simp add: wp_simps)


definition sample_gateway :: gateway where
  "sample_gateway n url body = Inr \<lparr>hr_Status = 200, hr_ReadErr = None,
     hr_Body = Wellformed (JObj [(''answers'', JObj [(''has_iban'', JObj [(''probability'', JFloat (9 / 10))])])])\<rparr>"


end
