(* ===== verification/System.thy ===== *)
theory System
  imports Workers Uploads
begin

text \<open>
  The invariant of the database through the shared machinery of the workers: the deduplication, the
  registry, the consumer, every registered handler, and a tick of the relay.
\<close>

section \<open>The invariant through the deduplication, the registry and the consumer\<close>

abbreviation keeps :: "(uuid \<rightharpoonup> video) \<Rightarrow> services \<Rightarrow> (world, 'a) state \<Rightarrow> bool" where
  "keeps H S m \<equiv> holds (db_after H (sv_uuid S)) (\<lambda>_. True) m"

lemma db_after_processed [simp]: "db_after H U (d\<lparr>t_processed := p\<rparr>) = db_after H U d"
  by (simp add: db_after_def db_ok_def)

lemma keeps_MarkProcessed: "keeps H S (MarkProcessed S' e n)"
  unfolding MarkProcessed_def Let_def
  by (rule holds_case_option holds_bind [OF holds_rt_True] holds_bind [OF holds_db_exec] holds_if holds_ret TrueI
      | force simp: or_violation_def split: option.splits)+

lemma keeps_UnmarkProcessed: "keeps H S (UnmarkProcessed S' e n)"
  unfolding UnmarkProcessed_def by (rule holds_case_option holds_db_exec holds_ret TrueI | force)+

lemma keeps_dedup:
  assumes "\<And>c p. keeps H S (h c p)"
  shows "keeps H S (dedup_With (MarkProcessed S') (Some (UnmarkProcessed S')) name h c p)"
  unfolding dedup_With_def dedup_run_def option.case
  by (rule holds_bind [where Q = "\<lambda>_. True"] holds_case_option holds_if holds_on_err [OF keeps_MarkProcessed]
      holds_bind [OF assms] holds_bind [OF keeps_UnmarkProcessed] holds_ret TrueI)+

lemma keeps_dispatch_loop:
  "(\<And>h c p. h \<in> set hs \<Longrightarrow> keeps H S (h c p)) \<Longrightarrow> keeps H S (dispatch_loop t c p hs)"
  by (induction hs) (auto intro!: holds_ret holds_if_err [where Q = "\<lambda>_. True"])

definition registry_keeps :: "(uuid \<rightharpoonup> video) \<Rightarrow> services \<Rightarrow> world registry \<Rightarrow> bool" where
  "registry_keeps H S reg \<longleftrightarrow> (\<forall>t. \<forall>h \<in> set (reg t). \<forall>c p. keeps H S (h c p))"

lemma keeps_handleDelivery:
  assumes "registry_keeps H S (co_registry co)" "\<And>d why. keeps H S (co_publishDLQ co d why)"
  shows "keeps H S (handleDelivery co c m)"
proof -
  have disp: "keeps H S (Dispatch (co_registry co) c' t p)" for c' t p
    using assms(1) by (simp add: Dispatch_def registry_keeps_def keeps_dispatch_loop)
  have dead: "keeps H S (sendToDLQ co m why)" for why
    unfolding sendToDLQ_def by (rule holds_if_err [OF assms(2)] holds_ret TrueI)+
  show ?thesis
    unfolding handleDelivery_def Let_def
    by (rule holds_bind [OF dead] holds_bind [OF disp] holds_case_option holds_case_prod holds_if holds_ret TrueI)+
qed

section \<open>The invariant through the handlers of events\<close>

lemma keeps_with_event: "(\<And>e. evt = Some e \<Longrightarrow> keeps H S (k e)) \<Longrightarrow> keeps H S (with_event evt k)"
  by (auto simp: with_event_def intro: holds_ret split: option.splits)

lemma keeps_with_uuid: "(\<And>i. keeps H S (k i)) \<Longrightarrow> keeps H S (with_uuid S raw k)"
  by (auto simp: with_uuid_def intro: holds_ret split: option.splits)

lemma keeps_ToUser: "keeps H S (ToUser S e a u j)"
  by (rule holds_weaken [OF holds_ToUser]) simp

lemma keeps_publishToOwner: "keeps H S (publishToOwner S e a u j)"
  by (auto simp: publishToOwner_def intro: holds_ret keeps_ToUser)

lemma keeps_user_handlers:
  "keeps H S (UserCreatedHandler c p)" "keeps H S (UserUpdatedHandler c p)" "keeps H S (UserDeletedHandler c p)"
  "keeps H S (NotifyUserOnCreatedHandler c p)" "keeps H S (user_OnCreated S c p)" "keeps H S (user_OnUpdated S c p)"
  "keeps H S (user_OnDeleted S c p)"
  unfolding UserCreatedHandler_def UserUpdatedHandler_def UserDeletedHandler_def NotifyUserOnCreatedHandler_def
    user_OnCreated_def user_OnUpdated_def user_OnDeleted_def notifier_Send_def Let_def
  by (rule keeps_with_event keeps_ToUser holds_if_err [OF holds_ret [where R = "\<lambda>_. True"]] holds_ret TrueI)+

lemma keeps_realtime_handlers:
  "keeps H S (OnCreated S c p)" "keeps H S (OnUploaded S c p)" "keeps H S (OnExtracting S c p)"
  "keeps H S (OnFramesExtracted S c p)" "keeps H S (OnExtractionFailed S c p)" "keeps H S (OnOCRProcessing S c p)"
  "keeps H S (OnOCRCompleted S c p)" "keeps H S (OnClassifying S c p)" "keeps H S (OnClassified S c p)"
  "keeps H S (OnClassifyFailed S c p)" "keeps H S (OnOCRFailed S c p)"
  unfolding OnCreated_def OnUploaded_def OnExtracting_def OnFramesExtracted_def OnExtractionFailed_def
    OnOCRProcessing_def OnOCRCompleted_def OnClassifying_def OnClassified_def OnClassifyFailed_def OnOCRFailed_def
  by (rule holds_case_sum keeps_publishToOwner holds_ret TrueI)+

lemma keeps_command_handlers:
  "keeps H S (IngestRemoteOnRequested S m c p)" "keeps H S (SegmentVideoOnUploaded S c p)"
  "keeps H S (ExtractFramesOnSegmentReady S w c p)" "keeps H S (PersistOCRFrameHandler S mc c p)"
  "keeps H S (ClassifyFrameRequestedHandler S th c p)" "keeps H S (ClassifyFramesOnOCRCompleted S c p)"
  unfolding IngestRemoteOnRequested_def SegmentVideoOnUploaded_def ExtractFramesOnSegmentReady_def
    PersistOCRFrameHandler_def ClassifyFrameRequestedHandler_def ClassifyFramesOnOCRCompleted_def
  by (rule keeps_with_event keeps_with_uuid IngestRemote_ok SegmentVideo_ok ExtractFrames_ok PersistFrame_ok
      HandleFrame_ok Finalize_ok refl)+

lemma registry_keeps_Register:
  "registry_keeps H S reg \<Longrightarrow> (\<And>c p. keeps H S (h c p)) \<Longrightarrow> registry_keeps H S (Register t h reg)"
  by (auto simp: registry_keeps_def Register_def)

lemma registry_keeps_all:
  "registry_keeps H S reg \<Longrightarrow> (\<And>t n h c p. (t, n, h) \<in> set rs \<Longrightarrow> keeps H S (h c p)) \<Longrightarrow>
     registry_keeps H S (register_all S rs reg)"
proof (induction rs arbitrary: reg)
  case (Cons r rs)
  obtain t n h where r: "r = (t, n, h)" by (cases r)
  have h: "keeps H S (h c p)" for c p
    by (rule Cons.prems(2) [of t n]) (simp add: r)
  have rs: "keeps H S (h c p)" if "(t, n, h) \<in> set rs" for t n h c p
    by (rule Cons.prems(2) [of t n]) (simp add: that)
  show ?case
    unfolding r register_all.simps
    by (rule Cons.IH [OF registry_keeps_Register [OF Cons.prems(1) keeps_dedup]]) (fact h, fact rs)
qed simp

lemma keeps_worker_handlers: "(t, n, h) \<in> set (handlers_of S env k) \<Longrightarrow> keeps H S (h c p)"
  by (cases k) (auto simp: main_handlers_def segment_handlers_def frame_handlers_def classify_handlers_def
      keeps_user_handlers keeps_realtime_handlers keeps_command_handlers)

lemma keeps_worker: "keeps H S (handleDelivery (worker_consumer S env dlq k) c m)"
proof (rule keeps_handleDelivery)
  have "registry_keeps H S empty_registry" by (simp add: registry_keeps_def empty_registry_def)
  then show "registry_keeps H S (co_registry (worker_consumer S env dlq k))"
    unfolding worker_consumer_def NewConsumer_def consumer.simps
    by (rule registry_keeps_all) (rule keeps_worker_handlers)
  show "keeps H S (co_publishDLQ (worker_consumer S env dlq k) d why)" for d why
    by (simp add: worker_consumer_def NewConsumer_def publish_dead_letter_def holds_svc)
qed

section \<open>The relay\<close>

lemma keeps_publish_loop: "keeps H S (publish_loop (relay_publish S') msgs ids)"
  by (induction msgs arbitrary: ids)
    (auto simp: relay_publish_def broker_Publish_def
      intro!: holds_ret holds_if_err [where Q = "\<lambda>_. True"] holds_bind [OF holds_svc] holds_case_option
        holds_bind [OF holds_note_effect])

lemma keeps_MarkPublished: "keeps H S (MarkPublished ids)"
proof -
  have "db_after H U (d\<lparr>t_outbox := map (\<lambda>r. if ob_ID r \<in> set ids then r\<lparr>ob_PublishedAt := t\<rparr> else r) (t_outbox d)\<rparr>)"
    if "db_after H U d" for U d t
  proof -
    have "ob_ID \<circ> (\<lambda>r :: outbox_row. if ob_ID r \<in> set ids then r\<lparr>ob_PublishedAt := t\<rparr> else r) = ob_ID"
      by (rule ext) simp
    then show ?thesis using that by (auto simp: db_after_def db_ok_def outbox_row_ok_def)
  qed
  then show ?thesis
    unfolding MarkPublished_def
    by (intro holds_if holds_ret TrueI holds_bind [OF holds_rt_True] holds_db_exec) auto
qed

definition relay_tick :: "services \<Rightarrow> int \<Rightarrow> (world, go_error option) state" where
  "relay_tick S batchSize =
     publishBatch FetchUnpublished MarkPublished (relay_publish S) (relay_batch_size batchSize)"

lemma keeps_relay_tick: "keeps H S (relay_tick S' n)"
  unfolding relay_tick_def publishBatch_def FetchUnpublished_def
  by (rule holds_on_err [OF holds_db_query [where R = "\<lambda>_. True"]] holds_if holds_bind [OF keeps_publish_loop]
      keeps_MarkPublished holds_ret TrueI)+

section \<open>The videos there are\<close>

definition video_history :: "db \<Rightarrow> (uuid \<rightharpoonup> video)" where
  "video_history d i = tbl_find (\<lambda>v. v_ID v = i) (t_videos d)"

lemma video_history_row:
  assumes "db_ok U d" "v \<in> set (t_videos d)"
  shows "video_history d (v_ID v) = Some v"
proof -
  have "tbl_find (\<lambda>u. v_ID u = v_ID v) (t_videos d) \<noteq> None"
    using assms(2) by (auto simp: tbl_find_def find_None_iff)
  then obtain u where u: "tbl_find (\<lambda>u. v_ID u = v_ID v) (t_videos d) = Some u" by blast
  then have "u = v"
    using assms tbl_find_Some [OF u] by (auto simp: db_ok_def videos_ok_def distinct_map dest: inj_onD)
  then show ?thesis using u by (simp add: video_history_def)
qed

lemma video_history_start:
  assumes "db_ok U d"
  shows "db_after (video_history d) U d"
proof -
  have "grown (video_history d) v" if "v \<in> set (t_videos d)" for v
    using video_history_row [OF assms that] by (simp add: grown_def evolved_def)
  moreover have "dom (video_history d) \<subseteq> v_ID ` set (t_videos d)"
    by (auto simp: video_history_def dest!: tbl_find_Some)
  ultimately show ?thesis using assms by (simp add: db_after_def videos_after_def db_ok_def)
qed

lemma video_history_evolved:
  assumes "db_ok U d" "db_after (video_history d) U d'" "v \<in> set (t_videos d)"
  shows "\<exists>v' \<in> set (t_videos d'). v_ID v' = v_ID v \<and> evolved v v'"
proof -
  have row: "video_history d (v_ID v) = Some v" by (rule video_history_row [OF assms(1,3)])
  then have "v_ID v \<in> v_ID ` set (t_videos d')" "\<forall>v \<in> set (t_videos d'). grown (video_history d) v"
    using assms(2) by (auto simp: db_after_def videos_after_def)
  then show ?thesis using row by (fastforce simp: grown_def)
qed

end
