(* ===== verification/ReadModel.thy ===== *)
theory ReadModel
  imports Paginate System
begin

text \<open>
  The reading side: \<open>internal/infrastructure/persistence/read\<close>, the queries of \<open>internal/application/query\<close>
  and what \<open>internal/interfaces/http/presenter\<close> makes of a video. Each query is its SQL statement on the
  modelled tables; a \<open>LEFT JOIN\<close> on jobs gives one row, as a video has one job of a type. The JSON columns
  are the values they decode to.
\<close>

section \<open>The rows and views of a video\<close>

record videoViewRow =
  vv_ID :: uuid
  vv_OriginalFilename :: string
  vv_StorageKey :: string
  vv_ThumbnailKey :: string
  vv_SizeBytes :: int
  vv_ContentType :: string
  vv_Status :: string
  vv_CreatedAt :: time
  vv_UpdatedAt :: time
  vv_FinishedAt :: "time option"
  vv_SegmentJobID :: "uuid option"
  vv_SegmentJobStatus :: string
  vv_SegmentFailureReason :: string
  vv_SegmentCreatedAt :: time
  vv_SegmentStartedAt :: "time option"
  vv_SegmentFinishedAt :: "time option"
  vv_ExpectedSegmentCount :: int
  vv_CompletedSegmentCount :: int
  vv_ExtractJobID :: "uuid option"
  vv_ExtractJobStatus :: string
  vv_ExtractFailureReason :: string
  vv_ExtractCreatedAt :: time
  vv_ExtractStartedAt :: "time option"
  vv_ExtractFinishedAt :: "time option"
  vv_OCRJobID :: "uuid option"
  vv_OCRJobStatus :: string
  vv_OCRFailureReason :: string
  vv_OCRCreatedAt :: time
  vv_OCRStartedAt :: "time option"
  vv_OCRFinishedAt :: "time option"
  vv_ClassifyJobID :: "uuid option"
  vv_ClassifyJobStatus :: string
  vv_ClassifyFailureReason :: string
  vv_ClassifyCreatedAt :: time
  vv_ClassifyStartedAt :: "time option"
  vv_ClassifyFinishedAt :: "time option"
  vv_FrameCount :: int
  vv_ExpectedFrameCount :: int
  vv_OCRCompletedCount :: int

record JobView =
  jv_ID :: uuid
  jv_Type :: string
  jv_Status :: string
  jv_FrameCount :: int
  jv_ExpectedFrameCount :: int
  jv_OCRCompletedCount :: int
  jv_ExpectedSegmentCount :: int
  jv_CompletedSegmentCount :: int
  jv_FailureReason :: string
  jv_CreatedAt :: time
  jv_StartedAt :: "time option"
  jv_FinishedAt :: "time option"

record ClassificationView =
  cv_ID :: uuid
  cv_Confidential :: bool
  cv_Probability :: real
  cv_Categories :: "category list"
  cv_Status :: string
  cv_ErrorReason :: string

record VideoFrameDetailView =
  fv_ID :: uuid
  fv_Index :: int
  fv_TimestampMs :: int
  fv_StorageKey :: string
  fv_ImageURL :: string
  fv_SelectionReason :: string
  fv_PHashDistance :: int
  fv_Retained :: bool
  fv_PruneReason :: string
  fv_OCRText :: string
  fv_OCRStatus :: string
  fv_OCRConfidence :: real
  fv_OCRErrorReason :: string
  fv_OCRLines :: "ocr_line list"
  fv_Classification :: "ClassificationView option"

record VideoView =
  vw_ID :: uuid
  vw_OriginalFilename :: string
  vw_StorageKey :: string
  vw_ThumbnailKey :: string
  vw_ThumbnailURL :: string
  vw_VideoURL :: string
  vw_SizeBytes :: int
  vw_ContentType :: string
  vw_Status :: string
  vw_CreatedAt :: time
  vw_UpdatedAt :: time
  vw_FinishedAt :: "time option"
  vw_JobID :: "uuid option"
  vw_JobStatus :: string
  vw_FrameCount :: int
  vw_ExpectedFrameCount :: int
  vw_OCRCompletedCount :: int
  vw_FailureReason :: string
  vw_Jobs :: "JobView list"
  vw_Frames :: "VideoFrameDetailView list"

section \<open>One video\<close>

text \<open>The joined row of a video; a column of a job that does not exist scans to the zero value.\<close>

definition job_of :: "db \<Rightarrow> uuid \<Rightarrow> string \<Rightarrow> job option" where
  "job_of d videoID type = tbl_find (\<lambda>j. j_VideoID j = videoID \<and> j_Type j = type) (t_jobs d)"

definition job_column :: "'a \<Rightarrow> (job \<Rightarrow> 'a) \<Rightarrow> job option \<Rightarrow> 'a" where
  "job_column zero f j = (case j of None \<Rightarrow> zero | Some j \<Rightarrow> f j)"

definition video_row :: "db \<Rightarrow> video \<Rightarrow> videoViewRow" where
  "video_row d v =
     (let seg = job_of d (v_ID v) TypeSegment; ext = job_of d (v_ID v) TypeFrame;
          ocr = job_of d (v_ID v) TypeOCR; cls = job_of d (v_ID v) TypeClassify
      in \<lparr>vv_ID = v_ID v, vv_OriginalFilename = v_OriginalFilename v, vv_StorageKey = v_StorageKey v,
          vv_ThumbnailKey = v_ThumbnailKey v, vv_SizeBytes = v_SizeBytes v, vv_ContentType = v_ContentType v,
          vv_Status = v_Status v, vv_CreatedAt = v_CreatedAt v, vv_UpdatedAt = v_UpdatedAt v,
          vv_FinishedAt = v_FinishedAt v,
          vv_SegmentJobID = map_option j_ID seg, vv_SegmentJobStatus = job_column '''' j_Status seg,
          vv_SegmentFailureReason = job_column '''' j_FailureReason seg,
          vv_SegmentCreatedAt = job_column zero_time j_CreatedAt seg,
          vv_SegmentStartedAt = job_column None j_StartedAt seg,
          vv_SegmentFinishedAt = job_column None j_FinishedAt seg,
          vv_ExpectedSegmentCount = job_column (job_column 0 j_ExpectedSegmentCount ext) j_ExpectedSegmentCount seg,
          vv_CompletedSegmentCount = job_column 0 j_CompletedSegmentCount ext,
          vv_ExtractJobID = map_option j_ID ext, vv_ExtractJobStatus = job_column '''' j_Status ext,
          vv_ExtractFailureReason = job_column '''' j_FailureReason ext,
          vv_ExtractCreatedAt = job_column zero_time j_CreatedAt ext,
          vv_ExtractStartedAt = job_column None j_StartedAt ext,
          vv_ExtractFinishedAt = job_column None j_FinishedAt ext,
          vv_OCRJobID = map_option j_ID ocr, vv_OCRJobStatus = job_column '''' j_Status ocr,
          vv_OCRFailureReason = job_column '''' j_FailureReason ocr,
          vv_OCRCreatedAt = job_column zero_time j_CreatedAt ocr,
          vv_OCRStartedAt = job_column None j_StartedAt ocr, vv_OCRFinishedAt = job_column None j_FinishedAt ocr,
          vv_ClassifyJobID = map_option j_ID cls, vv_ClassifyJobStatus = job_column '''' j_Status cls,
          vv_ClassifyFailureReason = job_column '''' j_FailureReason cls,
          vv_ClassifyCreatedAt = job_column zero_time j_CreatedAt cls,
          vv_ClassifyStartedAt = job_column None j_StartedAt cls,
          vv_ClassifyFinishedAt = job_column None j_FinishedAt cls,
          vv_FrameCount = int (length (filter (\<lambda>f. f_VideoID f = v_ID v) (t_frames d))),
          vv_ExpectedFrameCount = job_column 0 j_ExpectedFrameCount ocr,
          vv_OCRCompletedCount = job_column 0 j_OCRCompletedCount ocr\<rparr>)"

definition jobs_from_row :: "videoViewRow \<Rightarrow> JobView list" where
  "jobs_from_row row =
     (case vv_SegmentJobID row of None \<Rightarrow> [] | Some i \<Rightarrow>
        [\<lparr>jv_ID = i, jv_Type = TypeSegment, jv_Status = vv_SegmentJobStatus row, jv_FrameCount = 0,
          jv_ExpectedFrameCount = 0, jv_OCRCompletedCount = 0, jv_ExpectedSegmentCount = vv_ExpectedSegmentCount row,
          jv_CompletedSegmentCount = 0, jv_FailureReason = vv_SegmentFailureReason row,
          jv_CreatedAt = vv_SegmentCreatedAt row, jv_StartedAt = vv_SegmentStartedAt row,
          jv_FinishedAt = vv_SegmentFinishedAt row\<rparr>]) @
     (case vv_ExtractJobID row of None \<Rightarrow> [] | Some i \<Rightarrow>
        [\<lparr>jv_ID = i, jv_Type = TypeFrame, jv_Status = vv_ExtractJobStatus row, jv_FrameCount = vv_FrameCount row,
          jv_ExpectedFrameCount = 0, jv_OCRCompletedCount = 0, jv_ExpectedSegmentCount = vv_ExpectedSegmentCount row,
          jv_CompletedSegmentCount = vv_CompletedSegmentCount row, jv_FailureReason = vv_ExtractFailureReason row,
          jv_CreatedAt = vv_ExtractCreatedAt row, jv_StartedAt = vv_ExtractStartedAt row,
          jv_FinishedAt = vv_ExtractFinishedAt row\<rparr>]) @
     (case vv_OCRJobID row of None \<Rightarrow> [] | Some i \<Rightarrow>
        [\<lparr>jv_ID = i, jv_Type = TypeOCR, jv_Status = vv_OCRJobStatus row, jv_FrameCount = 0,
          jv_ExpectedFrameCount = vv_ExpectedFrameCount row, jv_OCRCompletedCount = vv_OCRCompletedCount row,
          jv_ExpectedSegmentCount = 0, jv_CompletedSegmentCount = 0, jv_FailureReason = vv_OCRFailureReason row,
          jv_CreatedAt = vv_OCRCreatedAt row, jv_StartedAt = vv_OCRStartedAt row,
          jv_FinishedAt = vv_OCRFinishedAt row\<rparr>]) @
     (case vv_ClassifyJobID row of None \<Rightarrow> [] | Some i \<Rightarrow>
        [\<lparr>jv_ID = i, jv_Type = TypeClassify, jv_Status = vv_ClassifyJobStatus row, jv_FrameCount = 0,
          jv_ExpectedFrameCount = 0, jv_OCRCompletedCount = 0, jv_ExpectedSegmentCount = 0,
          jv_CompletedSegmentCount = 0, jv_FailureReason = vv_ClassifyFailureReason row,
          jv_CreatedAt = vv_ClassifyCreatedAt row, jv_StartedAt = vv_ClassifyStartedAt row,
          jv_FinishedAt = vv_ClassifyFinishedAt row\<rparr>])"

definition current_job :: "videoViewRow \<Rightarrow> uuid option \<times> string \<times> string" where
  "current_job row =
     (let segment = (vv_SegmentJobID row, vv_SegmentJobStatus row, vv_SegmentFailureReason row);
          extract = (vv_ExtractJobID row, vv_ExtractJobStatus row, vv_ExtractFailureReason row);
          ocr = (vv_OCRJobID row, vv_OCRJobStatus row, vv_OCRFailureReason row);
          classify = (vv_ClassifyJobID row, vv_ClassifyJobStatus row, vv_ClassifyFailureReason row)
      in if vv_SegmentJobID row \<noteq> None \<and> vv_SegmentJobStatus row \<noteq> JobSuccess then segment
         else if vv_ExtractJobID row \<noteq> None \<and> vv_ExtractJobStatus row \<noteq> JobSuccess then extract
         else if vv_OCRJobID row \<noteq> None \<and> vv_OCRJobStatus row \<noteq> JobSuccess then ocr
         else if vv_ClassifyJobID row \<noteq> None then classify
         else if vv_OCRJobID row \<noteq> None then ocr
         else if vv_ExtractJobID row \<noteq> None then extract
         else segment)"

definition videoViewFromRow :: "videoViewRow \<Rightarrow> VideoView" where
  "videoViewFromRow row =
     (let jobs = jobs_from_row row; (currentID, currentStatus, failureReason) = current_job row
      in \<lparr>vw_ID = vv_ID row, vw_OriginalFilename = vv_OriginalFilename row, vw_StorageKey = vv_StorageKey row,
          vw_ThumbnailKey = vv_ThumbnailKey row, vw_ThumbnailURL = '''', vw_VideoURL = '''',
          vw_SizeBytes = vv_SizeBytes row, vw_ContentType = vv_ContentType row, vw_Status = vv_Status row,
          vw_CreatedAt = vv_CreatedAt row, vw_UpdatedAt = vv_UpdatedAt row, vw_FinishedAt = vv_FinishedAt row,
          vw_JobID = currentID, vw_JobStatus = currentStatus, vw_FrameCount = vv_FrameCount row,
          vw_ExpectedFrameCount = vv_ExpectedFrameCount row, vw_OCRCompletedCount = vv_OCRCompletedCount row,
          vw_FailureReason = failureReason, vw_Jobs = jobs, vw_Frames = []\<rparr>)"

definition FindByID :: "uuid \<Rightarrow> uuid \<Rightarrow> (world, go_error + VideoView option) state" where
  "FindByID i userID = db_query (\<lambda>d.
     map_option (\<lambda>v. videoViewFromRow (video_row d v))
       (tbl_find (\<lambda>v. v_ID v = i \<and> v_UserID v = Some userID) (t_videos d)))"

section \<open>Its frames\<close>

definition ocr_column :: "'a \<Rightarrow> (ocr_result \<Rightarrow> 'a) \<Rightarrow> ocr_result option \<Rightarrow> 'a" where
  "ocr_column zero f r = (case r of None \<Rightarrow> zero | Some r \<Rightarrow> f r)"

definition classificationViewFromRow :: "classification option \<Rightarrow> ClassificationView option" where
  "classificationViewFromRow c = map_option (\<lambda>c.
     \<lparr>cv_ID = c_ID c, cv_Confidential = c_Confidential c, cv_Probability = c_Probability c,
      cv_Categories = c_Categories c, cv_Status = c_Status c, cv_ErrorReason = c_ErrorReason c\<rparr>) c"

definition frame_view :: "db \<Rightarrow> frame \<Rightarrow> VideoFrameDetailView" where
  "frame_view d f =
     (let ocr = tbl_find (\<lambda>r. o_FrameID r = f_ID f) (t_ocrs d);
          cls = tbl_find (\<lambda>c. c_FrameID c = f_ID f) (t_classifications d)
      in \<lparr>fv_ID = f_ID f, fv_Index = f_Index f, fv_TimestampMs = f_TimestampMs f, fv_StorageKey = f_StorageKey f,
          fv_ImageURL = '''', fv_SelectionReason = f_SelectionReason f, fv_PHashDistance = f_PHashDistance f,
          fv_Retained = f_Retained f, fv_PruneReason = f_PruneReason f, fv_OCRText = ocr_column '''' o_Text ocr,
          fv_OCRStatus = ocr_column '''' o_Status ocr, fv_OCRConfidence = ocr_column 0 o_Confidence ocr,
          fv_OCRErrorReason = ocr_column '''' o_ErrorReason ocr, fv_OCRLines = ocr_column [] o_Lines ocr,
          fv_Classification = classificationViewFromRow cls\<rparr>)"

definition ListFramesByVideoID :: "uuid \<Rightarrow> uuid \<Rightarrow> (world, go_error + VideoFrameDetailView list) state" where
  "ListFramesByVideoID i userID = db_query (\<lambda>d.
     map (frame_view d) (sort_key f_SegmentIndex (sort_key f_Index
       (filter (\<lambda>f. f_VideoID f = i \<and> list_ex (\<lambda>v. v_ID v = i \<and> v_UserID v = Some userID) (t_videos d))
          (t_frames d)))))"

section \<open>The list of videos\<close>

record VideoListView =
  vl_ID :: uuid
  vl_OriginalFilename :: string
  vl_ThumbnailKey :: string
  vl_ThumbnailURL :: string
  vl_Status :: string
  vl_CreatedAt :: time

definition replace_char :: "char \<Rightarrow> string \<Rightarrow> string \<Rightarrow> string" where
  "replace_char c new s = concat (map (\<lambda>x. if x = c then new else [x]) s)"

abbreviation backslash :: char where "backslash \<equiv> CHR 0x5C"

definition escapeLike :: "string \<Rightarrow> string" where
  "escapeLike value =
     (let value = replace_char backslash [backslash, backslash] value;
          value = replace_char (CHR ''%'') [backslash, CHR ''%''] value
      in replace_char (CHR ''_'') [backslash, CHR ''_''] value)"

text \<open>SQL's \<open>text ILIKE pattern ESCAPE '\'\<close>.\<close>

fun ilike :: "string \<Rightarrow> string \<Rightarrow> bool" where
  "ilike [] t = (t = [])"
| "ilike (p # ps) t =
     (if p = CHR ''%'' then ilike ps t \<or> (case t of [] \<Rightarrow> False | c # u \<Rightarrow> ilike (p # ps) u)
      else if p = CHR ''_'' then (case t of [] \<Rightarrow> False | c # u \<Rightarrow> ilike ps u)
      else if p = backslash then
        (case ps of [] \<Rightarrow> False
         | q # qs \<Rightarrow> (case t of [] \<Rightarrow> False | c # u \<Rightarrow> lower_char c = lower_char q \<and> ilike qs u))
      else (case t of [] \<Rightarrow> False | c # u \<Rightarrow> lower_char c = lower_char p \<and> ilike ps u))"

definition normalizeVideoListSort :: "string \<Rightarrow> string" where
  "normalizeVideoListSort sortBy =
     (if sortBy \<in> set [''created_at'', ''updated_at'', ''status'', ''original_filename''] then sortBy else ''created_at'')"

text \<open>
  \<open>ORDER BY\<close> one of these columns. SQL leaves the order of rows of equal value open; here they keep the
  table's order, or its reverse. Strings are compared by code points.
\<close>

definition order_videos :: "string \<Rightarrow> string \<Rightarrow> video list \<Rightarrow> video list" where
  "order_videos column orderBy vs =
     (let sorted = (if column = ''updated_at'' then sort_key v_UpdatedAt vs
                    else if column = ''status'' then sort_key v_Status vs
                    else if column = ''original_filename'' then sort_key v_OriginalFilename vs
                    else sort_key v_CreatedAt vs)
      in if orderBy = ''asc'' then sorted else rev sorted)"

text \<open>\<open>LIMIT\<close> and \<open>OFFSET\<close> as gorm writes them: a limit or offset that is not positive is not written.\<close>

definition limit_offset :: "int \<Rightarrow> int \<Rightarrow> 'a list \<Rightarrow> 'a list" where
  "limit_offset limit off xs =
     (let ys = (if off > 0 then drop (nat off) xs else xs) in if limit > 0 then take (nat limit) ys else ys)"

definition list_where :: "uuid \<Rightarrow> string \<Rightarrow> db \<Rightarrow> video list" where
  "list_where userID search d =
     (let owned = filter (\<lambda>v. v_UserID v = Some userID) (t_videos d); s = TrimSpace search
      in if s \<noteq> '''' then filter (\<lambda>v. ilike (CHR ''%'' # escapeLike s @ ''%'') (v_OriginalFilename v)) owned else owned)"

definition list_view :: "video \<Rightarrow> VideoListView" where
  "list_view v = \<lparr>vl_ID = v_ID v, vl_OriginalFilename = v_OriginalFilename v, vl_ThumbnailKey = v_ThumbnailKey v,
     vl_ThumbnailURL = '''', vl_Status = v_Status v, vl_CreatedAt = v_CreatedAt v\<rparr>"

text \<open>\<open>List\<close>, with the shared \<open>Paginate\<close>: a statement for the count and one for the page.\<close>

definition List_videos :: "uuid \<Rightarrow> PaginateQuery \<Rightarrow> (world, go_error + VideoListView list \<times> int) state" where
  "List_videos userID query =
     (let column = normalizeVideoListSort (pq_SortBy query)
      in on_err (db_query (\<lambda>d. int (length (list_where userID (pq_Search query) d))))
           (\<lambda>e. ret (Inl e))
           (\<lambda>total. on_err (db_query (\<lambda>d. map list_view (limit_offset (pq_Limit query) (Offset query)
                (order_videos column (pq_OrderBy query) (list_where userID (pq_Search query) d)))))
              (\<lambda>e. ret (Inl e))
              (\<lambda>views. ret (Inr (views, total)))))"

section \<open>The queries\<close>

definition thumbnailURLTTL :: duration where
  "thumbnailURLTTL = 3600 * 10 ^ 9"

definition presignMediaURL :: "services \<Rightarrow> string \<Rightarrow> (world, string) state" where
  "presignMediaURL S key =
     (if key = '''' then ret ''''
      else do {
        r \<leftarrow> svc (\<lambda>n. sv_presign_get S n key thumbnailURLTTL);
        case r of Inl e \<Rightarrow> ret '''' | Inr url \<Rightarrow> ret url })"

fun presign_frames :: "services \<Rightarrow> VideoFrameDetailView list \<Rightarrow> (world, VideoFrameDetailView list) state" where
  "presign_frames S [] = ret []"
| "presign_frames S (f # fs) =
     (if \<not> fv_Retained f then do { fs' \<leftarrow> presign_frames S fs; ret (f\<lparr>fv_ImageURL := ''''\<rparr> # fs') }
      else do {
        url \<leftarrow> presignMediaURL S (fv_StorageKey f);
        fs' \<leftarrow> presign_frames S fs;
        ret (f\<lparr>fv_ImageURL := url\<rparr> # fs') })"

definition GetVideoByID :: "services \<Rightarrow> uuid \<Rightarrow> uuid \<Rightarrow> (world, go_error + VideoView) state" where
  "GetVideoByID S i userID =
     on_err (FindByID i userID)
       (\<lambda>e. ret (Inl (Errorf ''failed to get video'' e)))
       (\<lambda>found. case found of
          None \<Rightarrow> ret (Inl ErrVideoNotFound)
        | Some view \<Rightarrow> do {
            thumbnailURL \<leftarrow> presignMediaURL S (vw_ThumbnailKey view);
            videoURL \<leftarrow> presignMediaURL S (vw_StorageKey view);
            let view = view\<lparr>vw_ThumbnailURL := thumbnailURL, vw_VideoURL := videoURL\<rparr>;
            on_err (ListFramesByVideoID i userID)
              (\<lambda>e. ret (Inl (Errorf ''failed to list video frames'' e)))
              (\<lambda>frames. do {
                 frames \<leftarrow> presign_frames S frames;
                 ret (Inr (view\<lparr>vw_Frames := frames\<rparr>)) }) })"

fun presign_list :: "services \<Rightarrow> VideoListView list \<Rightarrow> (world, VideoListView list) state" where
  "presign_list S [] = ret []"
| "presign_list S (v # vs) = do {
     url \<leftarrow> presignMediaURL S (vl_ThumbnailKey v);
     vs' \<leftarrow> presign_list S vs;
     ret (v\<lparr>vl_ThumbnailURL := url\<rparr> # vs') }"

definition ListVideos :: "services \<Rightarrow> uuid \<Rightarrow> PaginateQuery \<Rightarrow> (world, go_error + VideoListView list \<times> int) state" where
  "ListVideos S userID query =
     on_err (List_videos userID query)
       (\<lambda>e. ret (Inl (Errorf ''failed to list videos'' e)))
       (\<lambda>(views, total). do { views \<leftarrow> presign_list S views; ret (Inr (views, total)) })"

section \<open>The search\<close>

definition like_special :: "char \<Rightarrow> bool" where
  "like_special c \<longleftrightarrow> c = backslash \<or> c = CHR ''%'' \<or> c = CHR ''_''"

lemma escapeLike_eq: "escapeLike s = concat (map (\<lambda>c. if like_special c then [backslash, c] else [c]) s)"
proof -
  have "replace_char c new (x @ y) = replace_char c new x @ replace_char c new y" for c new x y
    by (simp add: replace_char_def)
  then have app: "escapeLike (x @ y) = escapeLike x @ escapeLike y" for x y
    by (simp add: escapeLike_def Let_def)
  have "escapeLike [c] = (if like_special c then [backslash, c] else [c])" for c
    by (simp add: escapeLike_def replace_char_def like_special_def)
  then show ?thesis
    using app [of "[_]"] by (induction s) (simp_all add: escapeLike_def replace_char_def Let_def)
qed

lemma ilike_any: "ilike (CHR ''%'' # ps) t \<longleftrightarrow> (\<exists>u v. t = u @ v \<and> ilike ps v)"
proof (induction t)
  case (Cons c t)
  show ?case
    unfolding ilike.simps(2) [of _ _ "c # t"]
    using Cons.IH by (auto simp: Cons_eq_append_conv)
qed simp

lemma ilike_escaped:
  "ilike (escapeLike s @ ps) t \<longleftrightarrow> (\<exists>u v. t = u @ v \<and> ToLower u = ToLower s \<and> ilike ps v)"
proof (induction s arbitrary: t)
  case (Cons c s)
  have "ilike (escapeLike (c # s) @ ps) t \<longleftrightarrow>
      (case t of [] \<Rightarrow> False | d # u \<Rightarrow> lower_char d = lower_char c \<and> ilike (escapeLike s @ ps) u)"
    by (auto simp: escapeLike_eq like_special_def split: list.splits)
  also have "\<dots> \<longleftrightarrow> (\<exists>u v. t = u @ v \<and> ToLower u = ToLower (c # s) \<and> ilike ps v)"
    by (cases t) (auto simp: Cons.IH ToLower_def Cons_eq_append_conv map_eq_Cons_conv)
  finally show ?case .
qed (simp add: escapeLike_eq ToLower_def)

lemma ilike_contains:
  "ilike (CHR ''%'' # escapeLike s @ ''%'') t \<longleftrightarrow> (\<exists>a b. ToLower t = a @ ToLower s @ b)"
proof
  assume "ilike (CHR ''%'' # escapeLike s @ ''%'') t"
  then obtain u v w where "t = u @ v @ w" "ToLower v = ToLower s"
    unfolding ilike_any ilike_escaped by blast
  then show "\<exists>a b. ToLower t = a @ ToLower s @ b" by (auto simp: ToLower_def)
next
  assume "\<exists>a b. ToLower t = a @ ToLower s @ b"
  then obtain u v w where "t = u @ v @ w" "ToLower v = ToLower s"
    by (auto simp: ToLower_def map_eq_append_conv append_eq_map_conv)
  moreover have "ilike ''%'' w" unfolding ilike_any by auto
  ultimately show "ilike (CHR ''%'' # escapeLike s @ ''%'') t"
    unfolding ilike_any ilike_escaped by blast
qed

text \<open>
  The search of the video list is literal: whatever characters the search text has, wildcards and
  backslashes included, the pattern built from it matches exactly the file names that contain it, up to
  case.
\<close>

theorem search_is_literal:
  "ilike (CHR ''%'' # escapeLike s @ ''%'') t \<longleftrightarrow> (\<exists>a b. ToLower t = a @ ToLower s @ b)"
  by (rule ilike_contains)

section \<open>The job a video is at\<close>

definition pipeline_jobs :: "videoViewRow \<Rightarrow> (uuid option \<times> string \<times> string) list" where
  "pipeline_jobs row = filter (\<lambda>j. fst j \<noteq> None)
     [(vv_SegmentJobID row, vv_SegmentJobStatus row, vv_SegmentFailureReason row),
      (vv_ExtractJobID row, vv_ExtractJobStatus row, vv_ExtractFailureReason row),
      (vv_OCRJobID row, vv_OCRJobStatus row, vv_OCRFailureReason row),
      (vv_ClassifyJobID row, vv_ClassifyJobStatus row, vv_ClassifyFailureReason row)]"

text \<open>
  The current job shown of a video is the first of its jobs, in the order of the pipeline, that has not
  succeeded, and the last of them when all have.
\<close>

theorem current_job_spec:
  "pipeline_jobs row \<noteq> [] \<Longrightarrow>
     current_job row = (case find (\<lambda>j. fst (snd j) \<noteq> JobSuccess) (pipeline_jobs row) of
                          Some j \<Rightarrow> j
                        | None \<Rightarrow> last (pipeline_jobs row))"
  by (simp add: current_job_def pipeline_jobs_def Let_def split: if_splits)

theorem current_job_spec_witness:
  "\<exists>row. pipeline_jobs row \<noteq> [] \<and> current_job row = (Some 8, ''processing'', '''')"
proof -
  let ?v = "hd (t_videos (w_db upload_world))"
  let ?seg = "zero_job\<lparr>j_ID := 7, j_VideoID := v_ID ?v, j_Type := TypeSegment, j_Status := JobSuccess\<rparr>"
  let ?ext = "zero_job\<lparr>j_ID := 8, j_VideoID := v_ID ?v, j_Type := TypeFrame, j_Status := JobProcessing\<rparr>"
  let ?row = "video_row (empty_db\<lparr>t_jobs := [?seg, ?ext]\<rparr>) ?v"
  have jobs: "pipeline_jobs ?row = [(Some 7, JobSuccess, ''''), (Some 8, JobProcessing, '''')]"
    by (simp add: pipeline_jobs_def video_row_def job_of_def job_column_def tbl_find_def zero_job_def empty_db_def)
  show ?thesis
    using current_job_spec [of ?row] by (intro exI [of _ ?row]) (simp add: jobs)
qed

section \<open>Whose videos a user sees\<close>

text \<open>The queries write nothing: triples over the database as it is.\<close>

abbreviation reads :: "db \<Rightarrow> ('a \<Rightarrow> bool) \<Rightarrow> (world, 'a) state \<Rightarrow> bool" where
  "reads d R m \<equiv> holds (\<lambda>x. x = d) R m"

lemma reads_query: "R (Inr (f d)) \<Longrightarrow> (\<And>e. R (Inl e)) \<Longrightarrow> reads d R (db_query f)"
  by (rule holds_db_query) simp_all

lemma reads_presign: "reads d (\<lambda>_. True) (presignMediaURL S key)"
  unfolding presignMediaURL_def by (rule holds_if holds_bind [OF holds_svc] holds_case_sum holds_ret TrueI)+

definition pictured :: "VideoFrameDetailView list \<Rightarrow> VideoFrameDetailView list \<Rightarrow> bool" where
  "pictured fs fs' \<longleftrightarrow> map fv_ID fs' = map fv_ID fs \<and> map fv_Retained fs' = map fv_Retained fs \<and>
     (\<forall>f \<in> set fs'. \<not> fv_Retained f \<longrightarrow> fv_ImageURL f = '''')"

lemma reads_presign_frames: "reads d (pictured fs) (presign_frames S fs)"
proof (induction fs)
  case (Cons f fs)
  have step: "reads d (pictured (f # fs)) (presign_frames S fs \<bind> (\<lambda>fs'. ret (f\<lparr>fv_ImageURL := u\<rparr> # fs')))"
    if "fv_Retained f \<or> u = ''''" for u
    by (rule holds_bind [OF Cons.IH]) (rule holds_ret, use that in \<open>auto simp: pictured_def\<close>)
  show ?case by (auto intro!: step holds_bind [OF reads_presign])
qed (simp add: pictured_def holds_ret)

definition detail_of :: "db \<Rightarrow> uuid \<Rightarrow> uuid \<Rightarrow> VideoView \<Rightarrow> bool" where
  "detail_of d i userID view \<longleftrightarrow>
    (\<exists>v \<in> set (t_videos d). v_ID v = i \<and> v_UserID v = Some userID \<and>
       vw_ID view = i \<and> vw_Status view = v_Status v \<and> vw_StorageKey view = v_StorageKey v \<and>
       vw_Jobs view = jobs_from_row (video_row d v)) \<and>
    map fv_ID (vw_Frames view) =
      map f_ID (sort_key f_SegmentIndex (sort_key f_Index (filter (\<lambda>f. f_VideoID f = i) (t_frames d)))) \<and>
    (\<forall>f \<in> set (vw_Frames view). \<not> fv_Retained f \<longrightarrow> fv_ImageURL f = '''')"

lemma detail_ofI:
  assumes "v \<in> set (t_videos d)" "v_ID v = i" "v_UserID v = Some userID" "pictured fs fs'"
    "map fv_ID fs = map f_ID (sort_key f_SegmentIndex (sort_key f_Index (filter (\<lambda>f. f_VideoID f = i) (t_frames d))))"
  shows "detail_of d i userID (videoViewFromRow (video_row d v)
    \<lparr>vw_ThumbnailURL := a, vw_VideoURL := b, vw_Frames := fs'\<rparr>)"
proof -
  let ?view = "videoViewFromRow (video_row d v)"
  have row: "vw_ID ?view = i" "vw_Status ?view = v_Status v" "vw_StorageKey ?view = v_StorageKey v"
    "vw_Jobs ?view = jobs_from_row (video_row d v)"
    using assms(2) by (simp_all add: videoViewFromRow_def video_row_def Let_def split: prod.splits)
  show ?thesis
    unfolding detail_of_def
    by (intro conjI bexI [OF _ assms(1)]) (use assms(2-5) row in \<open>simp_all add: pictured_def\<close>)
qed

lemma reads_FindByID:
  "reads d (\<lambda>r. \<forall>view. r = Inr (Some view) \<longrightarrow> (\<exists>v \<in> set (t_videos d). v_ID v = i \<and> v_UserID v = Some userID \<and>
     view = videoViewFromRow (video_row d v))) (FindByID i userID)"
  unfolding FindByID_def by (rule reads_query) (auto dest!: tbl_find_Some)

lemma reads_ListFrames:
  assumes "v \<in> set (t_videos d)" "v_ID v = i" "v_UserID v = Some userID"
  shows "reads d (\<lambda>r. \<forall>fs. r = Inr fs \<longrightarrow> map fv_ID fs =
    map f_ID (sort_key f_SegmentIndex (sort_key f_Index (filter (\<lambda>f. f_VideoID f = i) (t_frames d)))))
    (ListFramesByVideoID i userID)"
proof -
  have "list_ex (\<lambda>v. v_ID v = i \<and> v_UserID v = Some userID) (t_videos d)"
    using assms by (auto simp: list_ex_iff)
  then show ?thesis
    unfolding ListFramesByVideoID_def
    by (intro reads_query) (simp_all add: comp_def frame_view_def Let_def)
qed

lemma reads_GetVideoByID: "reads d (\<lambda>r. \<forall>view. r = Inr view \<longrightarrow> detail_of d i userID view) (GetVideoByID S i userID)"
  unfolding GetVideoByID_def Let_def
proof (rule holds_on_err [OF reads_FindByID]; (rule holds_case_option)?)
  fix x :: "VideoView option" and view
  assume "\<forall>view. Inr x = Inr (Some view) \<longrightarrow> (\<exists>v \<in> set (t_videos d). v_ID v = i \<and> v_UserID v = Some userID \<and>
    view = videoViewFromRow (video_row d v))" "x = Some view"
  then obtain v where v: "v \<in> set (t_videos d)" "v_ID v = i" "v_UserID v = Some userID"
    and view: "view = videoViewFromRow (video_row d v)" by auto
  show "reads d (\<lambda>r. \<forall>view. r = Inr view \<longrightarrow> detail_of d i userID view) (do {
      thumbnailURL \<leftarrow> presignMediaURL S (vw_ThumbnailKey view);
      videoURL \<leftarrow> presignMediaURL S (vw_StorageKey view);
      on_err (ListFramesByVideoID i userID)
        (\<lambda>e. ret (Inl (Errorf ''failed to list video frames'' e)))
        (\<lambda>frames. do {
           frames \<leftarrow> presign_frames S frames;
           ret (Inr (view\<lparr>vw_ThumbnailURL := thumbnailURL, vw_VideoURL := videoURL\<rparr>\<lparr>vw_Frames := frames\<rparr>)) }) })"
    unfolding view
    by (intro holds_bind [OF reads_presign] holds_on_err [OF reads_ListFrames [OF v]]
        holds_bind [OF reads_presign_frames] holds_ret) (auto intro: detail_ofI [OF v])
qed (simp_all add: holds_ret)

text \<open>
  C39. A user sees only videos of their own, whatever fails: a video that \<open>GetVideoByID\<close> returns is the
  stored video of that id and user, its frames are the frames of that video, in the order of the
  segments, and a frame that was pruned carries no image link.
\<close>

theorem video_detail_owned:
  assumes "run_state (GetVideoByID S i userID) w = (Inr view, w')"
  shows "w_db w' = w_db w \<and>
    (\<exists>v \<in> set (t_videos (w_db w)). v_ID v = i \<and> v_UserID v = Some userID \<and>
       vw_ID view = i \<and> vw_Status view = v_Status v \<and> vw_StorageKey view = v_StorageKey v \<and>
       vw_Jobs view = jobs_from_row (video_row (w_db w) v)) \<and>
    map fv_ID (vw_Frames view) =
      map f_ID (sort_key f_SegmentIndex (sort_key f_Index (filter (\<lambda>f. f_VideoID f = i) (t_frames (w_db w))))) \<and>
    (\<forall>f \<in> set (vw_Frames view). \<not> fv_Retained f \<longrightarrow> fv_ImageURL f = '''')"
proof -
  from holdsD [OF reads_GetVideoByID refl assms] show ?thesis by (simp add: detail_of_def)
qed

definition detail_world :: world where
  "detail_world = upload_world\<lparr>w_db := (w_db upload_world)\<lparr>t_frames :=
     [\<lparr>f_ID = 40, f_VideoID = 900, f_SegmentIndex = 0, f_Index = 0, f_TimestampMs = 0, f_StorageKey = ''k'',
       f_SelectionReason = '''', f_PHashDistance = 0, f_Retained = False, f_PruneReason = ''empty''\<rparr>]\<rparr>\<rparr>"

theorem video_detail_owned_witness:
  "\<exists>view w'. run_state (GetVideoByID sample_services 900 7) detail_world = (Inr view, w') \<and>
     map fv_ID (vw_Frames view) = [40] \<and> fv_ImageURL (hd (vw_Frames view)) = ''''"
proof -
  have "wp (GetVideoByID sample_services 900 7) (\<lambda>r w'. \<exists>view. r = Inr view \<and>
      map fv_Retained (vw_Frames view) = [False]) detail_world"
    by (simp add: GetVideoByID_def FindByID_def ListFramesByVideoID_def db_query_def wp_simps wp_db_op Let_def
        detail_world_def upload_world_def sample_world_def empty_db_def tbl_find_def presignMediaURL_def
        sample_services_def frame_view_def)
  then obtain view w' where run: "run_state (GetVideoByID sample_services 900 7) detail_world = (Inr view, w')"
    and pruned: "map fv_Retained (vw_Frames view) = [False]"
    by (auto simp: wp_def split: prod.splits)
  from video_detail_owned [OF run]
  have frames: "map fv_ID (vw_Frames view) = [40]" and
    image: "\<forall>f \<in> set (vw_Frames view). \<not> fv_Retained f \<longrightarrow> fv_ImageURL f = ''''"
    by (simp_all add: detail_world_def)
  show ?thesis using run frames image pruned by (cases "vw_Frames view") auto
qed

lemma reads_presign_list: "reads d (\<lambda>vs'. map vl_ID vs' = map vl_ID vs) (presign_list S vs)"
proof (induction vs)
  case (Cons v vs)
  show ?case
    by (auto intro!: holds_bind [OF reads_presign] holds_bind [OF Cons.IH] holds_ret)
qed (simp add: holds_ret)

definition list_of :: "db \<Rightarrow> uuid \<Rightarrow> PaginateQuery \<Rightarrow> VideoListView list \<Rightarrow> int \<Rightarrow> bool" where
  "list_of d userID query views cnt \<longleftrightarrow>
    (let wanted = TrimSpace (pq_Search query);
         matching = filter (\<lambda>v. v_UserID v = Some userID \<and>
           (wanted = '''' \<or> (\<exists>a b. ToLower (v_OriginalFilename v) = a @ ToLower wanted @ b))) (t_videos d)
     in cnt = int (length matching) \<and>
        map vl_ID views = map v_ID (limit_offset (pq_Limit query) (Offset query)
          (order_videos (normalizeVideoListSort (pq_SortBy query)) (pq_OrderBy query) matching)))"

lemma list_where_matching:
  "list_where userID (pq_Search query) d = filter (\<lambda>v. v_UserID v = Some userID \<and> (TrimSpace (pq_Search query) = '''' \<or>
    (\<exists>a b. ToLower (v_OriginalFilename v) = a @ ToLower (TrimSpace (pq_Search query)) @ b))) (t_videos d)"
  by (simp add: list_where_def ilike_contains Let_def conj_commute del: ilike.simps)

lemma reads_ListVideos:
  "reads d (\<lambda>r. \<forall>views cnt. r = Inr (views, cnt) \<longrightarrow> list_of d userID query views cnt) (ListVideos S userID query)"
proof -
  let ?where = "list_where userID (pq_Search query) d"
  let ?page = "limit_offset (pq_Limit query) (Offset query)
    (order_videos (normalizeVideoListSort (pq_SortBy query)) (pq_OrderBy query) ?where)"
  let ?R = "\<lambda>r. \<forall>views cnt. r = Inr (views, cnt) \<longrightarrow> cnt = int (length ?where) \<and> map vl_ID views = map v_ID ?page"
  have "reads d ?R (List_videos userID query)"
    unfolding List_videos_def Let_def
    by (rule holds_on_err [OF reads_query [where R = "\<lambda>r. \<forall>n. r = Inr n \<longrightarrow> n = int (length ?where)"]]
        holds_on_err [OF reads_query [where R = "\<lambda>r. \<forall>vs. r = Inr vs \<longrightarrow> vs = map list_view ?page"]] holds_ret
        | simp add: comp_def list_view_def)+
  then have "reads d ?R (ListVideos S userID query)"
    unfolding ListVideos_def
    by (rule holds_on_err) (auto intro!: holds_ret holds_bind [OF reads_presign_list] split: prod.splits)
  then show ?thesis
    by (rule holds_weaken) (simp add: list_of_def Let_def flip: list_where_matching)
qed



end
