(* ===== verification/Presenter.thy ===== *)
theory Presenter
  imports ReadModel
begin

text \<open>
  What the API answers with: \<open>internal/interfaces/http/presenter\<close>. The structs are records; a pointer is an
  option, which \<open>encoding/json\<close> writes as \<open>null\<close> when it is nil.
\<close>

section \<open>Helpers\<close>

definition optionalNonEmptyString :: "string \<Rightarrow> string option" where
  "optionalNonEmptyString value = (if value = '''' then None else Some value)"

definition optionalUUIDString :: "uuid_lib \<Rightarrow> uuid option \<Rightarrow> string option" where
  "optionalUUIDString U i = map_option (uuid_String U) i"

section \<open>Videos\<close>

record RequestUploadURLResponse =
  vu_VideoID :: string
  vu_UploadURL :: string
  vu_ExpiresAt :: time

record VideoIngestResponse =
  vg_VideoID :: string

record VideoOCRPointResponse =
  vp_X :: int
  vp_Y :: int

record VideoOCRLineResponse =
  vo_Text :: string
  vo_Confidence :: real
  vo_Box :: "VideoOCRPointResponse list"

record VideoClassificationCategoryResponse =
  vc_Name :: string
  vc_Probability :: real

record VideoClassificationResponse =
  vk_ID :: string
  vk_Confidential :: bool
  vk_Probability :: real
  vk_Categories :: "VideoClassificationCategoryResponse list"
  vk_Status :: string
  vk_ErrorReason :: "string option"

record VideoFrameResponse =
  vf_ID :: string
  vf_Index :: int
  vf_TimestampMs :: int
  vf_StorageKey :: string
  vf_ImageURL :: "string option"
  vf_SelectionReason :: string
  vf_PHashDistance :: int
  vf_Retained :: bool
  vf_PruneReason :: "string option"
  vf_OCRText :: string
  vf_OCRStatus :: "string option"
  vf_OCRConfidence :: real
  vf_OCRErrorReason :: "string option"
  vf_OCRLines :: "VideoOCRLineResponse list"
  vf_Classification :: "VideoClassificationResponse option"

record VideoJobResponse =
  vj_ID :: string
  vj_Type :: string
  vj_Status :: string
  vj_FrameCount :: int
  vj_ExpectedFrameCount :: int
  vj_OCRCompletedCount :: int
  vj_ExpectedSegmentCount :: int
  vj_CompletedSegmentCount :: int
  vj_FailureReason :: "string option"
  vj_CreatedAt :: time
  vj_StartedAt :: "time option"
  vj_FinishedAt :: "time option"

record VideoDetailResponse =
  vd_ID :: string
  vd_OriginalFilename :: "string option"
  vd_StorageKey :: string
  vd_ThumbnailKey :: "string option"
  vd_ThumbnailURL :: "string option"
  vd_VideoURL :: "string option"
  vd_SizeBytes :: int
  vd_ContentType :: "string option"
  vd_Status :: string
  vd_JobID :: "string option"
  vd_JobStatus :: "string option"
  vd_FrameCount :: int
  vd_ExpectedFrameCount :: int
  vd_OCRCompletedCount :: int
  vd_FailureReason :: "string option"
  vd_Jobs :: "VideoJobResponse list"
  vd_Frames :: "VideoFrameResponse list"
  vd_CreatedAt :: time
  vd_UpdatedAt :: time
  vd_FinishedAt :: "time option"

record VideoListItemResponse =
  vi_ID :: string
  vi_OriginalFilename :: "string option"
  vi_ThumbnailURL :: "string option"
  vi_Status :: string
  vi_CreatedAt :: time


definition NewRequestUploadURLResponse :: "RequestUploadURLResult \<Rightarrow> RequestUploadURLResponse" where
  "NewRequestUploadURLResponse result =
     \<lparr>vu_VideoID = rr_VideoID result, vu_UploadURL = rr_UploadURL result, vu_ExpiresAt = rr_ExpiresAt result\<rparr>"

definition NewVideoIngestResponse :: "string \<Rightarrow> VideoIngestResponse" where
  "NewVideoIngestResponse videoID = \<lparr>vg_VideoID = videoID\<rparr>"

definition NewVideoListResponseFromViews :: "uuid_lib \<Rightarrow> VideoListView list \<Rightarrow> VideoListItemResponse list" where
  "NewVideoListResponseFromViews U views = map (\<lambda>view.
     \<lparr>vi_ID = uuid_String U (vl_ID view), vi_OriginalFilename = optionalNonEmptyString (vl_OriginalFilename view),
      vi_ThumbnailURL = optionalNonEmptyString (vl_ThumbnailURL view), vi_Status = vl_Status view,
      vi_CreatedAt = vl_CreatedAt view\<rparr>) views"

definition newVideoOCRLineResponses :: "ocr_line list \<Rightarrow> VideoOCRLineResponse list" where
  "newVideoOCRLineResponses lines = map (\<lambda>line.
     \<lparr>vo_Text = ol_Text line, vo_Confidence = ol_Confidence line,
      vo_Box = map (\<lambda>p. \<lparr>vp_X = op_X p, vp_Y = op_Y p\<rparr>) (ol_Box line)\<rparr>) lines"

definition newVideoClassificationResponse ::
  "uuid_lib \<Rightarrow> ClassificationView option \<Rightarrow> VideoClassificationResponse option" where
  "newVideoClassificationResponse U view = map_option (\<lambda>view.
     \<lparr>vk_ID = uuid_String U (cv_ID view), vk_Confidential = cv_Confidential view,
      vk_Probability = cv_Probability view,
      vk_Categories = map (\<lambda>c. \<lparr>vc_Name = ca_Name c, vc_Probability = ca_Probability c\<rparr>) (cv_Categories view),
      vk_Status = cv_Status view, vk_ErrorReason = optionalNonEmptyString (cv_ErrorReason view)\<rparr>) view"

definition newVideoFrameResponses :: "uuid_lib \<Rightarrow> VideoFrameDetailView list \<Rightarrow> VideoFrameResponse list" where
  "newVideoFrameResponses U views = map (\<lambda>frame.
     \<lparr>vf_ID = uuid_String U (fv_ID frame), vf_Index = fv_Index frame, vf_TimestampMs = fv_TimestampMs frame,
      vf_StorageKey = fv_StorageKey frame, vf_ImageURL = optionalNonEmptyString (fv_ImageURL frame),
      vf_SelectionReason = fv_SelectionReason frame, vf_PHashDistance = fv_PHashDistance frame,
      vf_Retained = fv_Retained frame, vf_PruneReason = optionalNonEmptyString (fv_PruneReason frame),
      vf_OCRText = fv_OCRText frame, vf_OCRStatus = optionalNonEmptyString (fv_OCRStatus frame),
      vf_OCRConfidence = fv_OCRConfidence frame,
      vf_OCRErrorReason = optionalNonEmptyString (fv_OCRErrorReason frame),
      vf_OCRLines = newVideoOCRLineResponses (fv_OCRLines frame),
      vf_Classification = newVideoClassificationResponse U (fv_Classification frame)\<rparr>) views"

definition newVideoJobResponses :: "uuid_lib \<Rightarrow> JobView list \<Rightarrow> VideoJobResponse list" where
  "newVideoJobResponses U views = map (\<lambda>job.
     \<lparr>vj_ID = uuid_String U (jv_ID job), vj_Type = jv_Type job, vj_Status = jv_Status job,
      vj_FrameCount = jv_FrameCount job, vj_ExpectedFrameCount = jv_ExpectedFrameCount job,
      vj_OCRCompletedCount = jv_OCRCompletedCount job, vj_ExpectedSegmentCount = jv_ExpectedSegmentCount job,
      vj_CompletedSegmentCount = jv_CompletedSegmentCount job,
      vj_FailureReason = optionalNonEmptyString (jv_FailureReason job), vj_CreatedAt = jv_CreatedAt job,
      vj_StartedAt = jv_StartedAt job, vj_FinishedAt = jv_FinishedAt job\<rparr>) views"

definition NewVideoDetailResponseFromView :: "uuid_lib \<Rightarrow> VideoView \<Rightarrow> VideoDetailResponse" where
  "NewVideoDetailResponseFromView U view =
     \<lparr>vd_ID = uuid_String U (vw_ID view), vd_OriginalFilename = optionalNonEmptyString (vw_OriginalFilename view),
      vd_StorageKey = vw_StorageKey view, vd_ThumbnailKey = optionalNonEmptyString (vw_ThumbnailKey view),
      vd_ThumbnailURL = optionalNonEmptyString (vw_ThumbnailURL view),
      vd_VideoURL = optionalNonEmptyString (vw_VideoURL view), vd_SizeBytes = vw_SizeBytes view,
      vd_ContentType = optionalNonEmptyString (vw_ContentType view), vd_Status = vw_Status view,
      vd_JobID = optionalUUIDString U (vw_JobID view), vd_JobStatus = optionalNonEmptyString (vw_JobStatus view),
      vd_FrameCount = vw_FrameCount view, vd_ExpectedFrameCount = vw_ExpectedFrameCount view,
      vd_OCRCompletedCount = vw_OCRCompletedCount view,
      vd_FailureReason = optionalNonEmptyString (vw_FailureReason view),
      vd_Jobs = newVideoJobResponses U (vw_Jobs view), vd_Frames = newVideoFrameResponses U (vw_Frames view),
      vd_CreatedAt = vw_CreatedAt view, vd_UpdatedAt = vw_UpdatedAt view, vd_FinishedAt = vw_FinishedAt view\<rparr>"

section \<open>Users\<close>

text \<open>The reading side of users: the queries of \<open>internal/application/query/user\<close> over their repository.\<close>

record UserView =
  uv_ID :: uuid
  uv_ClerkID :: string
  uv_FirstName :: string
  uv_LastName :: string
  uv_Email :: string
  uv_Banned :: bool
  uv_ActiveProjectID :: "uuid option"
  uv_CreatedAt :: time
  uv_UpdatedAt :: time

definition toUserView :: "user \<Rightarrow> UserView" where
  "toUserView row = \<lparr>uv_ID = u_ID row, uv_ClerkID = u_ClerkID row, uv_FirstName = u_FirstName row,
     uv_LastName = u_LastName row, uv_Email = u_Email row, uv_Banned = u_Banned row, uv_ActiveProjectID = None,
     uv_CreatedAt = u_CreatedAt row, uv_UpdatedAt = u_UpdatedAt row\<rparr>"

definition users_FindByID :: "uuid \<Rightarrow> (world, go_error + UserView option) state" where
  "users_FindByID i = db_query (\<lambda>d. map_option toUserView (tbl_find (\<lambda>u. u_ID u = i) (t_users d)))"

definition users_FindByClerkID :: "string \<Rightarrow> (world, go_error + UserView option) state" where
  "users_FindByClerkID clerkID =
     db_query (\<lambda>d. map_option toUserView (tbl_find (\<lambda>u. u_ClerkID u = clerkID) (t_users d)))"

definition GetUserByID :: "uuid \<Rightarrow> (world, go_error + UserView) state" where
  "GetUserByID i =
     on_err (users_FindByID i)
       (\<lambda>e. ret (Inl (ErrorText ''failed to get user'')))
       (\<lambda>view. case view of None \<Rightarrow> ret (Inl (ErrorText ''user not found'')) | Some view \<Rightarrow> ret (Inr view))"

definition GetUserByClerkID :: "string \<Rightarrow> (world, go_error + UserView option) state" where
  "GetUserByClerkID clerkID =
     on_err (users_FindByClerkID clerkID)
       (\<lambda>e. ret (Inl (ErrorText ''failed to get user'')))
       (\<lambda>view. ret (Inr view))"

record UserDetailResponse =
  ud_ID :: string
  ud_ClerkID :: string
  ud_FirstName :: "string option"
  ud_LastName :: "string option"
  ud_Email :: string
  ud_ActiveProjectID :: "string option"
  ud_CreatedAt :: time
  ud_UpdatedAt :: time

definition NewUserDetailResponseFromView :: "uuid_lib \<Rightarrow> UserView \<Rightarrow> UserDetailResponse" where
  "NewUserDetailResponseFromView U view =
     \<lparr>ud_ID = uuid_String U (uv_ID view), ud_ClerkID = uv_ClerkID view,
      ud_FirstName = optionalNonEmptyString (uv_FirstName view),
      ud_LastName = optionalNonEmptyString (uv_LastName view), ud_Email = uv_Email view,
      ud_ActiveProjectID = optionalUUIDString U (uv_ActiveProjectID view),
      ud_CreatedAt = uv_CreatedAt view, ud_UpdatedAt = uv_UpdatedAt view\<rparr>"

definition NewUserDetailResponseFromEntity :: "uuid_lib \<Rightarrow> user \<Rightarrow> UserDetailResponse" where
  "NewUserDetailResponseFromEntity U u =
     \<lparr>ud_ID = uuid_String U (u_ID u), ud_ClerkID = u_ClerkID u,
      ud_FirstName = optionalNonEmptyString (u_FirstName u),
      ud_LastName = optionalNonEmptyString (u_LastName u), ud_Email = u_Email u,
      ud_ActiveProjectID = optionalUUIDString U (u_ActiveProjectID u),
      ud_CreatedAt = u_CreatedAt u, ud_UpdatedAt = u_UpdatedAt u\<rparr>"

text \<open>
  The two ways to answer with a user agree but for the active project, which the reading side never
  selects.
\<close>

lemma user_responses_agree:
  "NewUserDetailResponseFromView U (toUserView u) = NewUserDetailResponseFromEntity U (u\<lparr>u_ActiveProjectID := None\<rparr>)"
  by (simp add: NewUserDetailResponseFromView_def NewUserDetailResponseFromEntity_def toUserView_def)

end
