(* ===== verification/HttpDto.thy ===== *)
theory HttpDto
  imports Presenter
begin

text \<open>
  Requests and responses of the API: the bodies it reads (\<open>internal/interfaces/http/dto\<close>) and what it
  answers a request that fails validation (\<open>internal/interfaces/http/validation\<close>). The validation package
  itself is not in the repository: for each body it is a function that gives the errors of the fields.
\<close>

section \<open>Requests and responses\<close>

record request =
  rq_Method :: string
  rq_Path :: "string list"           \<comment> \<open>the segments of the path\<close>
  rq_Headers :: "string \<Rightarrow> string"    \<comment> \<open>empty when absent\<close>
  rq_Raw :: bytes
  rq_Body :: payload                 \<comment> \<open>the JSON in the raw body\<close>

datatype body =
    NoBody
  | Message string
  | ValidationFailed "(string \<times> string) list"
  | UploadURL RequestUploadURLResponse
  | Ingested VideoIngestResponse
  | VideoDetail VideoDetailResponse
  | VideoList "VideoListItemResponse list PaginateResponse"
  | UserDetail UserDetailResponse
  | RealtimeConnection string string string    \<comment> \<open>token, channel, URL\<close>
  | Panicked

record response =
  rs_Status :: int
  rs_Body :: body

definition json_response :: "int \<Rightarrow> body \<Rightarrow> response" where
  "json_response status b = \<lparr>rs_Status = status, rs_Body = b\<rparr>"

abbreviation message :: "int \<Rightarrow> string \<Rightarrow> response" where
  "message status text \<equiv> json_response status (Message text)"

section \<open>The bodies\<close>

record ClerkEmailAddress =
  ea_ID :: string
  ea_EmailAddress :: string

text \<open>\<open>ClerkUserCreated\<close> and \<open>ClerkUserUpdated\<close> have the same fields.\<close>

record ClerkUserData =
  ck_ID :: string
  ck_FirstName :: string
  ck_LastName :: string
  ck_Banned :: "bool option"
  ck_EmailAddresses :: "ClerkEmailAddress list"
  ck_Email :: string

fun dec_bool_pointer :: "bool option \<Rightarrow> json \<Rightarrow> bool option option" where
  "dec_bool_pointer old JNull = Some None"
| "dec_bool_pointer old (JBool b) = Some (Some b)"
| "dec_bool_pointer old _ = None"

definition dec_ClerkEmailAddress :: "json \<Rightarrow> ClerkEmailAddress option" where
  "dec_ClerkEmailAddress j = do {
     ms \<leftarrow> members_of j;
     i \<leftarrow> dec_field dec_str '''' ''id'' ms;
     a \<leftarrow> dec_field dec_str '''' ''email_address'' ms;
     Some \<lparr>ea_ID = i, ea_EmailAddress = a\<rparr> }"

definition Unmarshal_ClerkUserData :: "payload \<Rightarrow> ClerkUserData option" where
  "Unmarshal_ClerkUserData p = do {
     ms \<leftarrow> payload_members p;
     i \<leftarrow> dec_field dec_str '''' ''id'' ms;
     f \<leftarrow> dec_field dec_str '''' ''first_name'' ms;
     l \<leftarrow> dec_field dec_str '''' ''last_name'' ms;
     b \<leftarrow> dec_field dec_bool_pointer None ''banned'' ms;
     es \<leftarrow> dec_field (dec_slice dec_ClerkEmailAddress) [] ''email_addresses'' ms;
     Some \<lparr>ck_ID = i, ck_FirstName = f, ck_LastName = l, ck_Banned = b, ck_EmailAddresses = es,
       ck_Email = (if length es > 0 then ea_EmailAddress (hd es) else '''')\<rparr> }"

definition Unmarshal_ClerkUserDeleted :: "payload \<Rightarrow> string option" where
  "Unmarshal_ClerkUserDeleted p = do {
     ms \<leftarrow> payload_members p;
     dec_field dec_str '''' ''id'' ms }"

record ClerkEvent =
  ce_Type :: string
  ce_InstanceID :: string
  ce_Object :: string
  ce_Timestamp :: int
  ce_Data :: payload

definition Unmarshal_ClerkEvent :: "payload \<Rightarrow> ClerkEvent option" where
  "Unmarshal_ClerkEvent p = do {
     ms \<leftarrow> payload_members p;
     t \<leftarrow> dec_field dec_str '''' ''type'' ms;
     i \<leftarrow> dec_field dec_str '''' ''instance_id'' ms;
     ob \<leftarrow> dec_field dec_str '''' ''object'' ms;
     ts \<leftarrow> dec_field dec_int 0 ''timestamp'' ms;
     d \<leftarrow> dec_field dec_raw Malformed ''data'' ms;
     Some \<lparr>ce_Type = t, ce_InstanceID = i, ce_Object = ob, ce_Timestamp = ts, ce_Data = d\<rparr> }"

record S3Object =
  so_Key :: string
  so_Size :: int
  so_ContentType :: string

record ObjectCreatedRecord =
  oc_EventName :: string
  oc_BucketName :: string
  oc_Object :: S3Object

definition dec_S3Bucket :: "string \<Rightarrow> json \<Rightarrow> string option" where
  "dec_S3Bucket old j = do { ms \<leftarrow> members_of j; dec_field dec_str old ''name'' ms }"

definition dec_S3Object :: "S3Object \<Rightarrow> json \<Rightarrow> S3Object option" where
  "dec_S3Object old j = do {
     ms \<leftarrow> members_of j;
     k \<leftarrow> dec_field dec_str (so_Key old) ''key'' ms;
     s \<leftarrow> dec_field dec_int (so_Size old) ''size'' ms;
     c \<leftarrow> dec_field dec_str (so_ContentType old) ''contentType'' ms;
     Some \<lparr>so_Key = k, so_Size = s, so_ContentType = c\<rparr> }"

definition dec_S3Entity :: "string \<times> S3Object \<Rightarrow> json \<Rightarrow> (string \<times> S3Object) option" where
  "dec_S3Entity old j = do {
     ms \<leftarrow> members_of j;
     b \<leftarrow> dec_field dec_S3Bucket (fst old) ''bucket'' ms;
     ob \<leftarrow> dec_field dec_S3Object (snd old) ''object'' ms;
     Some (b, ob) }"

definition dec_ObjectCreatedRecord :: "json \<Rightarrow> ObjectCreatedRecord option" where
  "dec_ObjectCreatedRecord j = do {
     ms \<leftarrow> members_of j;
     n \<leftarrow> dec_field dec_str '''' ''eventName'' ms;
     s3 \<leftarrow> dec_field dec_S3Entity ('''', \<lparr>so_Key = '''', so_Size = 0, so_ContentType = ''''\<rparr>) ''s3'' ms;
     Some \<lparr>oc_EventName = n, oc_BucketName = fst s3, oc_Object = snd s3\<rparr> }"

definition Unmarshal_ObjectCreatedEvent :: "payload \<Rightarrow> ObjectCreatedRecord list option" where
  "Unmarshal_ObjectCreatedEvent p = do {
     ms \<leftarrow> payload_members p;
     dec_field (dec_slice dec_ObjectCreatedRecord) [] ''Records'' ms }"

record VideoIngestRequest =
  vr_VideoURL :: string
  vr_Filename :: string
  vr_ContentType :: string
  vr_SizeBytes :: int

definition Unmarshal_VideoIngestRequest :: "payload \<Rightarrow> VideoIngestRequest option" where
  "Unmarshal_VideoIngestRequest p = do {
     ms \<leftarrow> payload_members p;
     u \<leftarrow> dec_field dec_str '''' ''videoUrl'' ms;
     f \<leftarrow> dec_field dec_str '''' ''filename'' ms;
     c \<leftarrow> dec_field dec_str '''' ''contentType'' ms;
     s \<leftarrow> dec_field dec_int 0 ''sizeBytes'' ms;
     Some \<lparr>vr_VideoURL = u, vr_Filename = f, vr_ContentType = c, vr_SizeBytes = s\<rparr> }"

record RequestUploadURLRequest =
  uq_Filename :: string
  uq_ContentType :: string
  uq_SizeBytes :: int

section \<open>Validation\<close>

record field_error =
  fe_Field :: string
  fe_Tag :: string
  fe_IsString :: bool
  fe_Param :: string

record validators =
  va_created :: "ClerkUserData \<Rightarrow> field_error list"
  va_deleted :: "string \<Rightarrow> field_error list"
  va_objects :: "ObjectCreatedRecord list \<Rightarrow> field_error list"
  va_ingest :: "VideoIngestRequest \<Rightarrow> field_error list"
  va_upload :: "RequestUploadURLRequest \<Rightarrow> field_error list"

definition messageFor :: "field_error \<Rightarrow> string" where
  "messageFor fe =
     (let tag = fe_Tag fe; param = fe_Param fe
      in if tag = ''required'' then ''is required''
         else if tag = ''uuid'' then ''must be a valid UUID''
         else if tag = ''email'' then ''must be a valid email''
         else if tag = ''url'' then ''must be a valid URL''
         else if tag = ''min'' then
           (if fe_IsString fe then ''must be at least '' @ param @ '' characters'' else ''must be at least '' @ param)
         else if tag = ''max'' then
           (if fe_IsString fe then ''must be at most '' @ param @ '' characters'' else ''must be at most '' @ param)
         else if tag = ''gte'' then ''must be greater than or equal to '' @ param
         else if tag = ''lte'' then ''must be less than or equal to '' @ param
         else if tag = ''oneof'' then ''is invalid''
         else if tag = ''dive'' then ''contains invalid items''
         else ''failed on '' @ [CHR 0x27] @ tag @ [CHR 0x27] @ '' validation'')"

definition formatErrors :: "field_error list \<Rightarrow> (string \<times> string) list" where
  "formatErrors errs = foldl (\<lambda>out fe. AList.update (fe_Field fe) (messageFor fe) out) [] errs"

text \<open>\<open>validation.Struct\<close>: the response to send at once, when there are errors.\<close>

definition validate_Struct :: "field_error list \<Rightarrow> response option" where
  "validate_Struct errs = (if errs = [] then None else Some (json_response 400 (ValidationFailed (formatErrors errs))))"

end
