(* ===== verification/HttpApi.thy ===== *)
theory HttpApi
  imports HttpDto
begin

text \<open>
  The HTTP interface: the middlewares that authenticate a request, the handlers behind them
  (\<open>internal/interfaces/http/middleware\<close>, \<open>internal/interfaces/http/handler\<close>) and the routes of
  \<open>cmd/api/routes.go\<close> that put them together. Cryptography (the webhook signatures, the token), the identity
  provider and the binding of query parameters are not in the repository and are parameters.
\<close>

record JWTClaims =
  cl_UserID :: string
  cl_Subject :: string

record ClerkUser =
  cu_FirstName :: string
  cu_LastName :: string
  cu_Email :: string
  cu_Banned :: bool

record api =
  ap_services :: services
  ap_env :: Config
  ap_validators :: validators
  ap_svix_verify :: "string \<Rightarrow> bytes \<Rightarrow> (string \<Rightarrow> string) \<Rightarrow> bool"
  ap_hmac_hex :: "string \<Rightarrow> bytes \<Rightarrow> string"
  ap_parse_token :: "string \<Rightarrow> JWTClaims option"
  ap_fetch_user :: "nat \<Rightarrow> string \<Rightarrow> go_error + ClerkUser"
  ap_bind_upload :: "request \<Rightarrow> RequestUploadURLRequest option"
  ap_bind_query :: "request \<Rightarrow> PaginateQuery option"
  ap_sign :: "string \<Rightarrow> string \<Rightarrow> int \<Rightarrow> string list \<Rightarrow> go_error + string"
    \<comment> \<open>an HS256 token: secret, subject, expiry, channels\<close>
  ap_unrouted :: "request \<Rightarrow> int \<times> string"
    \<comment> \<open>the router's own answer: health checks, no such route, no such method\<close>

section \<open>The bearer token\<close>

text \<open>\<open>ValidateTokenHandler\<close>: the claims of a token the library accepts, and the user they name.\<close>

definition claims_clerk_id :: "JWTClaims \<Rightarrow> string" where
  "claims_clerk_id claims = (let clerkID = cl_UserID claims in if clerkID = '''' then cl_Subject claims else clerkID)"

definition ValidateToken :: "api \<Rightarrow> string \<Rightarrow> (world, go_error + user option \<times> JWTClaims) state" where
  "ValidateToken A token =
     (case ap_parse_token A token of
        None \<Rightarrow> ret (Inl (ErrorText ''invalid token''))
      | Some claims \<Rightarrow>
          on_err (users_GetByClerkID (claims_clerk_id claims))
            (\<lambda>e. ret (Inl (ErrorText ''user not found'')))
            (\<lambda>user. ret (Inr (user, claims))))"

definition authorization :: "request \<Rightarrow> string" where
  "authorization rq = rq_Headers rq ''Authorization''"

text \<open>The parsing of the header: the message of the refusal, or the token.\<close>

definition bearer_token :: "string \<Rightarrow> string + string" where
  "bearer_token authHeader =
     (if authHeader = '''' then Inl ''Missing authorization header''
      else let parts = Split authHeader (CHR '' '')
           in if length parts \<noteq> 2 then Inl ''Invalid authorization header format''
              else if parts ! 0 \<noteq> ''Bearer'' then Inl ''Authorization scheme must be Bearer''
              else let tokenString = TrimSpace (parts ! 1)
                   in if tokenString = '''' then Inl ''Token cannot be empty'' else Inr tokenString)"

definition admit :: "user \<Rightarrow> (user \<Rightarrow> (world, response) state) \<Rightarrow> (world, response) state" where
  "admit user k = (if u_Banned user then ret (message 401 ''User is banned'') else k user)"

definition authenticate :: "api \<Rightarrow> request \<Rightarrow> (user \<Rightarrow> (world, response) state) \<Rightarrow> (world, response) state" where
  "authenticate A rq next_handler =
     (case bearer_token (authorization rq) of
        Inl why \<Rightarrow> ret (message 401 why)
      | Inr token \<Rightarrow>
          on_err (ValidateToken A token)
            (\<lambda>e. ret (message 401 ''Invalid token''))
            (\<lambda>(found, claims). case found of
               Some user \<Rightarrow> admit user next_handler
             | None \<Rightarrow>
                 let clerkID = claims_clerk_id claims
                 in on_err (svc (\<lambda>n. ap_fetch_user A n clerkID))
                      (\<lambda>e. ret (message 401 ''Failed to get user''))
                      (\<lambda>cu. on_err (CreateUser (ap_services A) \<lparr>nu_ClerkID = clerkID, nu_FirstName = cu_FirstName cu,
                          nu_LastName = cu_LastName cu, nu_Email = cu_Email cu, nu_Banned = cu_Banned cu\<rparr>)
                        (\<lambda>e. ret (message 401 ''Failed to create user''))
                        (\<lambda>user. admit user next_handler))))"

section \<open>Handlers of the API\<close>

definition upload_url_handler :: "api \<Rightarrow> request \<Rightarrow> user \<Rightarrow> (world, response) state" where
  "upload_url_handler A rq user =
     (case ap_bind_upload A rq of
        None \<Rightarrow> ret (message 400 ''Invalid request body'')
      | Some req \<Rightarrow>
          (case validate_Struct (va_upload (ap_validators A) req) of
             Some refused \<Rightarrow> ret refused
           | None \<Rightarrow>
               on_err (RequestUploadURL (ap_services A) (env_UploadURLTTL (ap_env A))
                   \<lparr>ru_UserID = u_ID user, ru_Filename = uq_Filename req, ru_ContentType = uq_ContentType req,
                    ru_SizeBytes = uq_SizeBytes req\<rparr>)
                 (\<lambda>e. if errors_Is e ErrInvalidFilename \<or> errors_Is e ErrUnsupportedType
                      then ret (message 400 ''Unsupported video type'')
                      else ret (message 500 ''Failed to generate upload url''))
                 (\<lambda>result. ret (json_response 201 (UploadURL (NewRequestUploadURLResponse result))))))"

definition list_query :: "PaginateQuery \<Rightarrow> PaginateQuery" where
  "list_query q0 =
     (let q = Normalize q0;
          q = (if pq_SortBy q0 = '''' then q\<lparr>pq_SortBy := ''created_at''\<rparr> else q)
      in if pq_OrderBy q0 \<noteq> ''asc'' \<and> pq_OrderBy q0 \<noteq> ''desc'' then q\<lparr>pq_OrderBy := ''desc''\<rparr> else q)"

definition list_handler :: "api \<Rightarrow> request \<Rightarrow> user \<Rightarrow> (world, response) state" where
  "list_handler A rq user =
     (case ap_bind_query A rq of
        None \<Rightarrow> ret (message 400 ''Invalid query parameters'')
      | Some q0 \<Rightarrow>
          let q = list_query q0
          in on_err (ListVideos (ap_services A) (u_ID user) q)
               (\<lambda>e. ret (message 500 ''Failed to list videos''))
               (\<lambda>(views, cnt). ret (json_response 200 (VideoList
                  (NewPaginateResponse (NewVideoListResponseFromViews (sv_uuid (ap_services A)) views) cnt q)))))"

definition detail_handler :: "api \<Rightarrow> string \<Rightarrow> user \<Rightarrow> (world, response) state" where
  "detail_handler A param user =
     (case uuid_Parse (sv_uuid (ap_services A)) param of
        None \<Rightarrow> ret (message 400 ''Invalid video id'')
      | Some videoID \<Rightarrow>
          on_err (GetVideoByID (ap_services A) videoID (u_ID user))
            (\<lambda>e. if errors_Is e ErrVideoNotFound then ret (message 404 ''Video not found'')
                 else ret (message 500 ''Failed to get video''))
            (\<lambda>view. ret (json_response 200
               (VideoDetail (NewVideoDetailResponseFromView (sv_uuid (ap_services A)) view)))))"

definition me_handler :: "api \<Rightarrow> user \<Rightarrow> (world, response) state" where
  "me_handler A user =
     on_err (GetUserByID (u_ID user))
       (\<lambda>e. ret (message 500 ''Failed to get user''))
       (\<lambda>view. ret (json_response 200 (UserDetail (NewUserDetailResponseFromView (sv_uuid (ap_services A)) view))))"

text \<open>The connection to the realtime server: \<open>internal/infrastructure/centrifugo\<close>.\<close>

definition generateConnectionToken :: "api \<Rightarrow> uuid \<Rightarrow> string \<Rightarrow> (world, go_error + string) state" where
  "generateConnectionToken A userID channel = do {
     now \<leftarrow> rt_op time_Now;
     case ap_sign A (env_CentrifugoTokenSecret (ap_env A)) (uuid_String (sv_uuid (ap_services A)) userID)
            ((now + 24 * 3600 * 10 ^ 9) div 10 ^ 9) [channel] of
       Inl e \<Rightarrow> ret (Inl (Errorf ''failed to sign centrifugo token'' e))
     | Inr tok \<Rightarrow> ret (Inr tok) }"

definition NewConnectionInfo :: "api \<Rightarrow> uuid \<Rightarrow> (world, go_error + (string \<times> string \<times> string)) state" where
  "NewConnectionInfo A userID =
     (let channel = UserChannel (ap_services A) userID
      in on_err (generateConnectionToken A userID channel)
           (\<lambda>e. ret (Inl e))
           (\<lambda>token. ret (Inr (token, channel, env_CentrifugoPublicWSURL (ap_env A)))))"

definition connection_handler :: "api \<Rightarrow> user \<Rightarrow> (world, response) state" where
  "connection_handler A user =
     on_err (NewConnectionInfo A (u_ID user))
       (\<lambda>e. ret (message 500 ''Failed to create realtime connection''))
       (\<lambda>(token, channel, url). ret (json_response 200 (RealtimeConnection token channel url)))"

section \<open>The webhook of the identity provider\<close>

definition createUser :: "api \<Rightarrow> ClerkUserData \<Rightarrow> bool \<Rightarrow> (world, go_error option) state" where
  "createUser A data banned =
     on_err (GetUserByExternalID (ck_ID data))
       (\<lambda>e. ret (Some e))
       (\<lambda>existing. case existing of
          Some u \<Rightarrow> ret None
        | None \<Rightarrow>
            on_err (CreateUser (ap_services A) \<lparr>nu_ClerkID = ck_ID data, nu_FirstName = ck_FirstName data,
                nu_LastName = ck_LastName data, nu_Email = ck_Email data, nu_Banned = banned\<rparr>)
              (\<lambda>e. ret (Some e)) (\<lambda>_. ret None))"

definition updateUser :: "api \<Rightarrow> ClerkUserData \<Rightarrow> bool \<Rightarrow> (world, go_error option) state" where
  "updateUser A data banned =
     on_err (GetUserByExternalID (ck_ID data))
       (\<lambda>e. ret (Some e))
       (\<lambda>user. case user of
          None \<Rightarrow> ret (Some ErrUserNotFound)
        | Some u \<Rightarrow> UpdateUser (ap_services A) \<lparr>uu_User = Some u, uu_FirstName = ck_FirstName data,
            uu_LastName = ck_LastName data, uu_Email = ck_Email data, uu_Banned = banned\<rparr>)"

text \<open>The data of a user event: decoded, validated, and its pointer followed, which panics when it
  is nil: the process ends, and there is no response.\<close>

definition with_user_data ::
  "api \<Rightarrow> payload \<Rightarrow> (ClerkUserData \<Rightarrow> bool \<Rightarrow> (world, response) state) \<Rightarrow> (world, response) state" where
  "with_user_data A p k =
     (case Unmarshal_ClerkUserData p of
        None \<Rightarrow> ret (message 400 ''Invalid request body'')
      | Some data \<Rightarrow>
          (case validate_Struct (va_created (ap_validators A) data) of
             Some refused \<Rightarrow> ret refused
           | None \<Rightarrow> (case ck_Banned data of None \<Rightarrow> ret (json_response 0 Panicked) | Some b \<Rightarrow> k data b)))"

definition clerk_Execute :: "api \<Rightarrow> ClerkEvent \<Rightarrow> (world, response) state" where
  "clerk_Execute A clerkEvent =
     (if ce_Type clerkEvent = ''user.created'' then
        with_user_data A (ce_Data clerkEvent) (\<lambda>data banned.
          if_err (createUser A data banned)
            (\<lambda>e. ret (message 500 ''Failed to create user''))
            (ret (json_response 201 NoBody)))
      else if ce_Type clerkEvent = ''user.updated'' then
        with_user_data A (ce_Data clerkEvent) (\<lambda>data banned.
          if_err (updateUser A data banned)
            (\<lambda>e. if errors_Is e ErrUserNotFound then ret (message 404 ''User not found'')
                 else ret (message 500 ''Failed to update user''))
            (ret (json_response 204 NoBody)))
      else if ce_Type clerkEvent = ''user.deleted'' then
        (case Unmarshal_ClerkUserDeleted (ce_Data clerkEvent) of
           None \<Rightarrow> ret (message 400 ''Invalid request body'')
         | Some clerkID \<Rightarrow>
             (case validate_Struct (va_deleted (ap_validators A) clerkID) of
                Some refused \<Rightarrow> ret refused
              | None \<Rightarrow>
                  if_err (DeleteUserByExternalID (ap_services A) clerkID)
                    (\<lambda>e. ret (message 500 ''Failed to delete user''))
                    (ret (json_response 204 NoBody))))
      else ret (json_response 200 NoBody))"

definition clerk_webhook :: "api \<Rightarrow> request \<Rightarrow> (world, response) state" where
  "clerk_webhook A rq =
     (if \<not> ap_svix_verify A (env_ClerkWebhookSecret (ap_env A)) (rq_Raw rq) (rq_Headers rq)
      then ret (message 401 ''invalid signature'')
      else case Unmarshal_ClerkEvent (rq_Body rq) of
             None \<Rightarrow> ret (message 401 ''invalid payload'')
           | Some clerkEvent \<Rightarrow> clerk_Execute A clerkEvent)"

section \<open>The webhook of the object store\<close>

definition processRecord :: "api \<Rightarrow> ObjectCreatedRecord \<Rightarrow> (world, go_error option) state" where
  "processRecord A rec =
     (if \<not> HasPrefix (oc_EventName rec) ''s3:ObjectCreated'' then ret None
      else if oc_BucketName rec \<noteq> env_StorageBucket (ap_env A) then ret None
      else case DecodeObjectKey (so_Key (oc_Object rec)) of
             Inl e \<Rightarrow> ret None
           | Inr decodedKey \<Rightarrow>
               if IsFrameObjectKey decodedKey \<or> IsThumbnailObjectKey decodedKey then ret None
               else case VideoIDFromStorageKey (sv_uuid (ap_services A)) decodedKey of
                      Inl e \<Rightarrow> ret None
                    | Inr i \<Rightarrow>
                        ConfirmUpload (ap_services A) (env_VideoMaxSizeBytes (ap_env A))
                          \<lparr>cu_StorageKey = decodedKey, cu_ContentType = so_ContentType (oc_Object rec),
                           cu_SizeBytes = so_Size (oc_Object rec)\<rparr>)"

definition tolerated :: "go_error \<Rightarrow> bool" where
  "tolerated e \<longleftrightarrow> errors_Is e ErrVideoNotFound \<or> errors_Is e ErrInvalidTransition \<or> errors_Is e ErrVideoTooLarge"

fun process_records :: "api \<Rightarrow> ObjectCreatedRecord list \<Rightarrow> (world, response) state" where
  "process_records A [] = ret (json_response 200 NoBody)"
| "process_records A (rec # recs) =
     if_err (processRecord A rec)
       (\<lambda>e. if tolerated e then process_records A recs else ret (message 500 ''Failed to confirm upload''))
       (process_records A recs)"

definition storage_webhook :: "api \<Rightarrow> request \<Rightarrow> (world, response) state" where
  "storage_webhook A rq =
     (let secret = env_MinIOWebhookSecret (ap_env A); authHeader = authorization rq
      in if secret = '''' then ret (message 401 ''invalid authorization'')
         else if authHeader \<noteq> ''Bearer '' @ secret \<and> authHeader \<noteq> secret then ret (message 401 ''invalid authorization'')
         else case Unmarshal_ObjectCreatedEvent (rq_Body rq) of
                None \<Rightarrow> ret (message 400 ''Invalid request body'')
              | Some recs \<Rightarrow>
                  (case validate_Struct (va_objects (ap_validators A) recs) of
                     Some refused \<Rightarrow> ret refused
                   | None \<Rightarrow> process_records A recs))"

section \<open>The webhook that ingests a remote video\<close>

definition validHMAC :: "api \<Rightarrow> string \<Rightarrow> bytes \<Rightarrow> string \<Rightarrow> bool" where
  "validHMAC A secret content signature \<longleftrightarrow> ap_hmac_hex A secret content = signature"

definition ingest_handler :: "api \<Rightarrow> VideoIngestRequest \<Rightarrow> (world, response) state" where
  "ingest_handler A req =
     (case validate_Struct (va_ingest (ap_validators A) req) of
        Some refused \<Rightarrow> ret refused
      | None \<Rightarrow>
          let filename = (if vr_Filename req = '''' then filepath_Base (vr_VideoURL req) else vr_Filename req)
          in on_err (RequestIngest (ap_services A)
               \<lparr>ri_RemoteURL = vr_VideoURL req, ri_Filename = filename, ri_ContentType = vr_ContentType req,
                ri_SizeBytes = vr_SizeBytes req\<rparr>)
             (\<lambda>e. if errors_Is e ErrInvalidFilename \<or> errors_Is e ErrUnsupportedType
                  then ret (message 400 ''Unsupported video type'')
                  else ret (message 500 ''Failed to ingest video''))
             (\<lambda>videoID. ret (json_response 202 (Ingested (NewVideoIngestResponse videoID)))))"

definition video_webhook :: "api \<Rightarrow> request \<Rightarrow> (world, response) state" where
  "video_webhook A rq =
     (let secret = env_VideoWebhookSecret (ap_env A)
      in if secret = '''' then ret (message 401 ''invalid signature'')
         else if \<not> validHMAC A secret (rq_Raw rq) (rq_Headers rq ''X-Signature'') then ret (message 401 ''invalid signature'')
         else case Unmarshal_VideoIngestRequest (rq_Body rq) of
                None \<Rightarrow> ret (message 400 ''Invalid request body'')
              | Some req \<Rightarrow> ingest_handler A req)"

section \<open>The routes\<close>

definition protected_routes :: "api \<Rightarrow> request \<Rightarrow> (user \<Rightarrow> (world, response) state) option" where
  "protected_routes A rq =
     (if rq_Method rq = ''POST'' \<and> rq_Path rq = [''api'', ''videos'', ''upload-url''] then Some (upload_url_handler A rq)
      else if rq_Method rq = ''GET'' \<and> rq_Path rq = [''api'', ''videos''] then Some (list_handler A rq)
      else if rq_Method rq = ''GET'' \<and> rq_Path rq = [''api'', ''realtime'', ''connection''] then Some (connection_handler A)
      else if rq_Method rq = ''GET'' \<and> rq_Path rq = [''api'', ''users'', ''me''] then Some (me_handler A)
      else if rq_Method rq = ''GET'' \<and> length (rq_Path rq) = 3 \<and> take 2 (rq_Path rq) = [''api'', ''videos'']
          \<and> rq_Path rq ! 2 \<noteq> '''' then Some (detail_handler A (rq_Path rq ! 2))
      else None)"

text \<open>
  A path of the protected group without a handler passes the middleware before the router answers. The
  middlewares that \<open>main\<close> installs before the routes (headers, CORS, logs, the rate limit) are those of the
  web framework; the rate limit and the health checks are put in front in \<open>Programs\<close>.
\<close>

definition unrouted :: "api \<Rightarrow> request \<Rightarrow> response" where
  "unrouted A rq = (case ap_unrouted A rq of (status, why) \<Rightarrow> message status why)"

definition serve :: "api \<Rightarrow> request \<Rightarrow> (world, response) state" where
  "serve A rq =
     (if rq_Method rq = ''POST'' \<and> rq_Path rq = [''webhooks'', ''clerk''] then clerk_webhook A rq
      else if rq_Method rq = ''POST'' \<and> rq_Path rq = [''webhooks'', ''minio'', ''object-created''] then storage_webhook A rq
      else if rq_Method rq = ''POST'' \<and> rq_Path rq = [''webhooks'', ''videos''] then video_webhook A rq
      else if take 1 (rq_Path rq) = [''api''] then
        authenticate A rq (\<lambda>user. case protected_routes A rq of
          Some handler \<Rightarrow> handler user
        | None \<Rightarrow> ret (unrouted A rq))
      else ret (unrouted A rq))"

end
