(* ===== verification/Application.thy ===== *)
theory Application
  imports HttpApi JevClient
begin

text \<open>
  The application as a whole: who may ask the API for what, and the step relation \<open>system_step\<close> of requests,
  deliveries and timers, with the invariant every step keeps. Steps run one after the other; what two
  handlers do at the same time on the same rows is not part of this model.
\<close>

section \<open>Credentials\<close>

text \<open>The three webhooks, and the credentials each kind of request has to present.\<close>

definition webhook :: "request \<Rightarrow> string list \<Rightarrow> bool" where
  "webhook rq path \<longleftrightarrow> rq_Method rq = ''POST'' \<and> rq_Path rq = ''webhooks'' # path"

definition token_claims :: "api \<Rightarrow> request \<Rightarrow> JWTClaims option" where
  "token_claims A rq =
     (case bearer_token (authorization rq) of Inl why \<Rightarrow> None | Inr token \<Rightarrow> ap_parse_token A token)"

definition credentials :: "api \<Rightarrow> request \<Rightarrow> bool" where
  "credentials A rq \<longleftrightarrow>
     webhook rq [''clerk''] \<and> ap_svix_verify A (env_ClerkWebhookSecret (ap_env A)) (rq_Raw rq) (rq_Headers rq) \<or>
     webhook rq [''minio'', ''object-created''] \<and> env_MinIOWebhookSecret (ap_env A) \<noteq> '''' \<and>
       authorization rq \<in> {''Bearer '' @ env_MinIOWebhookSecret (ap_env A), env_MinIOWebhookSecret (ap_env A)} \<or>
     webhook rq [''videos''] \<and> env_VideoWebhookSecret (ap_env A) \<noteq> '''' \<and>
       ap_hmac_hex A (env_VideoWebhookSecret (ap_env A)) (rq_Raw rq) = rq_Headers rq ''X-Signature'' \<or>
     take 1 (rq_Path rq) = [''api''] \<and> token_claims A rq \<noteq> None"

definition api_route :: "api \<Rightarrow> request \<Rightarrow> user \<Rightarrow> (world, response) state" where
  "api_route A rq user =
     (case protected_routes A rq of Some handler \<Rightarrow> handler user | None \<Rightarrow> ret (unrouted A rq))"

lemma serve_api: "take 1 (rq_Path rq) = [''api''] \<Longrightarrow> serve A rq = authenticate A rq (api_route A rq)"
  by (auto simp: serve_def api_route_def [abs_def])

lemma run_ret [simp]: "run_state (ret x) w = (x, w)"
  by (simp add: State_Monad.return_def)

lemma authenticate_refuses: "token_claims A rq = None \<Longrightarrow> \<exists>why. authenticate A rq k = ret (message 401 why)"
  by (auto simp: token_claims_def authenticate_def ValidateToken_def on_err_def split: sum.splits)

text \<open>
  C8. A request without the credentials of its route is refused with status 401, or gets the router's own
  answer when there is no such route, and nothing else happens: no table is read or written, no service
  called, nothing sent.
\<close>

theorem forged_requests_refused:
  assumes "\<not> credentials A rq"
  shows "\<exists>resp. run_state (serve A rq) w = (resp, w) \<and>
    (rs_Status resp = 401 \<or> resp = unrouted A rq)"
proof -
  consider (clerk) "webhook rq [''clerk'']" | (minio) "webhook rq [''minio'', ''object-created'']"
    | (videos) "webhook rq [''videos'']"
    | (api) "take 1 (rq_Path rq) = [''api'']"
    | (none) "\<not> webhook rq [''clerk'']" "\<not> webhook rq [''minio'', ''object-created'']"
        "\<not> webhook rq [''videos'']" "take 1 (rq_Path rq) \<noteq> [''api'']"
    by blast
  then show ?thesis
  proof cases
    case api
    then have "token_claims A rq = None" using assms by (simp add: credentials_def)
    from authenticate_refuses [OF this] obtain why where
      refused: "serve A rq = ret (message 401 why)" unfolding serve_api [OF api] by blast
    show ?thesis unfolding refused by (simp add: json_response_def)
  qed (use assms in \<open>auto simp: credentials_def webhook_def serve_def clerk_webhook_def storage_webhook_def
      video_webhook_def validHMAC_def json_response_def Let_def\<close>)
qed

definition sample_api :: api where
  "sample_api = \<lparr>ap_services = sample_services,
     ap_env = default_env\<lparr>env_StorageBucket := ''videos'', env_MinIOWebhookSecret := ''s3cret'', env_VideoWebhookSecret := ''hook''\<rparr>,
     ap_validators = \<lparr>va_created = (\<lambda>_. []), va_deleted = (\<lambda>_. []), va_objects = (\<lambda>_. []), va_ingest = (\<lambda>_. []),
       va_upload = (\<lambda>_. [])\<rparr>,
     ap_svix_verify = (\<lambda>secret raw hs. hs ''svix-signature'' = ''v1''), ap_hmac_hex = (\<lambda>secret raw. ''beef''),
     ap_parse_token = (\<lambda>t. if t = ''good'' then Some \<lparr>cl_UserID = ''clerk_7'', cl_Subject = ''clerk_7''\<rparr> else None),
     ap_fetch_user = (\<lambda>_ _. Inl (ErrorText ''not found'')),
     ap_bind_upload = (\<lambda>_. Some \<lparr>uq_Filename = ''a.mp4'', uq_ContentType = ''video/mp4'', uq_SizeBytes = 5\<rparr>),
     ap_bind_query = (\<lambda>_. Some \<lparr>pq_Page = 1, pq_Limit = 20, pq_SortBy = '''', pq_OrderBy = '''', pq_Search = ''''\<rparr>),
     ap_sign = (\<lambda>_ subject _ _. Inr subject), ap_unrouted = (\<lambda>_. (404, ''Not Found''))\<rparr>"

definition get_request :: "string list \<Rightarrow> string \<Rightarrow> request" where
  "get_request path auth = \<lparr>rq_Method = ''GET'', rq_Path = path,
     rq_Headers = (\<lambda>h. if h = ''Authorization'' then auth else ''''), rq_Raw = '''', rq_Body = Malformed\<rparr>"

theorem forged_requests_refused_witness:
  "\<exists>resp. run_state (serve sample_api (get_request [''api'', ''videos''] ''Bearer bad'')) sample_world =
     (resp, sample_world) \<and> (rs_Status resp = 401 \<or> resp = message 404 ''Not Found'')"
proof -
  have "token_claims sample_api (get_request [''api'', ''videos''] ''Bearer bad'') = None"
    by code_simp
  then have "\<not> credentials sample_api (get_request [''api'', ''videos''] ''Bearer bad'')"
    by (simp add: credentials_def webhook_def get_request_def)
  from forged_requests_refused [OF this, of sample_world] show ?thesis
    by (simp add: unrouted_def sample_api_def)
qed

section \<open>Whose data a request sees and changes\<close>

text \<open>The API, running for a user, only adds videos of that user, and touches none there was.\<close>

definition only_adds_own :: "db \<Rightarrow> uuid \<Rightarrow> db \<Rightarrow> bool" where
  "only_adds_own d0 uid d \<longleftrightarrow>
     (\<exists>new. t_videos d = t_videos d0 @ new \<and> (\<forall>v \<in> set new. v_UserID v = Some uid)) \<and>
     t_jobs d = t_jobs d0 \<and> t_frames d = t_frames d0 \<and> t_ocrs d = t_ocrs d0 \<and>
     t_classifications d = t_classifications d0 \<and> t_users d = t_users d0"

abbreviation for_user :: "db \<Rightarrow> uuid \<Rightarrow> ('a \<Rightarrow> bool) \<Rightarrow> (world, 'a) state \<Rightarrow> bool" where
  "for_user d0 uid R m \<equiv> holds (only_adds_own d0 uid) R m"

lemma only_adds_own_refl [simp]: "only_adds_own d uid d"
  by (simp add: only_adds_own_def)

lemma for_user_videos_Save: "v_UserID v = Some uid \<Longrightarrow> for_user d0 uid (\<lambda>_. True) (videos_Save v)"
  unfolding videos_Save_def
  by (rule holds_db_exec)
    (auto simp: or_violation_def only_adds_own_def tbl_insert_def videoModelFromDomain_def
      split: option.splits if_splits)

lemma for_user_StoreEvents: "for_user d0 uid (\<lambda>_. True) (StoreEvents S es)"
  unfolding StoreEvents_def
  by (intro holds_if holds_ret TrueI holds_case_sum holds_db_exec) (auto simp: only_adds_own_def)

lemma for_user_create_video: "v_UserID v = Some uid \<Longrightarrow> for_user d0 uid (\<lambda>_. True) (create_video S v)"
  unfolding create_video_def store_pulled_def Let_def
  by (rule holds_Transaction holds_if_err [OF for_user_videos_Save] holds_bind [OF for_user_StoreEvents]
      holds_bind [where Q = "\<lambda>_. True"] holds_case_prod holds_ret TrueI | assumption)+

lemma for_user_RequestUploadURL:
  "ru_UserID cmd = uid \<Longrightarrow> for_user d0 uid (\<lambda>_. True) (RequestUploadURL S ttl cmd)"
proof -
  assume uid: "ru_UserID cmd = uid"
  have own: "for_user d0 uid (\<lambda>r. \<forall>v. r = Inr v \<longrightarrow> v_UserID v = Some uid)
      (rt_op (NewPresignedVideo U m (ru_UserID cmd) fn ct sz))" for U m fn ct sz
    by (rule holds_rt_op) (auto simp: NewPresignedVideo_def recordCreated_def recordEvent_def wp_simps Let_def uid)
  show ?thesis
    unfolding RequestUploadURL_def
    by (rule holds_on_err [OF own] holds_on_err [OF holds_svc] holds_if_err [OF for_user_create_video] holds_ret TrueI
        | simp)+
qed

text \<open>What a response tells: only what belongs to the user.\<close>

definition own_response :: "api \<Rightarrow> db \<Rightarrow> user \<Rightarrow> response \<Rightarrow> bool" where
  "own_response A d u resp =
     (let U = sv_uuid (ap_services A); own = filter (\<lambda>v. v_UserID v = Some (u_ID u)) (t_videos d)
      in case rs_Body resp of
        VideoDetail r \<Rightarrow> \<exists>v \<in> set own. vd_ID r = uuid_String U (v_ID v) \<and> vd_StorageKey r = v_StorageKey v \<and>
          set (map vf_ID (vd_Frames r)) \<subseteq> (\<lambda>f. uuid_String U (f_ID f)) ` {f \<in> set (t_frames d). f_VideoID f = v_ID v}
      | VideoList p \<Rightarrow> set (map vi_ID (pr_Members p)) \<subseteq> (\<lambda>v. uuid_String U (v_ID v)) ` set own
      | UserDetail r \<Rightarrow> ud_ID r = uuid_String U (u_ID u)
      | RealtimeConnection token channel url \<Rightarrow> channel = UserChannel (ap_services A) (u_ID u)
      | _ \<Rightarrow> True)"

lemma own_response_messages [simp]:
  "own_response A d u (message s t)" "own_response A d u (json_response s NoBody)"
  "own_response A d u (json_response s (ValidationFailed es))" "own_response A d u (json_response s (UploadURL r))"
  by (simp_all add: own_response_def json_response_def Let_def)


lemma own_response_refusal: "validate_Struct es = Some y \<Longrightarrow> own_response A d u y"
  by (auto simp: validate_Struct_def split: if_splits)

lemma set_limit_offset: "set (limit_offset l k xs) \<subseteq> set xs"
  by (auto simp: limit_offset_def Let_def dest: in_set_takeD in_set_dropD)

lemma set_order_videos [simp]: "set (order_videos c ord vs) = set vs"
  by (simp add: order_videos_def Let_def)

lemma reads_detail: "reads d (own_response A d u) (detail_handler A param u)"
proof -
  have own: "own_response A d u (json_response 200 (VideoDetail (NewVideoDetailResponseFromView U view)))"
    if view: "detail_of d i (u_ID u) view" and U: "U = sv_uuid (ap_services A)" for i view U
  proof -
    from view obtain v where v: "v \<in> set (t_videos d)" "v_ID v = i" "v_UserID v = Some (u_ID u)"
        "vw_ID view = i" "vw_StorageKey view = v_StorageKey v"
      and frames: "map fv_ID (vw_Frames view) =
        map f_ID (sort_key f_SegmentIndex (sort_key f_Index (filter (\<lambda>f. f_VideoID f = i) (t_frames d))))"
      by (auto simp: detail_of_def)
    from arg_cong [OF frames, of set]
    have "fv_ID ` set (vw_Frames view) = f_ID ` {f \<in> set (t_frames d). f_VideoID f = i}" by simp
    moreover have "vf_ID ` set (newVideoFrameResponses U (vw_Frames view)) = uuid_String U ` fv_ID ` set (vw_Frames view)"
      by (simp add: newVideoFrameResponses_def image_image)
    ultimately have "vf_ID ` set (newVideoFrameResponses U (vw_Frames view)) =
        (\<lambda>f. uuid_String U (f_ID f)) ` {f \<in> set (t_frames d). f_VideoID f = i}"
      by (simp add: image_image)
    then show ?thesis
      unfolding own_response_def json_response_def NewVideoDetailResponseFromView_def Let_def
      using v U by (auto intro!: bexI [of _ v])
  qed
  show ?thesis
    unfolding detail_handler_def
    by (auto intro!: holds_case_option holds_ret holds_on_err [OF reads_GetVideoByID] own)
qed

lemma reads_list: "reads d (own_response A d u) (list_handler A rq u)"
proof -
  have own: "own_response A d u (json_response 200 (VideoList (NewPaginateResponse (NewVideoListResponseFromViews U views) cnt q)))"
    if "list_of d (u_ID u) q views cnt" and U: "U = sv_uuid (ap_services A)" for q views cnt U
  proof -
    let ?own = "filter (\<lambda>v. v_UserID v = Some (u_ID u)) (t_videos d)"
    let ?matching = "filter (\<lambda>v. v_UserID v = Some (u_ID u) \<and> (TrimSpace (pq_Search q) = '''' \<or>
      (\<exists>a b. ToLower (v_OriginalFilename v) = a @ ToLower (TrimSpace (pq_Search q)) @ b))) (t_videos d)"
    define sorted where "sorted = order_videos (normalizeVideoListSort (pq_SortBy q)) (pq_OrderBy q) ?matching"
    define vs where "vs = limit_offset (pq_Limit q) (Offset q) sorted"
    have "set sorted = set ?matching" unfolding sorted_def by (rule set_order_videos)
    moreover have "set vs \<subseteq> set sorted" unfolding vs_def by (rule set_limit_offset)
    moreover have "set ?matching \<subseteq> set ?own" unfolding set_filter by (rule Collect_mono) (iprover elim: conjE)
    ultimately have sub: "set vs \<subseteq> set ?own" by (iprover intro: subset_trans equalityD1)
    have ids: "map vl_ID views = map v_ID vs"
      using that(1) unfolding list_of_def Let_def vs_def sorted_def by (rule conjunct2)
    from arg_cong [OF ids, of set] have "vl_ID ` set views = v_ID ` set vs" by simp
    moreover have "vi_ID ` set (NewVideoListResponseFromViews U views) = uuid_String U ` vl_ID ` set views"
      by (simp add: NewVideoListResponseFromViews_def image_image)
    ultimately have "vi_ID ` set (NewVideoListResponseFromViews U views) = (\<lambda>v. uuid_String U (v_ID v)) ` set vs"
      by (simp add: image_image)
    then show ?thesis
      using image_mono [OF sub, of "\<lambda>v. uuid_String U (v_ID v)"]
      by (simp add: own_response_def json_response_def NewPaginateResponse_def U)
  qed
  show ?thesis
    unfolding list_handler_def Let_def
    by (rule holds_case_option holds_case_prod holds_on_err [OF reads_ListVideos] holds_ret own_response_messages)+
      (rule own, blast, rule refl)
qed

lemma reads_me: "reads d (own_response A d u) (me_handler A u)"
proof -
  have "reads d (\<lambda>r. \<forall>view. r = Inr (Some view) \<longrightarrow> uv_ID view = u_ID u) (users_FindByID (u_ID u))"
    unfolding users_FindByID_def by (rule reads_query) (auto simp: toUserView_def dest!: tbl_find_Some)
  then have "reads d (\<lambda>r. \<forall>view. r = Inr view \<longrightarrow> uv_ID view = u_ID u) (GetUserByID (u_ID u))"
    unfolding GetUserByID_def by (rule holds_on_err) (auto intro!: holds_ret holds_case_option)
  then show ?thesis
    unfolding me_handler_def
    by (rule holds_on_err) (auto intro!: holds_ret
        simp: own_response_def json_response_def NewUserDetailResponseFromView_def)
qed

lemma reads_connection: "reads d (own_response A d u) (connection_handler A u)"
proof -
  have "reads d (\<lambda>_. True) (generateConnectionToken A i c)" for i c
    unfolding generateConnectionToken_def by (rule holds_bind [OF holds_rt_True] holds_case_sum holds_ret TrueI)+
  then have "reads d (\<lambda>r. \<forall>t c url. r = Inr (t, c, url) \<longrightarrow> c = UserChannel (ap_services A) (u_ID u))
      (NewConnectionInfo A (u_ID u))"
    unfolding NewConnectionInfo_def Let_def by (rule holds_on_err) (auto intro!: holds_ret)
  then show ?thesis
    unfolding connection_handler_def
    by (rule holds_on_err) (auto intro!: holds_ret simp: own_response_def json_response_def)
qed

lemma for_user_upload: "for_user d0 (u_ID u) (own_response A d0 u) (upload_url_handler A rq u)"
  unfolding upload_url_handler_def
  by (auto intro!: holds_case_option holds_ret holds_on_err [OF for_user_RequestUploadURL] dest: own_response_refusal)


text \<open>A run from one database: what it makes of it, and what it returns.\<close>

definition turns :: "db \<Rightarrow> (db \<Rightarrow> bool) \<Rightarrow> ('a \<Rightarrow> bool) \<Rightarrow> (world, 'a) state \<Rightarrow> bool" where
  "turns d Q R m \<longleftrightarrow> (\<forall>w. w_db w = d \<longrightarrow> wp m (\<lambda>a w'. Q (w_db w') \<and> R a) w)"

lemma turns_holds: "holds Q R m \<Longrightarrow> Q d \<Longrightarrow> turns d Q R m"
  by (simp add: holds_def turns_def)

lemma turns_reads: "reads d R m \<Longrightarrow> Q d \<Longrightarrow> turns d Q R m"
  unfolding holds_def turns_def by (fastforce intro: wp_mono)

lemma turns_ret: "Q d \<Longrightarrow> R a \<Longrightarrow> turns d Q R (ret a)"
  by (simp add: turns_def wp_simps)

lemma turns_on_err:
  "reads d R1 m \<Longrightarrow> (\<And>e. R1 (Inl e) \<Longrightarrow> turns d Q R (h e)) \<Longrightarrow> (\<And>x. R1 (Inr x) \<Longrightarrow> turns d Q R (k x)) \<Longrightarrow>
     turns d Q R (on_err m h k)"
  unfolding holds_def turns_def on_err_def wp_bind
  by (intro allI impI) (rule wp_mono, blast, auto split: sum.splits)

lemma turnsD: "turns d Q R m \<Longrightarrow> w_db w = d \<Longrightarrow> run_state m w = (a, w') \<Longrightarrow> Q (w_db w') \<and> R a"
  using wpD unfolding turns_def by fastforce

text \<open>The route of a user, and the way to it through the middleware.\<close>

lemma turns_route:
  "turns d (only_adds_own d (u_ID u)) (own_response A d u) (api_route A rq u)"
proof (cases "protected_routes A rq")
  case (Some handler)
  let ?is = "\<lambda>h. handler = h"
  have "?is (upload_url_handler A rq) \<or> ?is (list_handler A rq) \<or> ?is (connection_handler A) \<or>
      ?is (me_handler A) \<or> ?is (detail_handler A (rq_Path rq ! 2))"
    using Some unfolding protected_routes_def
    by (simp only: split: if_split_asm) (simp_all only: option.inject option.distinct simp_thms)
  then show ?thesis
    unfolding api_route_def Some option.case
    by (elim disjE; hypsubst)
      (rule turns_holds [OF for_user_upload] turns_reads [OF reads_list] turns_reads [OF reads_connection]
        turns_reads [OF reads_me] turns_reads [OF reads_detail], rule only_adds_own_refl)+
next
  case None
  show ?thesis
    unfolding api_route_def None option.case unrouted_def prod.case_eq_if
    by (rule turns_ret) (rule only_adds_own_refl own_response_messages)+
qed

lemma turns_authenticate:
  assumes claims: "token_claims A rq = Some claims"
    and user: "tbl_find (\<lambda>u. u_ClerkID u = claims_clerk_id claims) (t_users d) = Some u"
    and k: "\<not> u_Banned u \<Longrightarrow> turns d Q R (k u)" and Q: "Q d" and R: "\<And>why. R (message 401 why)"
  shows "turns d Q R (authenticate A rq k)"
proof -
  obtain token where token: "bearer_token (authorization rq) = Inr token" "ap_parse_token A token = Some claims"
    using claims by (auto simp: token_claims_def split: sum.splits)
  have "reads d (\<lambda>r. \<forall>x. r = Inr x \<longrightarrow> x = Some u) (users_GetByClerkID (claims_clerk_id claims))"
    unfolding users_GetByClerkID_def by (rule reads_query) (simp_all add: user)
  then have found: "reads d (\<lambda>r. \<forall>x. r = Inr x \<longrightarrow> x = (Some u, claims)) (ValidateToken A token)"
    unfolding ValidateToken_def token option.case by (rule holds_on_err) (auto intro!: holds_ret)
  show ?thesis
    unfolding authenticate_def token sum.case
    by (rule turns_on_err [OF found]) (auto intro!: turns_ret k Q R simp: admit_def)
qed

text \<open>
  C5. A request to the API that carries a valid token of a stored user acts for that user only, whatever
  fails: all it changes of videos, jobs, results and users is to add videos of that user; a video, a list
  of videos or a profile it answers with is that user's own, and the channel it opens is the user's own
  channel. A banned user is refused and changes nothing.
\<close>

theorem api_acts_for_its_user:
  assumes "run_state (serve A rq) w = (resp, w')"
    and "take 1 (rq_Path rq) = [''api'']" "token_claims A rq = Some claims"
    and "tbl_find (\<lambda>u. u_ClerkID u = claims_clerk_id claims) (t_users (w_db w)) = Some u"
  shows "only_adds_own (w_db w) (u_ID u) (w_db w') \<and> own_response A (w_db w) u resp \<and>
    (u_Banned u \<longrightarrow> rs_Status resp = 401 \<and> w_db w' = w_db w)"
proof -
  note run = assms(1) [unfolded serve_api [OF assms(2)]]
  let ?d = "w_db w"
  have "turns ?d (only_adds_own ?d (u_ID u)) (own_response A ?d u) (authenticate A rq (api_route A rq))"
    by (rule turns_authenticate [OF assms(3,4) turns_route]) simp_all
  moreover have "turns ?d (\<lambda>d. d = ?d) (\<lambda>r. rs_Status r = 401) (authenticate A rq (api_route A rq))"
    if "u_Banned u"
    by (rule turns_authenticate [OF assms(3,4)]) (use that in \<open>simp_all add: json_response_def\<close>)
  ultimately show ?thesis using run by (blast dest: turnsD)
qed

definition api_user :: "uuid \<Rightarrow> string \<Rightarrow> bool \<Rightarrow> user" where
  "api_user i clerkID banned = \<lparr>u_ID = i, u_ClerkID = clerkID, u_FirstName = ''A'', u_LastName = ''B'',
     u_Banned = banned, u_Email = clerkID @ ''@x'', u_ActiveProjectID = None, u_CreatedAt = 0, u_UpdatedAt = 0, u_events = []\<rparr>"

definition api_world :: world where
  "api_world = upload_world\<lparr>w_db := (w_db upload_world)\<lparr>t_users := [api_user 7 ''clerk_7'' False]\<rparr>\<rparr>"

theorem api_acts_for_its_user_witness:
  "\<exists>p w'. run_state (serve sample_api (get_request [''api'', ''videos''] ''Bearer good'')) api_world =
     (json_response 200 (VideoList p), w') \<and> length (pr_Members p) = 1 \<and>
     set (map vi_ID (pr_Members p)) \<subseteq> {uuid_String decimal_lib 900}"
proof -
  let ?rq = "get_request [''api'', ''videos''] ''Bearer good''"
  have claims: "token_claims sample_api ?rq = Some \<lparr>cl_UserID = ''clerk_7'', cl_Subject = ''clerk_7''\<rparr>"
    by code_simp
  have api: "take 1 (rq_Path ?rq) = [''api'']" by (simp add: get_request_def)
  have user: "tbl_find (\<lambda>u. u_ClerkID u = claims_clerk_id \<lparr>cl_UserID = ''clerk_7'', cl_Subject = ''clerk_7''\<rparr>)
      (t_users (w_db api_world)) = Some (api_user 7 ''clerk_7'' False)"
    by (simp add: tbl_find_def api_world_def claims_clerk_id_def api_user_def)
  have "wp (serve sample_api ?rq) (\<lambda>r w'. \<exists>p. r = json_response 200 (VideoList p) \<and> length (pr_Members p) = 1) api_world"
    by (simp add: serve_def get_request_def authenticate_def authorization_def bearer_token_def Split.simps TrimSpace_def
        TrimLeftSpace_def is_space_def ValidateToken_def sample_api_def claims_clerk_id_def users_GetByClerkID_def db_query_def
        wp_simps wp_db_op Let_def api_world_def upload_world_def sample_world_def empty_db_def tbl_find_def
        api_user_def admit_def protected_routes_def list_handler_def list_query_def Normalize_def
        ListVideos_def List_videos_def list_where_def presignMediaURL_def sample_services_def
        limit_offset_def Offset_def wrap64_def order_videos_def list_view_def NewPaginateResponse_def
        NewVideoListResponseFromViews_def json_response_def)
  then obtain p w' where run: "run_state (serve sample_api ?rq) api_world = (json_response 200 (VideoList p), w')"
      and one: "length (pr_Members p) = 1"
    by (auto simp: wp_def split: prod.splits)
  from api_acts_for_its_user [OF run api claims user]
  have "set (map vi_ID (pr_Members p)) \<subseteq> {uuid_String decimal_lib 900}"
    by (auto simp: own_response_def json_response_def api_world_def upload_world_def api_user_def sample_api_def Let_def)
  with run one show ?thesis by blast
qed


section \<open>The invariant through the API\<close>

lemma keeps_reads: "(\<And>d. reads d (R d) m) \<Longrightarrow> holds P (\<lambda>_. True) m"
  unfolding holds_def by (fastforce intro: wp_mono)

lemma keeps_protected_routes:
  assumes "protected_routes A rq = Some handler"
  shows "keeps H (ap_services A) (handler u)"
proof -
  have upload: "keeps H (ap_services A) (upload_url_handler A rq u)"
    unfolding upload_url_handler_def
    by (rule holds_case_option holds_on_err [OF RequestUploadURL_ok [OF refl]] holds_if holds_ret TrueI)+
  have "handler = upload_url_handler A rq \<or> handler = list_handler A rq \<or> handler = connection_handler A \<or>
      handler = me_handler A \<or> handler = detail_handler A (rq_Path rq ! 2)"
    using assms unfolding protected_routes_def
    by (simp only: split: if_split_asm) (simp_all only: option.inject option.distinct simp_thms)
  then show ?thesis
    by (elim disjE; hypsubst)
      (rule upload keeps_reads [OF reads_list] keeps_reads [OF reads_connection] keeps_reads [OF reads_me]
        keeps_reads [OF reads_detail])+
qed

lemma keeps_ValidateToken: "keeps H S (ValidateToken A token)"
  unfolding ValidateToken_def users_GetByClerkID_def
  by (rule holds_case_option holds_on_err [OF holds_db_query [where R = "\<lambda>_. True"]] holds_ret TrueI)+

lemma keeps_admit: "(\<And>u. keeps H S (k u)) \<Longrightarrow> keeps H S (admit u k)"
  by (simp add: admit_def holds_ret)

lemma keeps_authenticate: "(\<And>u. keeps H (ap_services A) (k u)) \<Longrightarrow> keeps H (ap_services A) (authenticate A rq k)"
  unfolding authenticate_def Let_def
  by (rule holds_case_sum holds_case_option holds_case_prod holds_on_err [OF keeps_ValidateToken]
      holds_on_err [OF holds_svc] holds_on_err [OF CreateUser_ok [OF refl]] keeps_admit holds_ret TrueI | assumption)+

lemma keeps_clerk: "keeps H (ap_services A) (clerk_webhook A rq)"
  unfolding clerk_webhook_def clerk_Execute_def with_user_data_def createUser_def updateUser_def
  by (rule holds_if holds_case_option holds_if_err [where Q = "\<lambda>_. True"] holds_on_err [OF GetUserByExternalID_ok]
      holds_on_err [OF CreateUser_ok [OF refl]] UpdateUser_ok [OF refl] DeleteUserByExternalID_ok [OF refl] holds_ret TrueI)+

lemma keeps_processRecord: "keeps H (ap_services A) (processRecord A rec)"
  unfolding processRecord_def
  by (rule holds_if holds_case_sum ConfirmUpload_ok [OF refl] holds_ret TrueI)+

lemma keeps_process_records: "keeps H (ap_services A) (process_records A recs)"
  by (induction recs) (auto intro!: holds_ret holds_if_err [OF keeps_processRecord])

lemma keeps_webhooks: "keeps H (ap_services A) (storage_webhook A rq)" "keeps H (ap_services A) (video_webhook A rq)"
  unfolding storage_webhook_def video_webhook_def ingest_handler_def Let_def
  by (rule holds_if holds_case_option keeps_process_records holds_on_err [OF RequestIngest_ok [OF refl]] holds_ret TrueI)+

lemma keeps_serve: "keeps H (ap_services A) (serve A rq)"
  unfolding serve_def
  by (rule holds_if keeps_clerk keeps_webhooks keeps_authenticate holds_case_option keeps_protected_routes holds_ret TrueI
      | assumption)+

section \<open>Steps of the application\<close>

text \<open>
  A step: a request to the API, a tick of the worker's two timers, or a delivery, of whatever message, to
  one of the workers. Any statement, service or publication may fail in it (the worlds and services say
  which).
\<close>

inductive system_step ::
  "api \<Rightarrow> (nat \<Rightarrow> delivery \<Rightarrow> string \<Rightarrow> go_error option) \<Rightarrow> world \<Rightarrow> world \<Rightarrow> bool"
  for A dlq where
  step_serve: "run_state (serve A rq) w = (resp, w') \<Longrightarrow> system_step A dlq w w'"
| step_expire: "run_state (ExpireStaleUploads (ap_services A) (env_UploadURLTTL (ap_env A))) w = (r, w') \<Longrightarrow>
    system_step A dlq w w'"
| step_relay: "run_state (relay_tick (ap_services A) 50) w = (r, w') \<Longrightarrow> system_step A dlq w w'"
| step_deliver: "run_state (handleDelivery (worker_consumer (ap_services A) (ap_env A) dlq k) c m) w = (acts, w') \<Longrightarrow>
    system_step A dlq w w'"

lemma system_step_after:
  assumes "system_step A dlq w w'" "db_after H (sv_uuid (ap_services A)) (w_db w)"
  shows "db_after H (sv_uuid (ap_services A)) (w_db w')"
  using assms(1)
  by cases
    (use assms(2) in \<open>blast dest: holdsD [OF keeps_serve] holdsD [OF ExpireStaleUploads_ok [OF refl]]
      holdsD [OF keeps_relay_tick] holdsD [OF keeps_worker]\<close>)+

lemma system_run_after:
  assumes "(system_step A dlq)\<^sup>*\<^sup>* w w'" "db_after H (sv_uuid (ap_services A)) (w_db w)"
  shows "db_after H (sv_uuid (ap_services A)) (w_db w')"
  using assms(1) by (induction rule: rtranclp_induct) (auto intro: assms(2) system_step_after)

text \<open>
  C2. Every reachable state of the application is consistent: whatever the API is asked, whatever is
  delivered to the workers and whatever fails, video ids and keys stay unique, a video is finished exactly
  on success and stored under its own key, a video has at most one job of a type, jobs and segments are
  done exactly when they have a finish time, frames and their results are not duplicated, and every
  message of the outbox is an event of the program under the event's own id.
\<close>

theorem system_invariant:
  assumes "(system_step A dlq)\<^sup>*\<^sup>* w w'" "db_ok (sv_uuid (ap_services A)) (w_db w)"
  shows "db_ok (sv_uuid (ap_services A)) (w_db w')"
  using system_run_after [OF assms(1), of Map.empty] assms(2) by simp

definition put_request :: "string list \<Rightarrow> string \<Rightarrow> payload \<Rightarrow> request" where
  "put_request path auth body = \<lparr>rq_Method = ''POST'', rq_Path = path,
     rq_Headers = (\<lambda>h. if h = ''Authorization'' then auth else if h = ''X-Signature'' then ''beef'' else ''''),
     rq_Raw = '''', rq_Body = body\<rparr>"

definition table_sizes :: "db \<Rightarrow> nat \<times> nat" where
  "table_sizes d = (length (t_videos d), length (t_outbox d))"

theorem system_invariant_witness:
  "\<exists>w'. (system_step sample_api (\<lambda>_ _ _. None))\<^sup>*\<^sup>* api_world w' \<and> length (t_videos (w_db w')) = 2 \<and>
     length (t_outbox (w_db w')) = 1 \<and> db_ok decimal_lib (w_db w')"
proof -
  let ?rq = "put_request [''api'', ''videos'', ''upload-url''] ''Bearer good'' Malformed"
  obtain r w' where run: "run_state (serve sample_api ?rq) api_world = (r, w')"
    by (metis surj_pair)
  have "table_sizes (w_db (snd (run_state (serve sample_api ?rq) api_world))) = (2, 1)"
    by code_simp
  then have two: "length (t_videos (w_db w')) = 2" "length (t_outbox (w_db w')) = 1"
    by (simp_all add: run table_sizes_def)
  have "system_step sample_api (\<lambda>_ _ _. None) api_world w'" by (rule step_serve) (rule run)
  then have reach: "(system_step sample_api (\<lambda>_ _ _. None))\<^sup>*\<^sup>* api_world w'" by blast
  have "db_ok (sv_uuid (ap_services sample_api)) (w_db w')"
    by (rule system_invariant [OF reach])
      (use upload_world_ok in \<open>simp add: api_world_def sample_api_def db_ok_def users_ok_def api_user_def\<close>)
  then have "db_ok decimal_lib (w_db w')" by (simp add: sample_api_def)
  then show ?thesis using reach two by blast
qed

section \<open>The life of a video in the application\<close>


definition finished_world :: world where
  "finished_world = api_world\<lparr>w_db := (w_db api_world)\<lparr>t_videos :=
     map (\<lambda>v. v\<lparr>v_Status := StatusSuccess, v_FinishedAt := Some 5\<rparr>) (t_videos (w_db api_world))\<rparr>\<rparr>"


end
