(* ===== verification/Fetcher.thy ===== *)
theory Fetcher
  imports Uploads
begin

text \<open>
  The download of a remote video: \<open>internal/infrastructure/remote/fetcher.go\<close>, which must not be led to a
  host of the internal network. The parts of Go's standard library it uses are modelled as documented:
  \<open>net.IP\<close> is its bytes, and \<open>http.Client.Do\<close> follows redirects after asking \<open>CheckRedirect\<close>, its
  transport calling \<open>DialContext\<close> for each request. The parser of URLs, the resolver and the servers are
  the \<open>network\<close>, a parameter.
\<close>

section \<open>Addresses\<close>

type_synonym ip = "8 word list"    \<comment> \<open>4 or 16 bytes\<close>

definition To4 :: "ip \<Rightarrow> ip option" where
  "To4 a = (if length a = 4 then Some a
            else if length a = 16 \<and> take 10 a = replicate 10 0 \<and> take 2 (drop 10 a) = [0xFF, 0xFF] then Some (drop 12 a)
            else None)"

definition IsLoopback :: "ip \<Rightarrow> bool" where
  "IsLoopback a = (case To4 a of Some q \<Rightarrow> q ! 0 = 127 | None \<Rightarrow> a = replicate 15 0 @ [1])"

unbundle bit_operations_syntax

definition IsPrivate :: "ip \<Rightarrow> bool" where
  "IsPrivate a = (case To4 a of
     Some q \<Rightarrow> q ! 0 = 10 \<or> (q ! 0 = 172 \<and> q ! 1 AND 0xF0 = 16) \<or> (q ! 0 = 192 \<and> q ! 1 = 168)
   | None \<Rightarrow> length a = 16 \<and> a ! 0 AND 0xFE = 0xFC)"

definition IsLinkLocalUnicast :: "ip \<Rightarrow> bool" where
  "IsLinkLocalUnicast a = (case To4 a of
     Some q \<Rightarrow> q ! 0 = 169 \<and> q ! 1 = 254
   | None \<Rightarrow> length a = 16 \<and> a ! 0 = 0xFE \<and> a ! 1 AND 0xC0 = 0x80)"

definition IsLinkLocalMulticast :: "ip \<Rightarrow> bool" where
  "IsLinkLocalMulticast a = (case To4 a of
     Some q \<Rightarrow> q ! 0 = 224 \<and> q ! 1 = 0 \<and> q ! 2 = 0
   | None \<Rightarrow> length a = 16 \<and> a ! 0 = 0xFF \<and> a ! 1 AND 0x0F = 0x02)"

definition IsUnspecified :: "ip \<Rightarrow> bool" where
  "IsUnspecified a = (case To4 a of Some q \<Rightarrow> q = [0, 0, 0, 0] | None \<Rightarrow> a = replicate 16 0)"

definition isBlockedIP :: "ip \<Rightarrow> bool" where
  "isBlockedIP a =
     (if IsLoopback a \<or> IsPrivate a \<or> IsLinkLocalUnicast a \<or> IsLinkLocalMulticast a \<or> IsUnspecified a then True
      else case To4 a of
        Some q \<Rightarrow> q ! 0 = 100 \<and> q ! 1 AND 0xC0 = 64
      | None \<Rightarrow> False)"

text \<open>The masks of the four-byte addresses as ranges.\<close>

lemma int_mask_ranges:
  "list_all (\<lambda>i. (i AND 240 = 16 \<longleftrightarrow> 16 \<le> i \<and> i \<le> 31) \<and> (i AND 192 = 64 \<longleftrightarrow> 64 \<le> i \<and> i \<le> 127)) [0..255 :: int]"
  by code_simp

lemma mask_ranges:
  "(b :: 8 word) AND 0xF0 = 16 \<longleftrightarrow> 16 \<le> b \<and> b \<le> 31"
  "(b :: 8 word) AND 0xC0 = 64 \<longleftrightarrow> 64 \<le> b \<and> b \<le> 127"
proof -
  have "uint b \<in> set [0..255]" using uint_range_size [of b] by (auto simp: word_size)
  with int_mask_ranges show
    "(b :: 8 word) AND 0xF0 = 16 \<longleftrightarrow> 16 \<le> b \<and> b \<le> 31" "(b :: 8 word) AND 0xC0 = 64 \<longleftrightarrow> 64 \<le> b \<and> b \<le> 127"
    unfolding list_all_iff by (auto simp: word_uint_eq_iff word_le_def uint_and)
qed

lemma isBlockedIP_four:
  "isBlockedIP [a, b, c, d] \<longleftrightarrow>
     a \<in> {10, 127} \<or> a = 172 \<and> 16 \<le> b \<and> b \<le> 31 \<or> a = 192 \<and> b = 168 \<or> a = 169 \<and> b = 254 \<or>
     a = 100 \<and> 64 \<le> b \<and> b \<le> 127 \<or> a = 224 \<and> b = 0 \<and> c = 0 \<or> [a, b, c, d] = [0, 0, 0, 0]"
  by (auto simp: isBlockedIP_def IsLoopback_def IsPrivate_def IsLinkLocalUnicast_def IsLinkLocalMulticast_def
      IsUnspecified_def To4_def mask_ranges)

section \<open>Requests\<close>

record url =
  url_Scheme :: string
  url_Host :: string        \<comment> \<open>with the port\<close>
  url_Hostname :: string    \<comment> \<open>\<open>Hostname()\<close>\<close>

record reply =
  rp_Status :: int
  rp_Location :: "(go_error + url) option"    \<comment> \<open>resolved against the request's URL\<close>
  rp_Object :: remote_object

record network =
  nw_Parse :: "string \<Rightarrow> url option"
  nw_LookupIP :: "nat \<Rightarrow> string \<Rightarrow> ip list option"    \<comment> \<open>the answer of the \<open>n\<close>-th lookup\<close>
  nw_ParseIP :: "string \<Rightarrow> ip option"
  nw_exchange :: "nat \<Rightarrow> url \<Rightarrow> go_error + reply"

text \<open>What has happened on the wire: lookups made, and requests sent with the addresses they may have gone to.\<close>

record wire =
  wi_lookups :: nat
  wi_sent :: "(url \<times> ip list) list"

record Fetcher =
  ft_allowedHosts :: "string list"    \<comment> \<open>a set\<close>
  ft_allowHTTP :: bool

definition NewFetcher :: "string list \<Rightarrow> bool \<Rightarrow> Fetcher" where
  "NewFetcher allowedHosts allowHTTP =
     \<lparr>ft_allowedHosts = filter (\<lambda>host. host \<noteq> '''') (map (\<lambda>host. ToLower (TrimSpace host)) allowedHosts),
      ft_allowHTTP = allowHTTP\<rparr>"

definition LookupIP :: "network \<Rightarrow> string \<Rightarrow> (wire, ip list option) state" where
  "LookupIP N host = State (\<lambda>w. (nw_LookupIP N (wi_lookups w) host, w\<lparr>wi_lookups := Suc (wi_lookups w)\<rparr>))"

definition validateURL :: "network \<Rightarrow> Fetcher \<Rightarrow> url \<Rightarrow> (wire, go_error option) state" where
  "validateURL N f parsed =
     (if url_Host parsed = '''' then ret (Some ErrRemoteURLForbidden)
      else let scheme = ToLower (url_Scheme parsed)
        in if scheme \<noteq> ''https'' \<and> \<not> (ft_allowHTTP f \<and> scheme = ''http'') then ret (Some ErrRemoteURLForbidden)
           else let host = ToLower (url_Hostname parsed)
             in if host = '''' then ret (Some ErrRemoteURLForbidden)
                else if length (ft_allowedHosts f) > 0 \<and> host \<notin> set (ft_allowedHosts f)
                then ret (Some ErrRemoteURLForbidden)
                else do {
                  ips \<leftarrow> LookupIP N host;
                  case ips of
                    None \<Rightarrow> ret (Some ErrRemoteURLForbidden)
                  | Some ips \<Rightarrow> ret (if list_ex isBlockedIP ips then Some ErrRemoteURLForbidden else None) })"

text \<open>
  The transport's \<open>DialContext\<close>: the address is refused when it is a blocked IP literal, and a host name
  goes to the dialer, which looks it up again. The result: the addresses the dialer tries.
\<close>

definition DialContext :: "network \<Rightarrow> url \<Rightarrow> (wire, go_error + ip list) state" where
  "DialContext N u =
     (case nw_ParseIP N (url_Hostname u) of
        Some a \<Rightarrow> if isBlockedIP a then ret (Inl ErrRemoteURLForbidden) else ret (Inr [a])
      | None \<Rightarrow> do {
          ips \<leftarrow> LookupIP N (url_Hostname u);
          case ips of None \<Rightarrow> ret (Inl (External ''no such host'')) | Some ips \<Rightarrow> ret (Inr ips) })"

definition note_sent :: "url \<Rightarrow> ip list \<Rightarrow> (wire, nat) state" where
  "note_sent u ips = State (\<lambda>w. (length (wi_sent w), w\<lparr>wi_sent := wi_sent w @ [(u, ips)]\<rparr>))"

definition RoundTrip :: "network \<Rightarrow> url \<Rightarrow> (wire, go_error + reply) state" where
  "RoundTrip N u =
     on_err (DialContext N u)
       (\<lambda>e. ret (Inl e))
       (\<lambda>ips. do { n \<leftarrow> note_sent u ips; ret (nw_exchange N n u) })"

definition CheckRedirect :: "network \<Rightarrow> Fetcher \<Rightarrow> url \<Rightarrow> nat \<Rightarrow> (wire, go_error option) state" where
  "CheckRedirect N f u via =
     (if via \<ge> 5 then ret (Some (ErrorText ''too many redirects'')) else validateURL N f u)"

definition is_redirect :: "reply \<Rightarrow> bool" where
  "is_redirect r \<longleftrightarrow> rp_Status r \<in> {301, 302, 303, 307, 308} \<and> rp_Location r \<noteq> None"

text \<open>
  \<open>http.Client.Do\<close>, after \<open>via\<close> requests. \<open>CheckRedirect\<close> gives up at the fifth; its test is repeated here
  so that the recursion is seen to end. An error is wrapped in a \<open>url.Error\<close>.
\<close>

function Do :: "network \<Rightarrow> Fetcher \<Rightarrow> nat \<Rightarrow> url \<Rightarrow> (wire, go_error + reply) state" where
  "Do N f via u =
     on_err (RoundTrip N u)
       (\<lambda>e. ret (Inl (Errorf ''Get'' e)))
       (\<lambda>r. if is_redirect r then
              (case the (rp_Location r) of
                 Inl e \<Rightarrow> ret (Inl (Errorf ''Get'' e))
               | Inr next_url \<Rightarrow>
                   if Suc via \<ge> 5 then ret (Inl (Errorf ''Get'' (ErrorText ''too many redirects'')))
                   else if_err (CheckRedirect N f next_url (Suc via))
                     (\<lambda>e. ret (Inl (Errorf ''Get'' e)))
                     (Do N f (Suc via) next_url))
            else ret (Inr r))"
  by pat_completeness auto
termination by (relation "measure (\<lambda>(N, f, via, u). 5 - via)") auto

declare Do.simps [simp del]

definition Fetch :: "network \<Rightarrow> Fetcher \<Rightarrow> string \<Rightarrow> (wire, go_error + remote_object) state" where
  "Fetch N f rawURL =
     (case nw_Parse N rawURL of
        None \<Rightarrow> ret (Inl ErrRemoteURLForbidden)
      | Some parsed \<Rightarrow>
          if_err (validateURL N f parsed)
            (\<lambda>e. ret (Inl e))
            (on_err (Do N f 0 parsed)
               (\<lambda>e. ret (Inl e))
               (\<lambda>resp. if rp_Status resp \<ge> 400
                  then ret (Inl (ErrorText ''remote video returned status''))
                  else ret (Inr (rp_Object resp)))))"

section \<open>Where a download goes\<close>

lemma wp_LookupIP [wp_simps]:
  "wp (LookupIP N h) Q = (\<lambda>w. Q (nw_LookupIP N (wi_lookups w) h) (w\<lparr>wi_lookups := Suc (wi_lookups w)\<rparr>))"
  by (simp add: LookupIP_def wp_State)

lemma wp_note_sent [wp_simps]:
  "wp (note_sent u ips) Q = (\<lambda>w. Q (length (wi_sent w)) (w\<lparr>wi_sent := wi_sent w @ [(u, ips)]\<rparr>))"
  by (simp add: note_sent_def wp_State)

definition url_permitted :: "Fetcher \<Rightarrow> url \<Rightarrow> bool" where
  "url_permitted f u \<longleftrightarrow> url_Host u \<noteq> '''' \<and> url_Hostname u \<noteq> '''' \<and>
     ToLower (url_Scheme u) \<in> (if ft_allowHTTP f then {''https'', ''http''} else {''https''}) \<and>
     ToLower (url_Hostname u) \<in> (if ft_allowedHosts f = [] then UNIV else set (ft_allowedHosts f))"

text \<open>A resolver that always says the same about a name, whatever its case.\<close>

definition stable :: "network \<Rightarrow> bool" where
  "stable N \<longleftrightarrow> (\<forall>n m h. nw_LookupIP N n h = nw_LookupIP N m (ToLower h))"

definition validated :: "network \<Rightarrow> Fetcher \<Rightarrow> url \<Rightarrow> bool" where
  "validated N f u \<longleftrightarrow> url_permitted f u \<and>
     (stable N \<longrightarrow> (\<exists>ips. (\<forall>n. nw_LookupIP N n (url_Hostname u) = Some ips) \<and> (\<forall>a \<in> set ips. \<not> isBlockedIP a)))"

lemma ToLower_empty [simp]: "ToLower s = '''' \<longleftrightarrow> s = ''''"
  by (simp add: ToLower_def)

lemma validatedI:
  assumes "url_permitted f u" "nw_LookupIP N m (ToLower (url_Hostname u)) = Some ips" "\<not> list_ex isBlockedIP ips"
  shows "validated N f u"
proof -
  have "nw_LookupIP N n (url_Hostname u) = Some ips" if "stable N" for n
    using that assms(2) unfolding stable_def by metis
  then show ?thesis using assms(1,3) unfolding validated_def by (auto simp: list_ex_iff)
qed

lemma validateURL_validates:
  "wp (validateURL N f u) (\<lambda>e w'. wi_sent w' = wi_sent w \<and> (e = None \<longrightarrow> validated N f u)) w"
proof (cases "url_permitted f u")
  case True
  then show ?thesis
    by (auto simp: validateURL_def Let_def wp_simps intro: validatedI split: option.splits)
qed (auto simp: validateURL_def Let_def wp_simps url_permitted_def split: option.splits if_splits)

definition sent_ok :: "network \<Rightarrow> Fetcher \<Rightarrow> url \<times> ip list \<Rightarrow> bool" where
  "sent_ok N f = (\<lambda>(u, ips). url_permitted f u \<and> (stable N \<longrightarrow> (\<forall>a \<in> set ips. \<not> isBlockedIP a)))"

definition sends :: "network \<Rightarrow> Fetcher \<Rightarrow> nat \<Rightarrow> wire \<Rightarrow> wire \<Rightarrow> bool" where
  "sends N f k w w' \<longleftrightarrow> (\<exists>new. wi_sent w' = wi_sent w @ new \<and> length new \<le> k \<and> list_all (sent_ok N f) new)"

lemma sends_trans: "sends N f j w w' \<Longrightarrow> sends N f k w' w'' \<Longrightarrow> sends N f (j + k) w w''"
proof -
  assume "sends N f j w w'" "sends N f k w' w''"
  then obtain a b where "wi_sent w' = wi_sent w @ a" "length a \<le> j" "list_all (sent_ok N f) a"
    "wi_sent w'' = wi_sent w' @ b" "length b \<le> k" "list_all (sent_ok N f) b"
    unfolding sends_def by blast
  then show ?thesis unfolding sends_def by (intro exI [of _ "a @ b"]) simp
qed

lemma sends_cong: "wi_sent t = wi_sent w' \<Longrightarrow> sends N f k w w' \<Longrightarrow> sends N f k w t"
  by (simp add: sends_def)

lemma sends_mono: "sends N f j w w' \<Longrightarrow> j \<le> k \<Longrightarrow> sends N f k w w'"
  unfolding sends_def by force

lemma sends_silent: "wi_sent w' = wi_sent w \<Longrightarrow> sends N f 0 w w'"
  by (simp add: sends_def)

lemma RoundTrip_sends: "validated N f u \<Longrightarrow> wp (RoundTrip N u) (\<lambda>r w'. sends N f 1 w w') w"
  unfolding RoundTrip_def DialContext_def sends_def
  by (auto simp: wp_simps validated_def sent_ok_def split: option.splits)

lemma Do_sends:
  "validated N f u \<Longrightarrow> via < 5 \<Longrightarrow> wp (Do N f via u) (\<lambda>r w'. sends N f (5 - via) w w') w"
proof (induction N f via u arbitrary: w rule: Do.induct)
  case (1 N f via u)
  have rest: "wp (if_err (CheckRedirect N f u' (Suc via)) (\<lambda>e. ret (Inl (Errorf ''Get'' e))) (Do N f (Suc via) u'))
      (\<lambda>r w'. sends N f (5 - via) w w') w1"
    if sent: "sends N f 1 w w1" and loc: "is_redirect r" "the (rp_Location r) = Inr u'" "\<not> 5 \<le> Suc via" for r u' w1
  proof -
    have more: "wp (Do N f (Suc via) u') (\<lambda>r w'. sends N f (5 - via) w w') w2"
      if quiet: "sends N f 0 w1 w2" and valid: "validated N f u'" for w2
    proof (rule wp_mono)
      show "wp (Do N f (Suc via) u') (\<lambda>r w'. sends N f (5 - Suc via) w2 w') w2"
        by (rule 1(1) [OF loc valid]) (use loc(3) in simp)
      show "sends N f (5 - via) w w'" if "sends N f (5 - Suc via) w2 w'" for r w'
        by (rule sends_mono [OF sends_trans [OF sends_trans [OF sent quiet] that]]) (use loc(3) in simp)
    qed
    have "sends N f (5 - via) w w1" by (rule sends_mono [OF sent]) (use 1(3) in simp)
    then show ?thesis
      unfolding CheckRedirect_def wp_if_err if_not_P [OF loc(3)]
      by (intro wp_mono [OF validateURL_validates])
        (auto simp: wp_simps sends_silent split: option.splits intro: more sends_cong)
  qed
  show ?case
    unfolding Do.simps [of N f via u] wp_on_err
    by (rule wp_mono [OF RoundTrip_sends [OF 1(2)]])
      (use rest 1(3) in \<open>auto simp: wp_simps intro: sends_mono split: sum.splits\<close>)
qed


definition sample_url :: url where
  "sample_url = \<lparr>url_Scheme = ''https'', url_Host = ''v.example:443'', url_Hostname = ''v.example''\<rparr>"

definition sample_network :: "(nat \<Rightarrow> ip) \<Rightarrow> network" where
  "sample_network addr = \<lparr>nw_Parse = (\<lambda>_. Some sample_url), nw_LookupIP = (\<lambda>n _. Some [addr n]), nw_ParseIP = (\<lambda>_. None),
     nw_exchange = (\<lambda>n _. Inr \<lparr>rp_Status = if n = 0 then 302 else 200,
       rp_Location = if n = 0 then Some (Inr sample_url) else None,
       rp_Object = \<lparr>ro_Body = ''data'', ro_ReadErr = None, ro_Size = 4, ro_ContentType = ''video/mp4''\<rparr>\<rparr>)\<rparr>"

definition idle_wire :: wire where
  "idle_wire = \<lparr>wi_lookups = 0, wi_sent = []\<rparr>"


text \<open>
  A resolver that changes its answer between the check and the connection leads the download inside: the
  dialer looks a host name up again, and \<open>DialContext\<close> only inspects addresses given literally.
\<close>

lemma rebinding_reaches_loopback:
  "\<exists>w'. snd (run_state (Fetch (sample_network (\<lambda>n. if n = 0 then [8, 8, 8, 8] else [127, 0, 0, 1]))
      (NewFetcher [''v.example''] False) ''u'') idle_wire) = w' \<and>
     map snd (wi_sent w') = [[[127, 0, 0, 1]]] \<and> isBlockedIP [127, 0, 0, 1]"
proof (intro exI conjI, rule refl)
  show "map snd (wi_sent (snd (run_state (Fetch (sample_network (\<lambda>n. if n = 0 then [8, 8, 8, 8] else [127, 0, 0, 1]))
      (NewFetcher [''v.example''] False) ''u'') idle_wire))) = [[[127, 0, 0, 1]]]"
    by code_simp
  show "isBlockedIP [127, 0, 0, 1]" by (simp add: isBlockedIP_def IsLoopback_def To4_def)
qed

end
