(* ===== verification/FrameExtractor.thy ===== *)
theory FrameExtractor
  imports ExtractFrames Config
begin

text \<open>
  The programs the workers run on a video: \<open>internal/infrastructure/video/extractor.go\<close> (frames and the
  thumbnail, with ffmpeg) and \<open>splitter.go\<close> (duration and segments, with ffprobe and ffmpeg). What the
  external programs answer, the decoder of JPEG images, the perceptual hash of \<open>goimagehash\<close> and the
  conversions of floating-point numbers are the record \<open>tools\<close>; the reader of the image stream, the
  selection of frames, and the treatment of every failure are the code's.
\<close>

section \<open>The tools\<close>

abbreviation io_EOF :: go_error where "io_EOF \<equiv> External ''EOF''"
abbreviation io_ErrUnexpectedEOF :: go_error where "io_ErrUnexpectedEOF \<equiv> External ''unexpected EOF''"

text \<open>A program that has been started: what it writes, how reading its output ends, how it exits.\<close>

record process =
  pr_Stdout :: bytes
  pr_ReadErr :: go_error
  pr_Stderr :: string
  pr_Exit :: "go_error option"
  pr_File :: "go_error + bytes"    \<comment> \<open>reading its output file afterwards\<close>

record ('i, 'h) tools =
  tl_CreateTemp :: "go_error + string"
  tl_StdoutPipe :: "go_error option"
  tl_Start :: "string list \<Rightarrow> go_error + process"
  tl_MkdirAll :: "string \<Rightarrow> go_error option"
  tl_ReadDir :: "string \<Rightarrow> go_error + (string \<times> bool) list"    \<comment> \<open>names, and which are directories\<close>
  tl_FormatFloat :: "real \<Rightarrow> string"
  tl_ParseFloat :: "string \<Rightarrow> go_error + real"
  tl_Decode :: "bytes \<Rightarrow> go_error + 'i"
  tl_PerceptionHash :: "'i \<Rightarrow> go_error + 'h"
  tl_Distance :: "'h \<Rightarrow> 'h \<Rightarrow> go_error + int"

text \<open>\<open>cmd.Run()\<close>: start, wait.\<close>

definition cmd_Run :: "('i, 'h) tools \<Rightarrow> string list \<Rightarrow> (go_error \<times> string) + process" where
  "cmd_Run T args =
     (case tl_Start T args of
        Inl e \<Rightarrow> Inl (e, '''')
      | Inr p \<Rightarrow> (case pr_Exit p of Some e \<Rightarrow> Inl (e, pr_Stderr p) | None \<Rightarrow> Inr p))"

text \<open>\<open>fmt.Errorf("<what>: %w (%s)", err, strings.TrimSpace(stderr))\<close>.\<close>

definition tool_error :: "string \<Rightarrow> go_error \<Rightarrow> string \<Rightarrow> go_error" where
  "tool_error what e stderr = Errorf (what @ '' ('' @ TrimSpace stderr @ '')'') e"

section \<open>The thumbnail\<close>

definition thumbnail_args :: "string \<Rightarrow> string \<Rightarrow> string \<Rightarrow> string list" where
  "thumbnail_args seek videoPath tmpPath =
     [''ffmpeg'', ''-y'', ''-ss'', seek, ''-i'', videoPath, ''-frames:v'', ''1'', ''-update'', ''1'',
      ''-vf'', ''scale='min(640,iw)':-2'', ''-q:v'', ''3'', tmpPath]"

fun thumbnail_attempts ::
  "('i, 'h) tools \<Rightarrow> string \<Rightarrow> string \<Rightarrow> string list \<Rightarrow> go_error option \<Rightarrow> go_error + bytes" where
  "thumbnail_attempts T videoPath tmpPath [] lastErr =
     (case lastErr of
        None \<Rightarrow> Inl (ErrorText ''ffmpeg produced no thumbnail'')
      | Some e \<Rightarrow> Inl e)"
| "thumbnail_attempts T videoPath tmpPath (seek # seeks) lastErr =
     (case cmd_Run T (thumbnail_args seek videoPath tmpPath) of
        Inl (e, stderr) \<Rightarrow>
          thumbnail_attempts T videoPath tmpPath seeks (Some (tool_error ''ffmpeg thumbnail failed'' e stderr))
      | Inr p \<Rightarrow>
          (case pr_File p of
             Inl e \<Rightarrow> thumbnail_attempts T videoPath tmpPath seeks (Some e)
           | Inr contents \<Rightarrow>
               if contents = '''' then thumbnail_attempts T videoPath tmpPath seeks
                 (Some (ErrorText ''ffmpeg produced an empty thumbnail''))
               else Inr contents))"

definition ExtractThumbnail :: "('i, 'h) tools \<Rightarrow> string \<Rightarrow> go_error + bytes" where
  "ExtractThumbnail T videoPath =
     (case tl_CreateTemp T of
        Inl e \<Rightarrow> Inl (Errorf ''failed to create temp thumbnail'' e)
      | Inr tmpPath \<Rightarrow> thumbnail_attempts T videoPath tmpPath [''1'', ''0''] None)"

section \<open>The stream of images\<close>

text \<open>
  \<open>readJPEG\<close>, reading byte by byte from what is left of the stream, with the previous byte and, once the
  start marker \<open>FF D8\<close> has been seen, the bytes of the image so far.
\<close>

fun readJPEG_from :: "go_error \<Rightarrow> bytes \<Rightarrow> char \<Rightarrow> bytes option \<Rightarrow> (go_error + bytes) \<times> bytes" where
  "readJPEG_from readErr [] prev buf =
     (Inl (case buf of None \<Rightarrow> readErr | Some _ \<Rightarrow> Errorf ''truncated jpeg'' readErr), [])"
| "readJPEG_from readErr (cur # rest) prev None =
     readJPEG_from readErr rest cur
       (if prev = CHR 0xFF \<and> cur = CHR 0xD8 then Some [CHR 0xFF, CHR 0xD8] else None)"
| "readJPEG_from readErr (cur # rest) prev (Some buf) =
     (if prev = CHR 0xFF \<and> cur = CHR 0xD9 then (Inr (buf @ [cur]), rest)
      else readJPEG_from readErr rest cur (Some (buf @ [cur])))"

definition readJPEG :: "go_error \<Rightarrow> bytes \<Rightarrow> (go_error + bytes) \<times> bytes" where
  "readJPEG readErr stream = readJPEG_from readErr stream (CHR 0x00) None"

lemma readJPEG_from_consumes:
  "readJPEG_from e s prev buf = (Inr d, rest) \<Longrightarrow> length rest < length s"
  by (induction e s prev buf rule: readJPEG_from.induct) (auto split: if_splits)

lemma readJPEG_consumes: "readJPEG e s = (Inr d, rest) \<Longrightarrow> length rest < length s"
  by (simp add: readJPEG_def readJPEG_from_consumes)

section \<open>The selection of frames\<close>

text \<open>\<open>math.Round\<close>: half away from zero.\<close>

definition math_Round :: "real \<Rightarrow> int" where
  "math_Round x = (if x \<ge> 0 then \<lfloor>x + 1 / 2\<rfloor> else - \<lfloor>- x + 1 / 2\<rfloor>)"

definition default_params :: "FrameSelectionParams \<Rightarrow> FrameSelectionParams" where
  "default_params P =
     \<lparr>fp_AnalysisFPS = if fp_AnalysisFPS P \<le> 0 then 2 else fp_AnalysisFPS P,
      fp_PHashDistanceThreshold = if fp_PHashDistanceThreshold P \<le> 0 then 14 else fp_PHashDistanceThreshold P,
      fp_MaxIntervalSeconds = if fp_MaxIntervalSeconds P \<le> 0 then 15 else fp_MaxIntervalSeconds P,
      fp_MaxWidthPx = frame_max_width (fp_MaxWidthPx P)\<rparr>"

definition frames_args :: "('i, 'h) tools \<Rightarrow> string \<Rightarrow> FrameSelectionParams \<Rightarrow> string list" where
  "frames_args T videoPath P =
     [''ffmpeg'', ''-y'', ''-i'', videoPath,
      ''-vf'', ''fps='' @ tl_FormatFloat T (fp_AnalysisFPS P) @ '',scale='min('' @ fmt_0d 1 (fp_MaxWidthPx P) @ '',iw)':-2'',
      ''-f'', ''image2pipe'', ''-vcodec'', ''mjpeg'', ''-q:v'', fmt_0d 1 5, ''pipe:1'']"

definition perceptionHashJPEG :: "('i, 'h) tools \<Rightarrow> bytes \<Rightarrow> go_error + 'h" where
  "perceptionHashJPEG T raw =
     (case tl_Decode T raw of
        Inl e \<Rightarrow> Inl (Errorf ''decode frame'' e)
      | Inr img \<Rightarrow> (case tl_PerceptionHash T img of Inl e \<Rightarrow> Inl (Errorf ''phash'' e) | Inr h \<Rightarrow> Inr h))"

definition timestampMs :: "FrameSelectionParams \<Rightarrow> nat \<Rightarrow> int" where
  "timestampMs P candidate = math_Round (real candidate * 1000 / fp_AnalysisFPS P)"

definition maxIntervalMs :: "FrameSelectionParams \<Rightarrow> int" where
  "maxIntervalMs P = wrap64 (fp_MaxIntervalSeconds P * 1000)"

text \<open>The reason to keep a candidate (empty: it is dropped) and its distance to the last one kept.\<close>

definition selection_reason ::
  "('i, 'h) tools \<Rightarrow> FrameSelectionParams \<Rightarrow> ('h \<times> int) option \<Rightarrow> 'h \<Rightarrow> int \<Rightarrow> go_error + string \<times> int" where
  "selection_reason T P lastKept hash t =
     (case lastKept of
        None \<Rightarrow> Inr (SelectionReasonFixedInterval, 0)
      | Some (lastKeptHash, lastKeptAt) \<Rightarrow>
          (case tl_Distance T hash lastKeptHash of
             Inl e \<Rightarrow> Inl e
           | Inr distance \<Rightarrow> Inr
               (if distance \<ge> fp_PHashDistanceThreshold P then SelectionReasonSceneChange
                else if t - lastKeptAt \<ge> maxIntervalMs P then SelectionReasonFixedInterval
                else '''', distance)))"

definition extracted :: "nat \<Rightarrow> int \<Rightarrow> bytes \<Rightarrow> string \<Rightarrow> int \<Rightarrow> ExtractedFrame" where
  "extracted kept t raw reason distance =
     \<lparr>ef_Index = int kept, ef_TimestampMs = t, ef_Data = raw, ef_SelectionReason = reason, ef_PHashDistance = distance\<rparr>"

text \<open>How the loop ends: the sink refused a frame, or the stream ended (with \<open>readErr\<close>) after so many frames.\<close>

datatype loop_end = Aborted go_error | Ended "go_error option" nat

definition end_of_stream :: "go_error \<Rightarrow> go_error option" where
  "end_of_stream e = (if errors_Is e io_EOF \<or> errors_Is e io_ErrUnexpectedEOF then None else Some e)"

function extract_loop ::
  "('i, 'h) tools \<Rightarrow> FrameSelectionParams \<Rightarrow> (ExtractedFrame \<Rightarrow> ('s, go_error option) state) \<Rightarrow> go_error
     \<Rightarrow> bytes \<Rightarrow> nat \<Rightarrow> nat \<Rightarrow> ('h \<times> int) option \<Rightarrow> ('s, loop_end) state" where
  "extract_loop T P emit readErr stream candidate kept lastKept =
     (case readJPEG readErr stream of
        (Inl e, rest) \<Rightarrow> ret (Ended (end_of_stream e) kept)
      | (Inr raw, rest) \<Rightarrow>
          (let t = timestampMs P candidate
           in case perceptionHashJPEG T raw of
                Inl e \<Rightarrow> ret (Ended (Some e) kept)
              | Inr hash \<Rightarrow>
                  (case selection_reason T P lastKept hash t of
                     Inl e \<Rightarrow> ret (Ended (Some e) kept)
                   | Inr (reason, distance) \<Rightarrow>
                       if reason = '''' then extract_loop T P emit readErr rest (Suc candidate) kept lastKept
                       else if_err (emit (extracted kept t raw reason distance))
                         (\<lambda>e. ret (Aborted e))
                         (extract_loop T P emit readErr rest (Suc candidate) (Suc kept) (Some (hash, t))))))"
  by pat_completeness auto
termination
  by (relation "measure (\<lambda>(T, P, emit, e, stream, _). length stream)") (auto dest: readJPEG_consumes [OF sym])

declare extract_loop.simps [simp del]

definition extractor_ExtractFrames ::
  "('i, 'h) tools \<Rightarrow> string \<Rightarrow> FrameSelectionParams \<Rightarrow> (ExtractedFrame \<Rightarrow> ('s, go_error option) state) option
     \<Rightarrow> ('s, go_error option) state" where
  "extractor_ExtractFrames T videoPath params sink =
     (case sink of
        None \<Rightarrow> ret (Some (ErrorText ''frame sink is required''))
      | Some emit \<Rightarrow>
          (let P = default_params params
           in case tl_StdoutPipe T of
                Some e \<Rightarrow> ret (Some (Errorf ''ffmpeg stdout'' e))
              | None \<Rightarrow>
                  (case tl_Start T (frames_args T videoPath P) of
                     Inl e \<Rightarrow> ret (Some (Errorf ''ffmpeg start'' e))
                   | Inr p \<Rightarrow> do {
                       end \<leftarrow> extract_loop T P emit (pr_ReadErr p) (pr_Stdout p) 0 0 None;
                       ret (case end of
                           Aborted e \<Rightarrow> Some e
                         | Ended (Some readErr) kept \<Rightarrow> Some readErr
                         | Ended None kept \<Rightarrow>
                             (case pr_Exit p of
                                Some waitErr \<Rightarrow>
                                  if kept = 0 then Some (tool_error ''ffmpeg failed'' waitErr (pr_Stderr p)) else None
                              | None \<Rightarrow> if kept = 0 then Some (ErrorText ''no frames retained'') else None)) })))"

section \<open>Durations and segments\<close>

definition probe_args :: "string \<Rightarrow> string list" where
  "probe_args videoPath =
     [''ffprobe'', ''-v'', ''error'', ''-show_entries'', ''format=duration'', ''-of'',
      ''default=noprint_wrappers=1:nokey=1'', videoPath]"

text \<open>The conversion to \<open>int64\<close> truncates; the number is not negative there.\<close>

definition ProbeDurationMs :: "('i, 'h) tools \<Rightarrow> string \<Rightarrow> go_error + int" where
  "ProbeDurationMs T videoPath =
     (case cmd_Run T (probe_args videoPath) of
        Inl (e, stderr) \<Rightarrow> Inl (tool_error ''ffprobe duration failed'' e stderr)
      | Inr p \<Rightarrow>
          (case tl_ParseFloat T (TrimSpace (pr_Stdout p)) of
             Inl e \<Rightarrow> Inl (Errorf ''parse duration'' e)
           | Inr seconds \<Rightarrow> let seconds = (if seconds < 0 then 0 else seconds) in Inr \<lfloor>seconds * 1000\<rfloor>))"

definition parseSegmentIndex :: "string \<Rightarrow> int option" where
  "parseSegmentIndex name = ParseInt (TrimSuffix (TrimPrefix name ''segment_'') ''.mp4'')"

text \<open>\<open>filepath.Join\<close> of a clean directory path and a name without separator.\<close>

definition path_in :: "string \<Rightarrow> string \<Rightarrow> string" where
  "path_in dir name = dir @ ''/'' @ name"

definition split_args :: "('i, 'h) tools \<Rightarrow> string \<Rightarrow> real \<Rightarrow> string \<Rightarrow> string list" where
  "split_args T videoPath segmentDurationSeconds pattern =
     [''ffmpeg'', ''-y'', ''-i'', videoPath, ''-c'', ''copy'', ''-f'', ''segment'',
      ''-segment_time'', tl_FormatFloat T segmentDurationSeconds, ''-reset_timestamps'', ''1'', pattern]"

fun segment_files :: "('i, 'h) tools \<Rightarrow> string \<Rightarrow> int \<Rightarrow> (string \<times> bool) list \<Rightarrow> SegmentFile list" where
  "segment_files T outputDir stepMs [] = []"
| "segment_files T outputDir stepMs ((name, isDir) # entries) =
     (if isDir \<or> \<not> HasPrefix name ''segment_'' \<or> \<not> HasSuffix name ''.mp4'' then segment_files T outputDir stepMs entries
      else case parseSegmentIndex name of
          None \<Rightarrow> segment_files T outputDir stepMs entries
        | Some index \<Rightarrow>
            (let path = path_in outputDir name;
                 durationMs = (case ProbeDurationMs T path of Inl e \<Rightarrow> stepMs | Inr ms \<Rightarrow> ms)
             in \<lparr>sf_Index = index, sf_Path = path, sf_OffsetMs = wrap64 (index * stepMs), sf_DurationMs = durationMs\<rparr>
                  # segment_files T outputDir stepMs entries))"

definition splitter_Split ::
  "('i, 'h) tools \<Rightarrow> string \<Rightarrow> real \<Rightarrow> string \<Rightarrow> go_error + SegmentFile list" where
  "splitter_Split T videoPath segmentDurationSeconds outputDir =
     (if segmentDurationSeconds \<le> 0 then Inl (ErrorText ''segment duration must be positive'')
      else case tl_MkdirAll T outputDir of
        Some e \<Rightarrow> Inl e
      | None \<Rightarrow>
          (case cmd_Run T (split_args T videoPath segmentDurationSeconds (path_in outputDir ''segment_%02d.mp4'')) of
             Inl (e, stderr) \<Rightarrow> Inl (tool_error ''ffmpeg segment failed'' e stderr)
           | Inr _ \<Rightarrow>
               (case tl_ReadDir T outputDir of
                  Inl e \<Rightarrow> Inl e
                | Inr entries \<Rightarrow>
                    (let files = segment_files T outputDir \<lfloor>segmentDurationSeconds * 1000\<rfloor> entries
                     in if files = [] then Inl (ErrorText ''ffmpeg produced no segment files'') else Inr files))))"

section \<open>What the loop computes\<close>

text \<open>All the images of a stream and how it ends; the frames selected among images; a sink fed with frames.\<close>

function images_of :: "go_error \<Rightarrow> bytes \<Rightarrow> bytes list \<times> go_error option" where
  "images_of readErr stream =
     (case readJPEG readErr stream of
        (Inl e, rest) \<Rightarrow> ([], end_of_stream e)
      | (Inr raw, rest) \<Rightarrow> (let (imgs, end) = images_of readErr rest in (raw # imgs, end)))"
  by pat_completeness auto
termination by (relation "measure (\<lambda>(e, stream). length stream)") (auto dest: readJPEG_consumes [OF sym])

declare images_of.simps [simp del]

fun select_frames ::
  "('i, 'h) tools \<Rightarrow> FrameSelectionParams \<Rightarrow> go_error option \<Rightarrow> nat \<Rightarrow> nat \<Rightarrow> ('h \<times> int) option
     \<Rightarrow> bytes list \<Rightarrow> ExtractedFrame list \<times> go_error option" where
  "select_frames T P end candidate kept lastKept [] = ([], end)"
| "select_frames T P end candidate kept lastKept (raw # imgs) =
     (let t = timestampMs P candidate
      in case perceptionHashJPEG T raw of
           Inl e \<Rightarrow> ([], Some e)
         | Inr hash \<Rightarrow>
             (case selection_reason T P lastKept hash t of
                Inl e \<Rightarrow> ([], Some e)
              | Inr (reason, distance) \<Rightarrow>
                  if reason = '''' then select_frames T P end (Suc candidate) kept lastKept imgs
                  else (let (items, err) = select_frames T P end (Suc candidate) (Suc kept) (Some (hash, t)) imgs
                        in (extracted kept t raw reason distance # items, err))))"

fun feed :: "('a \<Rightarrow> ('s, go_error option) state) \<Rightarrow> 'a list \<Rightarrow> ('s, go_error option) state" where
  "feed emit [] = ret None"
| "feed emit (item # items) = if_err (emit item) (\<lambda>e. ret (Some e)) (feed emit items)"

lemma bind_if_err: "State_Monad.bind (if_err m h k) f = if_err m (\<lambda>e. State_Monad.bind (h e) f) (State_Monad.bind k f)"
  by (intro state_ext) (simp split: prod.splits option.splits)

lemma extract_loop_feeds:
  "extract_loop T P emit readErr stream candidate kept lastKept =
     (let (imgs, end) = images_of readErr stream;
          (items, err) = select_frames T P end candidate kept lastKept imgs
      in do { refused \<leftarrow> feed emit items;
              ret (case refused of Some e \<Rightarrow> Aborted e | None \<Rightarrow> Ended err (kept + length items)) })"
proof (induction T P emit readErr stream candidate kept lastKept rule: extract_loop.induct)
  case (1 T P emit readErr stream candidate kept lastKept)
  then show ?case
    unfolding extract_loop.simps [of T P emit readErr stream] images_of.simps [of readErr stream]
    by (auto simp: Let_def bind_if_err split: prod.splits sum.splits cong: option.case_cong)
qed

text \<open>The whole of \<open>ExtractFrames\<close>, but for the sink: the frames in the order they are emitted, and the verdict.\<close>

definition extraction ::
  "('i, 'h) tools \<Rightarrow> string \<Rightarrow> FrameSelectionParams \<Rightarrow> ExtractedFrame list \<times> go_error option" where
  "extraction T videoPath params =
     (let P = default_params params
      in case tl_StdoutPipe T of
           Some e \<Rightarrow> ([], Some (Errorf ''ffmpeg stdout'' e))
         | None \<Rightarrow>
             (case tl_Start T (frames_args T videoPath P) of
                Inl e \<Rightarrow> ([], Some (Errorf ''ffmpeg start'' e))
              | Inr p \<Rightarrow>
                  (let (imgs, end) = images_of (pr_ReadErr p) (pr_Stdout p);
                       (items, err) = select_frames T P end 0 0 None imgs
                   in (items,
                       case err of
                         Some readErr \<Rightarrow> Some readErr
                       | None \<Rightarrow>
                           if items \<noteq> [] then None
                           else (case pr_Exit p of
                               Some waitErr \<Rightarrow> Some (tool_error ''ffmpeg failed'' waitErr (pr_Stderr p))
                             | None \<Rightarrow> Some (ErrorText ''no frames retained''))))))"

text \<open>
  The extractor streams, and that does not show: for every sink, \<open>ExtractFrames\<close> behaves as if it had
  first read all images and selected the frames, then handed them to the sink one by one up to the first it
  refuses; if none is refused its result does not depend on the sink. This is the reading of the extractor that
  the handler of a segment is modelled against.
\<close>

lemma extractor_feeds:
  "extractor_ExtractFrames T videoPath params (Some emit) =
     (let (items, final) = extraction T videoPath params
      in do { refused \<leftarrow> feed emit items; ret (case refused of Some e \<Rightarrow> Some e | None \<Rightarrow> final) })"
  unfolding extractor_ExtractFrames_def extraction_def extract_loop_feeds
  by (auto simp: Let_def split: prod.splits option.splits sum.splits intro!: arg_cong [where f = "State_Monad.bind _"])

section \<open>Images in, images out\<close>

fun closes :: "char \<Rightarrow> bytes \<Rightarrow> bool" where
  "closes prev [] = False"
| "closes prev (c # cs) = (if prev = CHR 0xFF \<and> c = CHR 0xD9 then cs = [] else closes c cs)"

text \<open>An image: the start marker first, the end marker at the end and nowhere before.\<close>

fun is_jpeg :: "bytes \<Rightarrow> bool" where
  "is_jpeg (a # b # cs) = (a = CHR 0xFF \<and> b = CHR 0xD8 \<and> closes (CHR 0xD8) cs)"
| "is_jpeg _ = False"

lemma readJPEG_from_image:
  "closes prev cs \<Longrightarrow> readJPEG_from e (cs @ rest) prev (Some buf) = (Inr (buf @ cs), rest)"
  by (induction cs arbitrary: prev buf) (auto split: if_splits)

lemma readJPEG_from_cut:
  "closes prev cs \<Longrightarrow> n < length cs \<Longrightarrow>
     readJPEG_from e (take n cs) prev (Some buf) = (Inl (Errorf ''truncated jpeg'' e), [])"
  by (induction cs arbitrary: prev buf n) (auto simp: take_Cons' split: if_splits)

lemma readJPEG_image: "is_jpeg d \<Longrightarrow> readJPEG e (d @ rest) = (Inr d, rest)"
  by (cases d rule: is_jpeg.cases) (auto simp: readJPEG_def readJPEG_from_image)

lemma readJPEG_cut:
  assumes "is_jpeg d" "n < length d"
  shows "readJPEG e (take n d) = (Inl (if n < 2 then e else Errorf ''truncated jpeg'' e), [])"
  using assms by (cases d rule: is_jpeg.cases) (auto simp: readJPEG_def readJPEG_from_cut take_Cons')

lemma images_of_image: "is_jpeg d \<Longrightarrow> images_of e (d @ rest) = apfst ((#) d) (images_of e rest)"
  unfolding images_of.simps [of e "d @ rest"] by (auto simp: readJPEG_image split: prod.splits)

text \<open>
  What ffmpeg writes to its pipe is read back: a stream of images, ended anywhere inside a last one,
  gives those images and no error; the incomplete one is dropped.
\<close>

theorem image_stream_roundtrip:
  assumes "list_all is_jpeg imgs" "is_jpeg broken" "n < length broken"
  shows "images_of io_EOF (concat imgs @ take n broken) = (imgs, None)"
  using assms(1)
proof (induction imgs)
  case Nil
  then show ?case
    by (simp add: images_of.simps [of io_EOF "take n broken"] readJPEG_cut [OF assms(2,3)] end_of_stream_def)
qed (simp add: images_of_image)

definition tiny_jpeg :: "char \<Rightarrow> bytes" where
  "tiny_jpeg c = [CHR 0xFF, CHR 0xD8, c, CHR 0xFF, CHR 0xD9]"

theorem image_stream_roundtrip_witness:
  "images_of io_EOF (tiny_jpeg (CHR ''a'') @ tiny_jpeg (CHR ''b'') @ [CHR 0xFF, CHR 0xD8]) =
     ([tiny_jpeg (CHR ''a''), tiny_jpeg (CHR ''b'')], None)"
  using image_stream_roundtrip [of "[tiny_jpeg (CHR ''a''), tiny_jpeg (CHR ''b'')]" "tiny_jpeg (CHR ''c'')" 2]
  by (simp add: tiny_jpeg_def)

section \<open>No image goes unrepresented\<close>

text \<open>A kept frame at time \<open>s\<close> with hash \<open>h\<close> stands for an image at time \<open>t\<close>.\<close>

definition stands_for :: "('i, 'h) tools \<Rightarrow> FrameSelectionParams \<Rightarrow> bytes \<Rightarrow> int \<Rightarrow> 'h \<Rightarrow> int \<Rightarrow> bool" where
  "stands_for T P raw t h s \<longleftrightarrow> s \<le> t \<and> t - s < maxIntervalMs P \<and>
     (\<exists>g d. perceptionHashJPEG T raw = Inr g \<and> tl_Distance T g h = Inr d \<and> d < fp_PHashDistanceThreshold P)"

definition represented ::
  "('i, 'h) tools \<Rightarrow> FrameSelectionParams \<Rightarrow> ExtractedFrame list \<Rightarrow> bytes \<Rightarrow> int \<Rightarrow> bool" where
  "represented T P items raw t \<longleftrightarrow> (\<exists>f \<in> set items.
     (ef_Data f = raw \<and> ef_TimestampMs f = t) \<or>
     (\<exists>h. perceptionHashJPEG T (ef_Data f) = Inr h \<and> stands_for T P raw t h (ef_TimestampMs f)))"

lemma represented_Cons:
  "represented T P (f # items) raw t \<longleftrightarrow>
     (ef_Data f = raw \<and> ef_TimestampMs f = t) \<or>
     (\<exists>h. perceptionHashJPEG T (ef_Data f) = Inr h \<and> stands_for T P raw t h (ef_TimestampMs f)) \<or>
     represented T P items raw t"
  by (auto simp: represented_def)

lemma timestampMs_mono:
  assumes "fp_AnalysisFPS P > 0" "a \<le> b"
  shows "timestampMs P a \<le> timestampMs P b"
proof -
  have "real a * 1000 / fp_AnalysisFPS P \<le> real b * 1000 / fp_AnalysisFPS P"
    using assms by (intro divide_right_mono) auto
  then show ?thesis using assms(1) by (auto simp: timestampMs_def math_Round_def intro!: floor_mono)
qed

lemma select_represents:
  assumes "fp_AnalysisFPS P > 0"
  shows "select_frames T P end candidate kept lastKept imgs = (items, None) \<Longrightarrow>
     (\<And>h s. lastKept = Some (h, s) \<Longrightarrow> s \<le> timestampMs P candidate) \<Longrightarrow> i < length imgs \<Longrightarrow>
     represented T P items (imgs ! i) (timestampMs P (candidate + i)) \<or>
     (\<exists>h s. lastKept = Some (h, s) \<and> stands_for T P (imgs ! i) (timestampMs P (candidate + i)) h s)"
proof (induction imgs arbitrary: candidate kept lastKept items i)
  case (Cons raw imgs)
  from Cons.prems(1) obtain hash reason d where
    hash: "perceptionHashJPEG T raw = Inr hash" and
    sel: "selection_reason T P lastKept hash (timestampMs P candidate) = Inr (reason, d)"
    by (auto simp: Let_def split: sum.splits prod.splits)
  have later: "timestampMs P candidate \<le> timestampMs P (Suc candidate)"
    by (rule timestampMs_mono [OF assms]) simp
  show ?case
  proof (cases "reason = ''''")
    case True
    then obtain h s where last: "lastKept = Some (h, s)" "stands_for T P raw (timestampMs P candidate) h s"
      using sel hash Cons.prems(2)
      by (auto simp: selection_reason_def stands_for_def split: option.splits sum.splits if_splits)
    from True Cons.prems(1) hash sel
    have rest: "select_frames T P end (Suc candidate) kept lastKept imgs = (items, None)" by (simp add: Let_def)
    show ?thesis
    proof (cases i)
      case 0
      then show ?thesis using last by simp
    next
      case (Suc k)
      have "s \<le> timestampMs P (Suc candidate)" using Cons.prems(2) [OF last(1)] later by simp
      then show ?thesis using Cons.IH [OF rest, of k] Cons.prems(3) Suc last(1) by simp
    qed
  next
    case False
    from this Cons.prems(1) hash sel obtain rest where
      rest: "select_frames T P end (Suc candidate) (Suc kept) (Some (hash, timestampMs P candidate)) imgs = (rest, None)" and
      items: "items = extracted kept (timestampMs P candidate) raw reason d # rest"
      by (auto simp: Let_def split: prod.splits)
    show ?thesis
      using Cons.IH [OF rest, of "i - 1"] Cons.prems(3) later hash
      by (cases i) (auto simp: items represented_Cons extracted_def)
  qed
qed simp

lemma select_indices:
  "select_frames T P end candidate kept lastKept imgs = (items, err) \<Longrightarrow> i < length items \<Longrightarrow>
     ef_Index (items ! i) = int (kept + i)"
proof (induction imgs arbitrary: candidate kept lastKept items i)
  case (Cons raw imgs)
  from Cons.prems show ?case
    by (auto simp: Let_def extracted_def nth_Cons split: sum.splits prod.splits if_splits nat.splits intro: Cons.IH
        simp: Cons.IH)
qed simp

lemma default_params_positive [simp]:
  "fp_AnalysisFPS (default_params P) > 0" "fp_PHashDistanceThreshold (default_params P) > 0"
  "fp_MaxIntervalSeconds (default_params P) > 0" "fp_MaxWidthPx (default_params P) > 0"
  by (auto simp: default_params_def frame_max_width_def)

text \<open>
  C18. Nothing on screen is skipped: when \<open>ExtractFrames\<close> succeeds, every image ffmpeg produced is either kept
  or stood for by a frame that was kept earlier, by less than the maximal interval, and whose perceptual hash
  is nearer than the threshold. The frames are numbered from zero without a gap, and there is at least one.
\<close>

theorem every_image_represented:
  assumes "extraction T videoPath params = (items, None)"
  shows "items \<noteq> [] \<and> map ef_Index items = map int [0 ..< length items] \<and>
    (\<exists>p. tl_Start T (frames_args T videoPath (default_params params)) = Inr p \<and>
       (let imgs = fst (images_of (pr_ReadErr p) (pr_Stdout p))
        in \<forall>i < length imgs. represented T (default_params params) items (imgs ! i) (timestampMs (default_params params) i)))"
proof -
  let ?P = "default_params params"
  from assms obtain p imgs fin err where
    run: "tl_Start T (frames_args T videoPath ?P) = Inr p" "images_of (pr_ReadErr p) (pr_Stdout p) = (imgs, fin)"
      "select_frames T ?P fin 0 0 None imgs = (items, err)"
    and ok: "err = None" "items \<noteq> []"
    by (auto simp: extraction_def Let_def split: option.splits sum.splits prod.splits if_splits)
  have "map ef_Index items = map int [0 ..< length items]" by (rule nth_equalityI) (auto simp: select_indices [OF run(3)])
  moreover have "\<exists>p. tl_Start T (frames_args T videoPath ?P) = Inr p \<and>
      (let imgs = fst (images_of (pr_ReadErr p) (pr_Stdout p))
       in \<forall>i < length imgs. represented T ?P items (imgs ! i) (timestampMs ?P i))"
    using select_represents [OF _ run(3) [unfolded ok(1)], where i = i for i] run(1,2) by auto
  ultimately show ?thesis using ok(2) by blast
qed

text \<open>Tools that stop at nothing: the hash of an image is its third byte.\<close>

definition sample_tools :: "bytes \<Rightarrow> go_error option \<Rightarrow> (bytes, int) tools" where
  "sample_tools stdout exit =
     \<lparr>tl_CreateTemp = Inr ''/tmp/t'', tl_StdoutPipe = None,
      tl_Start = (\<lambda>_. Inr \<lparr>pr_Stdout = stdout, pr_ReadErr = io_EOF, pr_Stderr = '''', pr_Exit = exit, pr_File = Inr ''jpg''\<rparr>),
      tl_MkdirAll = (\<lambda>_. None), tl_ReadDir = (\<lambda>_. Inr [(''segment_00.mp4'', False), (''segment_01.mp4'', False)]),
      tl_FormatFloat = (\<lambda>_. ''2''), tl_ParseFloat = (\<lambda>_. Inr 60), tl_Decode = Inr,
      tl_PerceptionHash = (\<lambda>b. Inr (of_char (b ! 2))), tl_Distance = (\<lambda>a b. Inr \<bar>a - b\<bar>)\<rparr>"

definition sample_params :: FrameSelectionParams where
  "sample_params = \<lparr>fp_AnalysisFPS = 0, fp_PHashDistanceThreshold = 0, fp_MaxIntervalSeconds = 0, fp_MaxWidthPx = 0\<rparr>"

definition sample_stream :: bytes where
  "sample_stream = tiny_jpeg (CHR ''a'') @ tiny_jpeg (CHR ''b'') @ tiny_jpeg (CHR ''z'')"

lemma images_of_sample: "fst (images_of io_EOF sample_stream) = map tiny_jpeg ''abz''"
  by code_simp

lemma extraction_sample:
  "map ef_Data (fst (extraction (sample_tools sample_stream None) ''v'' sample_params)) = map tiny_jpeg ''az''"
  "snd (extraction (sample_tools sample_stream None) ''v'' sample_params) = None"
  by code_simp+

theorem every_image_represented_witness:
  "represented (sample_tools sample_stream None) (default_params sample_params)
     (fst (extraction (sample_tools sample_stream None) ''v'' sample_params)) (tiny_jpeg (CHR ''b''))
     (timestampMs (default_params sample_params) 1)"
proof -
  let ?T = "sample_tools sample_stream None"
  have "extraction ?T ''v'' sample_params = (fst (extraction ?T ''v'' sample_params), None)"
    using extraction_sample(2) by (metis prod.collapse)
  from every_image_represented [OF this] obtain p where
    "tl_Start ?T (frames_args ?T ''v'' (default_params sample_params)) = Inr p" and
    all: "\<forall>i < length (fst (images_of (pr_ReadErr p) (pr_Stdout p))).
      represented ?T (default_params sample_params) (fst (extraction ?T ''v'' sample_params))
        (fst (images_of (pr_ReadErr p) (pr_Stdout p)) ! i) (timestampMs (default_params sample_params) i)"
    by (auto simp: Let_def)
  then have "fst (images_of (pr_ReadErr p) (pr_Stdout p)) = map tiny_jpeg ''abz''"
    by (auto simp: sample_tools_def images_of_sample)
  then show ?thesis using all [rule_format, of 1] by simp
qed

text \<open>
  A video that ffmpeg gives up on half-way counts as extracted: its exit status only matters when no frame
  was kept.
\<close>

lemma ffmpeg_failure_hidden:
  "snd (extraction (sample_tools sample_stream (Some (External ''exit status 1''))) ''v'' sample_params) = None"
  by code_simp

section \<open>The handler of a segment on the extractor\<close>

text \<open>\<open>Submit\<close>, the sink of \<open>extractAndStore\<close>, on the pool and the world.\<close>

definition Submit :: "services \<Rightarrow> segment \<Rightarrow> ExtractedFrame \<Rightarrow> (frame_pool \<times> world, go_error option) state" where
  "Submit S segment item = State (\<lambda>(p, w).
     case p_err p of
       Some e \<Rightarrow> (Some e, (p, w))
     | None \<Rightarrow> (None, run_state (persist_frame S segment item p) w))"

lemma submit_all_feeds:
  "run_state (submit_all S segment items final p) w =
     (case run_state (feed (Submit S segment) items) (p, w) of
        (refused, (p', w')) \<Rightarrow> ((case refused of Some e \<Rightarrow> Some e | None \<Rightarrow> final, p'), w'))"
  by (induction items arbitrary: p w) (auto simp: Submit_def split: option.splits prod.splits)

text \<open>
  C17. The handler of a segment may be read on the list of frames its extraction gives: running the streaming
  extractor with the pool as its sink is submitting the frames of \<open>extraction\<close> one after the other and ending
  with its verdict. The handler's model receives the extractor in that form.
\<close>

theorem segment_extraction_refines:
  "run_state (extractor_ExtractFrames T videoPath params (Some (Submit S segment))) (p, w) =
     (let (items, final) = extraction T videoPath params;
          ((err, p'), w') = run_state (submit_all S segment items final p) w
      in (err, (p', w')))"
  unfolding extractor_feeds by (auto simp: submit_all_feeds Let_def split: prod.splits option.splits)

section \<open>The files of a split\<close>

lemma digits_value_snoc: "digits_value (s @ [c]) = 10 * digits_value s + digit_value c"
  by (simp add: digits_value_def)

lemma digit_value_char [simp]: "k < 10 \<Longrightarrow> digit_value (digit_char k) = int k"
  using of_nat_of_char [where ?'a = int, of "digit_char k"] by (simp add: digit_value_def)

lemma digits_value_dec_nat [simp]: "digits_value (dec_nat n) = int n"
proof (induction n rule: dec_nat.induct)
  case (1 n)
  show ?case
  proof (cases "n < 10")
    case True
    then show ?thesis by (subst dec_nat.simps) (simp add: digits_value_def)
  next
    case False
    then have "digits_value (dec_nat n) = 10 * int (n div 10) + int (n mod 10)"
      using 1 by (subst dec_nat.simps) (simp add: digits_value_snoc)
    then show ?thesis by (simp add: zdiv_int zmod_int)
  qed
qed

lemma digits_value_zero_pad [simp]: "digits_value (zero_pad w s) = digits_value s"
proof -
  have "digits_value (replicate k (CHR ''0'') @ s) = digits_value s" for k
    by (induction k) (simp_all add: digits_value_def digit_value_def)
  then show ?thesis by (simp add: zero_pad_def)
qed

lemma ParseInt_fmt_0d:
  assumes "0 \<le> i" "i < 2 ^ 63"
  shows "ParseInt (fmt_0d w i) = Some i"
proof -
  let ?s = "fmt_0d w i"
  have "set ?s \<subseteq> set digits" using set_zero_pad assms(1) by (simp add: fmt_0d_def)
  then have digit: "list_all is_digit ?s" "CHR ''-'' \<notin> set ?s" "CHR ''+'' \<notin> set ?s"
    by (auto simp: digits_def list_all_iff is_digit_def)
  have "?s \<noteq> ''''"
    using assms(1) by (auto simp: fmt_0d_def zero_pad_def dec_nat.simps [of "nat i"])
  then obtain c t where s: "?s = c # t" by (cases ?s) auto
  have "digits_value ?s = i" using assms(1) by (simp add: fmt_0d_def)
  then show ?thesis using digit assms by (auto simp: ParseInt_def s)
qed

definition segment_name :: "int \<Rightarrow> string" where
  "segment_name i = ''segment_'' @ fmt_0d 2 i @ ''.mp4''"

lemma parseSegmentIndex_name:
  "0 \<le> i \<Longrightarrow> i < 2 ^ 63 \<Longrightarrow> parseSegmentIndex (segment_name i) = Some i"
  unfolding parseSegmentIndex_def segment_name_def TrimPrefix_append
  by (simp add: TrimSuffix_def ParseInt_fmt_0d)

definition segment_file :: "('i, 'h) tools \<Rightarrow> string \<Rightarrow> int \<Rightarrow> int \<Rightarrow> SegmentFile" where
  "segment_file T outputDir stepMs i =
     \<lparr>sf_Index = i, sf_Path = path_in outputDir (segment_name i), sf_OffsetMs = wrap64 (i * stepMs),
      sf_DurationMs = (case ProbeDurationMs T (path_in outputDir (segment_name i)) of Inl e \<Rightarrow> stepMs | Inr ms \<Rightarrow> ms)\<rparr>"

lemma segment_files_of_names:
  "\<forall>i \<in> set ids. 0 \<le> i \<and> i < 2 ^ 63 \<Longrightarrow>
     segment_files T dir stepMs (map (\<lambda>i. (segment_name i, False)) ids) = map (segment_file T dir stepMs) ids"
proof (induction ids)
  case (Cons i ids)
  have "HasSuffix (segment_name i) ''.mp4''"
    unfolding segment_name_def using HasSuffix_append [of "''segment_'' @ fmt_0d 2 i"] by simp
  moreover have "HasPrefix (segment_name i) ''segment_''" unfolding segment_name_def by (rule HasPrefix_append)
  ultimately show ?case using Cons by (simp add: parseSegmentIndex_name segment_file_def Let_def)
qed simp

text \<open>
  A split is read back from its directory: whatever order the files ffmpeg wrote are listed in, each
  gives one segment, with the index its name was made from, also past the two digits the pattern pads to.
\<close>

theorem split_indices_roundtrip:
  assumes "0 < seconds" "tl_MkdirAll T dir = None"
    "cmd_Run T (split_args T videoPath seconds (path_in dir ''segment_%02d.mp4'')) = Inr p"
    "tl_ReadDir T dir = Inr (map (\<lambda>i. (segment_name i, False)) ids)"
    "ids \<noteq> []" "\<forall>i \<in> set ids. 0 \<le> i \<and> i < 2 ^ 63"
  shows "splitter_Split T videoPath seconds dir = Inr (map (segment_file T dir \<lfloor>seconds * 1000\<rfloor>) ids) \<and>
    map sf_Index (map (segment_file T dir \<lfloor>seconds * 1000\<rfloor>) ids) = ids"
  using assms by (simp add: splitter_Split_def segment_files_of_names Let_def segment_file_def comp_def)

lemma split_sample:
  "tl_ReadDir (sample_tools '''' None) ''/d'' = Inr (map (\<lambda>i. (segment_name i, False)) [0, 1])"
  "cmd_Run (sample_tools '''' None) (split_args (sample_tools '''' None) ''v'' 30 (path_in ''/d'' ''segment_%02d.mp4'')) =
     Inr \<lparr>pr_Stdout = '''', pr_ReadErr = io_EOF, pr_Stderr = '''', pr_Exit = None, pr_File = Inr ''jpg''\<rparr>"
  "tl_MkdirAll (sample_tools '''' None) ''/d'' = None"
proof -
  have names: "segment_name 0 = ''segment_00.mp4''" "segment_name 1 = ''segment_01.mp4''" by code_simp+
  show "tl_ReadDir (sample_tools '''' None) ''/d'' = Inr (map (\<lambda>i. (segment_name i, False)) [0, 1])"
    unfolding list.map names by (simp add: sample_tools_def)
qed (simp_all add: sample_tools_def cmd_Run_def)

theorem split_indices_roundtrip_witness:
  "\<exists>files. splitter_Split (sample_tools '''' None) ''v'' 30 ''/d'' = Inr files \<and> map sf_Index files = [0, 1]"
proof -
  have "(0 :: real) < 30" "[0, 1 :: int] \<noteq> []" "\<forall>i \<in> set [0, 1 :: int]. 0 \<le> i \<and> i < 2 ^ 63" by simp_all
  from split_indices_roundtrip [OF this(1) split_sample(3,2,1) this(2,3)] show ?thesis by (intro exI)
qed

end
