(* ===== verification/Completion.thy ===== *)
theory Completion
  imports ClassifyFrames
begin

text \<open>
  What it means that a video is finished (\<open>tryFinalize\<close> and its callers in
  \<open>internal/application/command/video/classify_frames.go\<close>): the classification handlers make a video succeed
  only when its extraction has ended and each of its frames has been read and classified. The handlers
  compare numbers of rows; that the rows are the right ones rests on the unique keys of the tables.
\<close>

section \<open>Finished videos\<close>

definition frame_jobs :: "db \<Rightarrow> job set" where
  "frame_jobs d = {j \<in> set (t_jobs d). j_Type j = TypeFrame}"

definition succeeded :: "db \<Rightarrow> uuid set" where
  "succeeded d = v_ID ` {v \<in> set (t_videos d). v_Status v = StatusSuccess}"

definition all_classified :: "job set \<Rightarrow> frame list \<Rightarrow> ocr_result list \<Rightarrow> classification list \<Rightarrow> uuid \<Rightarrow> bool" where
  "all_classified jobs frames ocrs classifications i \<longleftrightarrow>
     (\<exists>j \<in> jobs. j_VideoID j = i \<and> j_Status j = JobSuccess) \<and>
     (\<forall>f \<in> set frames. f_VideoID f = i \<longrightarrow>
        f_ID f \<in> o_FrameID ` set ocrs \<and> f_ID f \<in> c_FrameID ` set classifications)"

definition finished :: "db \<Rightarrow> uuid \<Rightarrow> bool" where
  "finished d i \<longleftrightarrow> all_classified (frame_jobs d) (t_frames d) (t_ocrs d) (t_classifications d) i"

text \<open>
  What stays true while a classification handler runs from \<open>d0\<close>: it leaves the frames, their texts and the
  extraction jobs alone, and every video that has succeeded meanwhile is finished. \<open>K\<close> is what is known of
  the table of classifications.
\<close>

definition classifying :: "db \<Rightarrow> (classification list \<Rightarrow> bool) \<Rightarrow> db \<Rightarrow> bool" where
  "classifying d0 K d \<longleftrightarrow>
     frame_jobs d = frame_jobs d0 \<and> t_frames d = t_frames d0 \<and> t_ocrs d = t_ocrs d0 \<and>
     K (t_classifications d) \<and> distinct (map c_FrameID (t_classifications d)) \<and> distinct (map j_ID (t_jobs d)) \<and>
     (\<forall>i \<in> succeeded d. i \<in> succeeded d0 \<or> finished d i)"

lemma classifying_start:
  "db_ok U d \<Longrightarrow> K (t_classifications d) \<Longrightarrow> classifying d K d"
  by (simp add: classifying_def db_ok_def jobs_ok_def)

lemma holds_fixing:
  assumes "\<And>C. holds (classifying d0 ((=) C)) R m"
  shows "holds (classifying d0 (\<lambda>_. True)) R m"
proof (rule holdsI)
  fix w :: world
  assume "classifying d0 (\<lambda>_. True) (w_db w)"
  then have "classifying d0 ((=) (t_classifications (w_db w))) (w_db w)" by (simp add: classifying_def)
  from holds_wp [OF assms this] show "wp m (\<lambda>a w'. classifying d0 (\<lambda>_. True) (w_db w') \<and> R a) w"
    by (rule wp_mono) (simp add: classifying_def)
qed

section \<open>The statements\<close>

text \<open>A job that is none of the extraction jobs, and a video that may be stored.\<close>

definition side_job :: "db \<Rightarrow> job \<Rightarrow> bool" where
  "side_job d0 j \<longleftrightarrow> j_Type j \<noteq> TypeFrame \<and> j_ID j \<notin> j_ID ` frame_jobs d0"

definition may_store :: "db \<Rightarrow> (classification list \<Rightarrow> bool) \<Rightarrow> video \<Rightarrow> bool" where
  "may_store d0 K v \<longleftrightarrow> (v_Status v = StatusSuccess \<longrightarrow>
     (\<forall>C. K C \<longrightarrow> all_classified (frame_jobs d0) (t_frames d0) (t_ocrs d0) C (v_ID v)))"

lemma classifying_videos:
  assumes "classifying d0 K d" "set t \<subseteq> insert v (set (t_videos d))" "may_store d0 K v"
  shows "classifying d0 K (d\<lparr>t_videos := t\<rparr>)"
proof -
  have "i \<in> succeeded d0 \<or> finished d i" if "i \<in> succeeded (d\<lparr>t_videos := t\<rparr>)" for i
  proof -
    from that obtain x where x: "x \<in> set t" "v_Status x = StatusSuccess" "i = v_ID x"
      by (auto simp: succeeded_def)
    show ?thesis
    proof (cases "x \<in> set (t_videos d)")
      case True
      then have "i \<in> succeeded d" using x by (auto simp: succeeded_def)
      then show ?thesis using assms(1) by (simp add: classifying_def)
    next
      case False
      then have "x = v" using x(1) assms(2) by blast
      then show ?thesis using x assms(1,3) by (simp add: may_store_def finished_def classifying_def)
    qed
  qed
  then show ?thesis using assms(1) by (simp add: classifying_def frame_jobs_def finished_def)
qed

lemma stays_videos_Update:
  "may_store d0 K v \<Longrightarrow> holds (classifying d0 K) (\<lambda>_. True) (videos_Update v)"
  unfolding videos_Update_def
  by (rule holds_bind [OF holds_rt_True], rule holds_db_exec, drule or_violation_Inr)
    (auto intro!: classifying_videos dest: tbl_save_set simp: may_store_def videoModelFromDomain_def)

lemma classifying_jobs:
  assumes "classifying d0 K d" "frame_jobs (d\<lparr>t_jobs := t\<rparr>) = frame_jobs d" "distinct (map j_ID t)"
  shows "classifying d0 K (d\<lparr>t_jobs := t\<rparr>)"
proof -
  have "succeeded (d\<lparr>t_jobs := t\<rparr>) = succeeded d" by (simp add: succeeded_def)
  moreover have "finished (d\<lparr>t_jobs := t\<rparr>) i = finished d i" for i using assms(2) by (simp add: finished_def)
  ultimately show ?thesis using assms by (simp add: classifying_def)
qed

lemma stays_jobs_Update:
  assumes "side_job d0 j"
  shows "holds (classifying d0 K) (\<lambda>_. True) (jobs_Update j)"
proof -
  have "classifying d0 K (d\<lparr>t_jobs := t\<rparr>)"
    if P: "classifying d0 K d" and save: "tbl_save j_ID job_clash j (t_jobs d) = Some t" for d t
  proof (rule classifying_jobs [OF P])
    have jobs: "frame_jobs d = frame_jobs d0" using P by (simp add: classifying_def)
    have "j_Type k \<noteq> TypeFrame" if "k \<in> set (t_jobs d)" "j_ID k = j_ID j" for k
    proof
      assume "j_Type k = TypeFrame"
      then have "k \<in> frame_jobs d0" using that(1) unfolding jobs [symmetric] by (simp add: frame_jobs_def)
      then have "j_ID k \<in> j_ID ` frame_jobs d0" by (rule imageI)
      then show False using assms that(2) by (simp add: side_job_def)
    qed
    then show "frame_jobs (d\<lparr>t_jobs := t\<rparr>) = frame_jobs d"
      using save assms by (auto simp: tbl_save_def frame_jobs_def side_job_def split: if_splits)
    show "distinct (map j_ID t)"
      by (rule tbl_save_distinct [OF save]) (use P in \<open>auto simp: job_clash_def classifying_def\<close>)
  qed
  then show ?thesis
    unfolding jobs_Update_def by (intro holds_db_exec) (auto dest!: or_violation_Inr)
qed

lemma stays_jobs_Save:
  assumes "j_Type j \<noteq> TypeFrame"
  shows "holds (classifying d0 K) (\<lambda>e. e = None \<longrightarrow> side_job d0 j) (jobs_Save j)"
proof -
  have "classifying d0 K (d\<lparr>t_jobs := t\<rparr>) \<and> side_job d0 j"
    if P: "classifying d0 K d" and ins: "tbl_insert job_clash j (t_jobs d) = Some t" for d t
  proof
    show "classifying d0 K (d\<lparr>t_jobs := t\<rparr>)"
    proof (rule classifying_jobs [OF P])
      show "frame_jobs (d\<lparr>t_jobs := t\<rparr>) = frame_jobs d"
        using ins assms by (auto simp: tbl_insert_def frame_jobs_def split: if_splits)
      show "distinct (map j_ID t)"
        by (rule tbl_insert_distinct [OF ins]) (use P in \<open>auto simp: job_clash_def classifying_def\<close>)
    qed
    have "j_ID j \<notin> j_ID ` set (t_jobs d)"
      using ins by (auto simp: tbl_insert_def job_clash_def list_ex_iff split: if_splits)
    moreover have "frame_jobs d0 \<subseteq> set (t_jobs d)" using P by (auto simp: classifying_def frame_jobs_def)
    ultimately show "side_job d0 j" using assms by (auto simp: side_job_def)
  qed
  then show ?thesis
    unfolding jobs_Save_def db_exec_def
    by (intro holds_bind [OF holds_db_op [where R = "\<lambda>r. (\<exists>x. r = Inr x) \<longrightarrow> side_job d0 j"]] holds_ret)
      (auto simp: err_of_def or_violation_def split: option.splits sum.splits)
qed

lemma stays_videos_GetByID:
  "holds (classifying d0 K) (\<lambda>r. \<forall>v. r = Inr (Some v) \<longrightarrow> v_ID v = i) (videos_GetByID i)"
  unfolding videos_GetByID_def by (rule holds_db_query) (auto dest!: tbl_find_Some)

lemma stays_GetFrameJob:
  "holds (classifying d0 K) (\<lambda>r. \<forall>j. r = Inr (Some j) \<longrightarrow> j \<in> frame_jobs d0 \<and> j_VideoID j = i)
     (jobs_GetByVideoIDAndType i TypeFrame)"
  unfolding jobs_GetByVideoIDAndType_def
  by (rule holds_db_query) (auto dest!: tbl_find_Some simp: classifying_def frame_jobs_def)

lemma stays_GetSideJob:
  assumes "ty \<noteq> TypeFrame"
  shows "holds (classifying d0 K) (\<lambda>r. \<forall>j. r = Inr (Some j) \<longrightarrow> side_job d0 j) (jobs_GetByVideoIDAndType i ty)"
proof -
  have "side_job d0 j" if P: "classifying d0 K d" and j: "j \<in> set (t_jobs d)" "j_Type j = ty" for d j
  proof -
    have "j_ID k \<noteq> j_ID j" if "k \<in> frame_jobs d" for k
      using that P j assms by (auto simp: classifying_def frame_jobs_def distinct_map inj_on_def)
    then have "j_ID j \<notin> j_ID ` frame_jobs d" by (metis imageE)
    then show ?thesis using P j assms by (simp add: side_job_def classifying_def)
  qed
  then show ?thesis
    unfolding jobs_GetByVideoIDAndType_def by (intro holds_db_query) (auto dest!: tbl_find_Some)
qed

lemma stays_find_or_save_job:
  "holds (classifying d0 K) (\<lambda>r. \<forall>j. r = Inr j \<longrightarrow> side_job d0 j) (find_or_save_job i TypeClassify NewClassifyJob)"
proof -
  have new: "holds (classifying d0 K) (\<lambda>j. j_Type j \<noteq> TypeFrame) (rt_op (NewClassifyJob i))"
    by (rule holds_rt_op) (simp add: NewClassifyJob_def wp_simps)
  show ?thesis
    unfolding find_or_save_job_def
    by (rule holds_on_err [OF stays_GetSideJob] holds_bind [OF new] holds_if_err [OF stays_jobs_Save]
        holds_control holds_ret | assumption | force)+
qed

section \<open>Reading\<close>

lemma distinct_map_sort_filter:
  "distinct (map f t) \<Longrightarrow> distinct (map f (sort_key g (sort_key h (filter P t))))"
  by (simp add: distinct_map inj_on_def)

lemma stays_frames_List:
  "holds (classifying d0 K) (\<lambda>r. \<forall>fs. r = Inr fs \<longrightarrow> set fs = {f \<in> set (t_frames d0). f_VideoID f = i} \<and>
     (distinct (map f_ID (t_frames d0)) \<longrightarrow> distinct (map f_ID fs))) (frames_ListByVideoID i)"
  unfolding frames_ListByVideoID_def
  by (rule holds_db_query) (auto simp: classifying_def intro: distinct_map_sort_filter)

lemma stays_ocrs_List:
  "holds (classifying d0 K) (\<lambda>r. \<forall>rs. r = Inr rs \<longrightarrow> rs = filter (\<lambda>x. o_FrameID x \<in> set ids) (t_ocrs d0))
     (ocrs_ListByFrameIDs ids)"
  unfolding ocrs_ListByFrameIDs_def
  by (intro holds_if holds_ret holds_db_query) (auto simp: classifying_def)

lemma stays_classifications_List:
  "holds (classifying d0 ((=) C)) (\<lambda>r. \<forall>cs. r = Inr cs \<longrightarrow> cs = filter (\<lambda>c. c_FrameID c \<in> set ids) C)
     (classifications_ListByFrameIDs ids)"
  unfolding classifications_ListByFrameIDs_def
  by (intro holds_if holds_ret holds_db_query) (auto simp: classifying_def)

lemma stays_any_List: "holds (classifying d0 K) (\<lambda>_. True) (classifications_ListByFrameIDs ids)"
  unfolding classifications_ListByFrameIDs_def by (intro holds_if holds_ret holds_db_query) auto

section \<open>Counting rows is enough\<close>

text \<open>As many results of distinct frames as there are frames asked for: a result for each of them.\<close>

lemma enough_results:
  assumes "distinct (map key rows)" "distinct ids"
    and "length (filter (\<lambda>r. key r \<in> set ids) rows) \<ge> length ids"
  shows "set ids \<subseteq> key ` set rows"
proof -
  let ?found = "filter (\<lambda>r. key r \<in> set ids) rows"
  have "distinct (map key ?found)" using assms(1) by (rule distinct_map_filter)
  then have "card (key ` set ?found) = length ?found" by (metis distinct_card length_map set_map)
  moreover have "card (set ids) = length ids" using assms(2) by (rule distinct_card)
  ultimately have "key ` set ?found = set ids"
    using assms(3) by (intro card_seteq) auto
  then show ?thesis by auto
qed

section \<open>The steps\<close>

lemma stays_StoreEvents: "holds (classifying d0 K) (\<lambda>_. True) (StoreEvents S es)"
  unfolding StoreEvents_def
  by (intro holds_if holds_ret holds_case_sum holds_db_exec)
    (auto simp: classifying_def frame_jobs_def finished_def succeeded_def)

lemma stays_store_pulled:
  "holds (classifying d0 K) (\<lambda>(err, v'). v_ID v' = v_ID v \<and> v_Status v' = v_Status v) (store_pulled S v)"
  unfolding store_pulled_def
  by (auto simp: PullEvents_def intro!: holds_bind [OF stays_StoreEvents] holds_ret)

lemma stays_save_video_job:
  assumes "may_store d0 K v" "side_job d0 j"
  shows "holds (classifying d0 K) (\<lambda>(err, v'). v_ID v' = v_ID v \<and> v_Status v' = v_Status v) (save_video_job S v j)"
  unfolding save_video_job_def
  by (rule holds_WithTransaction)
    (use assms in \<open>auto intro!: holds_if_err [OF stays_videos_Update] holds_if_err [OF stays_jobs_Update]
      stays_store_pulled holds_ret\<close>)

lemma classifying_upsert:
  assumes P: "classifying d0 (\<lambda>_. True) d"
    and ups: "tbl_upsert_all c_FrameID c_ID merge_classification cs (t_classifications d) = Some t"
  shows "classifying d0 (\<lambda>_. True) (d\<lparr>t_classifications := t\<rparr>)"
proof -
  have "distinct (map c_FrameID t) \<and> set (map c_FrameID t) = set (map c_FrameID (t_classifications d)) \<union> set (map c_FrameID cs)"
    by (rule upsert_rows_distinct [OF tbl_upsert_all_rows [OF ups]])
      (use P in \<open>auto simp: classifying_def merge_classification_def\<close>)
  then have keys: "distinct (map c_FrameID t)" and kept: "c_FrameID ` set (t_classifications d) \<subseteq> c_FrameID ` set t" by auto
  have "finished (d\<lparr>t_classifications := t\<rparr>) i" if "finished d i" for i
    using that kept by (auto simp: finished_def all_classified_def frame_jobs_def)
  then show ?thesis using P keys by (auto simp: classifying_def frame_jobs_def succeeded_def)
qed

lemma stays_persistClassifications:
  "holds (classifying d0 (\<lambda>_. True)) (\<lambda>_. True) (persistClassifications cs k)"
proof -
  have "holds (classifying d0 (\<lambda>_. True)) (\<lambda>_. True) (classifications_UpsertAll cs)"
    unfolding classifications_UpsertAll_def
    by (intro holds_if holds_ret holds_db_exec) (auto dest!: or_violation_Inr intro: classifying_upsert)
  then show ?thesis
    unfolding persistClassifications_def by (intro holds_if holds_ret holds_if_err) auto
qed

text \<open>The methods of the entities: the identity of the row, and the status a video gets.\<close>

lemma stays_job_methods:
  assumes "side_job d0 j"
  shows "holds P (side_job d0) (rt_op (job_MarkProcessing (SetExpectedFrameCount n j)))"
    "holds P (side_job d0) (rt_op (job_MarkSuccess (SetExpectedFrameCount n j)))"
    "holds P (side_job d0) (rt_op (job_MarkFailed why j))"
  using assms by (auto intro!: holds_rt_op simp: job_MarkProcessing_def job_MarkSuccess_def job_MarkFailed_def
      start_if_unset_def SetExpectedFrameCount_def side_job_def wp_simps)

abbreviation moved :: "video \<Rightarrow> bool \<Rightarrow> go_error option \<times> video \<Rightarrow> bool" where
  "moved v succ \<equiv> (\<lambda>(err, v'). v_ID v' = v_ID v \<and>
     (err = None \<longrightarrow> v_Status v \<noteq> StatusSuccess \<longrightarrow> \<not> succ \<longrightarrow> v_Status v' \<noteq> StatusSuccess))"

lemma stays_video_methods:
  "holds P (moved v False) (rt_op (MarkClassifying U i ty st n v))"
  "holds P (moved v False) (rt_op (MarkClassifyFailed U i ty st why n v))"
  "holds P (moved v True) (rt_op (MarkClassified U i ty st n ps v))"
  by (auto intro!: holds_rt_op simp: MarkClassifying_def MarkClassifyFailed_def MarkClassified_def
      recordEvent_def Let_def wp_simps)

definition classify_loaded :: "db \<Rightarrow> uuid \<Rightarrow> go_error + video \<times> job \<times> job \<Rightarrow> bool" where
  "classify_loaded d0 i r \<longleftrightarrow>
     (\<forall>v j k. r = Inr (v, j, k) \<longrightarrow> v_ID v = i \<and> side_job d0 j \<and> k \<in> frame_jobs d0 \<and> j_VideoID k = i)"

lemma stays_classify_load: "holds (classifying d0 K) (classify_loaded d0 i) (classify_load i)"
  unfolding classify_load_def
  by (rule holds_on_err [OF stays_videos_GetByID] holds_on_err [OF stays_GetFrameJob]
      holds_on_err [OF stays_GetSideJob] holds_on_err [OF stays_find_or_save_job] holds_control holds_ret
      | force simp: classify_loaded_def)+

lemma stays_classify_markProcessing:
  assumes "side_job d0 j" "v_Status v \<noteq> StatusSuccess"
  shows "holds (classifying d0 K) (\<lambda>(err, v', j'). err = None \<longrightarrow>
      v_ID v' = v_ID v \<and> v_Status v' \<noteq> StatusSuccess \<and> side_job d0 j') (classify_markProcessing S v j n)"
  unfolding classify_markProcessing_def using assms
  by (auto intro!: holds_if holds_ret holds_bind [OF stays_job_methods(1)] holds_bind [OF stays_video_methods(1)]
      holds_case_option holds_case_prod holds_bind [OF stays_save_video_job] simp: may_store_def)

lemma stays_classify_markFailed:
  assumes "side_job d0 j" "v_Status v \<noteq> StatusSuccess"
  shows "holds (classifying d0 K) (\<lambda>_. True) (classify_markFailed S v j why)"
  unfolding classify_markFailed_def using assms
  by (auto intro!: holds_ret holds_bind [OF stays_job_methods(3)] holds_bind [OF stays_video_methods(2)]
      holds_case_option holds_case_prod holds_bind [OF stays_save_video_job] simp: may_store_def)

lemma stays_failOrRetry:
  assumes "side_job d0 j" "v_Status v \<noteq> StatusSuccess"
  shows "holds (classifying d0 K) (\<lambda>_. True) (classify_failOrRetry S ctx v j e why)"
  unfolding classify_failOrRetry_def by (rule holds_fail_or_retry [OF stays_classify_markFailed [OF assms]])

lemma stays_classify_markReady:
  assumes "side_job d0 j" "all_classified (frame_jobs d0) (t_frames d0) (t_ocrs d0) C (v_ID v)"
  shows "holds (classifying d0 ((=) C)) (\<lambda>_. True) (classify_markReady S v j cs)"
  unfolding classify_markReady_def using assms
  by (auto intro!: holds_ret holds_bind [OF stays_job_methods(2)] holds_bind [OF stays_video_methods(3)]
      holds_case_option holds_case_prod holds_bind [OF stays_save_video_job] simp: may_store_def)

lemma holds_given: "(\<And>d. P d \<Longrightarrow> holds P R m) \<Longrightarrow> holds P R m"
  unfolding holds_def by blast

lemma stays_tryFinalize_fixed:
  assumes j: "side_job d0 j" and v: "v_Status v \<noteq> StatusSuccess"
    and k: "k \<in> frame_jobs d0" "j_VideoID k = v_ID v"
    and keys: "distinct (map f_ID (t_frames d0))" "distinct (map o_FrameID (t_ocrs d0))"
  shows "holds (classifying d0 ((=) C)) (\<lambda>_. True) (tryFinalize S ctx v j k)"
proof (rule holds_given)
  fix d
  assume "classifying d0 ((=) C) d"
  then have C: "distinct (map c_FrameID C)" by (simp add: classifying_def)
  have all: "all_classified (frame_jobs d0) (t_frames d0) (t_ocrs d0) C (v_ID v)"
    if "j_Status k = JobSuccess" "set fs = {f \<in> set (t_frames d0). f_VideoID f = v_ID v}"
      "set (frameIDs fs) \<subseteq> o_FrameID ` set (t_ocrs d0)" "set (frameIDs fs) \<subseteq> c_FrameID ` set C" for fs
    using that k by (force simp: all_classified_def frameIDs_def)
  show "holds (classifying d0 ((=) C)) (\<lambda>_. True) (tryFinalize S ctx v j k)"
    unfolding tryFinalize_def
  proof (intro holds_if holds_ret holds_on_err [OF stays_frames_List] stays_failOrRetry [OF j v])
    fix fs
    assume "\<not> j_Status k \<noteq> JobSuccess" and
      "\<forall>fs'. (Inr fs :: go_error + frame list) = Inr fs' \<longrightarrow> set fs' = {f \<in> set (t_frames d0). f_VideoID f = v_ID v} \<and>
         (distinct (map f_ID (t_frames d0)) \<longrightarrow> distinct (map f_ID fs'))"
    then have k_done: "j_Status k = JobSuccess" and fs: "set fs = {f \<in> set (t_frames d0). f_VideoID f = v_ID v}"
      and ids: "distinct (frameIDs fs)" using keys by (auto simp: frameIDs_def)
    show "holds (classifying d0 ((=) C)) (\<lambda>_. True) (classify_markReady S v j [])" if "length fs = 0"
      by (rule stays_classify_markReady [OF j all [OF k_done fs]]) (use that in \<open>simp_all add: frameIDs_def\<close>)
    show "holds (classifying d0 ((=) C)) (\<lambda>_. True)
        (on_err (ocrs_ListByFrameIDs (frameIDs fs)) (\<lambda>e. classify_failOrRetry S ctx v j e ''failed to load ocr'')
          (\<lambda>ocrResults. if length ocrResults < length fs then ret None
             else on_err (classifications_ListByFrameIDs (frameIDs fs))
               (\<lambda>e. classify_failOrRetry S ctx v j e ''failed to load classifications'')
               (\<lambda>stored. if length stored < length fs then ret None
                  else if_err (classify_markReady S v j stored) (\<lambda>e. ret (Retryable (Some e))) (ret None))))"
      by (intro holds_if holds_ret holds_on_err [OF stays_ocrs_List] holds_on_err [OF stays_classifications_List]
          stays_failOrRetry [OF j v] holds_if_err [OF stays_classify_markReady [OF j all [OF k_done fs]]])
        (use enough_results [OF keys(2) ids] enough_results [OF C ids] in \<open>auto simp: frameIDs_def\<close>)
  qed auto
qed

lemmas stays_tryFinalize = holds_fixing [OF stays_tryFinalize_fixed]

lemma stays_Finalize:
  assumes keys: "distinct (map f_ID (t_frames d0))" "distinct (map o_FrameID (t_ocrs d0))"
  shows "holds (classifying d0 (\<lambda>_. True)) (\<lambda>_. True) (Finalize S ctx i)"
  unfolding Finalize_def
  by (rule holds_on_err [OF stays_classify_load])
    (auto intro!: holds_ret holds_if holds_case_prod stays_tryFinalize keys simp: classify_loaded_def)

lemma stays_HandleFrame:
  assumes keys: "distinct (map f_ID (t_frames d0))" "distinct (map o_FrameID (t_ocrs d0))"
  shows "holds (classifying d0 (\<lambda>_. True)) (\<lambda>_. True) (HandleFrame S threshold ctx cmd)"
  unfolding HandleFrame_def
  by (rule holds_on_err [OF stays_classify_load])
    (auto intro!: holds_ret holds_if holds_case_prod holds_case_option stays_tryFinalize keys
      holds_on_err [OF stays_frames_List] holds_on_err [OF stays_ocrs_List] holds_on_err [OF stays_any_List]
      holds_on_err [OF holds_svc] holds_bind [OF stays_classify_markProcessing] holds_bind [OF stays_persistClassifications]
      holds_bind [OF holds_rt_True] stays_failOrRetry simp: classify_loaded_def)

section \<open>A finished video is finished\<close>

inductive classification_run :: "services \<Rightarrow> real \<Rightarrow> world \<Rightarrow> world \<Rightarrow> bool" for S threshold where
  frame: "run_state (HandleFrame S threshold ctx cmd) w = (r, w') \<Longrightarrow> classification_run S threshold w w'"
| final: "run_state (Finalize S ctx i) w = (r, w') \<Longrightarrow> classification_run S threshold w w'"

text \<open>
  C6. The classification handlers never finish a video early: after a run of \<open>HandleFrame\<close> or \<open>Finalize\<close> from
  a well-formed database, whatever statement or service failed on the way, every video that has succeeded had
  already done so before, or its frame job has succeeded and each of its frames has an OCR result and a
  classification in the database.
\<close>

theorem succeeded_videos_are_finished:
  assumes "classification_run S threshold w w'" "db_ok (sv_uuid S) (w_db w)"
    and "v \<in> set (t_videos (w_db w'))" "v_Status v = StatusSuccess"
  shows "v_ID v \<in> succeeded (w_db w) \<or>
    (\<exists>j \<in> set (t_jobs (w_db w')). j_Type j = TypeFrame \<and> j_VideoID j = v_ID v \<and> j_Status j = JobSuccess) \<and>
    (\<forall>f \<in> set (t_frames (w_db w')). f_VideoID f = v_ID v \<longrightarrow>
      (\<exists>r \<in> set (t_ocrs (w_db w')). o_FrameID r = f_ID f) \<and> (\<exists>c \<in> set (t_classifications (w_db w')). c_FrameID c = f_ID f))"
proof -
  let ?d = "w_db w"
  have keys: "distinct (map f_ID (t_frames ?d))" "distinct (map o_FrameID (t_ocrs ?d))"
    using assms(2) by (simp_all add: db_ok_def)
  have start: "classifying ?d (\<lambda>_. True) ?d" by (rule classifying_start [OF assms(2)]) simp
  have "classifying ?d (\<lambda>_. True) (w_db w')"
    using assms(1) by cases (blast dest: holdsD [OF stays_HandleFrame [OF keys] start] holdsD [OF stays_Finalize [OF keys] start])+
  moreover have "v_ID v \<in> succeeded (w_db w')" using assms(3,4) by (auto simp: succeeded_def)
  ultimately have "v_ID v \<in> succeeded ?d \<or> finished (w_db w') (v_ID v)" by (simp add: classifying_def)
  then show ?thesis by (force simp: finished_def all_classified_def frame_jobs_def)
qed

definition one_frame_world :: world where
  "one_frame_world = sample_world\<lparr>w_db := empty_db\<lparr>
     t_videos := [
       \<lparr>v_ID = 900, v_UserID = Some 7, v_OriginalFilename = ''a.mp4'', v_StorageKey = NewStorageKey decimal_lib 900,
        v_ThumbnailKey = '''', v_SizeBytes = 0, v_ContentType = ''video/mp4'', v_Status = StatusProcessing,
        v_CreatedAt = 0, v_UpdatedAt = 0, v_FinishedAt = None, v_events = []\<rparr>],
     t_jobs := [zero_job\<lparr>j_ID := 901, j_VideoID := 900, j_Type := TypeFrame, j_Status := JobSuccess, j_FinishedAt := Some 0\<rparr>],
     t_frames := [
       \<lparr>f_ID = 902, f_VideoID = 900, f_SegmentIndex = 0, f_Index = 0, f_TimestampMs = 0, f_StorageKey = ''k'',
        f_SelectionReason = SelectionReasonFixedInterval, f_PHashDistance = 0, f_Retained = True, f_PruneReason = ''''\<rparr>],
     t_ocrs := [
       \<lparr>o_ID = 903, o_FrameID = 902, o_Text = '''', o_Confidence = 0, o_Status = OCREmpty, o_ErrorReason = '''', o_Lines = []\<rparr>]\<rparr>\<rparr>"

lemma one_frame_world_ok: "db_ok decimal_lib (w_db one_frame_world)"
  by (simp add: db_ok_def one_frame_world_def empty_db_def videos_ok_def jobs_ok_def segments_ok_def users_ok_def
      video_ok_def video_statuses_def job_life.consistent_def zero_job_def)

definition one_frame_run :: world where
  "one_frame_run = snd (run_state (HandleFrame sample_services 0 None \<lparr>cl_VideoID = 900, cl_FrameID = 902\<rparr>) one_frame_world)"

definition outline :: "db \<Rightarrow> (uuid \<times> string) list \<times> (uuid \<times> uuid) list" where
  "outline d = (map (\<lambda>v. (v_ID v, v_Status v)) (t_videos d), map (\<lambda>f. (f_ID f, f_VideoID f)) (t_frames d))"

lemma one_frame_succeeds: "outline (w_db one_frame_run) = ([(900, StatusSuccess)], [(902, 900)])"
  by code_simp

theorem succeeded_videos_are_finished_witness:
  "classification_run sample_services 0 one_frame_world one_frame_run \<and> 902 \<in> c_FrameID ` set (t_classifications (w_db one_frame_run))"
proof -
  have run: "classification_run sample_services 0 one_frame_world one_frame_run"
    unfolding one_frame_run_def by (rule classification_run.frame) (rule surjective_pairing)
  obtain v f where v: "t_videos (w_db one_frame_run) = [v]" "v_Status v = StatusSuccess" "v_ID v = 900"
    and f: "t_frames (w_db one_frame_run) = [f]" "f_ID f = 902" "f_VideoID f = 900"
    using one_frame_succeeds by (auto simp: outline_def map_eq_Cons_conv)
  have "succeeded (w_db one_frame_world) = {}" by (simp add: succeeded_def one_frame_world_def)
  then have "\<exists>c \<in> set (t_classifications (w_db one_frame_run)). c_FrameID c = 902"
    using succeeded_videos_are_finished [OF run _ _ v(2)] one_frame_world_ok v f by simp
  with run show ?thesis by force
qed

end
