(* ===== verification/Gaps.thy ===== *)
theory Gaps
  imports Completion Workers
begin

text \<open>
  Where the pipeline ends without a result, or with less than it seems, as runs of the handlers
  (\<open>internal/application/command/video\<close>) on a video with one frame. \<open>Completion\<close> shows that no video is
  finished too early; these are the runs in which one is finished late, or finished unread.
\<close>

section \<open>A video that is never finished\<close>

text \<open>
  The video of \<open>one_frame_world\<close> while its only segment is still being extracted: the frame is stored, its
  text has not been read.
\<close>

definition extracting_segment :: segment where
  "extracting_segment =
     \<lparr>s_ID = 910, s_VideoID = 900, s_JobID = 911, s_SegmentIndex = 0, s_OffsetMs = 0, s_DurationMs = 60000,
      s_StorageKey = ''s'', s_Status = ''processing'', s_FailureReason = '''', s_CreatedAt = 0, s_CompletedAt = None\<rparr>"

definition extracting_job :: job where
  "extracting_job = zero_job\<lparr>j_ID := 901, j_VideoID := 900, j_Type := TypeFrame, j_Status := JobProcessing,
     j_ExpectedSegmentCount := 1\<rparr>"

definition ocr_job :: job where
  "ocr_job = zero_job\<lparr>j_ID := 912, j_VideoID := 900, j_Type := TypeOCR, j_Status := JobProcessing\<rparr>"

definition classify_job :: job where
  "classify_job = zero_job\<lparr>j_ID := 913, j_VideoID := 900, j_Type := TypeClassify, j_Status := JobProcessing\<rparr>"

definition extracting_world :: world where
  "extracting_world = one_frame_world\<lparr>w_db := (w_db one_frame_world)\<lparr>
     t_jobs := [extracting_job, ocr_job, classify_job], t_segments := [extracting_segment]\<rparr>\<rparr>"

definition situation :: "world \<Rightarrow> string list \<times> (string \<times> string) list \<times> uuid list \<times> string list" where
  "situation w = (let d = w_db w in
     (map v_Status (t_videos d), map (\<lambda>j. (j_Type j, j_Status j)) (t_jobs d), map c_FrameID (t_classifications d),
      map ob_EventType (t_outbox d)))"

lemma classified_early:
  "situation (snd (run_state (HandleFrame sample_services 0 None \<lparr>cl_VideoID = 900, cl_FrameID = 902\<rparr>) extracting_world)) =
     ([StatusProcessing], [(TypeFrame, JobProcessing), (TypeOCR, JobProcessing), (TypeClassify, JobProcessing)], [902], [])"
  by code_simp

definition classified_world :: world where
  "classified_world = extracting_world\<lparr>w_db := (w_db extracting_world)\<lparr>
     t_classifications := [\<lparr>c_ID = 914, c_FrameID = 902, c_Confidential = False, c_Probability = 0, c_Categories = [],
       c_Status = ClassificationSkipped, c_ErrorReason = ''''\<rparr>]\<rparr>\<rparr>"

lemma extracted_late:
  "situation (snd (run_state (completeSegment sample_services (hd (t_videos (w_db extracting_world))) extracting_job
     extracting_segment) classified_world)) =
     ([StatusProcessing], [(TypeFrame, JobSuccess), (TypeOCR, JobProcessing), (TypeClassify, JobProcessing)], [902],
      [''video.frames_extracted.v1''])"
  by code_simp

lemma frames_extracted_heard:
  "filter (\<lambda>(t, _). t = ''video.frames_extracted.v1'') (concat (map (handlers_of S env) workers)) =
     [(''video.frames_extracted.v1'', ''publish_video_frames_extracted_realtime'', OnFramesExtracted S)]"
  by (simp add: workers_def main_handlers_def segment_handlers_def frame_handlers_def classify_handlers_def)

lemma OnFramesExtracted_pushes: "wp (OnFramesExtracted S ctx p) (\<lambda>_ w'. w_db w' = w_db w) w"
  unfolding OnFramesExtracted_def publishToOwner_def ToUser_def PublishToUser_def Let_def
  by (auto simp: wp_simps split: sum.split option.split)

text \<open>
  So the video stays in processing: its frame was classified when the frame job was still open, and what the
  extraction announces in the end is heard by the realtime publisher only, which changes no table.
\<close>

lemma late_extraction_strands_video:
  "fst (situation (snd (run_state (completeSegment sample_services (hd (t_videos (w_db extracting_world))) extracting_job
     extracting_segment) classified_world))) = [StatusProcessing] \<and>
   map (fst \<circ> snd) (filter (\<lambda>(t, _). t = ''video.frames_extracted.v1'') (concat (map (handlers_of S env) workers))) =
     [''publish_video_frames_extracted_realtime'']"
  unfolding extracted_late frames_extracted_heard by simp

section \<open>A video that is finished unread\<close>

text \<open>
  The engine gave no answer for the frame, which is stored as a failed classification. The handler returns
  without an error, so that the message is not delivered again, and counts the row like any other.
\<close>

definition unread_world :: world where
  "unread_world = one_frame_world\<lparr>w_db := (w_db one_frame_world)\<lparr>
     t_jobs := t_jobs (w_db one_frame_world) @ [classify_job],
     t_classifications := [\<lparr>c_ID = 914, c_FrameID = 902, c_Confidential = False, c_Probability = 0, c_Categories = [],
       c_Status = ClassificationFailed, c_ErrorReason = ''missing classify result''\<rparr>]\<rparr>\<rparr>"

definition verdicts :: "go_error option \<times> world \<Rightarrow> go_error option \<times> string list \<times> (string \<times> bool) list" where
  "verdicts = (\<lambda>(r, w). (r, map v_Status (t_videos (w_db w)),
     map (\<lambda>c. (c_Status c, c_Confidential c)) (t_classifications (w_db w))))"

lemma failed_classification_finishes:
  "verdicts (run_state (tryFinalize sample_services None (hd (t_videos (w_db unread_world))) classify_job
     (hd (t_jobs (w_db unread_world)))) unread_world) = (None, [StatusSuccess], [(ClassificationFailed, False)])"
  by code_simp

end
