(* ===== verification/Schema.thy ===== *)
theory Schema
  imports GoErrors
begin

text \<open>
  The database schema and the command line tool that looks after it: the migrations of \<open>migrations/\<close>, which
  \<open>internal/infrastructure/persistence/migrate\<close> hands to goose, the check that the models match the database
  (\<open>internal/infrastructure/persistence/schema/check.go\<close>) and the commands \<open>migrate\<close> and \<open>purge\<close> of
  \<open>cmd/cli\<close>.

  A statement of the data definition language is a \<open>ddl\<close>, with what the program can see of it: tables,
  columns, unique keys and foreign keys under their names. Indexes, defaults, column types and updates of
  rows are left out. Postgres and goose are modelled as documented.
\<close>

section \<open>Tables\<close>

record table_def =
  td_columns :: "string list"
  td_unique :: "(string \<times> string list) list"         \<comment> \<open>constraint name, columns; the primary key too\<close>
  td_foreign :: "(string \<times> string \<times> string) list"    \<comment> \<open>constraint name, column, table\<close>

type_synonym schema = "(string \<times> table_def) list"

definition has_table :: "schema \<Rightarrow> string \<Rightarrow> bool" where
  "has_table s t \<longleftrightarrow> t \<in> set (map fst s)"

text \<open>A flag says that the statement carries \<open>IF NOT EXISTS\<close> or \<open>IF EXISTS\<close>.\<close>

datatype ddl =
    CreateTable string "string list" "(string \<times> string list) list" "(string \<times> string \<times> string) list"
  | DropTable string
  | AddColumn bool string string
  | AddReference string string string
  | DropColumn string string
  | RenameTable string string
  | RenameColumn string string string
  | AddUnique string string "string list"
  | AddForeign string string string string
  | DropConstraint bool string string
  | RenameConstraint bool string string string

definition alter :: "string \<Rightarrow> (table_def \<Rightarrow> table_def option) \<Rightarrow> schema \<Rightarrow> schema option" where
  "alter t f s =
     (case map_of s t of
        None \<Rightarrow> None
      | Some d \<Rightarrow> map_option (\<lambda>d'. map (\<lambda>(n, e). (n, if n = t then d' else e)) s) (f d))"

definition add_column :: "bool \<Rightarrow> string \<Rightarrow> table_def \<Rightarrow> table_def option" where
  "add_column unless_exists c d =
     (if c \<in> set (td_columns d) then (if unless_exists then Some d else None)
      else Some (d\<lparr>td_columns := td_columns d @ [c]\<rparr>))"

definition has_constraint :: "string \<Rightarrow> table_def \<Rightarrow> bool" where
  "has_constraint c d \<longleftrightarrow> c \<in> set (map fst (td_unique d)) \<union> set (map fst (td_foreign d))"

definition drop_constraint :: "bool \<Rightarrow> string \<Rightarrow> table_def \<Rightarrow> table_def option" where
  "drop_constraint if_exists c d =
     (if \<not> has_constraint c d \<and> \<not> if_exists then None
      else Some (d\<lparr>td_unique := filter (\<lambda>(n, _). n \<noteq> c) (td_unique d),
                  td_foreign := filter (\<lambda>(n, _). n \<noteq> c) (td_foreign d)\<rparr>))"

definition renamed :: "string \<Rightarrow> string \<Rightarrow> string \<Rightarrow> string" where
  "renamed a b x = (if x = a then b else x)"

definition rename_column :: "string \<Rightarrow> string \<Rightarrow> table_def \<Rightarrow> table_def option" where
  "rename_column a b d =
     (if a \<notin> set (td_columns d) \<or> b \<in> set (td_columns d) then None
      else Some \<lparr>td_columns = map (renamed a b) (td_columns d),
                 td_unique = map (\<lambda>(n, cs). (n, map (renamed a b) cs)) (td_unique d),
                 td_foreign = map (\<lambda>(n, c, t). (n, renamed a b c, t)) (td_foreign d)\<rparr>)"

definition rename_constraint :: "bool \<Rightarrow> string \<Rightarrow> string \<Rightarrow> table_def \<Rightarrow> table_def option" where
  "rename_constraint if_exists a b d =
     (if \<not> has_constraint a d then (if if_exists then Some d else None)
      else Some (d\<lparr>td_unique := map (\<lambda>(n, cs). (renamed a b n, cs)) (td_unique d),
                  td_foreign := map (\<lambda>(n, r). (renamed a b n, r)) (td_foreign d)\<rparr>))"

text \<open>Dropping a column drops the constraints on it.\<close>

definition drop_column :: "string \<Rightarrow> table_def \<Rightarrow> table_def option" where
  "drop_column c d = Some \<lparr>td_columns = filter (\<lambda>x. x \<noteq> c) (td_columns d),
     td_unique = filter (\<lambda>(_, cs). c \<notin> set cs) (td_unique d),
     td_foreign = filter (\<lambda>(_, x, _). x \<noteq> c) (td_foreign d)\<rparr>"

fun exec_ddl :: "ddl \<Rightarrow> schema \<Rightarrow> schema option" where
  "exec_ddl (CreateTable t cs us fs) s =
     (if has_table s t then Some s
      else if list_ex (\<lambda>(_, _, r). \<not> has_table s r) fs then None
      else Some (s @ [(t, \<lparr>td_columns = cs, td_unique = us, td_foreign = fs\<rparr>)]))"
| "exec_ddl (DropTable t) s =
     (if list_ex (\<lambda>(n, d). n \<noteq> t \<and> list_ex (\<lambda>(_, _, r). r = t) (td_foreign d)) s then None
      else Some (filter (\<lambda>(n, _). n \<noteq> t) s))"
| "exec_ddl (AddColumn unless_exists t c) s = alter t (add_column unless_exists c) s"
| "exec_ddl (AddReference t c r) s =
     (if \<not> has_table s r then None
      else alter t (\<lambda>d. if c \<in> set (td_columns d) then Some d
        else Some (d\<lparr>td_columns := td_columns d @ [c], td_foreign := td_foreign d @ [(t @ ''_'' @ c @ ''_fkey'', c, r)]\<rparr>)) s)"
| "exec_ddl (DropColumn t c) s = alter t (drop_column c) s"
| "exec_ddl (RenameTable a b) s =
     (if \<not> has_table s a \<or> has_table s b then None
      else Some (map (\<lambda>(n, d). (renamed a b n,
             d\<lparr>td_foreign := map (\<lambda>(m, c, r). (m, c, renamed a b r)) (td_foreign d)\<rparr>)) s))"
| "exec_ddl (RenameColumn t a b) s = alter t (rename_column a b) s"
| "exec_ddl (AddUnique t n cs) s =
     alter t (\<lambda>d. if has_constraint n d \<or> \<not> set cs \<subseteq> set (td_columns d) then None
       else Some (d\<lparr>td_unique := td_unique d @ [(n, cs)]\<rparr>)) s"
| "exec_ddl (AddForeign t n c r) s =
     (if \<not> has_table s r then None
      else alter t (\<lambda>d. if has_constraint n d \<or> c \<notin> set (td_columns d) then None
        else Some (d\<lparr>td_foreign := td_foreign d @ [(n, c, r)]\<rparr>)) s)"
| "exec_ddl (DropConstraint if_exists t n) s = alter t (drop_constraint if_exists n) s"
| "exec_ddl (RenameConstraint if_exists t a b) s = alter t (rename_constraint if_exists a b) s"

fun exec_all :: "ddl list \<Rightarrow> schema \<Rightarrow> schema option" where
  "exec_all [] s = Some s"
| "exec_all (x # xs) s = (case exec_ddl x s of None \<Rightarrow> None | Some s' \<Rightarrow> exec_all xs s')"

section \<open>The migrations\<close>

definition init_migration :: "ddl list" where
  "init_migration =
     [CreateTable ''users'' [''id'', ''clerk_id'', ''first_name'', ''last_name'', ''banned'', ''email'', ''created_at'', ''updated_at'']
        [(''users_pkey'', [''id'']), (''users_clerk_id_key'', [''clerk_id'']), (''users_email_key'', [''email''])] [],
      CreateTable ''outbox_events'' [''id'', ''aggregate_id'', ''event_type'', ''payload'', ''created_at'', ''published_at'']
        [(''outbox_events_pkey'', [''id''])] []]"

definition processed_events_migration :: "ddl list" where
  "processed_events_migration =
     [CreateTable ''processed_events'' [''event_id'', ''handler_name'', ''processed_at'']
        [(''processed_events_pkey'', [''event_id'', ''handler_name''])] []]"

definition videos_migration :: "ddl list" where
  "videos_migration =
     [CreateTable ''videos'' [''id'', ''original_filename'', ''storage_key'', ''size_bytes'', ''content_type'', ''status'', ''source'',
          ''created_at'', ''updated_at'']
        [(''videos_pkey'', [''id'']), (''videos_storage_key_key'', [''storage_key''])] [],
      CreateTable ''upload_sessions'' [''id'', ''video_id'', ''expires_at'', ''status'']
        [(''upload_sessions_pkey'', [''id''])] [(''upload_sessions_video_id_fkey'', ''video_id'', ''videos'')],
      CreateTable ''scan_jobs'' [''id'', ''video_id'', ''status'', ''failure_reason'', ''analysis_fps'', ''diff_threshold'',
          ''max_interval_seconds'', ''created_at'', ''completed_at'']
        [(''scan_jobs_pkey'', [''id'']), (''scan_jobs_video_id_key'', [''video_id''])]
        [(''scan_jobs_video_id_fkey'', ''video_id'', ''videos'')],
      CreateTable ''frames'' [''id'', ''scan_job_id'', ''index'', ''timestamp_ms'', ''storage_key'', ''selection_reason'', ''diff_score'']
        [(''frames_pkey'', [''id'']), (''frames_scan_job_id_index_key'', [''scan_job_id'', ''index''])]
        [(''frames_scan_job_id_fkey'', ''scan_job_id'', ''scan_jobs'')]]"

definition drop_upload_sessions_migration :: "ddl list" where
  "drop_upload_sessions_migration = [DropTable ''upload_sessions'']"

definition video_thumbnail_migration :: "ddl list" where
  "video_thumbnail_migration = [AddColumn True ''videos'' ''thumbnail_key'']"

definition video_user_migration :: "ddl list" where
  "video_user_migration = [AddReference ''videos'' ''user_id'' ''users'']"

definition video_user_fk_migration :: "ddl list" where
  "video_user_fk_migration =
     [DropConstraint True ''videos'' ''videos_user_id_fkey'',
      AddForeign ''videos'' ''videos_user_id_fkey'' ''user_id'' ''users'']"

definition rename_scan_jobs_migration :: "ddl list" where
  "rename_scan_jobs_migration =
     [RenameTable ''scan_jobs'' ''jobs'',
      RenameConstraint False ''jobs'' ''scan_jobs_pkey'' ''jobs_pkey'',
      RenameConstraint False ''jobs'' ''scan_jobs_video_id_key'' ''jobs_video_id_key'',
      RenameConstraint False ''jobs'' ''scan_jobs_video_id_fkey'' ''jobs_video_id_fkey'',
      RenameColumn ''frames'' ''scan_job_id'' ''job_id'',
      RenameConstraint False ''frames'' ''frames_scan_job_id_fkey'' ''frames_job_id_fkey'',
      RenameConstraint False ''frames'' ''frames_scan_job_id_index_key'' ''frames_job_id_index_key'']"

definition drop_video_source_migration :: "ddl list" where
  "drop_video_source_migration = [DropColumn ''videos'' ''source'']"

definition ocr_migration :: "ddl list" where
  "ocr_migration =
     [AddColumn True ''jobs'' ''expected_frame_count'', AddColumn True ''jobs'' ''ocr_completed_count'',
      CreateTable ''ocr_results'' [''id'', ''frame_id'', ''text'', ''confidence'', ''status'', ''error_reason'']
        [(''ocr_results_pkey'', [''id'']), (''ocr_results_frame_id_key'', [''frame_id''])]
        [(''ocr_results_frame_id_fkey'', ''frame_id'', ''frames'')]]"

definition job_type_migration :: "ddl list" where
  "job_type_migration =
     [AddColumn True ''jobs'' ''type'', DropConstraint True ''jobs'' ''jobs_video_id_key'',
      AddUnique ''jobs'' ''jobs_video_id_type_key'' [''video_id'', ''type'']]"

definition classify_migration :: "ddl list" where
  "classify_migration =
     [CreateTable ''frame_findings'' [''id'', ''frame_id'', ''confidential'', ''probability'', ''categories'', ''status'', ''error_reason'']
        [(''frame_findings_pkey'', [''id'']), (''frame_findings_frame_id_key'', [''frame_id''])]
        [(''frame_findings_frame_id_fkey'', ''frame_id'', ''frames'')]]"

text \<open>\<open>00013_extract_defaults.sql\<close> changes defaults only.\<close>

definition phash_migration :: "ddl list" where
  "phash_migration =
     [RenameColumn ''jobs'' ''diff_threshold'' ''phash_distance_threshold'',
      RenameColumn ''frames'' ''diff_score'' ''phash_distance'']"

definition ocr_lines_migration :: "ddl list" where
  "ocr_lines_migration = [AddColumn True ''ocr_results'' ''lines'']"

definition frames_video_migration :: "ddl list" where
  "frames_video_migration =
     [AddColumn False ''frames'' ''video_id'',
      AddForeign ''frames'' ''frames_video_id_fkey'' ''video_id'' ''videos'',
      DropConstraint False ''frames'' ''frames_job_id_index_key'',
      AddUnique ''frames'' ''frames_video_id_index_key'' [''video_id'', ''index''],
      DropConstraint False ''frames'' ''frames_job_id_fkey'',
      DropColumn ''frames'' ''job_id'',
      RenameTable ''ocr_results'' ''ocr'',
      RenameConstraint False ''ocr'' ''ocr_results_pkey'' ''ocr_pkey'',
      RenameConstraint False ''ocr'' ''ocr_results_frame_id_key'' ''ocr_frame_id_key'',
      RenameConstraint False ''ocr'' ''ocr_results_frame_id_fkey'' ''ocr_frame_id_fkey'']"

text \<open>The block of \<open>00017\<close> renames the table when there is an \<open>ocr\<close> and no \<open>ocrs\<close>, which is so here.\<close>

definition ocrs_migration :: "ddl list" where
  "ocrs_migration =
     [RenameTable ''ocr'' ''ocrs'',
      RenameConstraint True ''ocrs'' ''ocr_pkey'' ''ocrs_pkey'',
      RenameConstraint True ''ocrs'' ''ocr_frame_id_key'' ''ocrs_frame_id_key'',
      RenameConstraint True ''ocrs'' ''ocr_frame_id_fkey'' ''ocrs_frame_id_fkey'']"

definition classifications_migration :: "ddl list" where
  "classifications_migration =
     [RenameTable ''frame_findings'' ''classifications'',
      RenameConstraint False ''classifications'' ''frame_findings_pkey'' ''classifications_pkey'',
      RenameConstraint False ''classifications'' ''frame_findings_frame_id_key'' ''classifications_frame_id_key'',
      RenameConstraint False ''classifications'' ''frame_findings_frame_id_fkey'' ''classifications_frame_id_fkey'']"

definition retention_migration :: "ddl list" where
  "retention_migration =
     [AddColumn True ''frames'' ''retained'', AddColumn True ''frames'' ''prune_reason'',
      AddColumn True ''jobs'' ''retention_ratio_neutral'', AddColumn True ''jobs'' ''retention_ratio_empty'',
      AddColumn True ''jobs'' ''retention_context_window_seconds'']"

definition segments_migration :: "ddl list" where
  "segments_migration =
     [CreateTable ''video_segments'' [''id'', ''video_id'', ''job_id'', ''segment_index'', ''offset_ms'', ''duration_ms'', ''storage_key'',
          ''status'', ''failure_reason'', ''created_at'', ''completed_at'']
        [(''video_segments_pkey'', [''id'']), (''video_segments_video_id_segment_index_key'', [''video_id'', ''segment_index''])]
        [(''video_segments_video_id_fkey'', ''video_id'', ''videos''), (''video_segments_job_id_fkey'', ''job_id'', ''jobs'')],
      AddColumn True ''jobs'' ''expected_segment_count'', AddColumn True ''jobs'' ''completed_segment_count'',
      AddColumn True ''jobs'' ''segment_duration_seconds'', AddColumn True ''jobs'' ''min_video_duration_for_split_seconds'',
      AddColumn True ''jobs'' ''max_segments'',
      AddColumn True ''frames'' ''segment_index'',
      DropConstraint True ''frames'' ''frames_video_id_index_key'',
      AddUnique ''frames'' ''frames_video_id_segment_index_index_key'' [''video_id'', ''segment_index'', ''index'']]"

definition video_finished_at_migration :: "ddl list" where
  "video_finished_at_migration = [AddColumn True ''videos'' ''finished_at'']"

definition job_started_finished_at_migration :: "ddl list" where
  "job_started_finished_at_migration =
     [AddColumn True ''jobs'' ''started_at'', RenameColumn ''jobs'' ''completed_at'' ''finished_at'']"

text \<open>The empty ones (\<open>00013\<close>, \<open>00019\<close>, \<open>00024\<close>) change defaults and rows only.\<close>

definition migrations :: "ddl list list" where
  "migrations =
     [init_migration, processed_events_migration, videos_migration, drop_upload_sessions_migration,
      video_thumbnail_migration, video_user_migration, video_user_fk_migration, rename_scan_jobs_migration,
      drop_video_source_migration, ocr_migration, job_type_migration, classify_migration, [], phash_migration,
      ocr_lines_migration, frames_video_migration, ocrs_migration, classifications_migration, [],
      retention_migration, segments_migration, video_finished_at_migration, job_started_finished_at_migration, []]"

subsection \<open>The way back\<close>

text \<open>The \<open>Down\<close> part of each file; where it is empty, \<open>Down\<close> changes defaults and rows only.\<close>

definition init_down :: "ddl list" where
  "init_down = [DropTable ''outbox_events'', DropTable ''users'']"

definition processed_events_down :: "ddl list" where
  "processed_events_down = [DropTable ''processed_events'']"

definition videos_down :: "ddl list" where
  "videos_down = [DropTable ''frames'', DropTable ''scan_jobs'', DropTable ''upload_sessions'', DropTable ''videos'']"

definition drop_upload_sessions_down :: "ddl list" where
  "drop_upload_sessions_down =
     [CreateTable ''upload_sessions'' [''id'', ''video_id'', ''expires_at'', ''status'']
        [(''upload_sessions_pkey'', [''id''])] [(''upload_sessions_video_id_fkey'', ''video_id'', ''videos'')]]"

definition video_thumbnail_down :: "ddl list" where
  "video_thumbnail_down = [DropColumn ''videos'' ''thumbnail_key'']"

definition video_user_down :: "ddl list" where
  "video_user_down = [DropColumn ''videos'' ''user_id'']"

definition video_user_fk_down :: "ddl list" where
  "video_user_fk_down =
     [DropConstraint True ''videos'' ''videos_user_id_fkey'',
      AddForeign ''videos'' ''videos_user_id_fkey'' ''user_id'' ''users'']"

definition rename_scan_jobs_down :: "ddl list" where
  "rename_scan_jobs_down =
     [RenameConstraint False ''frames'' ''frames_job_id_index_key'' ''frames_scan_job_id_index_key'',
      RenameConstraint False ''frames'' ''frames_job_id_fkey'' ''frames_scan_job_id_fkey'',
      RenameColumn ''frames'' ''job_id'' ''scan_job_id'',
      RenameConstraint False ''jobs'' ''jobs_video_id_fkey'' ''scan_jobs_video_id_fkey'',
      RenameConstraint False ''jobs'' ''jobs_video_id_key'' ''scan_jobs_video_id_key'',
      RenameConstraint False ''jobs'' ''jobs_pkey'' ''scan_jobs_pkey'',
      RenameTable ''jobs'' ''scan_jobs'']"

definition drop_video_source_down :: "ddl list" where
  "drop_video_source_down = [AddColumn True ''videos'' ''source'']"

definition ocr_down :: "ddl list" where
  "ocr_down = [DropTable ''ocr_results'', DropColumn ''jobs'' ''ocr_completed_count'', DropColumn ''jobs'' ''expected_frame_count'']"

definition job_type_down :: "ddl list" where
  "job_type_down =
     [DropConstraint True ''jobs'' ''jobs_video_id_type_key'', AddUnique ''jobs'' ''jobs_video_id_key'' [''video_id''],
      DropColumn ''jobs'' ''type'']"

definition classify_down :: "ddl list" where
  "classify_down = [DropTable ''frame_findings'']"

definition phash_down :: "ddl list" where
  "phash_down =
     [RenameColumn ''frames'' ''phash_distance'' ''diff_score'',
      RenameColumn ''jobs'' ''phash_distance_threshold'' ''diff_threshold'']"

definition ocr_lines_down :: "ddl list" where
  "ocr_lines_down = [DropColumn ''ocr_results'' ''lines'']"

definition frames_video_down :: "ddl list" where
  "frames_video_down =
     [RenameConstraint False ''ocr'' ''ocr_pkey'' ''ocr_results_pkey'',
      RenameConstraint False ''ocr'' ''ocr_frame_id_key'' ''ocr_results_frame_id_key'',
      RenameConstraint False ''ocr'' ''ocr_frame_id_fkey'' ''ocr_results_frame_id_fkey'',
      RenameTable ''ocr'' ''ocr_results'',
      AddColumn False ''frames'' ''job_id'',
      AddForeign ''frames'' ''frames_job_id_fkey'' ''job_id'' ''jobs'',
      DropConstraint False ''frames'' ''frames_video_id_index_key'',
      AddUnique ''frames'' ''frames_job_id_index_key'' [''job_id'', ''index''],
      DropConstraint False ''frames'' ''frames_video_id_fkey'',
      DropColumn ''frames'' ''video_id'']"

definition ocrs_down :: "ddl list" where
  "ocrs_down =
     [RenameTable ''ocrs'' ''ocr'',
      RenameConstraint True ''ocr'' ''ocrs_pkey'' ''ocr_pkey'',
      RenameConstraint True ''ocr'' ''ocrs_frame_id_key'' ''ocr_frame_id_key'',
      RenameConstraint True ''ocr'' ''ocrs_frame_id_fkey'' ''ocr_frame_id_fkey'']"

definition classifications_down :: "ddl list" where
  "classifications_down =
     [RenameConstraint False ''classifications'' ''classifications_pkey'' ''frame_findings_pkey'',
      RenameConstraint False ''classifications'' ''classifications_frame_id_key'' ''frame_findings_frame_id_key'',
      RenameConstraint False ''classifications'' ''classifications_frame_id_fkey'' ''frame_findings_frame_id_fkey'',
      RenameTable ''classifications'' ''frame_findings'']"

definition retention_down :: "ddl list" where
  "retention_down =
     [DropColumn ''jobs'' ''retention_context_window_seconds'', DropColumn ''jobs'' ''retention_ratio_empty'',
      DropColumn ''jobs'' ''retention_ratio_neutral'',
      DropColumn ''frames'' ''prune_reason'', DropColumn ''frames'' ''retained'']"

definition segments_down :: "ddl list" where
  "segments_down =
     [DropConstraint True ''frames'' ''frames_video_id_segment_index_index_key'',
      AddUnique ''frames'' ''frames_video_id_index_key'' [''video_id'', ''index''],
      DropColumn ''frames'' ''segment_index'',
      DropColumn ''jobs'' ''max_segments'', DropColumn ''jobs'' ''min_video_duration_for_split_seconds'',
      DropColumn ''jobs'' ''segment_duration_seconds'', DropColumn ''jobs'' ''completed_segment_count'',
      DropColumn ''jobs'' ''expected_segment_count'',
      DropTable ''video_segments'']"

definition video_finished_at_down :: "ddl list" where
  "video_finished_at_down = [DropColumn ''videos'' ''finished_at'']"

definition job_started_finished_at_down :: "ddl list" where
  "job_started_finished_at_down = [RenameColumn ''jobs'' ''finished_at'' ''completed_at'', DropColumn ''jobs'' ''started_at'']"

definition rollbacks :: "ddl list list" where
  "rollbacks =
     [init_down, processed_events_down, videos_down, drop_upload_sessions_down,
      video_thumbnail_down, video_user_down, video_user_fk_down, rename_scan_jobs_down,
      drop_video_source_down, ocr_down, job_type_down, classify_down, [], phash_down,
      ocr_lines_down, frames_video_down, ocrs_down, classifications_down, [],
      retention_down, segments_down, video_finished_at_down, job_started_finished_at_down, []]"

section \<open>Applying them\<close>

record database =
  sd_version :: nat
  sd_schema :: schema

text \<open>\<open>goose.Up\<close>: the pending migrations in order, each in a transaction of its own, up to the first that fails.\<close>

fun goose_apply :: "ddl list list \<Rightarrow> database \<Rightarrow> go_error option \<times> database" where
  "goose_apply [] d = (None, d)"
| "goose_apply (m # ms) d =
     (case exec_all m (sd_schema d) of
        None \<Rightarrow> (Some (External ''migration failed''), d)
      | Some s \<Rightarrow> goose_apply ms \<lparr>sd_version = Suc (sd_version d), sd_schema = s\<rparr>)"

definition goose_Up :: "ddl list list \<Rightarrow> database \<Rightarrow> go_error option \<times> database" where
  "goose_Up ms d = goose_apply (drop (sd_version d) ms) d"

definition migrate_Up :: "database \<Rightarrow> go_error option \<times> database" where
  "migrate_Up d =
     (case goose_Up migrations d of
        (Some e, d') \<Rightarrow> (Some (Errorf ''migrate up'' e), d')
      | (None, d') \<Rightarrow> (None, d'))"

text \<open>The command \<open>migrate up\<close>; the database cannot be opened with the error it is given.\<close>

definition migrate_up_command :: "go_error option \<Rightarrow> database \<Rightarrow> go_error option \<times> database" where
  "migrate_up_command openSQL d =
     (case openSQL of
        Some e \<Rightarrow> (Some (Errorf ''get sql db'' e), d)
      | None \<Rightarrow> migrate_Up d)"

text \<open>\<open>goose.Down\<close>: the last migration, in a transaction; there has to be one.\<close>

definition goose_Down :: "ddl list list \<Rightarrow> database \<Rightarrow> go_error option \<times> database" where
  "goose_Down rs d =
     (if sd_version d = 0 \<or> sd_version d > length rs then (Some (External ''no current version''), d)
      else case exec_all (rs ! (sd_version d - 1)) (sd_schema d) of
             None \<Rightarrow> (Some (External ''migration failed''), d)
           | Some s \<Rightarrow> (None, \<lparr>sd_version = sd_version d - 1, sd_schema = s\<rparr>))"

definition migrate_Down :: "database \<Rightarrow> go_error option \<times> database" where
  "migrate_Down d =
     (case goose_Down rollbacks d of
        (Some e, d') \<Rightarrow> (Some (Errorf ''migrate down'' e), d')
      | (None, d') \<Rightarrow> (None, d'))"

definition migrate_down_command :: "go_error option \<Rightarrow> database \<Rightarrow> go_error option \<times> database" where
  "migrate_down_command openSQL d =
     (case openSQL of
        Some e \<Rightarrow> (Some (Errorf ''get sql db'' e), d)
      | None \<Rightarrow> migrate_Down d)"

text \<open>\<open>migrate status\<close> only reads; what goose may fail with is a parameter.\<close>

definition migrate_Status :: "go_error option \<Rightarrow> go_error option" where
  "migrate_Status goose_Status = (case goose_Status of Some e \<Rightarrow> Some (Errorf ''migrate status'' e) | None \<Rightarrow> None)"

definition migrate_status_command :: "go_error option \<Rightarrow> go_error option \<Rightarrow> go_error option" where
  "migrate_status_command openSQL goose_Status =
     (case openSQL of Some e \<Rightarrow> Some (Errorf ''get sql db'' e) | None \<Rightarrow> migrate_Status goose_Status)"

section \<open>The models and the check\<close>

record model =
  md_Table :: string
  md_Columns :: "string list"    \<comment> \<open>the \<open>column\<close> of the \<open>gorm\<close> tags\<close>

definition UserModel_schema :: model where
  "UserModel_schema = \<lparr>md_Table = ''users'',
     md_Columns = [''id'', ''clerk_id'', ''first_name'', ''last_name'', ''banned'', ''email'', ''created_at'', ''updated_at'']\<rparr>"

definition VideoModel_schema :: model where
  "VideoModel_schema = \<lparr>md_Table = ''videos'',
     md_Columns = [''id'', ''user_id'', ''original_filename'', ''storage_key'', ''thumbnail_key'', ''size_bytes'', ''content_type'',
       ''status'', ''created_at'', ''updated_at'', ''finished_at'']\<rparr>"

definition JobModel_schema :: model where
  "JobModel_schema = \<lparr>md_Table = ''jobs'',
     md_Columns = [''id'', ''video_id'', ''type'', ''status'', ''failure_reason'', ''analysis_fps'', ''phash_distance_threshold'',
       ''max_interval_seconds'', ''expected_frame_count'', ''ocr_completed_count'', ''expected_segment_count'',
       ''completed_segment_count'', ''retention_ratio_neutral'', ''retention_ratio_empty'', ''retention_context_window_seconds'',
       ''segment_duration_seconds'', ''min_video_duration_for_split_seconds'', ''max_segments'', ''created_at'', ''started_at'',
       ''finished_at'']\<rparr>"

definition FrameModel_schema :: model where
  "FrameModel_schema = \<lparr>md_Table = ''frames'',
     md_Columns = [''id'', ''video_id'', ''segment_index'', ''index'', ''timestamp_ms'', ''storage_key'', ''selection_reason'',
       ''phash_distance'', ''retained'', ''prune_reason'']\<rparr>"

definition SegmentModel_schema :: model where
  "SegmentModel_schema = \<lparr>md_Table = ''video_segments'',
     md_Columns = [''id'', ''video_id'', ''job_id'', ''segment_index'', ''offset_ms'', ''duration_ms'', ''storage_key'', ''status'',
       ''failure_reason'', ''created_at'', ''completed_at'']\<rparr>"

definition OCRModel_schema :: model where
  "OCRModel_schema = \<lparr>md_Table = ''ocrs'',
     md_Columns = [''id'', ''frame_id'', ''text'', ''confidence'', ''status'', ''error_reason'', ''lines'']\<rparr>"

definition ClassificationModel_schema :: model where
  "ClassificationModel_schema = \<lparr>md_Table = ''classifications'',
     md_Columns = [''id'', ''frame_id'', ''confidential'', ''probability'', ''categories'', ''status'', ''error_reason'']\<rparr>"

definition OutboxEvent_schema :: model where
  "OutboxEvent_schema = \<lparr>md_Table = ''outbox_events'',
     md_Columns = [''id'', ''aggregate_id'', ''event_type'', ''payload'', ''created_at'', ''published_at'']\<rparr>"

definition ProcessedEvent_schema :: model where
  "ProcessedEvent_schema = \<lparr>md_Table = ''processed_events'', md_Columns = [''event_id'', ''handler_name'', ''processed_at'']\<rparr>"

definition Models :: "model list" where
  "Models = [UserModel_schema, VideoModel_schema, JobModel_schema, FrameModel_schema, SegmentModel_schema, OCRModel_schema,
     ClassificationModel_schema, OutboxEvent_schema, ProcessedEvent_schema]"

text \<open>The names in the errors are left out; \<open>inspect\<close> is what \<open>ColumnTypes\<close> may fail with.\<close>

definition assertModelMatchesDB :: "(string \<Rightarrow> go_error option) \<Rightarrow> schema \<Rightarrow> model \<Rightarrow> go_error option" where
  "assertModelMatchesDB inspect s m =
     (case map_of s (md_Table m) of
        None \<Rightarrow> Some (ErrorText ''schema drift: table missing in database'')
      | Some d \<Rightarrow>
          (case inspect (md_Table m) of
             Some e \<Rightarrow> Some (Errorf ''schema drift: inspect table'' e)
           | None \<Rightarrow>
               if list_ex (\<lambda>c. c \<notin> set (td_columns d)) (md_Columns m)
               then Some (ErrorText ''schema drift: column exists on model but not in database'')
               else if list_ex (\<lambda>c. c \<notin> set (md_Columns m)) (td_columns d)
               then Some (ErrorText ''schema drift: column exists in database but not on model'')
               else None))"

fun assert_models :: "(string \<Rightarrow> go_error option) \<Rightarrow> schema \<Rightarrow> model list \<Rightarrow> go_error option" where
  "assert_models inspect s [] = None"
| "assert_models inspect s (m # ms) =
     (case assertModelMatchesDB inspect s m of Some e \<Rightarrow> Some e | None \<Rightarrow> assert_models inspect s ms)"

definition AssertModelsMatchDB :: "(string \<Rightarrow> go_error option) \<Rightarrow> schema \<Rightarrow> go_error option" where
  "AssertModelsMatchDB inspect s = assert_models inspect s Models"

lemma assertModelMatchesDB_iff:
  "assertModelMatchesDB inspect s m = None \<longleftrightarrow> inspect (md_Table m) = None \<and>
     (\<exists>d. map_of s (md_Table m) = Some d \<and> set (td_columns d) = set (md_Columns m))"
  by (auto simp: assertModelMatchesDB_def list_ex_iff split: option.splits)

lemma assert_models_iff:
  "assert_models inspect s ms = None \<longleftrightarrow> (\<forall>m \<in> set ms. assertModelMatchesDB inspect s m = None)"
  by (induction ms) (auto split: option.splits)

section \<open>Every database the migrations can leave is brought up to the models\<close>

definition migrated_to :: "nat \<Rightarrow> schema option" where
  "migrated_to v = exec_all (concat (take v migrations)) []"

lemma exec_all_append:
  "exec_all (xs @ ys) s = (case exec_all xs s of None \<Rightarrow> None | Some t \<Rightarrow> exec_all ys t)"
  by (induction xs arbitrary: s) (auto split: option.splits)

lemma goose_apply_schema:
  "exec_all (concat ms) (sd_schema d) = Some s \<Longrightarrow>
     goose_apply ms d = (None, \<lparr>sd_version = sd_version d + length ms, sd_schema = s\<rparr>)"
proof (induction ms arbitrary: d)
  case (Cons m ms)
  then obtain t where "exec_all m (sd_schema d) = Some t" "exec_all (concat ms) t = Some s"
    by (auto simp: exec_all_append split: option.splits)
  then show ?case using Cons.IH [of "\<lparr>sd_version = Suc (sd_version d), sd_schema = t\<rparr>"] by simp
qed simp

definition final_keys :: "(string \<times> string list list) list" where
  "final_keys =
     [(''users'', [[''id''], [''clerk_id''], [''email'']]),
      (''outbox_events'', [[''id'']]),
      (''processed_events'', [[''event_id'', ''handler_name'']]),
      (''videos'', [[''id''], [''storage_key'']]),
      (''jobs'', [[''id''], [''video_id'', ''type'']]),
      (''frames'', [[''id''], [''video_id'', ''segment_index'', ''index'']]),
      (''ocrs'', [[''id''], [''frame_id'']]),
      (''classifications'', [[''id''], [''frame_id'']]),
      (''video_segments'', [[''id''], [''video_id'', ''segment_index'']])]"

definition migrated_schema :: schema where
  "migrated_schema = the (exec_all (concat migrations) [])"

lemma migrations_apply: "exec_all (concat migrations) [] = Some migrated_schema"
proof -
  have "exec_all (concat migrations) [] \<noteq> None" by code_simp
  then show ?thesis by (simp add: migrated_schema_def)
qed

lemma migrated_schema_checked: "AssertModelsMatchDB (\<lambda>_. None) migrated_schema = None"
  by code_simp

lemma migrated_schema_keys: "map (\<lambda>(t, d). (t, map snd (td_unique d))) migrated_schema = final_keys"
  by code_simp

lemma up_matches_models:
  assumes "migrated_to v = Some s" "v \<le> length migrations"
  shows "\<exists>d. migrate_up_command None \<lparr>sd_version = v, sd_schema = s\<rparr> = (None, d) \<and> sd_version d = 24 \<and>
    AssertModelsMatchDB (\<lambda>_. None) (sd_schema d) = None \<and>
    map (\<lambda>(t, e). (t, map snd (td_unique e))) (sd_schema d) = final_keys"
proof -
  have "concat migrations = concat (take v migrations) @ concat (drop v migrations)"
    by (metis append_take_drop_id concat_append)
  then have "exec_all (concat (drop v migrations)) s = Some migrated_schema"
    using migrations_apply assms(1) by (simp add: exec_all_append migrated_to_def)
  then have "goose_apply (drop v migrations) \<lparr>sd_version = v, sd_schema = s\<rparr> =
      (None, \<lparr>sd_version = v + length (drop v migrations), sd_schema = migrated_schema\<rparr>)"
    by (subst goose_apply_schema) simp_all
  moreover have "length migrations = 24" by code_simp
  ultimately show ?thesis
    using assms(2) migrated_schema_checked migrated_schema_keys
    by (simp add: migrate_up_command_def migrate_Up_def goose_Up_def)
qed

text \<open>
  C30. The migrations lead to the models: \<open>migrate up\<close> succeeds on the database any number of the migrations
  have made, and leaves exactly the tables and columns the models name, so that \<open>migrate check\<close> passes, and
  the unique keys the repositories rely on.
\<close>

theorem migrations_match_models:
  assumes "migrated_to v = Some s" "v \<le> length migrations"
  shows "\<exists>d. migrate_up_command None \<lparr>sd_version = v, sd_schema = s\<rparr> = (None, d) \<and> sd_version d = 24 \<and>
    AssertModelsMatchDB (\<lambda>_. None) (sd_schema d) = None \<and>
    map (\<lambda>(t, e). (t, map snd (td_unique e))) (sd_schema d) = final_keys"
  using up_matches_models [OF assms] .

theorem migrations_match_models_witness:
  "\<exists>d. migrate_up_command None \<lparr>sd_version = 0, sd_schema = []\<rparr> = (None, d) \<and> AssertModelsMatchDB (\<lambda>_. None) (sd_schema d) = None"
proof -
  have "migrated_to 0 = Some []" by (simp add: migrated_to_def)
  from migrations_match_models [OF this] show ?thesis by auto
qed

subsection \<open>Rolling back\<close>

text \<open>
  Two schemas are alike when they have the same tables with the same columns, keys and references; the
  order of the columns, which a rollback may change, does not count.
\<close>

definition same_table :: "table_def \<Rightarrow> table_def \<Rightarrow> bool" where
  "same_table a b \<longleftrightarrow> set (td_columns a) = set (td_columns b) \<and> set (td_unique a) = set (td_unique b) \<and>
     set (td_foreign a) = set (td_foreign b)"

definition alike :: "schema \<Rightarrow> schema \<Rightarrow> bool" where
  "alike s t \<longleftrightarrow> set (map fst s) = set (map fst t) \<and>
     list_all (\<lambda>(n, a). case map_of t n of None \<Rightarrow> False | Some b \<Rightarrow> same_table a b) s"

fun undone :: "ddl list list \<Rightarrow> ddl list list \<Rightarrow> schema \<Rightarrow> bool" where
  "undone (m # ms) (r # rs) s \<longleftrightarrow>
     (case exec_all m s of
        None \<Rightarrow> False
      | Some t \<Rightarrow> (case exec_all r t of None \<Rightarrow> False | Some u \<Rightarrow> alike u s) \<and> undone ms rs t)"
| "undone ms rs s \<longleftrightarrow> ms = [] \<and> rs = []"

lemma undone_append:
  "length ms = length rs \<Longrightarrow> undone ms rs s \<Longrightarrow> exec_all (concat ms) s = Some t \<Longrightarrow> undone ms' rs' t \<Longrightarrow>
     undone (ms @ ms') (rs @ rs') s"
  by (induction ms rs arbitrary: s rule: list_induct2) (auto simp: exec_all_append split: option.splits)

definition halfway :: schema where
  "halfway = the (exec_all (concat (take 12 migrations)) [])"

lemma undone_early: "undone (take 12 migrations) (take 12 rollbacks) []"
  by code_simp

lemma undone_late: "undone (drop 12 migrations) (drop 12 rollbacks) halfway"
  by code_simp

lemma migrations_count: "length migrations = 24" "length rollbacks = 24"
  by code_simp+

lemma rollbacks_undo: "undone migrations rollbacks []"
proof -
  have "exec_all (concat (take 12 migrations) @ concat (drop 12 migrations)) [] \<noteq> None"
    using migrations_apply by (metis append_take_drop_id concat_append option.discI)
  then have "exec_all (concat (take 12 migrations)) [] = Some halfway"
    by (auto simp: exec_all_append halfway_def split: option.splits)
  with undone_append [OF _ undone_early this undone_late] show ?thesis by (simp add: migrations_count)
qed

lemma undone_at:
  "undone ms rs s \<Longrightarrow> exec_all (concat (take (Suc v) ms)) s = Some t \<Longrightarrow> v < length ms \<Longrightarrow>
     \<exists>s' u. exec_all (concat (take v ms)) s = Some s' \<and> exec_all (rs ! v) t = Some u \<and> alike u s'"
proof (induction ms rs s arbitrary: v rule: undone.induct)
  case (1 m ms r rs s)
  then show ?case
    by (cases v) (auto simp: exec_all_append split: option.splits)
qed auto

text \<open>
  \<open>migrate down\<close> takes back what the last migration did: from the database any positive number of the
  migrations have made it succeeds and leaves the tables, columns, keys and references there were before it.
\<close>

theorem rollback_restores:
  assumes "migrated_to (Suc v) = Some t" "v < length migrations"
  shows "\<exists>s u. migrated_to v = Some s \<and> alike u s \<and>
    migrate_down_command None \<lparr>sd_version = Suc v, sd_schema = t\<rparr> = (None, \<lparr>sd_version = v, sd_schema = u\<rparr>)"
proof -
  show ?thesis
    using undone_at [OF rollbacks_undo, of v t] assms migrations_count
    by (auto simp: migrated_to_def migrate_down_command_def migrate_Down_def goose_Down_def)
qed

section \<open>Purging\<close>

definition quoteIdent :: "string \<Rightarrow> string" where
  "quoteIdent name = ''\"'' @ concat (map (\<lambda>c. if c = CHR ''\"'' then ''\"\"'' else [c]) name) @ ''\"''"

fun Join :: "string list \<Rightarrow> string \<Rightarrow> string" where
  "Join [] sep = ''''"
| "Join [s] sep = s"
| "Join (s # ss) sep = s @ sep @ Join ss sep"

text \<open>Postgres reads a quoted identifier up to a quote that is not doubled.\<close>

fun read_quoted :: "string \<Rightarrow> (string \<times> string) option" where
  "read_quoted [] = None"
| "read_quoted (c # s) =
     (if c \<noteq> CHR ''\"'' then map_option (apfst ((#) c)) (read_quoted s)
      else (case s of
          d # t \<Rightarrow> if d = CHR ''\"'' then map_option (apfst ((#) c)) (read_quoted t) else Some ('''', s)
        | [] \<Rightarrow> Some ('''', s)))"

lemma read_quoted_shorter: "read_quoted s = Some (n, t) \<Longrightarrow> length t < length s"
  by (induction s arbitrary: n t rule: read_quoted.induct) (fastforce split: if_splits list.splits)+

text \<open>The list of tables of a \<open>TRUNCATE\<close>, and what follows it.\<close>

function read_tables :: "string \<Rightarrow> (string list \<times> string) option" where
  "read_tables s =
     (if take 1 s \<noteq> ''\"'' then None
      else case read_quoted (drop 1 s) of
        None \<Rightarrow> None
      | Some (n, t) \<Rightarrow>
          if take 2 t = '', '' then map_option (apfst ((#) n)) (read_tables (drop 2 t))
          else Some ([n], t))"
  by auto
termination
  by (relation "measure length") (auto dest: read_quoted_shorter)

declare read_tables.simps [simp del]

text \<open>\<open>CASCADE\<close>: with a table go the tables that refer to it.\<close>

fun cascade :: "nat \<Rightarrow> schema \<Rightarrow> string list \<Rightarrow> string list" where
  "cascade 0 s ts = ts"
| "cascade (Suc n) s ts =
     cascade n s (ts @ map fst (filter (\<lambda>(t, d). t \<notin> set ts \<and> list_ex (\<lambda>(_, _, r). r \<in> set ts) (td_foreign d)) s))"

type_synonym 'r contents = "string \<Rightarrow> 'r list"

definition exec_truncate :: "schema \<Rightarrow> string \<Rightarrow> 'r contents \<Rightarrow> go_error + 'r contents" where
  "exec_truncate s stmt rows =
     (let prefix = ''TRUNCATE TABLE ''
      in if \<not> HasPrefix stmt prefix then Inl (External ''syntax error'')
         else case read_tables (TrimPrefix stmt prefix) of
           None \<Rightarrow> Inl (External ''syntax error'')
         | Some (ts, rest) \<Rightarrow>
             if rest \<noteq> '' RESTART IDENTITY CASCADE'' then Inl (External ''syntax error'')
             else Inr (\<lambda>t. if t \<in> set (cascade (length s) s ts) then [] else rows t))"

text \<open>What may fail on the way.\<close>

record purge_env =
  pu_open :: "go_error option"
  pu_query :: "go_error option"
  pu_scan :: "nat \<Rightarrow> go_error option"
  pu_iterate :: "go_error option"
  pu_exec :: "go_error option"

definition purgeKeepTables :: "string list" where
  "purgeKeepTables = [''users'', ''goose_db_version'']"

fun scan_tables :: "purge_env \<Rightarrow> nat \<Rightarrow> string list \<Rightarrow> string list \<Rightarrow> go_error + string list" where
  "scan_tables E n [] tables = Inr tables"
| "scan_tables E n (name # names) tables =
     (case pu_scan E n of
        Some e \<Rightarrow> Inl (Errorf ''scan table name'' e)
      | None \<Rightarrow> scan_tables E (Suc n) names (if name \<in> set purgeKeepTables then tables else tables @ [name]))"

definition purge :: "purge_env \<Rightarrow> bool \<Rightarrow> schema \<Rightarrow> string list \<Rightarrow> 'r contents \<Rightarrow> go_error option \<times> 'r contents" where
  "purge E yes s public rows =
     (if \<not> yes then (Some (ErrorText ''refusing to purge without --yes''), rows)
      else case pu_open E of
        Some e \<Rightarrow> (Some e, rows)
      | None \<Rightarrow> (case pu_query E of
          Some e \<Rightarrow> (Some (Errorf ''list tables'' e), rows)
        | None \<Rightarrow> (case scan_tables E 0 public [] of
            Inl e \<Rightarrow> (Some e, rows)
          | Inr tables \<Rightarrow> (case pu_iterate E of
              Some e \<Rightarrow> (Some (Errorf ''iterate tables'' e), rows)
            | None \<Rightarrow>
                if length tables = 0 then (None, rows)
                else let stmt = ''TRUNCATE TABLE '' @ Join (map quoteIdent tables) '', '' @ '' RESTART IDENTITY CASCADE''
                  in case pu_exec E of
                       Some e \<Rightarrow> (Some (Errorf ''truncate'' e), rows)
                     | None \<Rightarrow> (case exec_truncate s stmt rows of
                         Inl e \<Rightarrow> (Some (Errorf ''truncate'' e), rows)
                       | Inr rows' \<Rightarrow> (None, rows'))))))"

lemma read_quoted_quote:
  "take 1 t \<noteq> ''\"'' \<Longrightarrow>
     read_quoted (concat (map (\<lambda>c. if c = CHR ''\"'' then ''\"\"'' else [c]) n) @ CHR ''\"'' # t) = Some (n, t)"
  by (induction n) (auto split: list.splits)

lemma read_tables_quote:
  "take 1 u \<noteq> ''\"'' \<Longrightarrow> read_tables (quoteIdent n @ u) =
     (if take 2 u = '', '' then map_option (apfst ((#) n)) (read_tables (drop 2 u)) else Some ([n], u))"
  by (subst read_tables.simps) (simp add: quoteIdent_def read_quoted_quote)

lemma read_tables_list:
  "names \<noteq> [] \<Longrightarrow> take 1 t \<noteq> ''\"'' \<Longrightarrow> take 2 t \<noteq> '', '' \<Longrightarrow>
     read_tables (Join (map quoteIdent names) '', '' @ t) = Some (names, t)"
proof (induction names rule: induct_list012)
  case (2 n)
  then show ?case using read_tables_quote [of t n] by simp
next
  case (3 n m ns)
  then show ?case
    using read_tables_quote [of "'', '' @ Join (map quoteIdent (m # ns)) '', '' @ t" n] by simp
qed simp

lemma exec_truncate_list:
  assumes "tables \<noteq> []"
  shows "exec_truncate s (''TRUNCATE TABLE '' @ Join (map quoteIdent tables) '', '' @ '' RESTART IDENTITY CASCADE'') rows =
     Inr (\<lambda>t. if t \<in> set (cascade (length s) s tables) then [] else rows t)"
proof -
  have "read_tables (Join (map quoteIdent tables) '', '' @ '' RESTART IDENTITY CASCADE'') = Some (tables, '' RESTART IDENTITY CASCADE'')"
    by (rule read_tables_list) (simp_all add: assms)
  then show ?thesis unfolding exec_truncate_def Let_def TrimPrefix_append
    by (simp only: HasPrefix_append option.case prod.case simp_thms if_False)
qed

lemma scan_tables_Inr:
  "scan_tables E n names tables = Inr ts \<Longrightarrow> ts = tables @ filter (\<lambda>t. t \<notin> set purgeKeepTables) names"
  by (induction names arbitrary: n tables) (auto split: option.splits if_splits, fastforce)

lemma cascade_keeps: "set ts \<subseteq> set (cascade n s ts)"
  by (induction n arbitrary: ts) (simp, force)

lemma cascade_only:
  "t \<in> set (cascade n s ts) \<Longrightarrow> t \<in> set ts \<or> (\<exists>d. (t, d) \<in> set s \<and> td_foreign d \<noteq> [])"
  by (induction n arbitrary: ts) (auto simp: list_ex_iff, force)

lemma migrated_references:
  "map (\<lambda>(t, d). (t, td_foreign d)) (filter (\<lambda>(t, d). t \<in> set purgeKeepTables) migrated_schema) = [(''users'', [])]"
  by code_simp

text \<open>
  A purge of the migrated database either reports an error and deletes nothing, or empties every public
  table but \<open>users\<close> and goose's own, which keep all their rows: what the names of the tables are, and that the
  truncation cascades along the foreign keys, makes no difference.
\<close>

theorem purge_keeps_users:
  assumes "purge E yes migrated_schema public rows = (err, rows')"
  shows "if err = None
    then (\<forall>t \<in> set public - set purgeKeepTables. rows' t = []) \<and> (\<forall>t. rows' t = [] \<or> rows' t = rows t) \<and>
      rows' ''users'' = rows ''users'' \<and> rows' ''goose_db_version'' = rows ''goose_db_version''
    else rows' = rows"
proof (cases "err = None")
  case True
  define tables where "tables = filter (\<lambda>t. t \<notin> set purgeKeepTables) public"
  have cases: "rows' = rows \<and> tables = [] \<or>
      exec_truncate migrated_schema (''TRUNCATE TABLE '' @ Join (map quoteIdent tables) '', '' @ '' RESTART IDENTITY CASCADE'') rows = Inr rows' \<and>
      tables \<noteq> []"
    using assms True
    by (auto simp: purge_def tables_def Let_def split: if_splits option.splits sum.splits dest!: scan_tables_Inr)
  have kept: "t \<notin> set (cascade (length migrated_schema) migrated_schema tables)" if keep: "t \<in> set purgeKeepTables" for t
  proof
    assume "t \<in> set (cascade (length migrated_schema) migrated_schema tables)"
    then obtain d where d: "(t, d) \<in> set migrated_schema" "td_foreign d \<noteq> []"
      using cascade_only [of t "length migrated_schema" migrated_schema tables] keep by (auto simp: tables_def)
    then have "(t, td_foreign d) \<in> set (map (\<lambda>(t, d). (t, td_foreign d)) (filter (\<lambda>(t, d). t \<in> set purgeKeepTables) migrated_schema))"
      using keep by force
    then show False using d(2) unfolding migrated_references by simp
  qed
  have "set public - set purgeKeepTables = set tables" by (auto simp: tables_def)
  from cases show ?thesis
  proof
    assume "exec_truncate migrated_schema (''TRUNCATE TABLE '' @ Join (map quoteIdent tables) '', '' @ '' RESTART IDENTITY CASCADE'') rows =
        Inr rows' \<and> tables \<noteq> []"
    then have "rows' = (\<lambda>t. if t \<in> set (cascade (length migrated_schema) migrated_schema tables) then [] else rows t)"
      using exec_truncate_list [of tables migrated_schema rows] by (metis sum.inject(2))
    then show ?thesis
      using True kept cascade_keeps [of tables] \<open>set public - set purgeKeepTables = set tables\<close>
      by (auto simp: purgeKeepTables_def)
  qed (use True \<open>set public - set purgeKeepTables = set tables\<close> in auto)
next
  case False
  then show ?thesis
    using assms by (auto simp: purge_def Let_def split: if_splits option.splits sum.splits)
qed

definition all_well :: purge_env where
  "all_well = \<lparr>pu_open = None, pu_query = None, pu_scan = (\<lambda>_. None), pu_iterate = None, pu_exec = None\<rparr>"

theorem purge_keeps_users_witness:
  "\<exists>rows'. purge all_well True migrated_schema [''jobs'', ''users'', ''videos''] (\<lambda>_. [0 :: nat]) = (None, rows') \<and>
     rows' ''users'' = [0] \<and> rows' ''videos'' = []"
proof -
  let ?r = "purge all_well True migrated_schema [''jobs'', ''users'', ''videos''] (\<lambda>_. [0 :: nat])"
  have scan: "scan_tables all_well 0 [''jobs'', ''users'', ''videos''] [] = Inr [''jobs'', ''videos'']"
    by (simp add: all_well_def purgeKeepTables_def)
  have "exec_truncate migrated_schema (''TRUNCATE TABLE '' @ Join (map quoteIdent [''jobs'', ''videos'']) '', '' @ '' RESTART IDENTITY CASCADE'')
      (\<lambda>_. [0 :: nat]) \<noteq> Inl e" for e
    by (subst exec_truncate_list) simp_all
  then have "fst ?r = None"
    unfolding purge_def scan Let_def sum.case by (auto simp: all_well_def split: sum.split simp del: append.simps Join.simps list.map)
  then have run: "?r = (None, snd ?r)" by (metis prod.collapse)
  from purge_keeps_users [OF run] have "snd ?r ''users'' = [0]" "snd ?r ''videos'' = []"
    by (simp_all add: purgeKeepTables_def)
  with run show ?thesis by metis
qed

end
