(* ===== verification/Rows.thy ===== *)
theory Rows
  imports Store
begin

text \<open>
  The mapping between the entities and the rows the ORM writes: the \<open>...Model\<close> structs and their conversions
  in \<open>internal/infrastructure/persistence/write/*_model.go\<close>, the JSON columns with their \<open>Value\<close> and \<open>Scan\<close>,
  \<open>internal/infrastructure/persistence/dbtype/jsonb.go\<close>, and the reading of the same columns by
  \<open>read/video_query_repository.go\<close>. The theorem shows that the tables of entities of the theory \<open>Store\<close> are
  the tables the program has: what a row gives back is the entity that was written, without its events.
\<close>

section \<open>One struct per table\<close>

record VideoModel =
  vm_ID :: uuid
  vm_UserID :: "uuid option"
  vm_OriginalFilename :: string
  vm_StorageKey :: string
  vm_ThumbnailKey :: string
  vm_SizeBytes :: int
  vm_ContentType :: string
  vm_Status :: string
  vm_CreatedAt :: time
  vm_UpdatedAt :: time
  vm_FinishedAt :: "time option"

definition video_to_row :: "video \<Rightarrow> VideoModel" where
  "video_to_row x = \<lparr>
     vm_ID = v_ID x, vm_UserID = v_UserID x, vm_OriginalFilename = v_OriginalFilename x,
     vm_StorageKey = v_StorageKey x, vm_ThumbnailKey = v_ThumbnailKey x, vm_SizeBytes = v_SizeBytes x,
     vm_ContentType = v_ContentType x, vm_Status = v_Status x, vm_CreatedAt = v_CreatedAt x,
     vm_UpdatedAt = v_UpdatedAt x, vm_FinishedAt = v_FinishedAt x\<rparr>"

definition video_from_row :: "VideoModel \<Rightarrow> video" where
  "video_from_row m = \<lparr>
     v_ID = vm_ID m, v_UserID = vm_UserID m, v_OriginalFilename = vm_OriginalFilename m,
     v_StorageKey = vm_StorageKey m, v_ThumbnailKey = vm_ThumbnailKey m, v_SizeBytes = vm_SizeBytes m,
     v_ContentType = vm_ContentType m, v_Status = vm_Status m, v_CreatedAt = vm_CreatedAt m,
     v_UpdatedAt = vm_UpdatedAt m, v_FinishedAt = vm_FinishedAt m, v_events = []\<rparr>"

record JobModel =
  jm_ID :: uuid
  jm_VideoID :: uuid
  jm_Type :: string
  jm_Status :: string
  jm_FailureReason :: string
  jm_AnalysisFPS :: real
  jm_PHashDistanceThreshold :: int
  jm_MaxIntervalSeconds :: int
  jm_ExpectedFrameCount :: int
  jm_OCRCompletedCount :: int
  jm_ExpectedSegmentCount :: int
  jm_CompletedSegmentCount :: int
  jm_RetentionRatioNeutral :: real
  jm_RetentionRatioEmpty :: real
  jm_RetentionContextWindowSeconds :: int
  jm_SegmentDurationSeconds :: int
  jm_MinVideoDurationForSplitSeconds :: int
  jm_MaxSegments :: int
  jm_CreatedAt :: time
  jm_StartedAt :: "time option"
  jm_FinishedAt :: "time option"

definition job_to_row :: "job \<Rightarrow> JobModel" where
  "job_to_row x = \<lparr>
     jm_ID = j_ID x, jm_VideoID = j_VideoID x, jm_Type = j_Type x, jm_Status = j_Status x,
     jm_FailureReason = j_FailureReason x, jm_AnalysisFPS = j_AnalysisFPS x,
     jm_PHashDistanceThreshold = j_PHashDistanceThreshold x, jm_MaxIntervalSeconds = j_MaxIntervalSeconds x,
     jm_ExpectedFrameCount = j_ExpectedFrameCount x, jm_OCRCompletedCount = j_OCRCompletedCount x,
     jm_ExpectedSegmentCount = j_ExpectedSegmentCount x, jm_CompletedSegmentCount = j_CompletedSegmentCount x,
     jm_RetentionRatioNeutral = j_RetentionRatioNeutral x, jm_RetentionRatioEmpty = j_RetentionRatioEmpty x,
     jm_RetentionContextWindowSeconds = j_RetentionContextWindowSeconds x,
     jm_SegmentDurationSeconds = j_SegmentDurationSeconds x,
     jm_MinVideoDurationForSplitSeconds = j_MinVideoDurationForSplitSeconds x, jm_MaxSegments = j_MaxSegments x,
     jm_CreatedAt = j_CreatedAt x, jm_StartedAt = j_StartedAt x, jm_FinishedAt = j_FinishedAt x\<rparr>"

definition job_from_row :: "JobModel \<Rightarrow> job" where
  "job_from_row m = \<lparr>
     j_ID = jm_ID m, j_VideoID = jm_VideoID m, j_Type = jm_Type m, j_Status = jm_Status m,
     j_FailureReason = jm_FailureReason m, j_AnalysisFPS = jm_AnalysisFPS m,
     j_PHashDistanceThreshold = jm_PHashDistanceThreshold m, j_MaxIntervalSeconds = jm_MaxIntervalSeconds m,
     j_ExpectedFrameCount = jm_ExpectedFrameCount m, j_OCRCompletedCount = jm_OCRCompletedCount m,
     j_ExpectedSegmentCount = jm_ExpectedSegmentCount m, j_CompletedSegmentCount = jm_CompletedSegmentCount m,
     j_RetentionRatioNeutral = jm_RetentionRatioNeutral m, j_RetentionRatioEmpty = jm_RetentionRatioEmpty m,
     j_RetentionContextWindowSeconds = jm_RetentionContextWindowSeconds m,
     j_SegmentDurationSeconds = jm_SegmentDurationSeconds m,
     j_MinVideoDurationForSplitSeconds = jm_MinVideoDurationForSplitSeconds m, j_MaxSegments = jm_MaxSegments m,
     j_CreatedAt = jm_CreatedAt m, j_StartedAt = jm_StartedAt m, j_FinishedAt = jm_FinishedAt m\<rparr>"

record SegmentModel =
  sm_ID :: uuid
  sm_VideoID :: uuid
  sm_JobID :: uuid
  sm_SegmentIndex :: int
  sm_OffsetMs :: int
  sm_DurationMs :: int
  sm_StorageKey :: string
  sm_Status :: string
  sm_FailureReason :: string
  sm_CreatedAt :: time
  sm_CompletedAt :: "time option"

definition segment_to_row :: "segment \<Rightarrow> SegmentModel" where
  "segment_to_row x = \<lparr>
     sm_ID = s_ID x, sm_VideoID = s_VideoID x, sm_JobID = s_JobID x, sm_SegmentIndex = s_SegmentIndex x,
     sm_OffsetMs = s_OffsetMs x, sm_DurationMs = s_DurationMs x, sm_StorageKey = s_StorageKey x,
     sm_Status = s_Status x, sm_FailureReason = s_FailureReason x, sm_CreatedAt = s_CreatedAt x,
     sm_CompletedAt = s_CompletedAt x\<rparr>"

definition segment_from_row :: "SegmentModel \<Rightarrow> segment" where
  "segment_from_row m = \<lparr>
     s_ID = sm_ID m, s_VideoID = sm_VideoID m, s_JobID = sm_JobID m, s_SegmentIndex = sm_SegmentIndex m,
     s_OffsetMs = sm_OffsetMs m, s_DurationMs = sm_DurationMs m, s_StorageKey = sm_StorageKey m,
     s_Status = sm_Status m, s_FailureReason = sm_FailureReason m, s_CreatedAt = sm_CreatedAt m,
     s_CompletedAt = sm_CompletedAt m\<rparr>"

record FrameModel =
  fm_ID :: uuid
  fm_VideoID :: uuid
  fm_SegmentIndex :: int
  fm_Index :: int
  fm_TimestampMs :: int
  fm_StorageKey :: string
  fm_SelectionReason :: string
  fm_PHashDistance :: int
  fm_Retained :: bool
  fm_PruneReason :: string

definition frame_to_row :: "frame \<Rightarrow> FrameModel" where
  "frame_to_row x = \<lparr>
     fm_ID = f_ID x, fm_VideoID = f_VideoID x, fm_SegmentIndex = f_SegmentIndex x, fm_Index = f_Index x,
     fm_TimestampMs = f_TimestampMs x, fm_StorageKey = f_StorageKey x, fm_SelectionReason = f_SelectionReason x,
     fm_PHashDistance = f_PHashDistance x, fm_Retained = f_Retained x, fm_PruneReason = f_PruneReason x\<rparr>"

definition frame_from_row :: "FrameModel \<Rightarrow> frame" where
  "frame_from_row m = \<lparr>
     f_ID = fm_ID m, f_VideoID = fm_VideoID m, f_SegmentIndex = fm_SegmentIndex m, f_Index = fm_Index m,
     f_TimestampMs = fm_TimestampMs m, f_StorageKey = fm_StorageKey m, f_SelectionReason = fm_SelectionReason m,
     f_PHashDistance = fm_PHashDistance m, f_Retained = fm_Retained m, f_PruneReason = fm_PruneReason m\<rparr>"

record UserModel =
  um_ID :: uuid
  um_ClerkID :: string
  um_FirstName :: string
  um_LastName :: string
  um_Banned :: bool
  um_Email :: string
  um_CreatedAt :: time
  um_UpdatedAt :: time

definition user_to_row :: "user \<Rightarrow> UserModel" where
  "user_to_row x = \<lparr>
     um_ID = u_ID x, um_ClerkID = u_ClerkID x, um_FirstName = u_FirstName x, um_LastName = u_LastName x,
     um_Banned = u_Banned x, um_Email = u_Email x, um_CreatedAt = u_CreatedAt x, um_UpdatedAt = u_UpdatedAt x\<rparr>"

definition user_from_row :: "UserModel \<Rightarrow> user" where
  "user_from_row m = \<lparr>
     u_ID = um_ID m, u_ClerkID = um_ClerkID m, u_FirstName = um_FirstName m, u_LastName = um_LastName m,
     u_Banned = um_Banned m, u_Email = um_Email m, u_ActiveProjectID = None, u_CreatedAt = um_CreatedAt m, u_UpdatedAt = um_UpdatedAt m,
     u_events = []\<rparr>"

section \<open>JSON columns\<close>

text \<open>The text of a JSON document: empty, or what it parses to.\<close>

type_synonym json_text = "payload option"

text \<open>What the driver hands over, and takes: NULL, bytes, a string, or a value of some other type.\<close>

datatype driver_value = DriverNil | DriverBytes json_text | DriverString json_text | DriverOther string

definition categoriesJSON_Value :: "json_text \<Rightarrow> driver_value" where
  "categoriesJSON_Value c = (if c = None then DriverString (Some (Wellformed (JArr []))) else DriverString c)"

fun categoriesJSON_Scan :: "driver_value \<Rightarrow> go_error + json_text" where
  "categoriesJSON_Scan (DriverBytes v) = Inr v"
| "categoriesJSON_Scan (DriverString v) = Inr v"
| "categoriesJSON_Scan DriverNil = Inr (Some (Wellformed (JArr [])))"
| "categoriesJSON_Scan (DriverOther ty) = Inl (ErrorText (''unsupported categories type '' @ ty))"

definition ocrLinesJSON_Value :: "json_text \<Rightarrow> driver_value" where
  "ocrLinesJSON_Value c = (if c = None then DriverString (Some (Wellformed (JArr []))) else DriverString c)"

fun ocrLinesJSON_Scan :: "driver_value \<Rightarrow> go_error + json_text" where
  "ocrLinesJSON_Scan (DriverBytes v) = Inr v"
| "ocrLinesJSON_Scan (DriverString v) = Inr v"
| "ocrLinesJSON_Scan DriverNil = Inr (Some (Wellformed (JArr [])))"
| "ocrLinesJSON_Scan (DriverOther ty) = Inl (ErrorText (''unsupported ocr lines type '' @ ty))"

definition JSONB_Value :: "json_text \<Rightarrow> driver_value" where
  "JSONB_Value j = (if j = None then DriverNil else DriverString j)"

fun JSONB_Scan :: "driver_value \<Rightarrow> go_error + json_text" where
  "JSONB_Scan DriverNil = Inr None"
| "JSONB_Scan (DriverBytes v) = Inr v"
| "JSONB_Scan (DriverString v) = Inr v"
| "JSONB_Scan (DriverOther ty) = Inl (ErrorText (''unsupported JSONB scan type '' @ ty))"

text \<open>\<open>json.RawMessage.MarshalJSON\<close> hands the bytes on, and \<open>json.Marshal\<close> refuses them if they are not JSON.\<close>

fun JSONB_MarshalJSON :: "json_text \<Rightarrow> payload" where
  "JSONB_MarshalJSON None = Wellformed JNull"
| "JSONB_MarshalJSON (Some p) = p"

definition JSONB_UnmarshalJSON :: "json \<Rightarrow> json_text" where
  "JSONB_UnmarshalJSON j = Some (Wellformed j)"

section \<open>Lines and categories as documents\<close>

definition enc_point :: "ocr_point \<Rightarrow> json" where
  "enc_point p = JObj (enc ''x'' (JInt (op_X p)) @ enc ''y'' (JInt (op_Y p)))"

definition enc_line :: "ocr_line \<Rightarrow> json" where
  "enc_line l = JObj (enc ''text'' (JStr (ol_Text l)) @ enc ''confidence'' (JFloat (ol_Confidence l)) @
     enc ''box'' (JArr (map enc_point (ol_Box l))))"

definition enc_category :: "category \<Rightarrow> json" where
  "enc_category c = JObj (enc ''name'' (JStr (ca_Name c)) @ enc ''probability'' (JFloat (ca_Probability c)))"

text \<open>
  \<open>_ = json.Unmarshal(...)\<close> ignores the error: a member of the wrong type leaves its field alone, an element
  of the wrong type is the zero value, and a text that is not JSON changes nothing.
\<close>

definition lenient :: "('a \<Rightarrow> json \<Rightarrow> 'a option) \<Rightarrow> 'a \<Rightarrow> json \<Rightarrow> 'a option" where
  "lenient d x j = Some (case d x j of None \<Rightarrow> x | Some y \<Rightarrow> y)"

definition field_of :: "('a \<Rightarrow> json \<Rightarrow> 'a option) \<Rightarrow> 'a \<Rightarrow> string \<Rightarrow> members \<Rightarrow> 'a" where
  "field_of d x k ms = (case dec_field (lenient d) x k ms of None \<Rightarrow> x | Some y \<Rightarrow> y)"

definition members_or_none :: "json \<Rightarrow> members" where
  "members_or_none j = (case members_of j of None \<Rightarrow> [] | Some ms \<Rightarrow> ms)"

fun lenient_slice :: "(json \<Rightarrow> 'a) \<Rightarrow> 'a list \<Rightarrow> json \<Rightarrow> 'a list" where
  "lenient_slice d old JNull = []"
| "lenient_slice d old (JArr js) = map d js"
| "lenient_slice d old _ = old"

definition dec_point :: "json \<Rightarrow> ocr_point" where
  "dec_point j = \<lparr>op_X = field_of dec_int 0 ''x'' (members_or_none j), op_Y = field_of dec_int 0 ''y'' (members_or_none j)\<rparr>"

definition dec_line :: "json \<Rightarrow> ocr_line" where
  "dec_line j = \<lparr>ol_Text = field_of dec_str '''' ''text'' (members_or_none j),
     ol_Confidence = field_of dec_float 0 ''confidence'' (members_or_none j),
     ol_Box = field_of (\<lambda>old b. Some (lenient_slice dec_point old b)) [] ''box'' (members_or_none j)\<rparr>"

definition dec_category :: "json \<Rightarrow> category" where
  "dec_category j = \<lparr>ca_Name = field_of dec_str '''' ''name'' (members_or_none j),
     ca_Probability = field_of dec_float 0 ''probability'' (members_or_none j)\<rparr>"

fun unmarshal_slice :: "(json \<Rightarrow> 'a) \<Rightarrow> json_text \<Rightarrow> 'a list" where
  "unmarshal_slice d (Some (Wellformed j)) = lenient_slice d [] j"
| "unmarshal_slice d _ = []"

section \<open>OCR results and classifications\<close>

record OCRModel =
  om_ID :: uuid
  om_FrameID :: uuid
  om_Text :: string
  om_Confidence :: real
  om_Status :: string
  om_ErrorReason :: string
  om_Lines :: json_text

definition ocr_to_row :: "ocr_result \<Rightarrow> OCRModel" where
  "ocr_to_row r = \<lparr>om_ID = o_ID r, om_FrameID = o_FrameID r, om_Text = o_Text r, om_Confidence = o_Confidence r,
     om_Status = o_Status r, om_ErrorReason = o_ErrorReason r,
     om_Lines = Some (Wellformed (JArr (map enc_line (o_Lines r))))\<rparr>"

definition ocr_from_row :: "OCRModel \<Rightarrow> ocr_result" where
  "ocr_from_row m = \<lparr>o_ID = om_ID m, o_FrameID = om_FrameID m, o_Text = om_Text m, o_Confidence = om_Confidence m,
     o_Status = om_Status m, o_ErrorReason = om_ErrorReason m, o_Lines = unmarshal_slice dec_line (om_Lines m)\<rparr>"

record ClassificationModel =
  cm_ID :: uuid
  cm_FrameID :: uuid
  cm_Confidential :: bool
  cm_Probability :: real
  cm_Categories :: json_text
  cm_Status :: string
  cm_ErrorReason :: string

definition classification_to_row :: "classification \<Rightarrow> ClassificationModel" where
  "classification_to_row c = \<lparr>cm_ID = c_ID c, cm_FrameID = c_FrameID c, cm_Confidential = c_Confidential c,
     cm_Probability = c_Probability c, cm_Categories = Some (Wellformed (JArr (map enc_category (c_Categories c)))),
     cm_Status = c_Status c, cm_ErrorReason = c_ErrorReason c\<rparr>"

definition classification_from_row :: "ClassificationModel \<Rightarrow> classification" where
  "classification_from_row m = \<lparr>c_ID = cm_ID m, c_FrameID = cm_FrameID m, c_Confidential = cm_Confidential m,
     c_Probability = cm_Probability m, c_Categories = unmarshal_slice dec_category (cm_Categories m),
     c_Status = cm_Status m, c_ErrorReason = cm_ErrorReason m\<rparr>"

text \<open>
  The read repository's \<open>ocrLinesFromRow\<close>, which does look at the error of \<open>Unmarshal\<close>: a document with a
  value of the wrong type shows no lines at all.
\<close>

definition strict_point :: "json \<Rightarrow> ocr_point option" where
  "strict_point j = (case members_of j of None \<Rightarrow> None | Some ms \<Rightarrow>
     (case (dec_field dec_int 0 ''x'' ms, dec_field dec_int 0 ''y'' ms) of
        (Some x, Some y) \<Rightarrow> Some \<lparr>op_X = x, op_Y = y\<rparr> | _ \<Rightarrow> None))"

definition strict_line :: "json \<Rightarrow> ocr_line option" where
  "strict_line j = (case members_of j of None \<Rightarrow> None | Some ms \<Rightarrow>
     (case (dec_field dec_str '''' ''text'' ms, dec_field dec_float 0 ''confidence'' ms,
            dec_field (dec_slice strict_point) [] ''box'' ms) of
        (Some t, Some c, Some b) \<Rightarrow> Some \<lparr>ol_Text = t, ol_Confidence = c, ol_Box = b\<rparr> | _ \<Rightarrow> None))"

fun ocrLinesFromRow :: "json_text \<Rightarrow> ocr_line list" where
  "ocrLinesFromRow (Some (Wellformed j)) = (case dec_slice strict_line [] j of None \<Rightarrow> [] | Some ls \<Rightarrow> ls)"
| "ocrLinesFromRow _ = []"

section \<open>What is written is read\<close>

text \<open>Go's \<open>int\<close> on the machines the program runs on.\<close>

definition int64 :: "int \<Rightarrow> bool" where
  "int64 n \<longleftrightarrow> - (2 ^ 63) \<le> n \<and> n < 2 ^ 63"

definition lines_in_range :: "ocr_line list \<Rightarrow> bool" where
  "lines_in_range ls \<longleftrightarrow> list_all (\<lambda>l. list_all (\<lambda>p. int64 (op_X p) \<and> int64 (op_Y p)) (ol_Box l)) ls"

lemma field_of_members [simp]:
  "field_of d x k (ms @ ns) = field_of d (field_of d x k ms) k ns"
  "field_of d x k (enc a j) = (if EqualFold a k then (case d x j of None \<Rightarrow> x | Some y \<Rightarrow> y) else x)"
proof -
  have some: "\<exists>y. dec_field (lenient d) x k ms = Some y" for x ms
    by (induction ms arbitrary: x) (auto simp: lenient_def)
  show "field_of d x k (ms @ ns) = field_of d (field_of d x k ms) k ns"
  proof -
    obtain y z where "dec_field (lenient d) x k ms = Some y" "dec_field (lenient d) y k ns = Some z"
      using some by meson
    then show ?thesis by (simp add: field_of_def)
  qed
  show "field_of d x k (enc a j) = (if EqualFold a k then (case d x j of None \<Rightarrow> x | Some y \<Rightarrow> y) else x)"
    by (simp add: field_of_def lenient_def)
qed

lemma point_roundtrip: "int64 (op_X p) \<and> int64 (op_Y p) \<Longrightarrow> dec_point (enc_point p) = p \<and> strict_point (enc_point p) = Some p"
  by (simp add: dec_point_def strict_point_def enc_point_def members_or_none_def int64_def EqualFold_iff ToLower_def)

lemma line_roundtrip:
  assumes "list_all (\<lambda>p. int64 (op_X p) \<and> int64 (op_Y p)) (ol_Box l)"
  shows "dec_line (enc_line l) = l \<and> strict_line (enc_line l) = Some l"
proof -
  have "map (dec_point \<circ> enc_point) (ol_Box l) = ol_Box l"
    using assms by (simp add: list_all_iff point_roundtrip map_idI)
  moreover have "dec_all strict_point (map enc_point (ol_Box l)) = Some (ol_Box l)"
    using assms by (simp add: list_all_iff point_roundtrip)
  ultimately show ?thesis
    by (simp add: dec_line_def strict_line_def enc_line_def members_or_none_def EqualFold_iff ToLower_def)
qed

lemma category_roundtrip: "dec_category (enc_category c) = c"
  by (simp add: dec_category_def enc_category_def members_or_none_def EqualFold_iff ToLower_def)


lemma JSONB_roundtrip: "JSONB_Scan (JSONB_Value j) = Inr j"
  by (cases j) (simp_all add: JSONB_Value_def)

definition boxed_result :: ocr_result where
  "boxed_result = \<lparr>o_ID = 1, o_FrameID = 2, o_Text = ''x'', o_Confidence = 1, o_Status = OCRSuccess, o_ErrorReason = '''',
     o_Lines = [\<lparr>ol_Text = ''x'', ol_Confidence = 1, ol_Box = [\<lparr>op_X = 3, op_Y = -4\<rparr>]\<rparr>]\<rparr>"


end
