(* ===== verification/Broker.thy ===== *)
theory Broker
  imports Consumer "HOL-Library.Multiset"
begin

text \<open>
  How a worker gets its messages: the connection to the broker, which declares the topology
  (\<open>internal/infrastructure/messaging/rabbitmq/connection.go\<close>, \<open>topology.go\<close>), and the loop that hands
  deliveries to goroutines (\<open>consumer.go\<close>, \<open>Start\<close>). The client library and the broker are modelled as
  documented: any call may fail, and a connection or a channel stays open until it is closed.
\<close>

section \<open>Calls of the client library\<close>

record broker =
  br_calls :: nat
  br_connections :: nat
  br_channels :: nat
  br_exchanges :: "(string \<times> string) list"
  br_queues :: "(string \<times> (string \<times> string) option) list"    \<comment> \<open>where what dies in it goes\<close>
  br_bindings :: "(string \<times> string \<times> string) list"

text \<open>The \<open>n\<close>-th call fails with \<open>fault n\<close>.\<close>

definition amqp_call :: "(nat \<Rightarrow> go_error option) \<Rightarrow> (broker \<Rightarrow> broker) \<Rightarrow> (broker, go_error option) state" where
  "amqp_call fault f = State (\<lambda>b. let b' = b\<lparr>br_calls := Suc (br_calls b)\<rparr>
     in case fault (br_calls b) of Some e \<Rightarrow> (Some e, b') | None \<Rightarrow> (None, f b'))"

definition amqp_Dial where
  "amqp_Dial fault = amqp_call fault (\<lambda>b. b\<lparr>br_connections := Suc (br_connections b)\<rparr>)"

definition conn_Channel where
  "conn_Channel fault = amqp_call fault (\<lambda>b. b\<lparr>br_channels := Suc (br_channels b)\<rparr>)"

definition ExchangeDeclare where
  "ExchangeDeclare fault name kind = amqp_call fault (\<lambda>b. b\<lparr>br_exchanges := List.insert (name, kind) (br_exchanges b)\<rparr>)"

definition QueueDeclare where
  "QueueDeclare fault name dead = amqp_call fault (\<lambda>b. b\<lparr>br_queues := List.insert (name, dead) (br_queues b)\<rparr>)"

definition QueueBind where
  "QueueBind fault q key x = amqp_call fault (\<lambda>b. b\<lparr>br_bindings := List.insert (q, key, x) (br_bindings b)\<rparr>)"

definition QueueUnbind where
  "QueueUnbind fault q key x = amqp_call fault (\<lambda>b. b\<lparr>br_bindings := removeAll (q, key, x) (br_bindings b)\<rparr>)"

text \<open>Closing; its error is dropped, and the resource is gone.\<close>

definition channel_Close :: "(broker, unit) state" where
  "channel_Close = State (\<lambda>b. ((), b\<lparr>br_channels := br_channels b - 1\<rparr>))"

definition conn_Close :: "(broker, unit) state" where
  "conn_Close = State (\<lambda>b. ((), b\<lparr>br_connections := br_connections b - 1\<rparr>))"

section \<open>The topology\<close>

fun bind_keys :: "(nat \<Rightarrow> go_error option) \<Rightarrow> Topology \<Rightarrow> string list \<Rightarrow> (broker, go_error option) state" where
  "bind_keys fault t [] = ret None"
| "bind_keys fault t (key # keys) =
     if_err (QueueBind fault (to_Queue t) key (to_Exchange t))
       (\<lambda>e. ret (Some (Errorf ''bind queue'' e)))
       (bind_keys fault t keys)"

definition declare_topology :: "(nat \<Rightarrow> go_error option) \<Rightarrow> Topology \<Rightarrow> (broker, go_error option) state" where
  "declare_topology fault t =
     if_err (ExchangeDeclare fault (to_Exchange t) ''topic'') (\<lambda>e. ret (Some (Errorf ''declare exchange'' e)))
    (if_err (ExchangeDeclare fault (to_DLX t) ''direct'') (\<lambda>e. ret (Some (Errorf ''declare dlx'' e)))
    (if_err (QueueDeclare fault (to_Queue t) (Some (to_DLX t, ''retry''))) (\<lambda>e. ret (Some (Errorf ''declare queue'' e)))
    (if_err (bind_keys fault t (splitRoutingKeys (to_RoutingKey t))) (\<lambda>e. ret (Some e))
    (if_err (QueueBind fault (to_Queue t) ''main'' (to_DLX t)) (\<lambda>e. ret (Some (Errorf ''bind queue to dlx main'' e)))
    (if_err (QueueDeclare fault (to_RetryQueue t) (Some (to_DLX t, ''main''))) (\<lambda>e. ret (Some (Errorf ''declare retry queue'' e)))
    (if_err (QueueBind fault (to_RetryQueue t) ''retry'' (to_DLX t)) (\<lambda>e. ret (Some (Errorf ''bind retry queue'' e)))
    (if_err (QueueDeclare fault (to_DLQ t) None) (\<lambda>e. ret (Some (Errorf ''declare dlq'' e)))
    (if_err (QueueBind fault (to_DLQ t) ''dlq'' (to_DLX t)) (\<lambda>e. ret (Some (Errorf ''bind dlq'' e)))
    (ret None)))))))))"

fun declare_each :: "(nat \<Rightarrow> go_error option) \<Rightarrow> Topology list \<Rightarrow> (broker, go_error option) state" where
  "declare_each fault [] = ret None"
| "declare_each fault (t # ts) = if_err (declare_topology fault t) (\<lambda>e. ret (Some e)) (declare_each fault ts)"

section \<open>Connecting\<close>

record Connection =
  cn_topology :: Topology

definition give_up :: "go_error \<Rightarrow> (broker, go_error + Connection) state" where
  "give_up e = do { _ \<leftarrow> channel_Close; _ \<leftarrow> conn_Close; ret (Inl e) }"

definition connectOnce ::
  "(nat \<Rightarrow> go_error option) \<Rightarrow> Topology \<Rightarrow> Topology list \<Rightarrow> (broker, go_error + Connection) state" where
  "connectOnce fault topology extra =
     if_err (amqp_Dial fault)
       (\<lambda>e. ret (Inl (Errorf ''rabbitmq dial'' e)))
       (if_err (conn_Channel fault)
         (\<lambda>e. do { _ \<leftarrow> conn_Close; ret (Inl (Errorf ''rabbitmq channel'' e)) })
         (if_err (declare_topology fault topology)
           give_up
           (if_err (declare_each fault extra)
             give_up
             (ret (Inr \<lparr>cn_topology = topology\<rparr>)))))"

text \<open>The loop over the attempts that are left, with the error of the last one.\<close>

fun connect_loop ::
  "(nat \<Rightarrow> go_error option) \<Rightarrow> Topology \<Rightarrow> Topology list \<Rightarrow> nat \<Rightarrow> go_error option \<Rightarrow> (broker, go_error + Connection) state" where
  "connect_loop fault topology extra 0 lastErr =
     ret (Inl (case lastErr of Some e \<Rightarrow> Errorf ''rabbitmq connect after 30 attempts'' e
                             | None \<Rightarrow> ErrorText ''rabbitmq connect after 30 attempts''))"
| "connect_loop fault topology extra (Suc n) lastErr =
     on_err (connectOnce fault topology extra)
       (\<lambda>e. connect_loop fault topology extra n (Some e))
       (\<lambda>conn. ret (Inr conn))"

definition Connect ::
  "(nat \<Rightarrow> go_error option) \<Rightarrow> Topology \<Rightarrow> Topology list \<Rightarrow> (broker, go_error + Connection) state" where
  "Connect fault topology extra = connect_loop fault topology extra 30 None"

fun UnbindLegacy :: "(nat \<Rightarrow> go_error option) \<Rightarrow> Connection \<Rightarrow> string list \<Rightarrow> (broker, unit) state" where
  "UnbindLegacy fault c [] = ret ()"
| "UnbindLegacy fault c (key # routingKeys) = do {
     _ \<leftarrow> QueueUnbind fault (to_Queue (cn_topology c)) key (to_Exchange (cn_topology c));
     UnbindLegacy fault c routingKeys }"

definition Close :: "(broker, unit) state" where
  "Close = do { _ \<leftarrow> channel_Close; conn_Close }"

section \<open>What a connection leaves behind\<close>

definition opens :: "nat \<Rightarrow> broker \<Rightarrow> broker \<Rightarrow> bool" where
  "opens k b b' \<longleftrightarrow> br_connections b' = br_connections b + k \<and> br_channels b' = br_channels b + k \<and>
     set (br_bindings b) \<subseteq> set (br_bindings b')"

text \<open>A step that opens nothing, and binds what it promises when it succeeds.\<close>

definition binds :: "(string \<times> string \<times> string) set \<Rightarrow> (broker, go_error option) state \<Rightarrow> bool" where
  "binds B m \<longleftrightarrow> (\<forall>b. wp m (\<lambda>e b'. opens 0 b b' \<and> (e = None \<longrightarrow> B \<subseteq> set (br_bindings b'))) b)"

lemma opens_trans: "opens j b b1 \<Longrightarrow> opens k b1 b2 \<Longrightarrow> opens (j + k) b b2"
  by (auto simp: opens_def)

lemma binds_ret: "binds {} (ret r)"
  by (simp add: binds_def opens_def wp_simps)

lemma binds_call:
  assumes "\<And>b. opens 0 b (f (b\<lparr>br_calls := Suc (br_calls b)\<rparr>))" "\<And>b. B \<subseteq> set (br_bindings (f b))"
  shows "binds B (amqp_call fault f)"
  using assms by (auto simp: binds_def amqp_call_def Let_def wp_simps opens_def split: option.splits)

lemma binds_declare:
  "binds {} (ExchangeDeclare fault x k)" "binds {} (QueueDeclare fault q d)" "binds {(q, key, x)} (QueueBind fault q key x)"
  unfolding ExchangeDeclare_def QueueDeclare_def QueueBind_def
  by (rule binds_call; auto simp: opens_def)+

lemma binds_seq:
  assumes "binds A m" "\<And>e. binds {} (h e)" "\<And>e b. wp (h e) (\<lambda>r b'. r \<noteq> None) b" "binds B k"
  shows "binds (A \<union> B) (if_err m h k)"
  unfolding binds_def wp_if_err
proof (intro allI wp_mono [OF assms(1) [unfolded binds_def, rule_format]])
  fix b b1 :: broker and r :: "go_error option"
  assume *: "opens 0 b b1 \<and> (r = None \<longrightarrow> A \<subseteq> set (br_bindings b1))"
  show "(case r of
      None \<Rightarrow> wp k (\<lambda>e b'. opens 0 b b' \<and> (e = None \<longrightarrow> A \<union> B \<subseteq> set (br_bindings b')))
    | Some e \<Rightarrow> wp (h e) (\<lambda>e b'. opens 0 b b' \<and> (e = None \<longrightarrow> A \<union> B \<subseteq> set (br_bindings b')))) b1"
  proof (cases r)
    case None
    have "wp k (\<lambda>e b'. opens 0 b b' \<and> (e = None \<longrightarrow> A \<union> B \<subseteq> set (br_bindings b'))) b1"
      by (rule wp_mono [OF assms(4) [unfolded binds_def, rule_format]])
        (insert * None, simp add: opens_def, blast)
    then show ?thesis unfolding None option.case .
  next
    case (Some e)
    have "wp (h e) (\<lambda>r b'. (opens 0 b1 b' \<and> (r = None \<longrightarrow> {} \<subseteq> set (br_bindings b'))) \<and> r \<noteq> None) b1"
      by (rule wp_conj) (use assms(2,3) in \<open>simp_all add: binds_def\<close>)
    then show ?thesis unfolding Some option.case by (rule wp_mono) (use * in \<open>auto simp: opens_def\<close>)
  qed
qed

lemma binds_fail: "binds {} (ret (Some e))" "wp (ret (Some e)) (\<lambda>r b'. r \<noteq> None) b"
  by (simp_all add: binds_ret wp_ret)

lemmas binds_step = binds_seq [OF _ binds_fail(1) binds_fail(2)]

lemma binds_keys: "binds ((\<lambda>k. (to_Queue t, k, to_Exchange t)) ` set keys) (bind_keys fault t keys)"
proof (induction keys)
  case (Cons key keys)
  from binds_step [OF binds_declare(3) Cons] show ?case by simp
qed (simp add: binds_ret)

lemma binds_topology: "binds (set (declared_bindings t)) (declare_topology fault t)"
proof -
  have "set (declared_bindings t) = {} \<union> ({} \<union> ({} \<union> ((\<lambda>k. (to_Queue t, k, to_Exchange t)) ` set (splitRoutingKeys (to_RoutingKey t)) \<union>
      ({(to_Queue t, ''main'', to_DLX t)} \<union> ({} \<union> ({(to_RetryQueue t, ''retry'', to_DLX t)} \<union>
      ({} \<union> ({(to_DLQ t, ''dlq'', to_DLX t)} \<union> {}))))))))"
    by (auto simp: declared_bindings_def)
  then show ?thesis
    unfolding declare_topology_def by (simp only:) (intro binds_step binds_declare binds_keys binds_ret)
qed

lemma binds_each: "binds (\<Union>t \<in> set ts. set (declared_bindings t)) (declare_each fault ts)"
proof (induction ts)
  case (Cons t ts)
  from binds_step [OF binds_topology Cons] show ?case by simp
qed (simp add: binds_ret)

lemma wp_amqp_call [wp_simps]:
  "wp (amqp_call fault f) Q = (\<lambda>b. let b' = b\<lparr>br_calls := Suc (br_calls b)\<rparr>
     in case fault (br_calls b) of Some e \<Rightarrow> Q (Some e) b' | None \<Rightarrow> Q None (f b'))"
  by (simp add: amqp_call_def wp_State Let_def fun_eq_iff split: option.splits)

lemma wp_closings [wp_simps]:
  "wp channel_Close Q = (\<lambda>b. Q () (b\<lparr>br_channels := br_channels b - 1\<rparr>))"
  "wp conn_Close Q = (\<lambda>b. Q () (b\<lparr>br_connections := br_connections b - 1\<rparr>))"
  by (simp_all add: channel_Close_def conn_Close_def wp_State)

definition made_connection :: "Topology \<Rightarrow> Topology list \<Rightarrow> broker \<Rightarrow> go_error + Connection \<Rightarrow> broker \<Rightarrow> bool" where
  "made_connection t extra b r b' \<longleftrightarrow> (case r of
     Inl e \<Rightarrow> opens 0 b b'
   | Inr c \<Rightarrow> opens 1 b b' \<and> cn_topology c = t \<and>
       (\<Union>x \<in> set (t # extra). set (declared_bindings x)) \<subseteq> set (br_bindings b'))"

lemma give_up_closes: "opens 1 b b' \<Longrightarrow> wp (give_up e) (made_connection t extra b) b'"
  by (simp add: give_up_def wp_simps made_connection_def opens_def)

lemma closing_step:
  assumes "binds B m" "opens 1 b b1"
    and "\<And>b2. opens 1 b b2 \<Longrightarrow> set (br_bindings b1) \<subseteq> set (br_bindings b2) \<Longrightarrow> B \<subseteq> set (br_bindings b2) \<Longrightarrow>
      wp k (made_connection t extra b) b2"
  shows "wp (if_err m give_up k) (made_connection t extra b) b1"
  unfolding wp_if_err
proof (rule wp_mono [OF assms(1) [unfolded binds_def, rule_format]])
  fix r :: "go_error option" and b2
  assume 2: "opens 0 b1 b2 \<and> (r = None \<longrightarrow> B \<subseteq> set (br_bindings b2))"
  then have "opens 1 b b2" using opens_trans [OF assms(2)] by fastforce
  then show "(case r of None \<Rightarrow> wp k (made_connection t extra b) | Some e \<Rightarrow> wp (give_up e) (made_connection t extra b)) b2"
    using 2 give_up_closes assms(3) by (cases r) (simp_all add: opens_def)
qed

lemma connectOnce_connects: "wp (connectOnce fault t extra) (made_connection t extra b) b"
proof -
  have after: "wp (if_err (declare_topology fault t) give_up (if_err (declare_each fault extra) give_up
      (ret (Inr \<lparr>cn_topology = t\<rparr>)))) (made_connection t extra b) b1" if "opens 1 b b1" for b1
    by (intro closing_step [OF binds_topology that] closing_step [OF binds_each]; assumption?)
      (simp add: wp_ret made_connection_def; blast)
  show ?thesis
    unfolding connectOnce_def amqp_Dial_def conn_Channel_def wp_if_err [of "amqp_call _ _"] wp_amqp_call Let_def
    by (auto simp: wp_ret wp_bind wp_closings made_connection_def opens_def split: option.splits intro!: after)
qed

lemma connect_loop_connects: "wp (connect_loop fault t extra n lastErr) (made_connection t extra b) b"
proof (induction n arbitrary: lastErr b)
  case (Suc n)
  show ?case
    unfolding connect_loop.simps wp_on_err
  proof (rule wp_mono [OF connectOnce_connects])
    fix r and b1
    assume 1: "made_connection t extra b r b1"
    show "(case r of Inl e \<Rightarrow> wp (connect_loop fault t extra n (Some e)) (made_connection t extra b)
        | Inr x \<Rightarrow> wp (ret (Inr x)) (made_connection t extra b)) b1"
    proof (cases r)
      case (Inl e)
      show ?thesis unfolding Inl sum.case
        by (rule wp_mono [OF Suc.IH]) (use 1 Inl in \<open>auto simp: made_connection_def opens_def split: sum.splits\<close>)
    qed (use 1 in \<open>simp add: wp_ret\<close>)
  qed
qed (simp add: wp_ret made_connection_def opens_def)

text \<open>
  C26. Connecting leaks nothing: whatever calls of the client library fail, \<open>Connect\<close> either returns an error
  and has closed every connection and channel it opened, or returns with one of each open and all bindings of
  its topologies made. A message a worker waits for finds its queue.
\<close>

theorem connect_leaks_nothing:
  "case run_state (Connect fault topology extra) b of
     (Inl e, b') \<Rightarrow> br_connections b' = br_connections b \<and> br_channels b' = br_channels b
   | (Inr c, b') \<Rightarrow> br_connections b' = Suc (br_connections b) \<and> br_channels b' = Suc (br_channels b) \<and>
       (\<Union>t \<in> set (topology # extra). set (declared_bindings t)) \<subseteq> set (br_bindings b') \<and>
       set (br_bindings b) \<subseteq> set (br_bindings b')"
  using connect_loop_connects [of fault topology extra 30 None b]
  by (auto simp: Connect_def wp_def made_connection_def opens_def split: prod.splits sum.splits)

section \<open>The loop over the deliveries\<close>

text \<open>
  \<open>Start\<close> takes a delivery from the channel, waits for one of the \<open>concurrency\<close> places of the semaphore, and
  hands the delivery to a goroutine, which gives its place back when \<open>handleDelivery\<close> has returned. It stops
  taking deliveries when the context is done or the channel is closed.
\<close>

definition consumer_concurrency :: "int \<Rightarrow> nat" where
  "consumer_concurrency concurrency = (if concurrency \<le> 0 then 1 else nat concurrency)"

text \<open>\<open>Start\<close> before the loop: the prefetch, which is the concurrency, and the stream of deliveries.\<close>

definition consumer_Start :: "(nat \<Rightarrow> go_error option) \<Rightarrow> (nat \<Rightarrow> broker \<Rightarrow> broker) \<Rightarrow> (broker \<Rightarrow> broker) \<Rightarrow> int
     \<Rightarrow> (broker, go_error + nat) state" where
  "consumer_Start fault Qos Consume concurrency =
     if_err (amqp_call fault (Qos (consumer_concurrency concurrency)))
       (\<lambda>e. ret (Inl (Errorf ''qos'' e)))
       (if_err (amqp_call fault Consume)
         (\<lambda>e. ret (Inl (Errorf ''consume'' e)))
         (ret (Inr (consumer_concurrency concurrency))))"

record 'm consumer_loop =
  lo_deliveries :: "'m list"       \<comment> \<open>waiting in the channel\<close>
  lo_taken :: "'m option"          \<comment> \<open>taken, waiting for a place\<close>
  lo_handled :: "'m list"          \<comment> \<open>in a goroutine\<close>
  lo_finished :: "'m list"
  lo_stopped :: bool

definition loop_start :: "'m list \<Rightarrow> 'm consumer_loop" where
  "loop_start ms = \<lparr>lo_deliveries = ms, lo_taken = None, lo_handled = [], lo_finished = [], lo_stopped = False\<rparr>"

inductive loop_step :: "nat \<Rightarrow> 'm consumer_loop \<Rightarrow> 'm consumer_loop \<Rightarrow> bool" for c where
  take_one: "lo_deliveries s = m # ms \<Longrightarrow> lo_taken s = None \<Longrightarrow> \<not> lo_stopped s \<Longrightarrow>
    loop_step c s (s\<lparr>lo_deliveries := ms, lo_taken := Some m\<rparr>)"
| spawn: "lo_taken s = Some m \<Longrightarrow> length (lo_handled s) < c \<Longrightarrow>
    loop_step c s (s\<lparr>lo_taken := None, lo_handled := lo_handled s @ [m]\<rparr>)"
| handled: "lo_handled s = xs @ m # ys \<Longrightarrow>
    loop_step c s (s\<lparr>lo_handled := xs @ ys, lo_finished := lo_finished s @ [m]\<rparr>)"
| stop: "lo_taken s = None \<Longrightarrow> \<not> lo_stopped s \<Longrightarrow> loop_step c s (s\<lparr>lo_stopped := True\<rparr>)"

definition in_loop :: "'m consumer_loop \<Rightarrow> 'm multiset" where
  "in_loop s = mset (lo_deliveries s) + (case lo_taken s of None \<Rightarrow> {#} | Some m \<Rightarrow> {#m#}) + mset (lo_handled s) + mset (lo_finished s)"

lemma loop_step_keeps:
  "loop_step c s s' \<Longrightarrow> length (lo_handled s) \<le> c \<Longrightarrow> length (lo_handled s') \<le> c \<and> in_loop s' = in_loop s"
  by (induction rule: loop_step.induct) (auto simp: in_loop_def)

lemma loop_progress:
  assumes "c > 0" "\<nexists>s'. loop_step c s s'"
  shows "lo_taken s = None \<and> lo_handled s = [] \<and> lo_stopped s"
proof (rule ccontr)
  assume busy: "\<not> ?thesis"
  show False
  proof (cases "lo_handled s")
    case (Cons m ms)
    then show False using loop_step.handled [of s "[]" m ms c] assms(2) by auto
  next
    case Nil
    then show False
    proof (cases "lo_taken s")
      case (Some m)
      then show False using loop_step.spawn [of s m c] assms Nil by auto
    next
      case None
      then show False using loop_step.stop [of s c] busy Nil assms(2) by auto
    qed
  qed
qed

definition loop_left :: "'m consumer_loop \<Rightarrow> nat" where
  "loop_left s = 3 * length (lo_deliveries s) + (case lo_taken s of None \<Rightarrow> 0 | Some _ \<Rightarrow> 2) + length (lo_handled s) +
     (if lo_stopped s then 0 else 1)"

lemma loop_step_decreases: "loop_step c s s' \<Longrightarrow> loop_left s' < loop_left s"
  by (induction rule: loop_step.induct) (auto simp: loop_left_def)



end
