(* ===== verification/Gateways.thy ===== *)
theory Gateways
  imports HttpApi
begin

text \<open>
  The adapters between the application and the services it uses: the object store
  (\<open>internal/infrastructure/storage/minio.go\<close>), the identity provider (\<open>internal/infrastructure/clerk\<close>,
  \<open>internal/application/command/identity/fetch_user.go\<close>) and the address of the realtime server
  (\<open>internal/infrastructure/centrifugo/publisher.go\<close>). The client libraries and the servers behind them are
  modelled as documented.
\<close>

section \<open>The object store\<close>

record s3_object =
  so_Body :: bytes
  so_Length :: int
  so_ContentType :: string

text \<open>
  The server: its objects, and the faults of the calls to come. A call that fails may still have been carried
  out; which it is, is not known either.
\<close>

record s3_server =
  s3_calls :: nat
  s3_fault :: "nat \<Rightarrow> go_error option"
  s3_done :: "nat \<Rightarrow> bool"
  s3_objects :: "string \<times> string \<rightharpoonup> s3_object"    \<comment> \<open>bucket and key\<close>

definition s3_call ::
  "((string \<times> string \<rightharpoonup> s3_object) \<Rightarrow> go_error + 'a \<times> (string \<times> string \<rightharpoonup> s3_object)) \<Rightarrow> (s3_server, go_error + 'a) state" where
  "s3_call f = State (\<lambda>s.
     let n = s3_calls s; s' = s\<lparr>s3_calls := Suc n\<rparr>
     in case f (s3_objects s) of
          Inl e \<Rightarrow> (Inl (case s3_fault s n of None \<Rightarrow> e | Some e' \<Rightarrow> e'), s')
        | Inr (x, objs) \<Rightarrow> (case s3_fault s n of
              None \<Rightarrow> (Inr x, s'\<lparr>s3_objects := objs\<rparr>)
            | Some e \<Rightarrow> (Inl e, if s3_done s n then s'\<lparr>s3_objects := objs\<rparr> else s')))"

record s3_client =
  sc_Region :: string
  sc_AccessKey :: string
  sc_SecretKey :: string
  sc_BaseEndpoint :: "string option"
  sc_UsePathStyle :: bool

record MinIOStorage =
  mi_client :: s3_client
  mi_presignCli :: s3_client
  mi_bucket :: string

text \<open>\<open>loadErr\<close> is what the library's \<open>LoadDefaultConfig\<close> fails with.\<close>

definition newS3Client :: "go_error option \<Rightarrow> Config \<Rightarrow> string \<Rightarrow> go_error + s3_client" where
  "newS3Client loadErr cfg endpoint =
     (case loadErr of
        Some e \<Rightarrow> Inl (Errorf ''failed to load storage config'' e)
      | None \<Rightarrow> Inr \<lparr>sc_Region = env_StorageRegion cfg, sc_AccessKey = env_StorageAccessKey cfg,
          sc_SecretKey = env_StorageSecretKey cfg, sc_BaseEndpoint = (if endpoint \<noteq> '''' then Some endpoint else None),
          sc_UsePathStyle = env_StorageUsePathStyle cfg\<rparr>)"

definition NewMinIOStorage :: "(nat \<Rightarrow> go_error option) \<Rightarrow> Config \<Rightarrow> go_error + MinIOStorage" where
  "NewMinIOStorage loadErr cfg =
     (let internalEndpoint =
            (if env_StorageInternalEndpoint cfg = '''' then env_StorageEndpoint cfg else env_StorageInternalEndpoint cfg)
      in case newS3Client (loadErr 0) cfg internalEndpoint of
           Inl e \<Rightarrow> Inl e
         | Inr internalClient \<Rightarrow>
             (case newS3Client (loadErr 1) cfg (env_StorageEndpoint cfg) of
                Inl e \<Rightarrow> Inl e
              | Inr publicClient \<Rightarrow>
                  Inr \<lparr>mi_client = internalClient, mi_presignCli = publicClient, mi_bucket = env_StorageBucket cfg\<rparr>))"

definition minio_Put :: "MinIOStorage \<Rightarrow> string \<Rightarrow> bytes \<Rightarrow> int \<Rightarrow> string \<Rightarrow> (s3_server, go_error option) state" where
  "minio_Put m key r len contentType =
     on_err (s3_call (\<lambda>objs. Inr ((), objs((mi_bucket m, key) \<mapsto> \<lparr>so_Body = r, so_Length = len, so_ContentType = contentType\<rparr>))))
       (\<lambda>e. ret (Some (Errorf ''failed to upload object'' e)))
       (\<lambda>_. ret None)"

definition minio_Get :: "MinIOStorage \<Rightarrow> string \<Rightarrow> (s3_server, go_error + bytes) state" where
  "minio_Get m key =
     on_err (s3_call (\<lambda>objs. case objs (mi_bucket m, key) of
           None \<Rightarrow> Inl (External ''NoSuchKey'')
         | Some out \<Rightarrow> Inr (so_Body out, objs)))
       (\<lambda>e. ret (Inl (Errorf ''object not found'' e)))
       (\<lambda>body. ret (Inr body))"

definition minio_Delete :: "MinIOStorage \<Rightarrow> string \<Rightarrow> (s3_server, go_error option) state" where
  "minio_Delete m key =
     on_err (s3_call (\<lambda>objs. Inr ((), objs((mi_bucket m, key) := None))))
       (\<lambda>e. ret (Some (Errorf ''failed to delete object'' e)))
       (\<lambda>_. ret None)"

text \<open>\<open>presign\<close> is the signer of the library, for a client, the method, a bucket, a key and a time to live.\<close>

type_synonym presigner = "s3_client \<Rightarrow> string \<Rightarrow> string \<Rightarrow> string \<Rightarrow> duration \<Rightarrow> go_error + string"

definition PresignedPutURL :: "presigner \<Rightarrow> MinIOStorage \<Rightarrow> string \<Rightarrow> duration \<Rightarrow> go_error + string" where
  "PresignedPutURL presign m key expiry =
     (case presign (mi_presignCli m) ''PUT'' (mi_bucket m) key expiry of
        Inl e \<Rightarrow> Inl (Errorf ''failed to generate upload url'' e)
      | Inr u \<Rightarrow> Inr u)"

definition PresignedGetURL :: "presigner \<Rightarrow> MinIOStorage \<Rightarrow> string \<Rightarrow> duration \<Rightarrow> go_error + string" where
  "PresignedGetURL presign m key expiry =
     (case presign (mi_presignCli m) ''GET'' (mi_bucket m) key expiry of
        Inl e \<Rightarrow> Inl (Errorf ''failed to generate download url'' e)
      | Inr u \<Rightarrow> Inr u)"

subsection \<open>The port \<open>Storage\<close> as a contract\<close>

text \<open>
  What the handlers rely on, over the contents of a key as the store holds it now. A failed upload or deletion
  leaves open what became of its own key.
\<close>

locale object_store =
  fixes content :: "'s \<Rightarrow> string \<Rightarrow> bytes option"
    and put :: "string \<Rightarrow> bytes \<Rightarrow> int \<Rightarrow> string \<Rightarrow> ('s, go_error option) state"
    and get :: "string \<Rightarrow> ('s, go_error + bytes) state"
    and del :: "string \<Rightarrow> ('s, go_error option) state"
  assumes put_stores: "wp (put k b n ty) (\<lambda>r s'. r = None \<longrightarrow> content s' k = Some b) s"
    and put_local: "k' \<noteq> k \<Longrightarrow> wp (put k b n ty) (\<lambda>r s'. content s' k' = content s k') s"
    and get_reads: "wp (get k) (\<lambda>r s'. content s' = content s \<and> (\<forall>b. r = Inr b \<longrightarrow> content s k = Some b)) s"
    and del_removes: "wp (del k) (\<lambda>r s'. r = None \<longrightarrow> content s' k = None) s"
    and del_local: "k' \<noteq> k \<Longrightarrow> wp (del k) (\<lambda>r s'. content s' k' = content s k') s"

datatype storage_op = PutObject string bytes int string | GetObject string | DeleteObject string

fun touches :: "storage_op \<Rightarrow> string \<Rightarrow> bool" where
  "touches (PutObject k b n ty) key = (k = key)"
| "touches (GetObject k) key = False"
| "touches (DeleteObject k) key = (k = key)"

context object_store begin

fun run_ops :: "storage_op list \<Rightarrow> ('s, unit) state" where
  "run_ops [] = ret ()"
| "run_ops (PutObject k b n ty # ops) = do { _ \<leftarrow> put k b n ty; run_ops ops }"
| "run_ops (GetObject k # ops) = do { _ \<leftarrow> get k; run_ops ops }"
| "run_ops (DeleteObject k # ops) = do { _ \<leftarrow> del k; run_ops ops }"

lemma run_ops_keep:
  "\<not> list_ex (\<lambda>x. touches x key) ops \<Longrightarrow> content s key = c \<Longrightarrow> wp (run_ops ops) (\<lambda>_ s'. content s' key = c) s"
proof (induction ops arbitrary: s rule: run_ops.induct)
  case (2 k b n ty ops)
  then show ?case
    unfolding run_ops.simps wp_bind by (intro wp_mono [OF put_local [of key k]]) auto
next
  case (3 k ops)
  then show ?case
    unfolding run_ops.simps wp_bind by (intro wp_mono [OF get_reads [of k]]) auto
next
  case (4 k ops)
  then show ?case
    unfolding run_ops.simps wp_bind by (intro wp_mono [OF del_local [of key k]]) auto
qed (simp add: wp_ret)

lemma kept:
  assumes "\<not> list_ex (\<lambda>x. touches x key) ops" "content s key = c"
  shows "wp (do { _ \<leftarrow> run_ops ops; get key }) (\<lambda>r s'. \<forall>b. r = Inr b \<longrightarrow> c = Some b) s"
  unfolding wp_bind
  by (rule wp_mono [OF run_ops_keep [OF assms]], rule wp_mono [OF get_reads]) auto

end

definition minio_content :: "MinIOStorage \<Rightarrow> s3_server \<Rightarrow> string \<Rightarrow> bytes option" where
  "minio_content m s key = map_option so_Body (s3_objects s (mi_bucket m, key))"

interpretation minio: object_store "minio_content m" "minio_Put m" "minio_Get m" "minio_Delete m" for m
proof unfold_locales
  fix k k' :: string and b n ty and s :: s3_server
  note defs = wp_simps s3_call_def minio_Put_def minio_Get_def minio_Delete_def minio_content_def Let_def
  show "wp (minio_Put m k b n ty) (\<lambda>r s'. r = None \<longrightarrow> minio_content m s' k = Some b) s"
    "wp (minio_Get m k) (\<lambda>r s'. minio_content m s' = minio_content m s \<and> (\<forall>b. r = Inr b \<longrightarrow> minio_content m s k = Some b)) s"
    "wp (minio_Delete m k) (\<lambda>r s'. r = None \<longrightarrow> minio_content m s' k = None) s"
    by (auto simp: defs fun_eq_iff split: option.splits)
  assume "k' \<noteq> k"
  then show "wp (minio_Put m k b n ty) (\<lambda>r s'. minio_content m s' k' = minio_content m s k') s"
    "wp (minio_Delete m k) (\<lambda>r s'. minio_content m s' k' = minio_content m s k') s"
    by (auto simp: defs split: option.splits)
qed

fun minio_run :: "MinIOStorage \<Rightarrow> storage_op list \<Rightarrow> (s3_server, unit) state" where
  "minio_run m [] = ret ()"
| "minio_run m (PutObject k b n ty # ops) = do { _ \<leftarrow> minio_Put m k b n ty; minio_run m ops }"
| "minio_run m (GetObject k # ops) = do { _ \<leftarrow> minio_Get m k; minio_run m ops }"
| "minio_run m (DeleteObject k # ops) = do { _ \<leftarrow> minio_Delete m k; minio_run m ops }"

lemma minio_run_ops: "minio_run m ops = minio.run_ops m ops"
  by (induction m ops rule: minio_run.induct) simp_all

text \<open>
  An object stays what was uploaded: after a \<open>Put\<close> that reported no error, and whatever is done meanwhile
  to other keys and whatever of that fails, a \<open>Get\<close> of the key that succeeds returns the bytes put there; and
  after a \<open>Delete\<close> that reported no error, no such \<open>Get\<close> succeeds.
\<close>

theorem stored_objects_stay:
  assumes "\<not> list_ex (\<lambda>x. touches x key) ops"
  shows "(run_state (minio_Put m key b n ty) s = (None, s1) \<longrightarrow>
      (\<forall>b'. fst (run_state (do { _ \<leftarrow> minio_run m ops; minio_Get m key }) s1) = Inr b' \<longrightarrow> b' = b)) \<and>
    (run_state (minio_Delete m key) s = (None, s1) \<longrightarrow>
      (\<forall>b'. fst (run_state (do { _ \<leftarrow> minio_run m ops; minio_Get m key }) s1) \<noteq> Inr b'))"
proof -
  have got: "minio_content m s1 key = Some b'"
    if "fst (run_state (do { _ \<leftarrow> minio_run m ops; minio_Get m key }) s1) = Inr b'" for b'
    using that wpD [OF minio.kept [OF assms refl, of m s1]] unfolding minio_run_ops by (metis prod.collapse)
  show ?thesis
    using got wpD [OF minio.put_stores] wpD [OF minio.del_removes] by (metis option.inject option.distinct(1))
qed

definition sample_storage :: MinIOStorage where
  "sample_storage = (let c = \<lparr>sc_Region = ''r'', sc_AccessKey = ''a'', sc_SecretKey = ''s'', sc_BaseEndpoint = None, sc_UsePathStyle = True\<rparr>
     in \<lparr>mi_client = c, mi_presignCli = c, mi_bucket = ''videos''\<rparr>)"

definition sample_server :: s3_server where
  "sample_server = \<lparr>s3_calls = 0, s3_fault = (\<lambda>_. None), s3_done = (\<lambda>_. False), s3_objects = Map.empty\<rparr>"

theorem stored_objects_stay_witness:
  "\<exists>s1. run_state (minio_Put sample_storage ''k'' ''data'' 4 '''') sample_server = (None, s1) \<and>
     fst (run_state (do { _ \<leftarrow> minio_run sample_storage [DeleteObject ''other'']; minio_Get sample_storage ''k'' }) s1) = Inr ''data''"
proof -
  define s1 where "s1 = snd (run_state (minio_Put sample_storage ''k'' ''data'' 4 '''') sample_server)"
  have put: "run_state (minio_Put sample_storage ''k'' ''data'' 4 '''') sample_server = (None, s1)"
    by (simp add: s1_def minio_Put_def s3_call_def sample_server_def Let_def)
  obtain b where "fst (run_state (do { _ \<leftarrow> minio_run sample_storage [DeleteObject ''other'']; minio_Get sample_storage ''k'' }) s1) = Inr b"
    by (simp add: s1_def minio_Put_def minio_Get_def minio_Delete_def s3_call_def sample_server_def Let_def)
  moreover from stored_objects_stay [of "''k''" "[DeleteObject ''other'']" sample_storage "''data''" 4 "''''" sample_server s1] put this
  have "b = ''data''" by simp
  ultimately show ?thesis using put by blast
qed

section \<open>The identity provider\<close>

text \<open>The user as the provider's library returns it; a pointer may be nil.\<close>

record clerk_api_user =
  gu_ID :: string
  gu_FirstName :: "string option"
  gu_LastName :: "string option"
  gu_EmailAddresses :: "ClerkEmailAddress list"
  gu_PrimaryEmailAddressID :: "string option"
  gu_Banned :: bool

text \<open>The loop over the addresses, up to the primary one.\<close>

fun primary_address :: "string option \<Rightarrow> ClerkEmailAddress list \<Rightarrow> string" where
  "primary_address primary [] = ''''"
| "primary_address primary (address # addresses) =
     (if primary \<noteq> None \<and> ea_ID address = the primary then ea_EmailAddress address
      else primary_address primary addresses)"

definition UserGateway_Get :: "(nat \<Rightarrow> string \<Rightarrow> clerk_api_user option) \<Rightarrow> nat \<Rightarrow> string \<Rightarrow> go_error + ClerkUser" where
  "UserGateway_Get clerkuser_Get n clerkID =
     (case clerkuser_Get n clerkID of
        None \<Rightarrow> Inl (ErrorText ''failed to get user'')
      | Some clerkUser \<Rightarrow>
          (let firstName = (case gu_FirstName clerkUser of None \<Rightarrow> '''' | Some s \<Rightarrow> s);
               lastName = (case gu_LastName clerkUser of None \<Rightarrow> '''' | Some s \<Rightarrow> s);
               email = primary_address (gu_PrimaryEmailAddressID clerkUser) (gu_EmailAddresses clerkUser);
               email = (if email = '''' \<and> length (gu_EmailAddresses clerkUser) > 0
                        then ea_EmailAddress (hd (gu_EmailAddresses clerkUser)) else email)
           in Inr \<lparr>cu_FirstName = firstName, cu_LastName = lastName, cu_Email = email, cu_Banned = gu_Banned clerkUser\<rparr>))"

definition FetchUser :: "(nat \<Rightarrow> string \<Rightarrow> go_error + ClerkUser) \<Rightarrow> nat \<Rightarrow> string \<Rightarrow> go_error + ClerkUser" where
  "FetchUser userFetcher n externalID = userFetcher n externalID"

text \<open>The keys the tokens are checked with come from the provider's own address, which is also the issuer.\<close>

definition NewJWKSProvider :: "(string \<Rightarrow> go_error + 'k) \<Rightarrow> Config \<Rightarrow> go_error + 'k \<times> string" where
  "NewJWKSProvider keyfunc_Get cfg =
     (let jwksURL = env_ClerkFrontendAPI cfg @ ''/.well-known/jwks.json''
      in case keyfunc_Get jwksURL of
           Inl e \<Rightarrow> Inl (Errorf ''failed to fetch JWKS'' e)
         | Inr jwks \<Rightarrow> Inr (jwks, env_ClerkFrontendAPI cfg))"

lemma primary_address_found:
  "primary_address primary as =
     (case primary of None \<Rightarrow> '''' | Some i \<Rightarrow> (case List.find (\<lambda>a. ea_ID a = i) as of None \<Rightarrow> '''' | Some a \<Rightarrow> ea_EmailAddress a))"
  by (induction as) (auto split: option.splits)

text \<open>
  The two ways a user comes into the table may disagree on the address: the gateway takes the primary one, the
  webhook the first.
\<close>

definition two_addresses :: "ClerkEmailAddress list" where
  "two_addresses = [\<lparr>ea_ID = ''e1'', ea_EmailAddress = ''old@x''\<rparr>, \<lparr>ea_ID = ''e2'', ea_EmailAddress = ''new@x''\<rparr>]"

definition two_address_user :: clerk_api_user where
  "two_address_user = \<lparr>gu_ID = ''c'', gu_FirstName = None, gu_LastName = None, gu_EmailAddresses = two_addresses,
     gu_PrimaryEmailAddressID = Some ''e2'', gu_Banned = False\<rparr>"

definition two_address_body :: payload where
  "two_address_body = Wellformed (JObj (enc ''id'' (JStr ''c'') @ enc ''email_addresses'' (JArr
     (map (\<lambda>a. JObj (enc ''id'' (JStr (ea_ID a)) @ enc ''email_address'' (JStr (ea_EmailAddress a)))) two_addresses))))"

lemma gateway_and_webhook_disagree:
  "map_sum id cu_Email (UserGateway_Get (\<lambda>_ _. Some two_address_user) 0 ''c'') = Inr ''new@x''"
  "map_option ck_Email (Unmarshal_ClerkUserData two_address_body) = Some ''old@x''"
  by code_simp+

section \<open>The realtime server\<close>

definition TrimRight :: "string \<Rightarrow> char \<Rightarrow> string" where
  "TrimRight s c = rev (dropWhile (\<lambda>x. x = c) (rev s))"

definition apiEndpoint :: "string \<Rightarrow> string" where
  "apiEndpoint baseURL0 =
     (let baseURL = TrimRight baseURL0 (CHR ''/'')
      in if HasSuffix baseURL ''/api'' then baseURL else baseURL @ ''/api'')"

lemma apiEndpoint_ends: "HasSuffix (apiEndpoint u) ''/api''"
  by (simp add: apiEndpoint_def Let_def)

lemma apiEndpoint_api: "apiEndpoint (v @ ''/api'') = v @ ''/api''"
  by (simp add: apiEndpoint_def Let_def TrimRight_def HasSuffix_def HasPrefix_def)

lemma apiEndpoint_idem: "apiEndpoint (apiEndpoint u) = apiEndpoint u"
  using apiEndpoint_ends [of u] by (auto simp: HasSuffix_iff suffix_def apiEndpoint_api)

end
