(* ===== verification/Interleaving.thy ===== *)
theory Interleaving
  imports Handlers
begin

text \<open>
  Handlers that run at the same time. The programs consume several messages at once, in goroutines of one
  process and in several processes, and their handlers meet in the database. A handler is a process here: a
  sequence of steps, each of them one statement on the database or one transaction, between which the other
  processes may take steps of their own. A schedule says whose turn it is.

  A transaction is one step. The isolation level lets statements of other transactions show up between its
  statements, which is left out.
\<close>

section \<open>Processes\<close>

datatype ('s, 'a) proc =
    Done 'a
  | Step "'s \<Rightarrow> ('s, 'a) proc \<times> 's"

definition stmt :: "('s, 'a) state \<Rightarrow> ('s, 'a) proc" where
  "stmt m = Step (\<lambda>s. map_prod Done id (run_state m s))"

primrec pbind :: "('s, 'a) proc \<Rightarrow> ('a \<Rightarrow> ('s, 'b) proc) \<Rightarrow> ('s, 'b) proc" where
  "pbind (Done a) k = k a"
| "pbind (Step f) k = Step (\<lambda>s. map_prod (\<lambda>p. pbind p k) id (f s))"

definition p_on_err ::
  "('s, 'e + 'a) proc \<Rightarrow> ('e \<Rightarrow> ('s, 'b) proc) \<Rightarrow> ('a \<Rightarrow> ('s, 'b) proc) \<Rightarrow> ('s, 'b) proc" where
  "p_on_err p h k = pbind p (\<lambda>r. case r of Inl e \<Rightarrow> h e | Inr x \<Rightarrow> k x)"

definition p_if_err :: "('s, 'e option) proc \<Rightarrow> ('e \<Rightarrow> ('s, 'b) proc) \<Rightarrow> ('s, 'b) proc \<Rightarrow> ('s, 'b) proc" where
  "p_if_err p h k = pbind p (\<lambda>r. case r of Some e \<Rightarrow> h e | None \<Rightarrow> k)"

text \<open>A process nobody interferes with.\<close>

primrec alone :: "('s, 'a) proc \<Rightarrow> ('s, 'a) state" where
  "alone (Done a) = ret a"
| "alone (Step f) = State (\<lambda>s. case map_prod alone id (f s) of (m, s') \<Rightarrow> run_state m s')"

section \<open>Schedules\<close>

text \<open>The process whose turn it is takes a step; a turn of one that has ended passes.\<close>

definition turn :: "nat \<Rightarrow> ('s, 'a) proc list \<times> 's \<Rightarrow> ('s, 'a) proc list \<times> 's" where
  "turn i = (\<lambda>(ps, s).
     if i < length ps
     then (case ps ! i of Done a \<Rightarrow> (ps, s) | Step f \<Rightarrow> (case f s of (p, s') \<Rightarrow> (ps[i := p], s')))
     else (ps, s))"

fun schedule :: "nat list \<Rightarrow> ('s, 'a) proc list \<times> 's \<Rightarrow> ('s, 'a) proc list \<times> 's" where
  "schedule [] c = c"
| "schedule (i # is) c = schedule is (turn i c)"

text \<open>What each process has returned.\<close>

definition outcome :: "('s, 'a) proc \<Rightarrow> 'a option" where
  "outcome p = (case p of Done a \<Rightarrow> Some a | Step _ \<Rightarrow> None)"

text \<open>The same as a relation: some process that has not ended takes its step.\<close>

inductive proc_step :: "('s, 'a) proc list \<times> 's \<Rightarrow> ('s, 'a) proc list \<times> 's \<Rightarrow> bool" where
  step: "i < length ps \<Longrightarrow> ps ! i = Step f \<Longrightarrow> f s = (p, s') \<Longrightarrow> proc_step (ps, s) (ps[i := p], s')"

inductive_cases proc_stepE: "proc_step (ps, s) c"

lemma turn_steps: "turn i c = c \<or> proc_step c (turn i c)"
  by (cases c) (auto simp: turn_def split: proc.splits prod.splits intro: proc_step.intros)

lemma proc_step_turn: "proc_step c c' \<Longrightarrow> \<exists>i. c' = turn i c"
  by (erule proc_step.cases, rule_tac x = i in exI) (simp add: turn_def)

lemma schedule_append [simp]: "schedule (is @ js) c = schedule js (schedule is c)"
  by (induction "is" arbitrary: c) simp_all

lemma schedule_reaches: "proc_step\<^sup>*\<^sup>* c c' \<longleftrightarrow> (\<exists>is. schedule is c = c')"
proof
  assume "proc_step\<^sup>*\<^sup>* c c'"
  then show "\<exists>is. schedule is c = c'"
  proof induction
    case base
    have "schedule [] c = c" by simp
    then show ?case ..
  next
    case (step c1 c2)
    then obtain "is" i where "schedule is c = c1" "c2 = turn i c1" using proc_step_turn by blast
    then have "schedule (is @ [i]) c = c2" by simp
    then show ?case ..
  qed
next
  assume "\<exists>is. schedule is c = c'"
  then obtain "is" where "schedule is c = c'" ..
  then show "proc_step\<^sup>*\<^sup>* c c'"
  proof (induction "is" arbitrary: c)
    case (Cons i "is")
    then have "proc_step\<^sup>*\<^sup>* (turn i c) c'" by simp
    then show ?case using turn_steps [of i c] by (metis converse_rtranclp_into_rtranclp)
  qed simp
qed

section \<open>A process alone is the handler\<close>

named_theorems alone_simps \<open>processes that nobody interferes with\<close>

lemma alone_stmt [alone_simps]: "alone (stmt m) = m"
  by (cases m) (simp add: stmt_def prod.case_eq_if)

lemma alone_pbind [alone_simps]: "alone (pbind p k) = State_Monad.bind (alone p) (\<lambda>a. alone (k a))"
proof (induction p)
  case (Step f)
  have "run_state (alone (pbind (fst (f s)) k)) t = run_state (State_Monad.bind (alone (fst (f s))) (\<lambda>a. alone (k a))) t"
    for s t by (subst Step) (auto simp: prod_set_simps intro: fsts.intros)
  then show ?case by (simp add: State_Monad.bind_def prod.case_eq_if fun_eq_iff)
qed simp

lemma alone_Done [alone_simps]: "alone (Done a) = ret a"
  by simp

lemma alone_on_err [alone_simps]: "alone (p_on_err p h k) = on_err (alone p) (\<lambda>e. alone (h e)) (\<lambda>x. alone (k x))"
  unfolding p_on_err_def on_err_def alone_pbind by (rule arg_cong2 [where f = State_Monad.bind]) (auto split: sum.splits)

lemma alone_if_err [alone_simps]: "alone (p_if_err p h k) = if_err (alone p) (\<lambda>e. alone (h e)) (alone k)"
  unfolding p_if_err_def if_err_def alone_pbind by (rule arg_cong2 [where f = State_Monad.bind]) (auto split: option.splits)

lemma alone_if [alone_simps]: "alone (if b then p else q) = (if b then alone p else alone q)"
  by simp

lemma alone_case_option [alone_simps]:
  "alone (case x of None \<Rightarrow> p | Some y \<Rightarrow> f y) = (case x of None \<Rightarrow> alone p | Some y \<Rightarrow> alone (f y))"
  by (simp split: option.splits)

lemma alone_case_sum [alone_simps]:
  "alone (case x of Inl y \<Rightarrow> f y | Inr z \<Rightarrow> g z) = (case x of Inl y \<Rightarrow> alone (f y) | Inr z \<Rightarrow> alone (g z))"
  by (simp split: sum.splits)

lemma alone_case_prod [alone_simps]:
  "alone (case x of (a, b) \<Rightarrow> f a b) = (case x of (a, b) \<Rightarrow> alone (f a b))"
  by (simp split: prod.splits)

lemma alone_Let [alone_simps]: "alone (Let x f) = Let x (\<lambda>y. alone (f y))"
  by (simp add: Let_def)

section \<open>What no schedule breaks\<close>

text \<open>
  Every step of the process keeps \<open>P\<close>, whatever the others, which keep \<open>P\<close> too, have done since its
  last one; and what it returns satisfies \<open>R\<close>.
\<close>

inductive preserves :: "('s \<Rightarrow> bool) \<Rightarrow> ('a \<Rightarrow> bool) \<Rightarrow> ('s, 'a) proc \<Rightarrow> bool" for P R where
  ended: "R a \<Longrightarrow> preserves P R (Done a)"
| moves: "(\<And>s. P s \<Longrightarrow> P (snd (f s)) \<and> preserves P R (fst (f s))) \<Longrightarrow> preserves P R (Step f)"

inductive_simps preserves_simps: "preserves P R (Done a)" "preserves P R (Step f)"

lemma preserves_stmt: "holds Q R m \<Longrightarrow> preserves (\<lambda>w. Q (w_db w)) R (stmt m)"
  unfolding stmt_def by (rule preserves.moves) (auto simp: preserves_simps holds_def wp_def prod.case_eq_if)

lemma preserves_bind:
  assumes "preserves P Q p" "\<And>a. Q a \<Longrightarrow> preserves P R (k a)"
  shows "preserves P R (pbind p k)"
  using assms(1) by induction (auto simp: assms(2) intro!: preserves.moves)

lemma preserves_on_err:
  "preserves P Q p \<Longrightarrow> (\<And>e. Q (Inl e) \<Longrightarrow> preserves P R (h e)) \<Longrightarrow> (\<And>x. Q (Inr x) \<Longrightarrow> preserves P R (k x)) \<Longrightarrow>
     preserves P R (p_on_err p h k)"
  unfolding p_on_err_def by (rule preserves_bind [where Q = Q]) (auto split: sum.splits)

lemma preserves_if_err:
  "preserves P Q p \<Longrightarrow> (\<And>e. Q (Some e) \<Longrightarrow> preserves P R (h e)) \<Longrightarrow> (Q None \<Longrightarrow> preserves P R k) \<Longrightarrow>
     preserves P R (p_if_err p h k)"
  unfolding p_if_err_def by (rule preserves_bind [where Q = Q]) (auto split: option.splits)

lemma preserves_if: "(b \<Longrightarrow> preserves P R p) \<Longrightarrow> (\<not> b \<Longrightarrow> preserves P R q) \<Longrightarrow> preserves P R (if b then p else q)"
  by simp

lemma preserves_case_option:
  "(x = None \<Longrightarrow> preserves P R p) \<Longrightarrow> (\<And>y. x = Some y \<Longrightarrow> preserves P R (f y)) \<Longrightarrow>
     preserves P R (case x of None \<Rightarrow> p | Some y \<Rightarrow> f y)"
  by (simp split: option.splits)

lemma preserves_case_sum:
  "(\<And>y. x = Inl y \<Longrightarrow> preserves P R (f y)) \<Longrightarrow> (\<And>z. x = Inr z \<Longrightarrow> preserves P R (g z)) \<Longrightarrow>
     preserves P R (case x of Inl y \<Rightarrow> f y | Inr z \<Rightarrow> g z)"
  by (simp split: sum.splits)

lemma preserves_case_prod:
  "(\<And>a b. x = (a, b) \<Longrightarrow> preserves P R (f a b)) \<Longrightarrow> preserves P R (case x of (a, b) \<Rightarrow> f a b)"
  by (simp split: prod.splits)

lemma preserves_let: "(\<And>y. y = x \<Longrightarrow> preserves P R (f y)) \<Longrightarrow> preserves P R (Let x f)"
  by simp

lemmas preserves_control = preserves_bind preserves_on_err preserves_if_err preserves_if preserves_case_option
  preserves_case_sum preserves_case_prod preserves_let

lemma preserves_step:
  assumes "proc_step c c'" "\<forall>p \<in> set (fst c). preserves P R p" "P (snd c)"
  shows "(\<forall>p \<in> set (fst c'). preserves P R p) \<and> P (snd c')"
  using assms
proof cases
  case (step i ps f s p s')
  then have "preserves P R (Step f)" using assms(2) nth_mem by fastforce
  then have "P s'" "preserves P R p" using step assms(3) by (auto simp: preserves_simps)
  then show ?thesis using step assms(2) by (auto dest: set_update_subset_insert [THEN subsetD])
qed

lemma schedule_preserves:
  assumes "\<forall>p \<in> set ps. preserves P R p" "P s"
  shows "(\<forall>p \<in> set (fst (schedule is (ps, s))). preserves P R p) \<and> P (snd (schedule is (ps, s)))"
proof -
  have "proc_step\<^sup>*\<^sup>* (ps, s) (schedule is (ps, s))" using schedule_reaches by metis
  then show ?thesis
  proof induction
    case (step c1 c2)
    then show ?case using preserves_step [OF step(2), of P R] by blast
  qed (simp add: assms)
qed

end
