(* ===== verification/Races.thy ===== *)
theory Races
  imports Interleaving Application Gaps
begin

text \<open>
  The handlers that work on one video at the same time, as processes: its download or the expiry of its upload, its
  segmentation, the extraction of its segments, the OCR results and the classifications of its frames
  (\<open>ingest_remote.go\<close>, \<open>expire_stale_uploads.go\<close>, \<open>segment_video.go\<close>, \<open>extract_frames.go\<close>, \<open>ocr_frames.go\<close>,
  \<open>classify_frames.go\<close> in \<open>internal/application/command/video\<close>). Each is written again with its steps: every
  statement outside a transaction, every call of a service and every transaction is one. Alone, a process is the
  handler of \<open>Uploads\<close>, \<open>SegmentVideo\<close>, \<open>ExtractFrames\<close>, \<open>OcrFrames\<close> or \<open>ClassifyFrames\<close>, so what is shown of those is
  shown of these.
\<close>

section \<open>Uploads\<close>

definition IngestRemote_steps :: "services \<Rightarrow> int \<Rightarrow> IngestRemoteCommand \<Rightarrow> (world, go_error option) proc" where
  "IngestRemote_steps S maxSize cmd =
     p_on_err (stmt (videos_GetByID (ir_VideoID cmd)))
       (\<lambda>e. Done (Retryable (Some e)))
       (\<lambda>found. case found of
          None \<Rightarrow> Done (NonRetryable (Some ErrVideoNotFound))
        | Some video \<Rightarrow>
            if v_Status video \<noteq> StatusPending then Done None
            else p_on_err (stmt (svc (\<lambda>n. sv_fetch S n (ir_RemoteURL cmd))))
              (\<lambda>e. if errors_Is e ErrRemoteURLForbidden then Done (NonRetryable (Some e))
                 else Done (Retryable (Some e)))
              (\<lambda>remote. p_if_err (stmt (svc (sv_file S)))
                 (\<lambda>e. Done (Retryable (Some e)))
                 (p_if_err (stmt (svc (sv_file S)))
                    (\<lambda>e. Done (Retryable (Some e)))
                    (case copy_body remote (if maxSize > 0 then Some (wrap64 (maxSize + 1)) else None) of
                       Inl e \<Rightarrow> Done (Retryable (Some e))
                     | Inr content \<Rightarrow>
                         if maxSize > 0 \<and> int (length content) > maxSize
                         then Done (NonRetryable (Some ErrVideoTooLarge))
                         else p_if_err (stmt (svc (sv_file S)))
                           (\<lambda>e. Done (Retryable (Some e)))
                           (let contentType = (if ro_ContentType remote = '''' then v_ContentType video
                                               else ro_ContentType remote)
                            in p_if_err (stmt (storage_Put S (v_StorageKey video) content contentType))
                                 (\<lambda>e. Done (Retryable (Some e)))
                                 (p_if_err (stmt (ConfirmUpload S maxSize
                                     \<lparr>cu_StorageKey = v_StorageKey video, cu_ContentType = contentType,
                                      cu_SizeBytes = int (length content)\<rparr>))
                                    (\<lambda>e. Done (Retryable (Some e)))
                                    (Done None)))))))"

fun expire_loop_steps :: "services \<Rightarrow> video list \<Rightarrow> (world, unit) proc" where
  "expire_loop_steps S [] = Done ()"
| "expire_loop_steps S (video # videos) = pbind (stmt (expire_video S video)) (\<lambda>_. expire_loop_steps S videos)"

definition ExpireStaleUploads_steps :: "services \<Rightarrow> duration \<Rightarrow> (world, go_error option) proc" where
  "ExpireStaleUploads_steps S ttl =
     pbind (stmt (rt_op time_Now)) (\<lambda>now.
       p_on_err (stmt (videos_ListExpiredPending (now - upload_ttl ttl)))
         (\<lambda>e. Done (Some e))
         (\<lambda>videos. pbind (expire_loop_steps S videos) (\<lambda>_. Done None)))"

section \<open>Segmentation\<close>

definition segment_load_steps :: "uuid \<Rightarrow> (world, go_error + video \<times> job) proc" where
  "segment_load_steps videoID =
     p_on_err (stmt (videos_GetByID videoID))
       (\<lambda>e. Done (Inl (RetryableError e)))
       (\<lambda>video. case video of
          None \<Rightarrow> Done (Inl (NonRetryableError ErrVideoNotFound))
        | Some video \<Rightarrow> p_on_err (stmt (jobs_GetByVideoIDAndType (v_ID video) TypeSegment))
            (\<lambda>e. Done (Inl (RetryableError e)))
            (\<lambda>job. case job of
               None \<Rightarrow> Done (Inl (NonRetryableError (ErrorText ''segment job not found'')))
             | Some job \<Rightarrow> Done (Inr (video, job))))"

definition storeThumbnail_steps ::
  "services \<Rightarrow> bool \<Rightarrow> video \<Rightarrow> bytes \<Rightarrow> (world, go_error option \<times> video) proc" where
  "storeThumbnail_steps S hasExtractor video content =
     (if \<not> hasExtractor then Done (None, video)
      else p_on_err (stmt (svc (\<lambda>n. sv_thumbnail S n content)))
        (\<lambda>e. Done (Some e, video))
        (\<lambda>data. let key = NewThumbnailStorageKey (sv_uuid S) (v_ID video)
          in p_if_err (stmt (storage_Put S key data ''image/jpeg''))
               (\<lambda>e. Done (Some e, video))
               (pbind (stmt (rt_op (SetThumbnailKey key video))) (\<lambda>video.
                  pbind (stmt (videos_UpdateThumbnailKey (v_ID video) key)) (\<lambda>err. Done (err, video))))))"

fun store_segment_files_steps ::
  "services \<Rightarrow> video \<Rightarrow> job \<Rightarrow> SegmentFile list \<Rightarrow> segment list \<Rightarrow> (world, go_error + segment list) proc" where
  "store_segment_files_steps S video job [] segments = Done (Inr segments)"
| "store_segment_files_steps S video job (file # files) segments =
     (let key = NewSegmentStorageKey (sv_uuid S) (v_ID video) (sf_Index file)
      in p_on_err (stmt (svc (\<lambda>n. sv_read_file S n (sf_Path file))))
           (\<lambda>e. Done (Inl e))
           (\<lambda>content. p_if_err (stmt (svc (sv_file S)))
              (\<lambda>e. Done (Inl e))
              (p_if_err (stmt (storage_Put S key content segmentContentType))
                 (\<lambda>e. Done (Inl e))
                 (pbind (stmt (rt_op (NewSegment (v_ID video) (j_ID job) (sf_Index file) (sf_OffsetMs file)
                      (sf_DurationMs file) key))) (\<lambda>segment.
                    store_segment_files_steps S video job files (segments @ [segment]))))))"

definition splitAndStore_steps ::
  "services \<Rightarrow> bool \<Rightarrow> video \<Rightarrow> job \<Rightarrow> (world, (go_error + segment list) \<times> video) proc" where
  "splitAndStore_steps S hasExtractor video job =
     p_if_err (stmt (svc (sv_file S)))
       (\<lambda>e. Done (Inl e, video))
       (p_on_err (stmt (svc (\<lambda>n. sv_get S n (v_StorageKey video))))
         (\<lambda>e. Done (Inl e, video))
         (\<lambda>content. p_if_err (stmt (svc (sv_file S)))
            (\<lambda>e. Done (Inl e, video))
            (p_if_err (stmt (svc (sv_file S)))
               (\<lambda>e. Done (Inl e, video))
               (pbind (storeThumbnail_steps S hasExtractor video content) (\<lambda>(_, video).
                  p_on_err (stmt (svc (\<lambda>n. sv_probe S n content)))
                    (\<lambda>e. Done (Inl (NonRetryableError e), video))
                    (\<lambda>durationMs.
                       let plan = PlanSegments (real_of_int durationMs / 1000)
                             \<lparr>pc_SegmentDurationSeconds = j_SegmentDurationSeconds job,
                              pc_MinVideoDurationForSplitSeconds = j_MinVideoDurationForSplitSeconds job,
                              pc_MaxSegments = j_MaxSegments job\<rparr>
                       in if pl_SkipSplit plan
                          then pbind (stmt (rt_op (NewSegment (v_ID video) (j_ID job) 0 0 durationMs (v_StorageKey video))))
                            (\<lambda>seg. Done (Inr [seg], video))
                          else p_if_err (stmt (svc (sv_file S)))
                            (\<lambda>e. Done (Inl e, video))
                            (p_on_err (stmt (svc (\<lambda>n. sv_split S n content (pl_EffectiveDurationSeconds plan))))
                              (\<lambda>e. Done (Inl (NonRetryableError e), video))
                              (\<lambda>files. p_on_err (store_segment_files_steps S video job files [])
                                 (\<lambda>e. Done (Inl e, video))
                                 (\<lambda>segments.
                                    if length segments = 0
                                    then Done (Inl (NonRetryableError (ErrorText ''no segments produced'')), video)
                                    else Done (Inr segments, video))))))))))"

text \<open>
  \<open>markExtracting\<close>, \<open>commitSegments\<close>, \<open>republishPending\<close> and \<open>markFailed\<close> end in their only transaction: each is one
  step.
\<close>

definition SegmentVideo_steps :: "services \<Rightarrow> bool \<Rightarrow> uuid \<Rightarrow> (world, go_error option) proc" where
  "SegmentVideo_steps S hasExtractor videoID =
     p_on_err (segment_load_steps videoID) (\<lambda>e. Done (Some e)) (\<lambda>(video, job).
       if v_Status video = StatusSuccess then Done None
       else p_on_err (stmt (segments_ListByVideoID (v_ID video)))
         (\<lambda>e. Done (Retryable (Some e)))
         (\<lambda>existing.
            if j_Status job = JobSuccess \<or> (length existing > 0 \<and> j_ExpectedSegmentCount job > 0)
            then stmt (republishPending S video job existing)
            else pbind (stmt (segment_markExtracting S video job)) (\<lambda>(err, video, job).
              case err of
                Some e \<Rightarrow> Done (Some e)
              | None \<Rightarrow> pbind (splitAndStore_steps S hasExtractor video job) (\<lambda>(segments, video).
                  case segments of
                    Inl splitErr \<Rightarrow>
                      pbind (stmt (segment_markFailed S video job (publicReason (Some splitErr)))) (\<lambda>_.
                        if isNonRetryableExtract splitErr
                        then Done (NonRetryable (Some splitErr))
                        else Done (Retryable (Some splitErr)))
                  | Inr segments \<Rightarrow> stmt (commitSegments S video job segments)))))"

section \<open>Extraction\<close>

definition extract_load_steps :: "uuid \<Rightarrow> uuid \<Rightarrow> (world, go_error + video \<times> job \<times> segment) proc" where
  "extract_load_steps videoID segmentID =
     p_on_err (stmt (videos_GetByID videoID))
       (\<lambda>e. Done (Inl (RetryableError e)))
       (\<lambda>video. case video of
          None \<Rightarrow> Done (Inl (NonRetryableError ErrVideoNotFound))
        | Some video \<Rightarrow> p_on_err (stmt (jobs_GetByVideoIDAndType (v_ID video) TypeFrame))
            (\<lambda>e. Done (Inl (RetryableError e)))
            (\<lambda>job. case job of
               None \<Rightarrow> Done (Inl (NonRetryableError (ErrorText ''frame job not found'')))
             | Some job \<Rightarrow> p_on_err (stmt (segments_GetByID segmentID))
                 (\<lambda>e. Done (Inl (RetryableError e)))
                 (\<lambda>segment. case segment of
                    None \<Rightarrow> Done (Inl (NonRetryableError (ErrorText ''segment not found'')))
                  | Some segment \<Rightarrow>
                      if s_VideoID segment \<noteq> v_ID video
                      then Done (Inl (NonRetryableError (ErrorText ''segment not found'')))
                      else Done (Inr (video, job, segment)))))"

definition ensureOCRJob_steps :: "frame_pool \<Rightarrow> (world, (go_error + uuid) \<times> frame_pool) proc" where
  "ensureOCRJob_steps p = (case p_ocrJob p of
     Some r \<Rightarrow> Done (r, p)
   | None \<Rightarrow> pbind
       (p_on_err (stmt (jobs_GetByVideoIDAndType (v_ID (p_video p)) TypeOCR))
         (\<lambda>e. Done (Inl e))
         (\<lambda>job. case job of
            Some job \<Rightarrow> Done (Inr (j_ID job))
          | None \<Rightarrow> pbind (stmt (rt_op (NewOCRJob (v_ID (p_video p))))) (\<lambda>job.
              p_if_err (stmt (jobs_Save job)) (\<lambda>e. Done (Inl e)) (Done (Inr (j_ID job))))))
       (\<lambda>r. Done (r, p\<lparr>p_ocrJob := Some r\<rparr>)))"

definition publishOCRRequest_steps ::
  "services \<Rightarrow> ExtractedFramePayload \<Rightarrow> frame_pool \<Rightarrow> (world, go_error option \<times> frame_pool) proc" where
  "publishOCRRequest_steps S payload p = pbind (ensureOCRJob_steps p) (\<lambda>(r, p). case r of
     Inl e \<Rightarrow> Done (Some e, p)
   | Inr ocrJobID \<Rightarrow>
       pbind (stmt (rt_op (RequestOCRFrames (sv_uuid S) ocrJobID [payload] (p_video p)))) (\<lambda>video.
         pbind (stmt (WithTransaction video (store_pulled S))) (\<lambda>(err, video). Done (err, p\<lparr>p_video := video\<rparr>))))"

definition persist_frame_steps ::
  "services \<Rightarrow> segment \<Rightarrow> ExtractedFrame \<Rightarrow> frame_pool \<Rightarrow> (world, frame_pool) proc" where
  "persist_frame_steps S segment item p = pbind (stmt (svc (sv_ctx S))) (\<lambda>interrupted. case interrupted of
     Some e \<Rightarrow> Done (setErr (Errorf2 ErrPersistFrame e) p)
   | None \<Rightarrow>
       if p_err p \<noteq> None then Done p
       else let storageKey = NewFrameStorageKey (sv_uuid S) (v_ID (p_video p)) (s_SegmentIndex segment) (ef_Index item)
         in p_if_err (stmt (storage_Put S storageKey (ef_Data item) frameContentType))
              (\<lambda>e. Done (setErr (Errorf2 ErrPersistFrame e) p))
              (pbind (stmt (rt_op (NewFrame (v_ID (p_video p)) (s_SegmentIndex segment) (ef_Index item)
                   (s_OffsetMs segment + ef_TimestampMs item) storageKey (ef_SelectionReason item)
                   (ef_PHashDistance item)))) (\<lambda>frame.
                 p_on_err (stmt (frames_UpsertAll [frame]))
                   (\<lambda>e. Done (setErr (Errorf2 ErrPersistFrame e) p))
                   (\<lambda>stored. let payload = payload_of_frame (sv_uuid S) (hd stored) in
                      pbind (publishOCRRequest_steps S payload p) (\<lambda>(err, p). case err of
                          Some e \<Rightarrow> Done (setErr (Errorf2 ErrPersistFrame e) p)
                        | None \<Rightarrow> Done (p\<lparr>p_frames := p_frames p @ [payload]\<rparr>))))))"

fun submit_all_steps ::
  "services \<Rightarrow> segment \<Rightarrow> ExtractedFrame list \<Rightarrow> go_error option \<Rightarrow> frame_pool
     \<Rightarrow> (world, go_error option \<times> frame_pool) proc" where
  "submit_all_steps S segment [] final p = Done (final, p)"
| "submit_all_steps S segment (item # items) final p =
     (case p_err p of
        Some e \<Rightarrow> Done (Some e, p)
      | None \<Rightarrow> pbind (persist_frame_steps S segment item p) (submit_all_steps S segment items final))"

definition extractAndStore_steps ::
  "services \<Rightarrow> int \<Rightarrow> video \<Rightarrow> job \<Rightarrow> segment \<Rightarrow> (world, (go_error + ExtractedFramePayload list) \<times> video) proc" where
  "extractAndStore_steps S maxWidthPx video job segment =
     p_if_err (stmt (svc (sv_file S)))
       (\<lambda>e. Done (Inl e, video))
       (p_on_err (stmt (svc (\<lambda>n. sv_get S n (s_StorageKey segment))))
         (\<lambda>e. Done (Inl e, video))
         (\<lambda>content. p_if_err (stmt (svc (sv_file S)))
            (\<lambda>e. Done (Inl e, video))
            (p_if_err (stmt (svc (sv_file S)))
               (\<lambda>e. Done (Inl e, video))
               (pbind (stmt (svc (\<lambda>n. sv_extract S n content
                    \<lparr>fp_AnalysisFPS = j_AnalysisFPS job, fp_PHashDistanceThreshold = j_PHashDistanceThreshold job,
                     fp_MaxIntervalSeconds = j_MaxIntervalSeconds job, fp_MaxWidthPx = frame_max_width maxWidthPx\<rparr>)))
                 (\<lambda>(items, final). pbind (submit_all_steps S segment items final (newFramePersistPool video))
                    (\<lambda>(extractErr, p).
                       let payloads = sort_key xf_TimestampMs (p_frames p) in
                       Done (case extractErr of
                           Some e \<Rightarrow>
                             if errors_Is e ErrPersistFrame \<or> errors_Is e DeadlineExceeded \<or> errors_Is e Canceled
                             then Inl e
                             else (case p_err p of
                                 Some waitErr \<Rightarrow> Inl waitErr
                               | None \<Rightarrow> Inl (NonRetryableError e))
                         | None \<Rightarrow> (case p_err p of Some waitErr \<Rightarrow> Inl waitErr | None \<Rightarrow> Inr payloads),
                         p_video p)))))))"

definition cleanupSegmentObject_steps :: "services \<Rightarrow> video \<Rightarrow> segment \<Rightarrow> (world, unit) proc" where
  "cleanupSegmentObject_steps S video segment =
     (if s_StorageKey segment = '''' \<or> s_StorageKey segment = v_StorageKey video then Done ()
      else pbind (stmt (storage_Delete S (s_StorageKey segment))) (\<lambda>_. Done ()))"

fun cleanup_objects_steps :: "services \<Rightarrow> video \<Rightarrow> segment list \<Rightarrow> (world, unit) proc" where
  "cleanup_objects_steps S video [] = Done ()"
| "cleanup_objects_steps S video (s # ss) =
     pbind (cleanupSegmentObject_steps S video s) (\<lambda>_. cleanup_objects_steps S video ss)"

definition cleanupAllSegmentObjects_steps :: "services \<Rightarrow> video \<Rightarrow> (world, unit) proc" where
  "cleanupAllSegmentObjects_steps S video =
     p_on_err (stmt (segments_ListByVideoID (v_ID video))) (\<lambda>_. Done ()) (cleanup_objects_steps S video)"

text \<open>The transaction of \<open>completeSegment\<close>, which is one step.\<close>

definition settle_transaction ::
  "services \<Rightarrow> video \<Rightarrow> job \<Rightarrow> segment \<Rightarrow> (world, go_error option \<times> completion) state" where
  "settle_transaction S video job segment =
     WithTransaction \<lparr>cp_video = video, cp_job = job, cp_segment = segment, cp_allDone = False\<rparr>
       (\<lambda>c. do {
          (err, c) \<leftarrow> settle_segment c;
          case err of Some e \<Rightarrow> ret (Some e, c) | None \<Rightarrow>
            if_err (ensure_ocr_job (v_ID (cp_video c)))
              (\<lambda>e. ret (Some e, c))
              (do {
                 (err, c) \<leftarrow> finish_frames S c;
                 case err of Some e \<Rightarrow> ret (Some e, c) | None \<Rightarrow>
                   if_err (videos_Update (cp_video c))
                     (\<lambda>e. ret (Some e, c))
                     (do { (err, video) \<leftarrow> store_pulled S (cp_video c); ret (err, c\<lparr>cp_video := video\<rparr>) }) }) })"

definition completeSegment_steps ::
  "services \<Rightarrow> video \<Rightarrow> job \<Rightarrow> segment \<Rightarrow> (world, go_error option) proc" where
  "completeSegment_steps S video job segment =
     pbind (stmt (settle_transaction S video job segment)) (\<lambda>(err, c). case err of
        Some e \<Rightarrow> Done (Some e)
      | None \<Rightarrow>
          pbind (cleanupSegmentObject_steps S (cp_video c) (cp_segment c)) (\<lambda>_.
            pbind (if cp_allDone c then cleanupAllSegmentObjects_steps S (cp_video c) else Done ()) (\<lambda>_. Done None)))"

definition maybeFinalize_steps :: "services \<Rightarrow> video \<Rightarrow> job \<Rightarrow> (world, go_error option) proc" where
  "maybeFinalize_steps S video job =
     (if \<not> SegmentsComplete job \<or> j_Status job = JobSuccess then Done None
      else p_on_err (stmt (frames_ListByVideoID (v_ID video)))
        (\<lambda>e. Done (Retryable (Some e)))
        (\<lambda>listed. let payloads = toExtractedPayloads (sv_uuid S) listed in
           pbind (stmt (rt_op (job_MarkSuccess (SetExpectedFrameCount (int (length payloads)) job)))) (\<lambda>job.
             pbind (stmt (rt_op (MarkFramesReady (sv_uuid S) (j_ID job) (j_Type job) (j_Status job) payloads video)))
               (\<lambda>(err, video). case err of
                  Some e \<Rightarrow> Done (NonRetryable (Some e))
                | None \<Rightarrow> pbind (stmt (WithTransaction video (\<lambda>video.
                      if_err (jobs_Update job) (\<lambda>e. ret (Some e, video))
                        (if_err (videos_Update video) (\<lambda>e. ret (Some e, video))
                          (if_err (ensure_ocr_job (v_ID video)) (\<lambda>e. ret (Some e, video))
                            (store_pulled S video)))))) (\<lambda>(err, video).
                    case err of
                      Some e \<Rightarrow> Done (Some e)
                    | None \<Rightarrow> pbind (cleanupAllSegmentObjects_steps S video) (\<lambda>_. Done None))))))"

text \<open>\<open>failSegment\<close> has one statement group, its transaction, and is one step.\<close>

definition ExtractFrames_steps :: "services \<Rightarrow> int \<Rightarrow> ExtractFramesCommand \<Rightarrow> (world, go_error option) proc" where
  "ExtractFrames_steps S maxWidthPx cmd =
     p_on_err (extract_load_steps (ex_VideoID cmd) (ex_SegmentID cmd)) (\<lambda>e. Done (Some e)) (\<lambda>(video, job, segment).
       if j_Status job = JobSuccess then Done None
       else if v_Status video = StatusFailed then Done None
       else if s_Status segment = ''success'' then maybeFinalize_steps S video job
       else let segment = segment_MarkProcessing segment in
         p_if_err (stmt (segments_Update segment))
           (\<lambda>e. Done (Retryable (Some e)))
           (pbind (extractAndStore_steps S maxWidthPx video job segment) (\<lambda>(frames, video).
              case frames of
                Inl extractErr \<Rightarrow>
                  if isNonRetryableExtract extractErr
                  then pbind (stmt (failSegment S video job segment (publicReason (Some extractErr)))) (\<lambda>_.
                    Done (NonRetryable (Some extractErr)))
                  else Done (Retryable (Some extractErr))
              | Inr _ \<Rightarrow>
                  p_if_err (completeSegment_steps S video job segment)
                    (\<lambda>e. Done (Retryable (Some e)))
                    (Done None))))"

section \<open>Reading\<close>

definition find_or_save_job_steps ::
  "uuid \<Rightarrow> string \<Rightarrow> (uuid \<Rightarrow> (runtime, job) state) \<Rightarrow> (world, go_error + job) proc" where
  "find_or_save_job_steps videoID ty new =
     p_on_err (stmt (jobs_GetByVideoIDAndType videoID ty))
       (\<lambda>e. Done (Inl e))
       (\<lambda>job. case job of
          Some job \<Rightarrow> Done (Inr job)
        | None \<Rightarrow> pbind (stmt (rt_op (new videoID))) (\<lambda>job.
            p_if_err (stmt (jobs_Save job)) (\<lambda>e. Done (Inl e)) (Done (Inr job))))"

definition ocr_load_steps :: "uuid \<Rightarrow> (world, go_error + video \<times> job \<times> job) proc" where
  "ocr_load_steps videoID =
     p_on_err (stmt (videos_GetByID videoID))
       (\<lambda>e. Done (Inl (RetryableError e)))
       (\<lambda>video. case video of
          None \<Rightarrow> Done (Inl (NonRetryableError ErrVideoNotFound))
        | Some video \<Rightarrow> p_on_err (stmt (jobs_GetByVideoIDAndType (v_ID video) TypeFrame))
            (\<lambda>e. Done (Inl (RetryableError e)))
            (\<lambda>extractJob. case extractJob of
               None \<Rightarrow> Done (Inl (NonRetryableError (ErrorText ''frame job not found'')))
             | Some extractJob \<Rightarrow> p_on_err (find_or_save_job_steps (v_ID video) TypeOCR NewOCRJob)
                 (\<lambda>e. Done (Inl (RetryableError e)))
                 (\<lambda>job. Done (Inr (video, job, extractJob)))))"

definition persistResults_steps ::
  "services \<Rightarrow> video \<Rightarrow> job \<Rightarrow> ocr_result list \<Rightarrow> (uuid \<rightharpoonup> ocr_result)
     \<Rightarrow> (world, go_error option \<times> video \<times> job \<times> (uuid \<rightharpoonup> ocr_result)) proc" where
  "persistResults_steps S video job results known =
     (if length results = 0 then Done (None, video, job, known)
      else let newFrameIDs = new_frame_ids results known;
               added = int (length newFrameIDs);
               previousCompleted = j_OCRCompletedCount job;
               job = AddOCRCompleted added job;
               undone = job\<lparr>j_OCRCompletedCount := previousCompleted\<rparr>
        in pbind (stmt (if added > 0
            then rt_op (RecordOCRProgress (sv_uuid S) (j_ID job) (j_Type job) (j_Status job)
                   (j_ExpectedFrameCount job) (j_OCRCompletedCount job) video)
            else ret (None, video)))
          (\<lambda>(err, video). case err of
            Some e \<Rightarrow> Done (Some e, video, undone, known)
          | None \<Rightarrow> p_on_err (find_or_save_job_steps (v_ID video) TypeClassify NewClassifyJob)
              (\<lambda>e. Done (Some e, video, undone, known))
              (\<lambda>classifyJob.
                 pbind (stmt (rt_op (if length newFrameIDs > 0
                   then RequestClassifyFrames (sv_uuid S) (j_ID classifyJob) newFrameIDs video
                   else ret video))) (\<lambda>video.
                 pbind (stmt (WithTransaction video (\<lambda>video.
                   if_err (ocrs_UpsertAll results) (\<lambda>e. ret (Some e, video))
                     (if_err (jobs_Update job) (\<lambda>e. ret (Some e, video))
                       (store_pulled S video))))) (\<lambda>(err, video).
                 case err of
                   Some e \<Rightarrow> Done (Some e, video, undone, known)
                 | None \<Rightarrow> Done (None, video, job, foldl (\<lambda>m r. m(o_FrameID r \<mapsto> r)) known results))))))"

text \<open>\<open>markProcessing\<close>, \<open>markFailed\<close> and \<open>markReady\<close> end in their only transaction: each is one step.\<close>

definition PersistFrame_steps ::
  "services \<Rightarrow> real \<Rightarrow> ctx \<Rightarrow> PersistOCRFrameCommand \<Rightarrow> (world, go_error option) proc" where
  "PersistFrame_steps S minConfidence ctx cmd =
     p_on_err (ocr_load_steps (po_VideoID cmd)) (\<lambda>e. Done (Some e)) (\<lambda>(video, job, extractJob).
       if j_Status job = JobSuccess \<or> v_Status video = StatusSuccess then Done None
       else p_on_err (stmt (frames_ListByVideoID (v_ID video)))
         (\<lambda>e. stmt (ocr_failOrRetry S ctx video job e ''failed to load frames''))
         (\<lambda>frames. p_on_err (stmt (ocrs_ListByFrameIDs (frameIDs frames)))
            (\<lambda>e. stmt (ocr_failOrRetry S ctx video job e ''failed to load ocr''))
            (\<lambda>existing. pbind (if j_Status job = JobPending
                 then stmt (ocr_markProcessing S video job (int (length frames)) (countFinal existing))
                 else Done (None, video, job)) (\<lambda>(err, video, job).
               case err of
                 Some e \<Rightarrow> Done (Some e)
               | None \<Rightarrow>
                   pbind (stmt (rt_op (normalizePayloads (sv_uuid S) minConfidence (po_Results cmd)))) (\<lambda>incoming.
                   pbind (persistResults_steps S video job incoming (resultsByFrame existing)) (\<lambda>(err, video, job, _).
                   case err of
                     Some e \<Rightarrow> stmt (ocr_failOrRetry S ctx video job e ''failed to persist ocr'')
                   | None \<Rightarrow>
                       if j_Status extractJob \<noteq> JobSuccess then Done None
                       else p_on_err (stmt (ocrs_ListByFrameIDs (frameIDs frames)))
                         (\<lambda>e. stmt (ocr_failOrRetry S ctx video job e ''failed to load ocr''))
                         (\<lambda>stored.
                            if length stored < length frames \<or> length frames = 0 then Done None
                            else p_if_err (stmt (ocr_markReady S video job frames stored))
                              (\<lambda>e. Done (Retryable (Some e)))
                              (Done None))))))))"

section \<open>Classification\<close>

definition classify_load_steps :: "uuid \<Rightarrow> (world, go_error + video \<times> job \<times> job) proc" where
  "classify_load_steps videoID =
     p_on_err (stmt (videos_GetByID videoID))
       (\<lambda>e. Done (Inl (RetryableError e)))
       (\<lambda>video. case video of
          None \<Rightarrow> Done (Inl (NonRetryableError ErrVideoNotFound))
        | Some video \<Rightarrow> p_on_err (stmt (jobs_GetByVideoIDAndType (v_ID video) TypeFrame))
            (\<lambda>e. Done (Inl (RetryableError e)))
            (\<lambda>extractJob. case extractJob of
               None \<Rightarrow> Done (Inl (NonRetryableError (ErrorText ''frame job not found'')))
             | Some extractJob \<Rightarrow> p_on_err (stmt (jobs_GetByVideoIDAndType (v_ID video) TypeOCR))
                 (\<lambda>e. Done (Inl (RetryableError e)))
                 (\<lambda>ocrJob. p_on_err (find_or_save_job_steps (v_ID video) TypeClassify NewClassifyJob)
                    (\<lambda>e. Done (Inl (RetryableError e)))
                    (\<lambda>job. Done (Inr (video, job, extractJob))))))"

definition tryFinalize_steps ::
  "services \<Rightarrow> ctx \<Rightarrow> video \<Rightarrow> job \<Rightarrow> job \<Rightarrow> (world, go_error option) proc" where
  "tryFinalize_steps S ctx video job frameJob =
     (if j_Status frameJob \<noteq> JobSuccess then Done None
      else p_on_err (stmt (frames_ListByVideoID (v_ID video)))
        (\<lambda>e. stmt (classify_failOrRetry S ctx video job e ''failed to load frames''))
        (\<lambda>frames. if length frames = 0 then stmt (classify_markReady S video job [])
           else p_on_err (stmt (ocrs_ListByFrameIDs (frameIDs frames)))
             (\<lambda>e. stmt (classify_failOrRetry S ctx video job e ''failed to load ocr''))
             (\<lambda>ocrResults. if length ocrResults < length frames then Done None
                else p_on_err (stmt (classifications_ListByFrameIDs (frameIDs frames)))
                  (\<lambda>e. stmt (classify_failOrRetry S ctx video job e ''failed to load classifications''))
                  (\<lambda>stored. if length stored < length frames then Done None
                     else p_if_err (stmt (classify_markReady S video job stored))
                       (\<lambda>e. Done (Retryable (Some e)))
                       (Done None)))))"

definition HandleFrame_steps ::
  "services \<Rightarrow> real \<Rightarrow> ctx \<Rightarrow> ClassifyFrameCommand \<Rightarrow> (world, go_error option) proc" where
  "HandleFrame_steps S threshold ctx cmd =
     p_on_err (classify_load_steps (cl_VideoID cmd)) (\<lambda>e. Done (Some e)) (\<lambda>(video, job, frameJob).
       if j_Status job = JobSuccess \<or> v_Status video = StatusSuccess then Done None
       else p_on_err (stmt (frames_ListByVideoID (v_ID video)))
         (\<lambda>e. stmt (classify_failOrRetry S ctx video job e ''failed to load frames''))
         (\<lambda>frames. case List.find (\<lambda>f. f_ID f = cl_FrameID cmd) frames of
            None \<Rightarrow> Done (NonRetryable (Some (ErrorText ''frame not found'')))
          | Some target \<Rightarrow> p_on_err (stmt (ocrs_ListByFrameIDs [cl_FrameID cmd]))
              (\<lambda>e. stmt (classify_failOrRetry S ctx video job e ''failed to load ocr''))
              (\<lambda>ocrResults. p_on_err (stmt (classifications_ListByFrameIDs [cl_FrameID cmd]))
                 (\<lambda>e. stmt (classify_failOrRetry S ctx video job e ''failed to load classifications''))
                 (\<lambda>existing.
                    if length existing > 0 \<and> classification_IsFinal (hd existing)
                    then tryFinalize_steps S ctx video job frameJob
                    else pbind (stmt (classify_markProcessing S video job (int (length frames)))) (\<lambda>(err, video, job).
                      case err of
                        Some e \<Rightarrow> Done (Some e)
                      | None \<Rightarrow>
                          pbind (stmt (rt_op (pendingClassifyFrames (sv_uuid S) [target] ocrResults existing)))
                            (\<lambda>(pending, skipped).
                          pbind (stmt (persistClassifications skipped (classificationsByFrame existing))) (\<lambda>(err, known).
                          case err of
                            Some e \<Rightarrow> stmt (classify_failOrRetry S ctx video job e ''failed to persist classifications'')
                          | None \<Rightarrow>
                              if length pending > 0
                              then p_on_err (stmt (svc (\<lambda>n. sv_classify S n pending (classify_threshold threshold))))
                                (\<lambda>e. stmt (classify_failOrRetry S ctx video job e ''classify service unavailable''))
                                (\<lambda>raw.
                                   pbind (stmt (rt_op (normalizeResults (sv_uuid S) pending raw))) (\<lambda>results.
                                   pbind (stmt (persistClassifications results known)) (\<lambda>(err, known).
                                   case err of
                                     Some e \<Rightarrow> stmt (classify_failOrRetry S ctx video job e
                                       ''failed to persist classifications'')
                                   | None \<Rightarrow> tryFinalize_steps S ctx video job frameJob)))
                              else tryFinalize_steps S ctx video job frameJob)))))))"

definition Finalize_steps :: "services \<Rightarrow> ctx \<Rightarrow> uuid \<Rightarrow> (world, go_error option) proc" where
  "Finalize_steps S ctx videoID =
     p_on_err (classify_load_steps videoID) (\<lambda>e. Done (Some e)) (\<lambda>(video, job, frameJob).
       if j_Status job = JobSuccess \<or> v_Status video = StatusSuccess then Done None
       else tryFinalize_steps S ctx video job frameJob)"

section \<open>Alone, the processes are the handlers\<close>

lemma loads_alone [alone_simps]:
  "alone (extract_load_steps i k) = extract_load i k"
  "alone (find_or_save_job_steps i ty new) = find_or_save_job i ty new"
  "alone (ocr_load_steps i) = ocr_load i"
  "alone (classify_load_steps i) = classify_load i"
proof -
  show *: "alone (find_or_save_job_steps i ty new) = find_or_save_job i ty new" for i ty new
    unfolding find_or_save_job_steps_def find_or_save_job_def alone_simps ..
  show "alone (extract_load_steps i k) = extract_load i k"
    unfolding extract_load_steps_def extract_load_def alone_simps ..
  show "alone (ocr_load_steps i) = ocr_load i"
    unfolding ocr_load_steps_def ocr_load_def alone_simps * ..
  show "alone (classify_load_steps i) = classify_load i"
    unfolding classify_load_steps_def classify_load_def alone_simps * ..
qed

lemma extraction_alone [alone_simps]:
  "alone (ensureOCRJob_steps p) = ensureOCRJob p"
  "alone (cleanupSegmentObject_steps S v s) = cleanupSegmentObject S v s"
  "alone (cleanup_objects_steps S v ss) = cleanup_objects S v ss"
proof -
  show "alone (ensureOCRJob_steps p) = ensureOCRJob p"
    unfolding ensureOCRJob_steps_def ensureOCRJob_def alone_simps ..
  show *: "alone (cleanupSegmentObject_steps S v s) = cleanupSegmentObject S v s" for s
    unfolding cleanupSegmentObject_steps_def cleanupSegmentObject_def alone_simps ..
  show "alone (cleanup_objects_steps S v ss) = cleanup_objects S v ss"
    by (induction ss) (simp_all add: alone_pbind *)
qed

lemma extraction_alone2 [alone_simps]:
  "alone (publishOCRRequest_steps S x p) = publishOCRRequest S x p"
  "alone (cleanupAllSegmentObjects_steps S v) = cleanupAllSegmentObjects S v"
  unfolding publishOCRRequest_steps_def publishOCRRequest_def cleanupAllSegmentObjects_steps_def
    cleanupAllSegmentObjects_def alone_simps by (rule refl)+

lemma persist_frame_alone [alone_simps]: "alone (persist_frame_steps S s x p) = persist_frame S s x p"
  unfolding persist_frame_steps_def persist_frame_def alone_simps ..

lemma submit_all_alone [alone_simps]: "alone (submit_all_steps S s xs fin p) = submit_all S s xs fin p"
  by (induction xs arbitrary: p) (simp_all add: alone_simps split: option.split)

lemma segments_alone [alone_simps]:
  "alone (extractAndStore_steps S m v j s) = extractAndStore S m v j s"
  "alone (completeSegment_steps S v j s) = completeSegment S v j s"
  "alone (maybeFinalize_steps S v j) = maybeFinalize S v j"
  unfolding extractAndStore_steps_def extractAndStore_def completeSegment_steps_def completeSegment_def
    settle_transaction_def maybeFinalize_steps_def maybeFinalize_def alone_simps by (simp_all add: Let_def)

lemma expire_loop_alone [alone_simps]: "alone (expire_loop_steps S vs) = expire_loop S vs"
  by (induction vs) (simp_all only: expire_loop_steps.simps expire_loop.simps alone_simps)

lemma uploads_alone [alone_simps]:
  "alone (IngestRemote_steps S m c) = IngestRemote S m c"
  "alone (ExpireStaleUploads_steps S ttl) = ExpireStaleUploads S ttl"
  unfolding IngestRemote_steps_def IngestRemote_def ExpireStaleUploads_steps_def ExpireStaleUploads_def alone_simps
  by (rule refl)+

lemma segmentation_alone [alone_simps]:
  "alone (segment_load_steps i) = segment_load i"
  "alone (storeThumbnail_steps S b v c) = storeThumbnail S b v c"
  unfolding segment_load_steps_def segment_load_def storeThumbnail_steps_def storeThumbnail_def alone_simps by (rule refl)+

lemma store_segment_files_alone [alone_simps]:
  "alone (store_segment_files_steps S v j fs ss) = store_segment_files S v j fs ss"
  by (induction fs arbitrary: ss) (simp_all only: store_segment_files_steps.simps store_segment_files.simps alone_simps)

lemma SegmentVideo_alone [alone_simps]:
  "alone (splitAndStore_steps S b v j) = splitAndStore S b v j"
  "alone (SegmentVideo_steps S b i) = SegmentVideo S b i"
  unfolding SegmentVideo_steps_def SegmentVideo_def splitAndStore_steps_def splitAndStore_def alone_simps by (rule refl)+

lemma ExtractFrames_alone [alone_simps]: "alone (ExtractFrames_steps S m cmd) = ExtractFrames S m cmd"
  unfolding ExtractFrames_steps_def ExtractFrames_def alone_simps ..

lemma persistResults_alone [alone_simps]: "alone (persistResults_steps S v j rs k) = persistResults S v j rs k"
  unfolding persistResults_steps_def persistResults_def alone_simps ..

lemma PersistFrame_alone [alone_simps]: "alone (PersistFrame_steps S m ctx cmd) = PersistFrame S m ctx cmd"
  unfolding PersistFrame_steps_def PersistFrame_def alone_simps ..

lemma tryFinalize_alone [alone_simps]: "alone (tryFinalize_steps S ctx v j k) = tryFinalize S ctx v j k"
  unfolding tryFinalize_steps_def tryFinalize_def alone_simps ..

lemma classification_alone [alone_simps]:
  "alone (HandleFrame_steps S t ctx cmd2) = HandleFrame S t ctx cmd2"
  "alone (Finalize_steps S ctx i) = Finalize S ctx i"
  unfolding HandleFrame_steps_def HandleFrame_def Finalize_steps_def Finalize_def alone_simps by (rule refl)+

section \<open>The invariant, whatever the schedule\<close>

abbreviation undisturbed :: "(uuid \<rightharpoonup> video) \<Rightarrow> uuid_lib \<Rightarrow> ('a \<Rightarrow> bool) \<Rightarrow> (world, 'a) proc \<Rightarrow> bool" where
  "undisturbed H U R p \<equiv> preserves (\<lambda>w. db_after H U (w_db w)) R p"

lemmas preserves_steps = preserves_control preserves.ended
  holds_repos [THEN preserves_stmt] holds_entities [THEN preserves_stmt] holds_svc [THEN preserves_stmt]
  holds_rt_True [THEN preserves_stmt]

lemma extract_load_steps_ok: "undisturbed H U (loaded3 H U) (extract_load_steps i k)"
  unfolding extract_load_steps_def by (rule preserves_steps | force)+

lemma find_or_save_job_steps_ok:
  "(\<And>i. holds (db_after H U) job_ok (rt_op (new i))) \<Longrightarrow>
     undisturbed H U (\<lambda>r. \<forall>j. r = Inr j \<longrightarrow> job_ok j) (find_or_save_job_steps v ty new)"
  unfolding find_or_save_job_steps_def
  by (rule preserves_control preserves.ended holds_repos [THEN preserves_stmt] preserves_stmt | assumption | force)+

lemmas ensured_jobs_steps =
  holds_new_jobs(3) [THEN find_or_save_job_steps_ok] holds_new_jobs(4) [THEN find_or_save_job_steps_ok]

lemma ocr_load_steps_ok: "undisturbed H U (loaded2 H U) (ocr_load_steps i)"
  unfolding ocr_load_steps_def by (rule ensured_jobs_steps preserves_steps | force)+

lemma classify_load_steps_ok: "undisturbed H U (loaded2 H U) (classify_load_steps i)"
  unfolding classify_load_steps_def by (rule ensured_jobs_steps preserves_steps | force)+

text \<open>Uploads.\<close>

lemma IngestRemote_steps_ok: "sv_uuid S = U \<Longrightarrow> undisturbed H U (\<lambda>_. True) (IngestRemote_steps S m c)"
  unfolding IngestRemote_steps_def
  by (rule preserves_stmt [OF ConfirmUpload_ok] holds_storage [THEN preserves_stmt] preserves_steps | force)+

lemma expire_loop_steps_ok:
  "sv_uuid S = U \<Longrightarrow> \<forall>v \<in> set vs. video_after H U v \<Longrightarrow> undisturbed H U (\<lambda>_. True) (expire_loop_steps S vs)"
  by (induction vs) (auto intro!: preserves.ended preserves_bind [OF preserves_stmt [OF expire_video_ok]])

lemma ExpireStaleUploads_steps_ok: "sv_uuid S = U \<Longrightarrow> undisturbed H U (\<lambda>_. True) (ExpireStaleUploads_steps S ttl)"
  unfolding ExpireStaleUploads_steps_def
  by (rule expire_loop_steps_ok preserves_steps | force)+

text \<open>Segmentation.\<close>

lemma segment_load_steps_ok: "undisturbed H U (loaded H U) (segment_load_steps i)"
  unfolding segment_load_steps_def by (rule preserves_steps | force)+

lemma storeThumbnail_steps_ok:
  "sv_uuid S = U \<Longrightarrow> video_after H U v \<Longrightarrow> undisturbed H U (\<lambda>(err, v). video_after H U v) (storeThumbnail_steps S b v c)"
  unfolding storeThumbnail_steps_def
  by (rule holds_storage [THEN preserves_stmt] preserves_steps | force)+

lemma store_segment_files_steps_ok:
  "\<forall>s \<in> set ss. segment_ok s \<Longrightarrow> undisturbed H U made_segments (store_segment_files_steps S v j fs ss)"
proof (induction fs arbitrary: ss)
  case (Cons f fs)
  show ?case
    unfolding store_segment_files_steps.simps
    by (rule preserves_control holds_entities [THEN preserves_stmt] holds_storage [THEN preserves_stmt]
        holds_svc [THEN preserves_stmt] preserves.ended Cons.IH | use Cons.prems in force)+
qed (auto intro: preserves.ended)

lemma splitAndStore_steps_ok:
  "sv_uuid S = U \<Longrightarrow> video_after H U v \<Longrightarrow>
     undisturbed H U (\<lambda>(r, v). made_segments r \<and> video_after H U v) (splitAndStore_steps S b v j)"
  unfolding splitAndStore_steps_def
  by (rule storeThumbnail_steps_ok store_segment_files_steps_ok preserves_steps | force)+

lemma SegmentVideo_steps_ok: "sv_uuid S = U \<Longrightarrow> undisturbed H U (\<lambda>_. True) (SegmentVideo_steps S b i)"
  unfolding SegmentVideo_steps_def
  by (rule segment_load_steps_ok preserves_stmt [OF segment_markExtracting_ok] splitAndStore_steps_ok
      preserves_stmt [OF segment_markFailed_ok] preserves_stmt [OF commitSegments_ok]
      preserves_stmt [OF republishPending_ok] preserves_steps | force)+

text \<open>Extraction.\<close>

lemma ensureOCRJob_steps_ok:
  "pool_ok H U p \<Longrightarrow> undisturbed H U (\<lambda>(r, p). pool_ok H U p) (ensureOCRJob_steps p)"
  unfolding ensureOCRJob_steps_def
  by (rule preserves_case_option preserves.ended preserves_bind [where Q = "\<lambda>_. True"] preserves_on_err preserves_if_err
      holds_repos [THEN preserves_stmt] holds_new_jobs [THEN preserves_stmt]
      preserves_bind [OF preserves_stmt [OF holds_new_jobs(3)]] | force)+

lemma publishOCRRequest_steps_ok:
  assumes U: "sv_uuid S = U" and "pool_ok H U p"
  shows "undisturbed H U (\<lambda>(err, p). pool_ok H U p) (publishOCRRequest_steps S x p)"
  unfolding publishOCRRequest_steps_def U using assms(2)
  by - (rule preserves_case_prod preserves_case_sum preserves_bind [OF ensureOCRJob_steps_ok]
      preserves_bind [OF preserves_stmt [OF holds_video_recorders(3)]]
      preserves_bind [OF preserves_stmt [OF holds_WithTransaction [where Q = "video_after H U"]]]
      holds_store_pulled [OF U] preserves.ended | force)+

lemma persist_frame_steps_ok:
  assumes "sv_uuid S = U" "pool_ok H U p"
  shows "undisturbed H U (pool_ok H U) (persist_frame_steps S s x p)"
  unfolding persist_frame_steps_def using assms
  by - (rule preserves_control holds_storage [THEN preserves_stmt] holds_svc [THEN preserves_stmt]
      holds_rt_True [THEN preserves_stmt] holds_frames_UpsertAll [THEN preserves_stmt] publishOCRRequest_steps_ok
      preserves.ended | force)+

lemma submit_all_steps_ok:
  "sv_uuid S = U \<Longrightarrow> pool_ok H U p \<Longrightarrow> undisturbed H U (\<lambda>(err, p). pool_ok H U p) (submit_all_steps S s xs fin p)"
  by (induction xs arbitrary: p)
    (auto intro!: preserves.ended preserves_case_option preserves_bind [OF persist_frame_steps_ok])

lemma extractAndStore_steps_ok:
  assumes "sv_uuid S = U" "video_after H U v"
  shows "undisturbed H U (\<lambda>(r, v). video_after H U v) (extractAndStore_steps S m v j s)"
  unfolding extractAndStore_steps_def using assms
  by - (rule preserves_control holds_svc [THEN preserves_stmt] submit_all_steps_ok preserves.ended
      | force simp: newFramePersistPool_def)+

lemma cleanup_objects_steps_ok: "preserves (\<lambda>w. P (w_db w)) (\<lambda>_. True) (cleanup_objects_steps S v ss)"
  by (induction ss)
    (auto simp: cleanupSegmentObject_steps_def intro!: preserves.ended preserves_bind [where Q = "\<lambda>_. True"]
      preserves_if preserves_stmt holds_storage)

lemma cleanup_steps_ok:
  "preserves (\<lambda>w. P (w_db w)) (\<lambda>_. True) (cleanupSegmentObject_steps S v s)"
  "undisturbed H U (\<lambda>_. True) (cleanupAllSegmentObjects_steps S v)"
  by (auto simp: cleanupSegmentObject_steps_def cleanupAllSegmentObjects_steps_def
      intro!: preserves.ended preserves_bind [where Q = "\<lambda>_. True"] preserves_if preserves_stmt holds_storage
        preserves_on_err [OF preserves_stmt [OF holds_segments_ListByVideoID]] cleanup_objects_steps_ok)

lemma settle_transaction_ok:
  assumes U: "sv_uuid S = U" and "video_after H U v" "job_ok j"
  shows "holds (db_after H U) (\<lambda>(err, c). completion_ok H U c) (settle_transaction S v j s)"
  unfolding settle_transaction_def using assms(2,3)
  by - (rule holds_WithTransaction [where Q = "completion_ok H U"], simp,
      (rule settle_segment_ok finish_frames_ok [OF U] ensure_ocr_job_ok holds_store_pulled [OF U]
        holds_steps holds_ret | force)+)

lemma completeSegment_steps_ok:
  assumes U: "sv_uuid S = U" and "video_after H U v" "job_ok j"
  shows "undisturbed H U (\<lambda>_. True) (completeSegment_steps S v j s)"
  unfolding completeSegment_steps_def using assms
  by - (rule preserves_bind [OF preserves_stmt [OF settle_transaction_ok]] cleanup_steps_ok preserves_control
      preserves.ended | force)+

lemma maybeFinalize_steps_ok:
  assumes U: "sv_uuid S = U" and "video_after H U v" "job_ok j"
  shows "undisturbed H U (\<lambda>_. True) (maybeFinalize_steps S v j)"
  unfolding maybeFinalize_steps_def using assms
  by - (rule cleanup_steps_ok ensure_ocr_job_ok holds_store_pulled
      preserves_bind [OF preserves_stmt [OF holds_WithTransaction [where Q = "video_after H U"]]]
      preserves_steps holds_control holds_repos holds_ret | force)+

lemma ExtractFrames_steps_ok: "sv_uuid S = U \<Longrightarrow> undisturbed H U (\<lambda>_. True) (ExtractFrames_steps S m cmd)"
  unfolding ExtractFrames_steps_def
  by (rule extract_load_steps_ok extractAndStore_steps_ok completeSegment_steps_ok maybeFinalize_steps_ok
      preserves_stmt [OF failSegment_ok] preserves_steps | force)+

text \<open>Reading and classification.\<close>

lemma persistResults_steps_ok:
  assumes U: "sv_uuid S = U" and "video_after H U v" "job_ok j"
  shows "undisturbed H U (\<lambda>(err, v, j, k). video_after H U v \<and> job_ok j) (persistResults_steps S v j rs known)"
  unfolding persistResults_steps_def using assms
  by - (rule preserves_stmt [OF holds_progress] preserves_stmt [OF holds_request_classify] ensured_jobs_steps
      holds_store_pulled preserves_stmt [OF holds_WithTransaction [where Q = "video_after H U"]]
      preserves_control preserves.ended holds_control holds_repos holds_ret | force)+

lemma maybe_processing_steps_ok:
  "sv_uuid S = U \<Longrightarrow> video_after H U v \<Longrightarrow> job_ok j \<Longrightarrow>
     undisturbed H U (\<lambda>(err, v, j). video_after H U v \<and> job_ok j)
       (if b then stmt (ocr_markProcessing S v j n m) else Done (None, v, j))"
  by (auto intro!: preserves_stmt ocr_markProcessing_ok preserves.ended)

lemma PersistFrame_steps_ok: "sv_uuid S = U \<Longrightarrow> undisturbed H U (\<lambda>_. True) (PersistFrame_steps S mc ctx cmd)"
  unfolding PersistFrame_steps_def
  by (rule ocr_load_steps_ok maybe_processing_steps_ok persistResults_steps_ok preserves_stmt [OF ocr_failOrRetry_ok]
      preserves_stmt [OF ocr_markReady_ok] preserves_steps | force)+

lemma tryFinalize_steps_ok:
  "sv_uuid S = U \<Longrightarrow> video_after H U v \<Longrightarrow> job_ok j \<Longrightarrow> undisturbed H U (\<lambda>_. True) (tryFinalize_steps S ctx v j k)"
  unfolding tryFinalize_steps_def
  by (rule preserves_stmt [OF classify_failOrRetry_ok] preserves_stmt [OF classify_markReady_ok] preserves_steps | force)+

lemma HandleFrame_steps_ok: "sv_uuid S = U \<Longrightarrow> undisturbed H U (\<lambda>_. True) (HandleFrame_steps S t ctx cmd)"
  unfolding HandleFrame_steps_def
  by (rule classify_load_steps_ok preserves_stmt [OF classify_markProcessing_ok]
      preserves_stmt [OF persistClassifications_ok] preserves_stmt [OF classify_failOrRetry_ok]
      tryFinalize_steps_ok preserves_steps | force)+

lemma Finalize_steps_ok: "sv_uuid S = U \<Longrightarrow> undisturbed H U (\<lambda>_. True) (Finalize_steps S ctx i)"
  unfolding Finalize_steps_def
  by (rule classify_load_steps_ok tryFinalize_steps_ok preserves_steps | force)+

section \<open>Any tasks, in any order\<close>

text \<open>
  What runs at the same time: the handlers above step by step, and any request to the API, any other delivery to a
  worker and a tick of the relay, each as one step.
\<close>

datatype task =
    IngestTask int IngestRemoteCommand
  | ExpireTask duration
  | SegmentTask bool uuid
  | ExtractTask int ExtractFramesCommand
  | OcrTask real ctx PersistOCRFrameCommand
  | ClassifyTask real ctx ClassifyFrameCommand
  | FinalizeTask ctx uuid
  | RequestTask api request
  | DeliveryTask Config "nat \<Rightarrow> delivery \<Rightarrow> string \<Rightarrow> go_error option" worker ctx delivery
  | RelayTask int

fun task_steps :: "services \<Rightarrow> task \<Rightarrow> (world, go_error option) proc" where
  "task_steps S (IngestTask maxSize cmd) = IngestRemote_steps S maxSize cmd"
| "task_steps S (ExpireTask ttl) = ExpireStaleUploads_steps S ttl"
| "task_steps S (SegmentTask hasExtractor videoID) = SegmentVideo_steps S hasExtractor videoID"
| "task_steps S (ExtractTask maxWidthPx cmd) = ExtractFrames_steps S maxWidthPx cmd"
| "task_steps S (OcrTask minConfidence ctx cmd) = PersistFrame_steps S minConfidence ctx cmd"
| "task_steps S (ClassifyTask threshold ctx cmd) = HandleFrame_steps S threshold ctx cmd"
| "task_steps S (FinalizeTask ctx videoID) = Finalize_steps S ctx videoID"
| "task_steps S (RequestTask A rq) = pbind (stmt (serve (A\<lparr>ap_services := S\<rparr>) rq)) (\<lambda>_. Done None)"
| "task_steps S (DeliveryTask env dlq k ctx m) =
     pbind (stmt (handleDelivery (worker_consumer S env dlq k) ctx m)) (\<lambda>_. Done None)"
| "task_steps S (RelayTask batchSize) = stmt (relay_tick S batchSize)"

lemma task_steps_ok: "undisturbed H (sv_uuid S) (\<lambda>_. True) (task_steps S t)"
proof (cases t)
  case (RequestTask A rq)
  have "holds (db_after H (sv_uuid S)) (\<lambda>_. True) (serve (A\<lparr>ap_services := S\<rparr>) rq)"
    using keeps_serve [of H "A\<lparr>ap_services := S\<rparr>" rq] by simp
  then show ?thesis
    unfolding RequestTask task_steps.simps by (rule preserves_bind [OF preserves_stmt]) (rule preserves.ended, simp)
qed (auto intro!: IngestRemote_steps_ok ExpireStaleUploads_steps_ok SegmentVideo_steps_ok ExtractFrames_steps_ok
    PersistFrame_steps_ok HandleFrame_steps_ok Finalize_steps_ok preserves_bind [OF preserves_stmt [OF keeps_worker]]
    preserves.ended preserves_stmt keeps_relay_tick)




section \<open>What is lost\<close>

text \<open>
  Between \<open>GetByID\<close> and \<open>Update\<close> nothing guards a row: the handlers read outside a transaction, work, and write the
  whole row back. What another task has written meanwhile is gone.
\<close>

definition report ::
  "(world, go_error option) proc list \<times> world \<Rightarrow> go_error option option list \<times> string list \<times> (string \<times> string) list \<times> string list" where
  "report = (\<lambda>(ps, w). let d = w_db w in
     (map outcome ps, map v_Status (t_videos d), map (\<lambda>j. (j_Type j, j_Status j)) (t_jobs d), map ob_EventType (t_outbox d)))"

text \<open>
  The upload of a video is confirmed between the moment its expiry is decided and the moment it is written: the
  confirmed video, whose segment job is waiting, is stored as failed, and both are announced.
\<close>

definition stale_world :: world where
  "stale_world = upload_world\<lparr>w_db := (w_db upload_world)\<lparr>
     t_videos := map (\<lambda>v. v\<lparr>v_CreatedAt := - 1\<rparr>) (t_videos (w_db upload_world))\<rparr>\<rparr>"

lemma confirmed_upload_expired:
  "report (schedule [0, 0, 1, 0, 0] ([ExpireStaleUploads_steps sample_services 1,
       stmt (ConfirmUpload sample_services 0
         \<lparr>cu_StorageKey = NewStorageKey decimal_lib 900, cu_ContentType = ''video/mp4'', cu_SizeBytes = 5\<rparr>)],
       stale_world)) =
     ([Some None, Some None], [StatusFailed], [(TypeSegment, JobPending)], [''video.uploaded.v1'', ''video.upload_expired.v1''])"
  by code_simp

text \<open>
  Two tasks that finish the same video: its frame is extracted, read and classified, and the statement with number
  16 fails.
\<close>

definition ready_world :: world where
  "ready_world = unread_world\<lparr>w_db_fault := (\<lambda>n. if n = 16 then Some (External ''connection reset'') else None)\<rparr>"

definition finalizers :: "(world, go_error option) proc list" where
  "finalizers =
     [HandleFrame_steps sample_services 0 (WithAttempt None 3 3) \<lparr>cl_VideoID = 900, cl_FrameID = 902\<rparr>,
      Finalize_steps sample_services None 900]"


text \<open>
  Two segments of a video are extracted at the same time, and the second cannot be read. The video fails and this
  is announced; when the first segment is done, the video is in processing again, while its job has failed: only a
  replay of the dead letter could finish it.
\<close>

definition torn_services :: services where
  "torn_services = sample_services\<lparr>sv_get := (\<lambda>_ key. Inr key),
     sv_extract := (\<lambda>_ content _. ([], if content = ''s2'' then Some (External ''invalid data'') else None))\<rparr>"

definition two_segments_world :: world where
  "two_segments_world = extracting_world\<lparr>w_db := (w_db extracting_world)\<lparr>t_frames := [],
     t_jobs := [extracting_job\<lparr>j_ExpectedSegmentCount := 2\<rparr>, ocr_job],
     t_segments := [extracting_segment, extracting_segment\<lparr>s_ID := 915, s_SegmentIndex := 1, s_OffsetMs := 60000,
       s_StorageKey := ''s2''\<rparr>]\<rparr>\<rparr>"

definition extractions :: "(world, go_error option) proc list" where
  "extractions = map (ExtractFrames_steps torn_services 0)
     [\<lparr>ex_VideoID = 900, ex_SegmentID = 910\<rparr>, \<lparr>ex_VideoID = 900, ex_SegmentID = 915\<rparr>]"

lemma failure_undone:
  "report (schedule (replicate 3 0 @ replicate 10 1 @ replicate 9 0) (extractions, two_segments_world)) =
     ([Some None, Some (Some (NonRetryableError (NonRetryableError (External ''invalid data''))))],
      [StatusProcessing], [(TypeFrame, JobFailed), (TypeOCR, JobProcessing)], [''video.frame_extraction_failed.v1''])"
  by code_simp

end
