(* ===== verification/Fiber.thy ===== *)
theory Fiber
  imports HttpApi
begin

text \<open>
  How a request reaches its handler: the request context with its locals (\<open>internal/interfaces/http/context\<close>), the
  protocol of \<open>internal/interfaces/http/validation\<close>, by which a refusal is written at once and an error that
  stands for it is swallowed at the end, and the chain of middleware and handler. \<open>HttpApi\<close> passes the user and the
  payload as arguments and returns the response; here the chain is as it is written, and the theorem says that
  the two agree.
\<close>

section \<open>The request context\<close>

datatype local_value =
    LocalUser user
  | LocalClerkEvent ClerkEvent
  | LocalObjects "ObjectCreatedRecord list"
  | LocalIngest VideoIngestRequest

record fiber_ctx =
  fc_Locals :: "string \<rightharpoonup> local_value"
  fc_Response :: response

text \<open>What a handler returns: \<open>ErrValidationFailed\<close> is the only error of the code itself.\<close>

datatype handler_error =
    ErrValidationFailed
  | OtherError go_error

type_synonym fiber_handler = "fiber_ctx \<Rightarrow> (world, handler_error option \<times> fiber_ctx) state"

text \<open>\<open>c.Locals(key, value)\<close> and \<open>return c.Status(...).JSON(...)\<close>.\<close>

definition set_local :: "string \<Rightarrow> local_value \<Rightarrow> fiber_ctx \<Rightarrow> fiber_ctx" where
  "set_local key x c = c\<lparr>fc_Locals := (fc_Locals c)(key \<mapsto> x)\<rparr>"

definition c_JSON :: "response \<Rightarrow> fiber_handler" where
  "c_JSON r c = ret (None, c\<lparr>fc_Response := r\<rparr>)"

definition GetUser :: "fiber_ctx \<Rightarrow> go_error + user" where
  "GetUser c = (case fc_Locals c ''user'' of Some (LocalUser u) \<Rightarrow> Inr u | _ \<Rightarrow> Inl (ErrorText ''user not found''))"

definition SetUser :: "user \<Rightarrow> fiber_ctx \<Rightarrow> fiber_ctx" where
  "SetUser u c = set_local ''user'' (LocalUser u) c"

definition GetActiveProjectID :: "fiber_ctx \<Rightarrow> go_error + uuid" where
  "GetActiveProjectID c =
     (case GetUser c of
        Inl e \<Rightarrow> Inl e
      | Inr user \<Rightarrow>
          (case u_ActiveProjectID user of
             None \<Rightarrow> Inl (ErrorText ''active project is required'')
           | Some i \<Rightarrow> if i = uuid_Nil then Inl (ErrorText ''active project is required'') else Inr i))"

lemma GetUser_SetUser [simp]: "GetUser (SetUser u c) = Inr u"
  by (simp add: GetUser_def SetUser_def set_local_def)

lemma active_project_set:
  "GetActiveProjectID (SetUser u c) = Inr i \<longleftrightarrow> u_ActiveProjectID u = Some i \<and> i \<noteq> uuid_Nil"
  by (auto simp: GetActiveProjectID_def split: option.split)

section \<open>Validation\<close>

definition validation_Struct :: "field_error list \<Rightarrow> fiber_ctx \<Rightarrow> handler_error option \<times> fiber_ctx" where
  "validation_Struct errs c =
     (if errs = [] then (None, c)
      else (Some ErrValidationFailed, c\<lparr>fc_Response := json_response 400 (ValidationFailed (formatErrors errs))\<rparr>))"

text \<open>\<open>bound\<close> is what the framework binds to \<open>dst\<close>, if it can.\<close>

definition BindBody ::
  "'a option \<Rightarrow> ('a \<Rightarrow> field_error list) \<Rightarrow> fiber_ctx \<Rightarrow> (handler_error + 'a) \<times> fiber_ctx" where
  "BindBody bound rules c =
     (case bound of
        None \<Rightarrow> (Inl ErrValidationFailed, c\<lparr>fc_Response := message 400 ''Invalid request body''\<rparr>)
      | Some dst \<Rightarrow> (case validation_Struct (rules dst) c of
          (Some e, c) \<Rightarrow> (Inl e, c)
        | (None, c) \<Rightarrow> (Inr dst, c)))"

definition BindAndValidateQuery ::
  "'a option \<Rightarrow> ('a \<Rightarrow> field_error list) \<Rightarrow> fiber_ctx \<Rightarrow> (handler_error + 'a) \<times> fiber_ctx" where
  "BindAndValidateQuery bound rules c =
     (case bound of
        None \<Rightarrow> (Inl ErrValidationFailed, c\<lparr>fc_Response := message 400 ''Invalid query parameters''\<rparr>)
      | Some dst \<Rightarrow> (case validation_Struct (rules dst) c of
          (Some e, c) \<Rightarrow> (Inl e, c)
        | (None, c) \<Rightarrow> (Inr dst, c)))"

text \<open>\<open>FiberErrorHandler\<close>; \<open>default_handler\<close> is the framework's.\<close>

fun FiberErrorHandler :: "(go_error \<Rightarrow> fiber_ctx \<Rightarrow> fiber_ctx) \<Rightarrow> handler_error \<Rightarrow> fiber_ctx \<Rightarrow> fiber_ctx" where
  "FiberErrorHandler default_handler ErrValidationFailed c = c"
| "FiberErrorHandler default_handler (OtherError e) c = default_handler e c"

text \<open>The name by which a field is reported: from its tag \<open>json\<close>, else \<open>query\<close>, else its own.\<close>

definition tagName :: "(string \<Rightarrow> string) \<Rightarrow> string \<Rightarrow> string" where
  "tagName tags key = (let name = hd (Split (tags key) (CHR '','')) in if name = '''' \<or> name = ''-'' then '''' else name)"

definition reported_name :: "(string \<Rightarrow> string) \<Rightarrow> string \<Rightarrow> string" where
  "reported_name tags fld =
     (if tagName tags ''json'' \<noteq> '''' then tagName tags ''json''
      else if tagName tags ''query'' \<noteq> '''' then tagName tags ''query'' else fld)"

section \<open>The protected group\<close>

text \<open>The start of each handler.\<close>

definition with_user :: "fiber_ctx \<Rightarrow> (user \<Rightarrow> (world, handler_error option \<times> fiber_ctx) state)
    \<Rightarrow> (world, handler_error option \<times> fiber_ctx) state" where
  "with_user c k = (case GetUser c of Inl e \<Rightarrow> c_JSON (message 401 ''Unauthorized'') c | Inr user \<Rightarrow> k user)"

definition admit_next :: "user \<Rightarrow> fiber_handler \<Rightarrow> fiber_handler" where
  "admit_next user next_handler c =
     (if u_Banned user then c_JSON (message 401 ''User is banned'') c else next_handler (SetUser user c))"

definition Authenticate_Protected :: "api \<Rightarrow> request \<Rightarrow> fiber_handler \<Rightarrow> fiber_handler" where
  "Authenticate_Protected A rq next_handler c =
     (case bearer_token (authorization rq) of
        Inl why \<Rightarrow> c_JSON (message 401 why) c
      | Inr token \<Rightarrow>
          on_err (ValidateToken A token)
            (\<lambda>e. c_JSON (message 401 ''Invalid token'') c)
            (\<lambda>(found, claims). case found of
               Some user \<Rightarrow> admit_next user next_handler c
             | None \<Rightarrow>
                 let clerkID = claims_clerk_id claims
                 in on_err (svc (\<lambda>n. ap_fetch_user A n clerkID))
                      (\<lambda>e. c_JSON (message 401 ''Failed to get user'') c)
                      (\<lambda>cu. on_err (CreateUser (ap_services A) \<lparr>nu_ClerkID = clerkID, nu_FirstName = cu_FirstName cu,
                          nu_LastName = cu_LastName cu, nu_Email = cu_Email cu, nu_Banned = cu_Banned cu\<rparr>)
                        (\<lambda>e. c_JSON (message 401 ''Failed to create user'') c)
                        (\<lambda>user. admit_next user next_handler c))))"

definition VideoHandler_RequestUploadURL :: "api \<Rightarrow> request \<Rightarrow> fiber_handler" where
  "VideoHandler_RequestUploadURL A rq c = with_user c (\<lambda>user.
     case BindBody (ap_bind_upload A rq) (va_upload (ap_validators A)) c of
       (Inl e, c) \<Rightarrow> ret (Some e, c)
     | (Inr req, c) \<Rightarrow>
         on_err (RequestUploadURL (ap_services A) (env_UploadURLTTL (ap_env A))
             \<lparr>ru_UserID = u_ID user, ru_Filename = uq_Filename req, ru_ContentType = uq_ContentType req,
              ru_SizeBytes = uq_SizeBytes req\<rparr>)
           (\<lambda>e. if errors_Is e ErrInvalidFilename \<or> errors_Is e ErrUnsupportedType
                then c_JSON (message 400 ''Unsupported video type'') c
                else c_JSON (message 500 ''Failed to generate upload url'') c)
           (\<lambda>result. c_JSON (json_response 201 (UploadURL (NewRequestUploadURLResponse result))) c))"

definition VideoHandler_List :: "api \<Rightarrow> request \<Rightarrow> fiber_handler" where
  "VideoHandler_List A rq c = with_user c (\<lambda>user.
     case ap_bind_query A rq of
       None \<Rightarrow> c_JSON (message 400 ''Invalid query parameters'') c
     | Some q0 \<Rightarrow>
         let q = list_query q0
         in on_err (ListVideos (ap_services A) (u_ID user) q)
              (\<lambda>e. c_JSON (message 500 ''Failed to list videos'') c)
              (\<lambda>(views, cnt). c_JSON (json_response 200 (VideoList
                 (NewPaginateResponse (NewVideoListResponseFromViews (sv_uuid (ap_services A)) views) cnt q))) c))"

definition VideoHandler_GetByID :: "api \<Rightarrow> string \<Rightarrow> fiber_handler" where
  "VideoHandler_GetByID A param c = with_user c (\<lambda>user.
     case uuid_Parse (sv_uuid (ap_services A)) param of
       None \<Rightarrow> c_JSON (message 400 ''Invalid video id'') c
     | Some videoID \<Rightarrow>
         on_err (GetVideoByID (ap_services A) videoID (u_ID user))
           (\<lambda>e. if errors_Is e ErrVideoNotFound then c_JSON (message 404 ''Video not found'') c
                else c_JSON (message 500 ''Failed to get video'') c)
           (\<lambda>view. c_JSON (json_response 200
              (VideoDetail (NewVideoDetailResponseFromView (sv_uuid (ap_services A)) view))) c))"

definition UserHandler_GetUser :: "api \<Rightarrow> fiber_handler" where
  "UserHandler_GetUser A c = with_user c (\<lambda>user.
     on_err (GetUserByID (u_ID user))
       (\<lambda>e. c_JSON (message 500 ''Failed to get user'') c)
       (\<lambda>view. c_JSON (json_response 200 (UserDetail (NewUserDetailResponseFromView (sv_uuid (ap_services A)) view))) c))"

definition RealtimeHandler_GetConnection :: "api \<Rightarrow> fiber_handler" where
  "RealtimeHandler_GetConnection A c = with_user c (\<lambda>user.
     on_err (NewConnectionInfo A (u_ID user))
       (\<lambda>e. c_JSON (message 500 ''Failed to create realtime connection'') c)
       (\<lambda>(token, channel, url). c_JSON (json_response 200 (RealtimeConnection token channel url)) c))"

definition setupAPIRoutes :: "api \<Rightarrow> request \<Rightarrow> fiber_handler option" where
  "setupAPIRoutes A rq =
     (if rq_Method rq = ''POST'' \<and> rq_Path rq = [''api'', ''videos'', ''upload-url'']
      then Some (VideoHandler_RequestUploadURL A rq)
      else if rq_Method rq = ''GET'' \<and> rq_Path rq = [''api'', ''videos''] then Some (VideoHandler_List A rq)
      else if rq_Method rq = ''GET'' \<and> rq_Path rq = [''api'', ''realtime'', ''connection'']
      then Some (RealtimeHandler_GetConnection A)
      else if rq_Method rq = ''GET'' \<and> rq_Path rq = [''api'', ''users'', ''me''] then Some (UserHandler_GetUser A)
      else if rq_Method rq = ''GET'' \<and> length (rq_Path rq) = 3 \<and> take 2 (rq_Path rq) = [''api'', ''videos'']
          \<and> rq_Path rq ! 2 \<noteq> '''' then Some (VideoHandler_GetByID A (rq_Path rq ! 2))
      else None)"

section \<open>The webhooks\<close>

definition UserWebhook_Protected :: "api \<Rightarrow> request \<Rightarrow> fiber_handler \<Rightarrow> fiber_handler" where
  "UserWebhook_Protected A rq next_handler c =
     (if \<not> ap_svix_verify A (env_ClerkWebhookSecret (ap_env A)) (rq_Raw rq) (rq_Headers rq)
      then c_JSON (message 401 ''invalid signature'') c
      else case Unmarshal_ClerkEvent (rq_Body rq) of
             None \<Rightarrow> c_JSON (message 401 ''invalid payload'') c
           | Some clerkEvent \<Rightarrow> next_handler (set_local ''payload'' (LocalClerkEvent clerkEvent) c))"

text \<open>A panic ends the process, and there is no response.\<close>

definition panics :: fiber_handler where
  "panics = c_JSON (json_response 0 Panicked)"

definition user_data ::
  "api \<Rightarrow> payload \<Rightarrow> fiber_ctx \<Rightarrow> (ClerkUserData \<Rightarrow> bool \<Rightarrow> fiber_handler) \<Rightarrow> (world, handler_error option \<times> fiber_ctx) state" where
  "user_data A p c k =
     (case Unmarshal_ClerkUserData p of
        None \<Rightarrow> c_JSON (message 400 ''Invalid request body'') c
      | Some data \<Rightarrow> (case validation_Struct (va_created (ap_validators A) data) c of
          (Some e, c) \<Rightarrow> ret (Some e, c)
        | (None, c) \<Rightarrow> (case ck_Banned data of None \<Rightarrow> panics c | Some b \<Rightarrow> k data b c)))"

definition UserWebhook_Execute :: "api \<Rightarrow> fiber_handler" where
  "UserWebhook_Execute A c =
     (case fc_Locals c ''payload'' of
        Some (LocalClerkEvent clerkEvent) \<Rightarrow>
          (if ce_Type clerkEvent = ''user.created'' then
             user_data A (ce_Data clerkEvent) c (\<lambda>data banned c.
               if_err (createUser A data banned)
                 (\<lambda>e. c_JSON (message 500 ''Failed to create user'') c)
                 (c_JSON (json_response 201 NoBody) c))
           else if ce_Type clerkEvent = ''user.updated'' then
             user_data A (ce_Data clerkEvent) c (\<lambda>data banned c.
               if_err (updateUser A data banned)
                 (\<lambda>e. if errors_Is e ErrUserNotFound then c_JSON (message 404 ''User not found'') c
                      else c_JSON (message 500 ''Failed to update user'') c)
                 (c_JSON (json_response 204 NoBody) c))
           else if ce_Type clerkEvent = ''user.deleted'' then
             (case Unmarshal_ClerkUserDeleted (ce_Data clerkEvent) of
                None \<Rightarrow> c_JSON (message 400 ''Invalid request body'') c
              | Some clerkID \<Rightarrow> (case validation_Struct (va_deleted (ap_validators A) clerkID) c of
                  (Some e, c) \<Rightarrow> ret (Some e, c)
                | (None, c) \<Rightarrow>
                    if_err (DeleteUserByExternalID (ap_services A) clerkID)
                      (\<lambda>e. c_JSON (message 500 ''Failed to delete user'') c)
                      (c_JSON (json_response 204 NoBody) c)))
           else c_JSON (json_response 200 NoBody) c)
      | _ \<Rightarrow> panics c)"

definition StorageWebhook_Protected :: "api \<Rightarrow> request \<Rightarrow> fiber_handler \<Rightarrow> fiber_handler" where
  "StorageWebhook_Protected A rq next_handler c =
     (let secret = env_MinIOWebhookSecret (ap_env A); authHeader = authorization rq
      in if secret = '''' then c_JSON (message 401 ''invalid authorization'') c
         else if authHeader \<noteq> ''Bearer '' @ secret \<and> authHeader \<noteq> secret
         then c_JSON (message 401 ''invalid authorization'') c
         else case Unmarshal_ObjectCreatedEvent (rq_Body rq) of
                None \<Rightarrow> c_JSON (message 400 ''Invalid request body'') c
              | Some recs \<Rightarrow> next_handler (set_local ''payload'' (LocalObjects recs) c))"

fun confirm_records :: "api \<Rightarrow> ObjectCreatedRecord list \<Rightarrow> fiber_handler" where
  "confirm_records A [] c = c_JSON (json_response 200 NoBody) c"
| "confirm_records A (rec # recs) c =
     if_err (processRecord A rec)
       (\<lambda>e. if tolerated e then confirm_records A recs c else c_JSON (message 500 ''Failed to confirm upload'') c)
       (confirm_records A recs c)"

definition StorageWebhook_ObjectCreated :: "api \<Rightarrow> fiber_handler" where
  "StorageWebhook_ObjectCreated A c =
     (case fc_Locals c ''payload'' of
        Some (LocalObjects recs) \<Rightarrow> (case validation_Struct (va_objects (ap_validators A) recs) c of
          (Some e, c) \<Rightarrow> ret (Some e, c)
        | (None, c) \<Rightarrow> confirm_records A recs c)
      | _ \<Rightarrow> c_JSON (message 400 ''Invalid request body'') c)"

definition VideoWebhook_Protected :: "api \<Rightarrow> request \<Rightarrow> fiber_handler \<Rightarrow> fiber_handler" where
  "VideoWebhook_Protected A rq next_handler c =
     (let secret = env_VideoWebhookSecret (ap_env A)
      in if secret = '''' then c_JSON (message 401 ''invalid signature'') c
         else if \<not> validHMAC A secret (rq_Raw rq) (rq_Headers rq ''X-Signature'')
         then c_JSON (message 401 ''invalid signature'') c
         else case Unmarshal_VideoIngestRequest (rq_Body rq) of
                None \<Rightarrow> c_JSON (message 400 ''Invalid request body'') c
              | Some req \<Rightarrow> next_handler (set_local ''payload'' (LocalIngest req) c))"

definition VideoWebhook_Ingest :: "api \<Rightarrow> fiber_handler" where
  "VideoWebhook_Ingest A c =
     (case fc_Locals c ''payload'' of
        Some (LocalIngest req) \<Rightarrow> (case validation_Struct (va_ingest (ap_validators A) req) c of
          (Some e, c) \<Rightarrow> ret (Some e, c)
        | (None, c) \<Rightarrow>
            let filename = (if vr_Filename req = '''' then filepath_Base (vr_VideoURL req) else vr_Filename req)
            in on_err (RequestIngest (ap_services A)
                 \<lparr>ri_RemoteURL = vr_VideoURL req, ri_Filename = filename, ri_ContentType = vr_ContentType req,
                  ri_SizeBytes = vr_SizeBytes req\<rparr>)
               (\<lambda>e. if errors_Is e ErrInvalidFilename \<or> errors_Is e ErrUnsupportedType
                    then c_JSON (message 400 ''Unsupported video type'') c
                    else c_JSON (message 500 ''Failed to ingest video'') c)
               (\<lambda>videoID. c_JSON (json_response 202 (Ingested (NewVideoIngestResponse videoID))) c))
      | _ \<Rightarrow> c_JSON (message 400 ''Invalid request body'') c)"

section \<open>The chains\<close>

definition setupRoutes :: "api \<Rightarrow> request \<Rightarrow> fiber_handler" where
  "setupRoutes A rq =
     (if rq_Method rq = ''POST'' \<and> rq_Path rq = [''webhooks'', ''clerk'']
      then UserWebhook_Protected A rq (UserWebhook_Execute A)
      else if rq_Method rq = ''POST'' \<and> rq_Path rq = [''webhooks'', ''minio'', ''object-created'']
      then StorageWebhook_Protected A rq (StorageWebhook_ObjectCreated A)
      else if rq_Method rq = ''POST'' \<and> rq_Path rq = [''webhooks'', ''videos'']
      then VideoWebhook_Protected A rq (VideoWebhook_Ingest A)
      else if take 1 (rq_Path rq) = [''api'']
      then Authenticate_Protected A rq
             (case setupAPIRoutes A rq of Some handler \<Rightarrow> handler | None \<Rightarrow> c_JSON (unrouted A rq))
      else c_JSON (unrouted A rq))"

text \<open>The response to a handler's result: what was written, after the error handler of the application.\<close>

definition answered ::
  "(go_error \<Rightarrow> fiber_ctx \<Rightarrow> fiber_ctx) \<Rightarrow> (world, handler_error option \<times> fiber_ctx) state \<Rightarrow> (world, response) state" where
  "answered default_handler m = State_Monad.bind m (\<lambda>(err, c).
     ret (fc_Response (case err of None \<Rightarrow> c | Some e \<Rightarrow> FiberErrorHandler default_handler e c)))"

definition fresh_ctx :: fiber_ctx where
  "fresh_ctx = \<lparr>fc_Locals = Map.empty, fc_Response = json_response 200 NoBody\<rparr>"

named_theorems answered_simps

lemma answered_end [answered_simps]:
  "answered d (c_JSON r c) = ret r"
  "answered d (panics c) = ret (json_response 0 Panicked)"
  "answered d (ret (Some ErrValidationFailed, c)) = ret (fc_Response c)"
  by (simp_all add: answered_def c_JSON_def panics_def)

lemma answered_control [answered_simps]:
  "answered d (on_err m h k) = on_err m (\<lambda>e. answered d (h e)) (\<lambda>x. answered d (k x))"
  "answered d (if_err p g q) = if_err p (\<lambda>e. answered d (g e)) (answered d q)"
  by (auto simp: answered_def on_err_def if_err_def intro!: arg_cong2 [where f = State_Monad.bind] ext
      split: sum.split option.split)

lemma answered_if [answered_simps]: "answered d (if b then m else n) = (if b then answered d m else answered d n)"
  by simp

lemma answered_case [answered_simps]:
  "answered d (case x of None \<Rightarrow> m | Some y \<Rightarrow> f y) = (case x of None \<Rightarrow> answered d m | Some y \<Rightarrow> answered d (f y))"
  "answered d (case z of Inl y \<Rightarrow> g y | Inr y \<Rightarrow> h y) = (case z of Inl y \<Rightarrow> answered d (g y) | Inr y \<Rightarrow> answered d (h y))"
  "answered d (case p of (a, b) \<Rightarrow> k a b) = (case p of (a, b) \<Rightarrow> answered d (k a b))"
  by (simp_all split: option.split sum.split prod.split)

lemmas under_cases = option.case_cong sum.case_cong prod.case_cong if_cong

text \<open>Validation writes the refusal and returns the error that is swallowed.\<close>

lemma answered_validation:
  "answered d (case validation_Struct es c of (None, c) \<Rightarrow> k c | (Some e, c) \<Rightarrow> ret (Some e, c)) =
     (case validate_Struct es of Some refused \<Rightarrow> ret refused | None \<Rightarrow> answered d (k c))"
  by (simp add: validation_Struct_def validate_Struct_def answered_simps)

lemma answered_body:
  "answered d (case BindBody bound rules c of (Inl e, c) \<Rightarrow> ret (Some e, c) | (Inr x, c) \<Rightarrow> k x c) =
     (case bound of
        None \<Rightarrow> ret (message 400 ''Invalid request body'')
      | Some x \<Rightarrow> (case validate_Struct (rules x) of Some refused \<Rightarrow> ret refused | None \<Rightarrow> answered d (k x c)))"
  by (simp add: BindBody_def validation_Struct_def validate_Struct_def answered_simps split: option.split)

lemma answered_admit [answered_simps]:
  assumes "\<And>c. GetUser c = Inr user \<Longrightarrow> answered d (next_handler c) = k user"
  shows "answered d (admit_next user next_handler c) = admit user k"
  by (simp add: admit_next_def admit_def answered_simps assms)

lemma with_user_set: "GetUser c = Inr user \<Longrightarrow> with_user c k = k user"
  by (simp add: with_user_def)

lemma answered_upload:
  assumes "GetUser c = Inr user"
  shows "answered d (VideoHandler_RequestUploadURL A rq c) = upload_url_handler A rq user"
  unfolding VideoHandler_RequestUploadURL_def with_user_set [OF assms] answered_body upload_url_handler_def
  by (simp add: answered_simps cong: under_cases)

lemma answered_protected:
  assumes "setupAPIRoutes A rq = Some h" "GetUser c = Inr user"
  shows "\<exists>handler. protected_routes A rq = Some handler \<and> answered d (h c) = handler user"
  using assms
  by (auto simp: setupAPIRoutes_def protected_routes_def answered_upload VideoHandler_List_def VideoHandler_GetByID_def
      UserHandler_GetUser_def RealtimeHandler_GetConnection_def list_handler_def detail_handler_def me_handler_def
      connection_handler_def with_user_set answered_simps Let_def cong: under_cases split: if_splits)

lemma routes_agree: "setupAPIRoutes A rq = None \<longleftrightarrow> protected_routes A rq = None"
  by (simp add: setupAPIRoutes_def protected_routes_def)

lemma answered_authenticate:
  assumes "\<And>user c. GetUser c = Inr user \<Longrightarrow> answered d (next_handler c) = k user"
  shows "answered d (Authenticate_Protected A rq next_handler c) = authenticate A rq k"
  by (simp add: Authenticate_Protected_def authenticate_def answered_simps answered_admit [OF assms] Let_def cong: under_cases)

lemma answered_user_data: "answered d (user_data A p c k) = with_user_data A p (\<lambda>data b. answered d (k data b c))"
  by (simp add: user_data_def with_user_data_def validation_Struct_def validate_Struct_def answered_simps split: option.split)

lemma answered_clerk: "answered d (UserWebhook_Protected A rq (UserWebhook_Execute A) c) = clerk_webhook A rq"
proof -
  have "answered d (UserWebhook_Execute A (set_local ''payload'' (LocalClerkEvent ev) c)) = clerk_Execute A ev" for ev
    by (simp add: UserWebhook_Execute_def clerk_Execute_def set_local_def answered_user_data validation_Struct_def
        validate_Struct_def answered_simps cong: under_cases split: option.split)
  then show ?thesis by (simp add: UserWebhook_Protected_def clerk_webhook_def answered_simps cong: under_cases)
qed

lemma answered_storage: "answered d (StorageWebhook_Protected A rq (StorageWebhook_ObjectCreated A) c) = storage_webhook A rq"
proof -
  have "answered d (confirm_records A recs c) = process_records A recs" for recs c
    by (induction A recs c rule: confirm_records.induct) (simp_all add: answered_simps cong: under_cases)
  then show ?thesis
    by (simp add: StorageWebhook_Protected_def StorageWebhook_ObjectCreated_def storage_webhook_def set_local_def
        validation_Struct_def validate_Struct_def answered_simps Let_def cong: under_cases split: option.split)
qed

lemma answered_ingest: "answered d (VideoWebhook_Protected A rq (VideoWebhook_Ingest A) c) = video_webhook A rq"
  by (simp add: VideoWebhook_Protected_def VideoWebhook_Ingest_def video_webhook_def ingest_handler_def set_local_def
      validation_Struct_def validate_Struct_def answered_simps Let_def cong: under_cases split: option.split)


end
