(* ===== verification/Programs.thy ===== *)
theory Programs
  imports Gateways Broker Schema Races Fiber
begin

text \<open>
  The programs as they start and stop (\<open>cmd/*/main.go\<close>, \<open>cmd/*/di/container.go\<close>,
  \<open>internal/infrastructure/config/database.go\<close>, \<open>cmd/cli\<close>): the settings, the connection to the database, the
  check of its schema, the container, the loops; and what becomes of a handler that is running when its
  program stops. What a program starts with is a parameter: the environment and the calls of libraries that may
  fail.
\<close>

section \<open>Ending a program\<close>

text \<open>
  \<open>log.Panicf\<close> in \<open>config.Load\<close>, and \<open>log.Fatalf\<close>, which ends the process with status 1 and runs no deferred
  call.
\<close>

datatype exit_cause =
    ConfigPanic
  | Fatal string go_error

record 'k surroundings =
  su_strconv :: strconv_lib
  su_environment :: environment
  su_gorm_Open :: "string \<Rightarrow> go_error option"      \<comment> \<open>\<open>gorm.Open\<close> with a DSN\<close>
  su_db_DB :: "nat \<Rightarrow> go_error option"          \<comment> \<open>the calls of \<open>db.DB()\<close>\<close>
  su_inspect :: "string \<Rightarrow> go_error option"        \<comment> \<open>\<open>ColumnTypes\<close> of a table\<close>
  su_amqp :: "nat \<Rightarrow> go_error option"
  su_s3 :: "nat \<Rightarrow> go_error option"
  su_keyfunc :: "string \<Rightarrow> go_error + 'k"
  su_goose_Status :: "go_error option"
  su_listen :: "string \<Rightarrow> go_error"               \<comment> \<open>what \<open>Listen\<close> returns with\<close>

text \<open>\<open>x, err := m\<close>, or end the program.\<close>

definition or_fatal ::
  "string \<Rightarrow> ('s, go_error + 'a) state \<Rightarrow> ('a \<Rightarrow> ('s, exit_cause + 'b) state) \<Rightarrow> ('s, exit_cause + 'b) state" where
  "or_fatal what m k = on_err m (\<lambda>e. ret (Inl (Fatal what e))) k"

section \<open>The database\<close>

record sql_pool =
  sq_DSN :: string
  sq_MaxOpenConns :: int
  sq_MaxIdleConns :: int
  sq_ConnMaxLifetime :: duration
  sq_ConnMaxIdleTime :: duration

definition ConnectDatabase :: "'k surroundings \<Rightarrow> Config \<Rightarrow> exit_cause + sql_pool" where
  "ConnectDatabase u cfg =
     (case su_gorm_Open u (env_DatabaseURL cfg) of
        Some e \<Rightarrow> Inl (Fatal ''failed to connect to database'' e)
      | None \<Rightarrow> (case su_db_DB u 0 of
          Some e \<Rightarrow> Inl (Fatal ''failed to get database instance'' e)
        | None \<Rightarrow> Inr \<lparr>sq_DSN = env_DatabaseURL cfg, sq_MaxOpenConns = 25, sq_MaxIdleConns = 5,
            sq_ConnMaxLifetime = 5 * 60 * 10 ^ 9, sq_ConnMaxIdleTime = 10 * 60 * 10 ^ 9\<rparr>))"

text \<open>What every \<open>main\<close> of a server begins with; \<open>s\<close> is the schema of the database.\<close>

definition prepare :: "'k surroundings \<Rightarrow> schema \<Rightarrow> exit_cause + Config \<times> sql_pool" where
  "prepare u s =
     (case Load (su_strconv u) (su_environment u) of
        None \<Rightarrow> Inl ConfigPanic
      | Some env \<Rightarrow> (case ConnectDatabase u env of
          Inl x \<Rightarrow> Inl x
        | Inr pool \<Rightarrow> (case AssertModelsMatchDB (su_inspect u) s of
            Some e \<Rightarrow> Inl (Fatal ''schema check failed'' e)
          | None \<Rightarrow> Inr (env, pool))))"

lemma prepare_Inr:
  "prepare u s = Inr (env, pool) \<Longrightarrow> Load (su_strconv u) (su_environment u) = Some env \<and>
     AssertModelsMatchDB (su_inspect u) s = None \<and> sq_DSN pool = env_DatabaseURL env"
  by (auto simp: prepare_def ConnectDatabase_def split: option.splits)

section \<open>The containers of the workers\<close>

fun concurrency_of :: "Config \<Rightarrow> worker \<Rightarrow> int" where
  "concurrency_of env MainWorker = env_WorkerConcurrency env"
| "concurrency_of env SegmentWorker = env_SegmentConcurrency env"
| "concurrency_of env FrameWorker = env_FrameConcurrency env"
| "concurrency_of env ClassifyWorker = env_ClassifyConcurrency env"

text \<open>Bindings that an earlier release made and that are taken back; only the frame worker has one.\<close>

fun legacy_keys :: "worker \<Rightarrow> string list" where
  "legacy_keys FrameWorker = [''video.uploaded.v1'']"
| "legacy_keys k = []"

text \<open>The classifying worker has no use for the object store.\<close>

fun uses_storage :: "worker \<Rightarrow> bool" where
  "uses_storage ClassifyWorker = False"
| "uses_storage k = True"

record Container =
  ct_Conn :: Connection
  ct_Storage :: "MinIOStorage option"
  ct_Consumer :: "world consumer"
  ct_Concurrency :: int
  ct_Relay :: "(duration \<times> nat) option"              \<comment> \<open>interval and batch size, of the main worker\<close>
  ct_ExpireUploads :: "(duration \<times> duration) option"   \<comment> \<open>interval and time to live, of the main worker\<close>

definition relay_interval :: "duration \<Rightarrow> duration" where
  "relay_interval interval = (if interval \<le> 0 then 2 * 10 ^ 9 else interval)"

definition open_storage :: "'k surroundings \<Rightarrow> Config \<Rightarrow> worker \<Rightarrow> (broker, go_error + MinIOStorage option) state" where
  "open_storage u env k = ret (if uses_storage k then map_sum id Some (NewMinIOStorage (su_s3 u) env) else Inr None)"

definition NewContainer ::
  "'k surroundings \<Rightarrow> services \<Rightarrow> (nat \<Rightarrow> delivery \<Rightarrow> string \<Rightarrow> go_error option) \<Rightarrow> worker \<Rightarrow> Config
     \<Rightarrow> (broker, exit_cause + Container) state" where
  "NewContainer u S dlq k env =
     or_fatal ''failed to connect to rabbitmq'' (Connect (su_amqp u) (topology_of env k) []) (\<lambda>conn. do {
       _ \<leftarrow> UnbindLegacy (su_amqp u) conn (legacy_keys k);
       or_fatal ''failed to create storage client'' (open_storage u env k) (\<lambda>storage.
         ret (Inr \<lparr>ct_Conn = conn, ct_Storage = storage, ct_Consumer = worker_consumer S env dlq k,
           ct_Concurrency = concurrency_of env k,
           ct_Relay = (if k = MainWorker
             then Some (relay_interval (env_OutboxPollInterval env), relay_batch_size 50) else None),
           ct_ExpireUploads = (if k = MainWorker
             then Some (env_ExpireUploadsInterval env, env_UploadURLTTL env) else None)\<rparr>)) })"

section \<open>A worker from its start to its stop\<close>

fun stopped_text :: "worker \<Rightarrow> string" where
  "stopped_text MainWorker = ''worker stopped with error''"
| "stopped_text SegmentWorker = ''segment worker stopped with error''"
| "stopped_text FrameWorker = ''frame worker stopped with error''"
| "stopped_text ClassifyWorker = ''classify worker stopped with error''"

text \<open>\<open>main\<close> up to the loop over the deliveries: the settings, the container and the number of goroutines.\<close>

definition worker_start ::
  "'k surroundings \<Rightarrow> services \<Rightarrow> (nat \<Rightarrow> delivery \<Rightarrow> string \<Rightarrow> go_error option) \<Rightarrow> schema \<Rightarrow> worker
     \<Rightarrow> (broker, exit_cause + Config \<times> Container \<times> nat) state" where
  "worker_start u S dlq s k =
     (case prepare u s of
        Inl x \<Rightarrow> ret (Inl x)
      | Inr (env, pool) \<Rightarrow>
          on_err (NewContainer u S dlq k env) (\<lambda>x. ret (Inl x)) (\<lambda>c.
            or_fatal (stopped_text k) (consumer_Start (su_amqp u) (\<lambda>_ b. b) (\<lambda>b. b) (ct_Concurrency c))
              (\<lambda>n. ret (Inr (env, c, n)))))"

text \<open>
  The whole of \<open>main\<close>: when the loop ends, on a signal or because the broker closed the channel, \<open>Start\<close> returns
  nil and the deferred \<open>Close\<close> runs. The exit status is 0.
\<close>

definition worker_main ::
  "'k surroundings \<Rightarrow> services \<Rightarrow> (nat \<Rightarrow> delivery \<Rightarrow> string \<Rightarrow> go_error option) \<Rightarrow> schema \<Rightarrow> worker
     \<Rightarrow> (broker, exit_cause option) state" where
  "worker_main u S dlq s k =
     on_err (worker_start u S dlq s k) (\<lambda>x. ret (Some x)) (\<lambda>_. do { _ \<leftarrow> Close; ret None })"

text \<open>The containers and programs of the other three workers.\<close>

definition segment_NewContainer ::
  "'k surroundings \<Rightarrow> services \<Rightarrow> (nat \<Rightarrow> delivery \<Rightarrow> string \<Rightarrow> go_error option) \<Rightarrow> Config
     \<Rightarrow> (broker, exit_cause + Container) state" where
  "segment_NewContainer u S dlq env = NewContainer u S dlq SegmentWorker env"

definition frame_NewContainer ::
  "'k surroundings \<Rightarrow> services \<Rightarrow> (nat \<Rightarrow> delivery \<Rightarrow> string \<Rightarrow> go_error option) \<Rightarrow> Config
     \<Rightarrow> (broker, exit_cause + Container) state" where
  "frame_NewContainer u S dlq env = NewContainer u S dlq FrameWorker env"

definition classify_NewContainer ::
  "'k surroundings \<Rightarrow> services \<Rightarrow> (nat \<Rightarrow> delivery \<Rightarrow> string \<Rightarrow> go_error option) \<Rightarrow> Config
     \<Rightarrow> (broker, exit_cause + Container) state" where
  "classify_NewContainer u S dlq env = NewContainer u S dlq ClassifyWorker env"

definition segment_main ::
  "'k surroundings \<Rightarrow> services \<Rightarrow> (nat \<Rightarrow> delivery \<Rightarrow> string \<Rightarrow> go_error option) \<Rightarrow> schema
     \<Rightarrow> (broker, exit_cause option) state" where
  "segment_main u S dlq s = worker_main u S dlq s SegmentWorker"

definition frame_main ::
  "'k surroundings \<Rightarrow> services \<Rightarrow> (nat \<Rightarrow> delivery \<Rightarrow> string \<Rightarrow> go_error option) \<Rightarrow> schema
     \<Rightarrow> (broker, exit_cause option) state" where
  "frame_main u S dlq s = worker_main u S dlq s FrameWorker"

definition classify_main ::
  "'k surroundings \<Rightarrow> services \<Rightarrow> (nat \<Rightarrow> delivery \<Rightarrow> string \<Rightarrow> go_error option) \<Rightarrow> schema
     \<Rightarrow> (broker, exit_cause option) state" where
  "classify_main u S dlq s = worker_main u S dlq s ClassifyWorker"

text \<open>
  The goroutine \<open>expireStaleUploads\<close>: the interval of its ticker, and what its \<open>select\<close> sees, one after the other.
  Errors are logged.
\<close>

definition expire_interval :: "duration \<Rightarrow> duration" where
  "expire_interval interval = (if interval \<le> 0 then 60 * 10 ^ 9 else interval)"

datatype timer_event = Tick | CtxDone

fun expireStaleUploads :: "services \<Rightarrow> duration \<Rightarrow> timer_event list \<Rightarrow> (world, unit) state" where
  "expireStaleUploads S ttl [] = ret ()"
| "expireStaleUploads S ttl (CtxDone # _) = ret ()"
| "expireStaleUploads S ttl (Tick # ts) = do { _ \<leftarrow> ExpireStaleUploads S ttl; expireStaleUploads S ttl ts }"

text \<open>\<open>Relay.Start\<close>, the other goroutine of the main worker.\<close>

fun Relay_Start :: "services \<Rightarrow> int \<Rightarrow> timer_event list \<Rightarrow> (world, unit) state" where
  "Relay_Start S batchSize [] = ret ()"
| "Relay_Start S batchSize (CtxDone # _) = ret ()"
| "Relay_Start S batchSize (Tick # ts) = do { _ \<leftarrow> relay_tick S batchSize; Relay_Start S batchSize ts }"

text \<open>The tickers of the goroutines \<open>main\<close> starts. \<open>time.NewTicker\<close> panics on an interval that is not positive.\<close>

definition worker_tickers :: "Container \<Rightarrow> duration list" where
  "worker_tickers c =
     (case ct_Relay c of None \<Rightarrow> [] | Some (interval, _) \<Rightarrow> [interval]) @
     (case ct_ExpireUploads c of None \<Rightarrow> [] | Some (interval, _) \<Rightarrow> [expire_interval interval])"

lemma tickers_do_not_panic:
  "wp (NewContainer u S dlq k env) (\<lambda>r _. \<forall>c i. r = Inr c \<longrightarrow> i \<in> set (worker_tickers c) \<longrightarrow> i > 0) b"
  unfolding NewContainer_def or_fatal_def wp_on_err [of "Connect _ _ _"]
proof (rule wp_mono [OF wp_True], goal_cases)
  case (1 r b1)
  show ?case
  proof (cases r)
    case (Inr conn)
    show ?thesis
      unfolding Inr sum.case wp_bind
      by (rule wp_mono [OF wp_True])
        (auto simp: open_storage_def wp_simps worker_tickers_def relay_interval_def expire_interval_def
          split: sum.split if_splits)
  qed (simp add: wp_ret)
qed

lemma keeps_timers: "keeps H S (expireStaleUploads S ttl ts)" "keeps H S (Relay_Start S n ts)"
proof -
  show "keeps H S (expireStaleUploads S ttl ts)"
    by (induction S ttl ts rule: expireStaleUploads.induct)
      (auto intro: holds_ret holds_bind [OF ExpireStaleUploads_ok])
  show "keeps H S (Relay_Start S n ts)"
    by (induction S n ts rule: Relay_Start.induct) (auto intro: holds_ret holds_bind [OF keeps_relay_tick])
qed

section \<open>What a worker that serves has done before\<close>

definition connected :: "broker \<Rightarrow> broker \<Rightarrow> bool" where
  "connected b b' \<longleftrightarrow> br_connections b' = Suc (br_connections b) \<and> br_channels b' = Suc (br_channels b)"

lemma unbind_keeps:
  "wp (UnbindLegacy fault c keys) (\<lambda>_ b'. opens 0 (b\<lparr>br_bindings := []\<rparr>) b' \<and>
     set (br_bindings b) - (\<lambda>key. (to_Queue (cn_topology c), key, to_Exchange (cn_topology c))) ` set keys \<subseteq> set (br_bindings b')) b"
proof (induction keys arbitrary: b)
  case (Cons key keys)
  let ?b = "b\<lparr>br_calls := Suc (br_calls b)\<rparr>"
  show ?case
    unfolding UnbindLegacy.simps QueueUnbind_def wp_bind wp_amqp_call Let_def
    by (auto split: option.split intro!: wp_mono [OF Cons] simp: opens_def)
qed (simp add: wp_ret opens_def)

definition container_ready :: "Config \<Rightarrow> worker \<Rightarrow> broker \<Rightarrow> exit_cause + Container \<Rightarrow> broker \<Rightarrow> bool" where
  "container_ready env k b r b' \<longleftrightarrow> (\<forall>c. r = Inr c \<longrightarrow> connected b b' \<and>
     set (declared_bindings (topology_of env k)) -
       (\<lambda>key. (to_Queue (topology_of env k), key, to_Exchange (topology_of env k))) ` set (legacy_keys k) \<subseteq> set (br_bindings b'))"

lemma container_connected: "wp (NewContainer u S dlq k env) (container_ready env k b) b"
  unfolding NewContainer_def or_fatal_def Connect_def wp_on_err [of "connect_loop _ _ _ _ _"]
proof (rule wp_mono [OF connect_loop_connects], goal_cases)
  case (1 r b1)
  show ?case
  proof (cases r)
    case (Inr conn)
    show ?thesis
      unfolding Inr sum.case wp_bind
      by (rule wp_mono [OF unbind_keeps], insert 1 Inr)
        (auto simp: made_connection_def open_storage_def wp_simps opens_def connected_def container_ready_def
          split: sum.split; blast)
  qed (simp add: wp_ret container_ready_def)
qed

lemma worker_start_connected:
  assumes "run_state (worker_start u S dlq s k) b = (Inr (env, c, n), b')"
  shows "\<exists>pool. prepare u s = Inr (env, pool) \<and> n > 0 \<and> container_ready env k b (Inr c) b'"
proof (cases "prepare u s")
  case (Inr ep)
  obtain e pool where ep: "ep = (e, pool)" by (cases ep)
  have "wp (worker_start u S dlq s k) (\<lambda>r b'. \<forall>env c n. r = Inr (env, c, n) \<longrightarrow> env = e \<and> n > 0 \<and> container_ready e k b (Inr c) b') b"
    unfolding worker_start_def Inr ep sum.case prod.case wp_on_err [of "NewContainer _ _ _ _ _"]
    by (rule wp_mono [OF container_connected])
      (auto simp: or_fatal_def consumer_Start_def consumer_concurrency_def wp_simps Let_def connected_def container_ready_def
        split: sum.split option.split)
  from wpD [OF this assms] show ?thesis by (simp add: Inr ep)
next
  case (Inl x)
  then show ?thesis using assms by (simp add: worker_start_def)
qed


text \<open>Surroundings in which nothing fails, for the examples.\<close>

definition calm :: "unit surroundings" where
  "calm = \<lparr>su_strconv = (\<lambda>_. None), su_environment = sample_environment, su_gorm_Open = (\<lambda>_. None), su_db_DB = (\<lambda>_. None),
     su_inspect = (\<lambda>_. None), su_amqp = (\<lambda>_. None), su_s3 = (\<lambda>_. None), su_keyfunc = (\<lambda>_. Inr ()),
     su_goose_Status = None, su_listen = (\<lambda>_. External ''closed'')\<rparr>"

definition idle_broker :: broker where
  "idle_broker = \<lparr>br_calls = 0, br_connections = 0, br_channels = 0, br_exchanges = [], br_queues = [], br_bindings = []\<rparr>"

lemma prepare_calm: "\<exists>pool. prepare calm migrated_schema = Inr (default_env, pool)"
  using migrated_schema_checked default_env_loads by (simp add: prepare_def ConnectDatabase_def calm_def)

lemma calm_starts: "\<exists>c n b'. run_state (worker_start calm S dlq migrated_schema ClassifyWorker) idle_broker = (Inr (default_env, c, n), b')"
proof -
  obtain pool where prep: "prepare calm migrated_schema = Inr (default_env, pool)" using prepare_calm by blast
  have quiet: "su_amqp calm = (\<lambda>_. None)" by (simp add: calm_def)
  have declares: "wp (declare_topology (\<lambda>_. None) t) (\<lambda>r b'. r = None) b" for t b
  proof -
    have keys: "wp (bind_keys (\<lambda>_. None) t ks) (\<lambda>r b'. r = None) b" for ks b
      by (induction ks arbitrary: b) (simp_all add: wp_simps QueueBind_def)
    show ?thesis
      unfolding declare_topology_def ExchangeDeclare_def QueueDeclare_def QueueBind_def wp_if_err wp_amqp_call Let_def option.case
      by (rule wp_mono [OF keys]) (simp add: wp_simps)
  qed
  have "wp (Connect (\<lambda>_. None) t []) (\<lambda>r b'. \<exists>c. r = Inr c) b" for t b
  proof -
    have "wp (connectOnce (\<lambda>_. None) t []) (\<lambda>r b'. \<exists>c. r = Inr c) b" for b
      unfolding connectOnce_def amqp_Dial_def conn_Channel_def wp_if_err wp_amqp_call Let_def option.case
      by (rule wp_mono [OF declares]) (simp add: wp_simps)
    then have "wp (connect_loop (\<lambda>_. None) t [] (Suc n) e) (\<lambda>r b'. \<exists>c. r = Inr c) b" for n e
      unfolding connect_loop.simps wp_on_err by (rule wp_mono) (auto simp: wp_ret)
    from this [of 29] show ?thesis by (simp add: Connect_def)
  qed
  then have "wp (worker_start calm S dlq migrated_schema ClassifyWorker) (\<lambda>r b'. \<exists>c n. r = Inr (default_env, c, n)) idle_broker"
    unfolding worker_start_def prep sum.case prod.case NewContainer_def or_fatal_def quiet wp_on_err
    by - (rule wp_mono, assumption, auto simp: open_storage_def consumer_Start_def wp_simps Let_def)
  then show ?thesis by (auto simp: wp_def split: prod.splits)
qed


text \<open>What \<open>main\<close> opened it closes when it returns; a fatal error leaves closing to the operating system.\<close>

lemma worker_main_closes:
  assumes "run_state (worker_main u S dlq s k) b = (None, b')"
  shows "br_connections b' = br_connections b \<and> br_channels b' = br_channels b"
proof (cases "run_state (worker_start u S dlq s k) b")
  case (Pair r b1)
  obtain x where r: "r = Inr x" using assms Pair by (cases r) (auto simp: worker_main_def)
  obtain env c n where "x = (env, c, n)" by (cases x)
  then have "connected b b1"
    using worker_start_connected [of u S dlq s k b env c n b1] Pair r by (auto simp: container_ready_def)
  then show ?thesis
    using assms by (simp add: worker_main_def Pair r Close_def channel_Close_def conn_Close_def connected_def)
      (auto simp: State_Monad.bind_def)
qed

section \<open>A handler that is running when its program stops\<close>

text \<open>
  The wrapper of \<open>with_dedup.go\<close> around a handler, step by step.
\<close>

definition dedup_steps ::
  "services \<Rightarrow> string \<Rightarrow> (ctx \<Rightarrow> payload \<Rightarrow> (world, go_error option) proc) \<Rightarrow> ctx \<Rightarrow> payload \<Rightarrow> (world, go_error option) proc" where
  "dedup_steps S handlerName handler c payload =
     (case eventIDPayload payload of
        None \<Rightarrow> Done (outcome_err BadPayload)
      | Some eventID \<Rightarrow>
          if eventID = '''' then Done (outcome_err MissingID)
          else p_on_err (stmt (MarkProcessed S eventID handlerName))
            (\<lambda>e. Done (outcome_err (MarkError e)))
            (\<lambda>inserted.
               if \<not> inserted then Done (outcome_err AlreadyProcessed)
               else pbind (handler c payload) (\<lambda>r. case r of
                   None \<Rightarrow> Done (outcome_err (Ran None))
                 | Some e \<Rightarrow>
                     if as_Retryable e
                     then pbind (stmt (UnmarkProcessed S eventID handlerName)) (\<lambda>_. Done (outcome_err (Ran (Some e))))
                     else Done (outcome_err (Ran (Some e))))))"

lemma dedup_steps_alone:
  "alone (dedup_steps S name h c p) = dedup_With (MarkProcessed S) (Some (UnmarkProcessed S)) name (\<lambda>c p. alone (h c p)) c p"
proof -
  have push: "State_Monad.bind (case x of None \<Rightarrow> m | Some y \<Rightarrow> f y) k = (case x of None \<Rightarrow> State_Monad.bind m k | Some y \<Rightarrow> State_Monad.bind (f y) k)"
    "State_Monad.bind (case z of Inl y \<Rightarrow> g y | Inr y \<Rightarrow> h y) k = (case z of Inl y \<Rightarrow> State_Monad.bind (g y) k | Inr y \<Rightarrow> State_Monad.bind (h y) k)"
    "State_Monad.bind (if b then m else n) k = (if b then State_Monad.bind m k else State_Monad.bind n k)"
    for x :: "'x option" and z :: "'y + 'z" and m n :: "('s, 'a) state" and f g h and k :: "'a \<Rightarrow> ('s, 'b) state" and b
    by (simp_all split: option.split sum.split)
  show ?thesis
    unfolding dedup_steps_def dedup_With_def dedup_run_def alone_simps on_err_def push State_Monad.bind_assoc State_Monad.bind_left_identity
    by (auto intro!: ext arg_cong2 [where f = State_Monad.bind] split: option.split sum.split)
qed



section \<open>The API\<close>

text \<open>
  What the container of the API gives its middlewares and handlers: libraries and settings. The command and query
  handlers are built from the database and these.
\<close>

record 'k ApiContainer =
  ac_JWKS :: "'k \<times> string"               \<comment> \<open>\<open>AuthenticateMiddleware\<close>: the keys of its tokens\<close>
  ac_ClerkSecretKey :: string           \<comment> \<open>\<open>AuthenticateMiddleware\<close>: the gateway that fetches users\<close>
  ac_UserWebhookSecret :: string
  ac_StorageWebhookSecret :: string
  ac_VideoWebhookSecret :: string
  ac_MediaBucket :: string              \<comment> \<open>\<open>StorageWebhookHandler\<close>\<close>
  ac_MaxSizeBytes :: int                \<comment> \<open>\<open>StorageWebhookHandler\<close>: the limit of its confirmations\<close>
  ac_Storage :: MinIOStorage            \<comment> \<open>\<open>VideoHandler\<close>: uploads and links\<close>
  ac_UploadURLTTL :: duration           \<comment> \<open>\<open>VideoHandler\<close>\<close>
  ac_ConnectionInfo :: "string \<times> string"   \<comment> \<open>\<open>RealtimeHandler\<close>: secret and address of the realtime server\<close>

definition api_NewContainer :: "'k surroundings \<Rightarrow> Config \<Rightarrow> exit_cause + 'k ApiContainer" where
  "api_NewContainer u env =
     (case NewJWKSProvider (su_keyfunc u) env of
        Inl e \<Rightarrow> Inl (Fatal ''failed to create JWKS provider'' e)
      | Inr jwks \<Rightarrow> (case NewMinIOStorage (su_s3 u) env of
          Inl e \<Rightarrow> Inl (Fatal ''failed to create storage client'' e)
        | Inr storage \<Rightarrow> Inr \<lparr>ac_JWKS = jwks, ac_ClerkSecretKey = env_ClerkSecretKey env,
            ac_UserWebhookSecret = env_ClerkWebhookSecret env, ac_StorageWebhookSecret = env_MinIOWebhookSecret env,
            ac_VideoWebhookSecret = env_VideoWebhookSecret env, ac_MediaBucket = env_StorageBucket env,
            ac_MaxSizeBytes = env_VideoMaxSizeBytes env, ac_Storage = storage, ac_UploadURLTTL = env_UploadURLTTL env,
            ac_ConnectionInfo = (env_CentrifugoTokenSecret env, env_CentrifugoPublicWSURL env)\<rparr>))"

text \<open>\<open>main\<close> of the API never returns: it ends with what \<open>Listen\<close> returns.\<close>

definition api_main :: "'k surroundings \<Rightarrow> schema \<Rightarrow> exit_cause" where
  "api_main u s =
     (case prepare u s of
        Inl x \<Rightarrow> x
      | Inr (env, pool) \<Rightarrow> (case api_NewContainer u env of
          Inl x \<Rightarrow> x
        | Inr c \<Rightarrow> Fatal '''' (su_listen u (CHR '':'' # env_Port env))))"

text \<open>
  What \<open>main\<close> puts in front of the routes: the rate limit, whose counting (\<open>limited\<close>) is the framework's, spares the
  health checks; so does the log. The framework's constants name the paths of the health checks, and it answers them.
\<close>

record frontend =
  fe_health :: "string list list"
  fe_health_answer :: "request \<Rightarrow> response"
  fe_limited :: "int \<Rightarrow> request \<Rightarrow> bool"    \<comment> \<open>more than so many requests of the client in the last minute\<close>

definition skipHealth :: "frontend \<Rightarrow> request \<Rightarrow> bool" where
  "skipHealth f rq \<longleftrightarrow> rq_Path rq \<in> set (fe_health f)"

definition setupHealthChecks :: "frontend \<Rightarrow> request \<Rightarrow> response option" where
  "setupHealthChecks f rq =
     (if rq_Method rq = ''GET'' \<and> rq_Path rq \<in> set (fe_health f) then Some (fe_health_answer f rq) else None)"

definition handle_request :: "frontend \<Rightarrow> api \<Rightarrow> request \<Rightarrow> (world, response) state" where
  "handle_request f A rq =
     (if env_RateLimitMax (ap_env A) > 0 \<and> \<not> skipHealth f rq \<and> fe_limited f (env_RateLimitMax (ap_env A)) rq
      then ret (message 429 ''Too many requests'')
      else case setupHealthChecks f rq of
             Some answer \<Rightarrow> ret answer
           | None \<Rightarrow> serve A rq)"

lemma limited_changes_nothing:
  "env_RateLimitMax (ap_env A) > 0 \<Longrightarrow> fe_limited f (env_RateLimitMax (ap_env A)) rq \<Longrightarrow> \<not> skipHealth f rq \<Longrightarrow>
     run_state (handle_request f A rq) w = (message 429 ''Too many requests'', w)"
  by (simp add: handle_request_def)

section \<open>The command line\<close>

text \<open>\<open>openSQL\<close>: the settings and the connection may end the program; the second call of \<open>db.DB()\<close> may fail.\<close>

definition openSQL :: "'k surroundings \<Rightarrow> exit_cause + go_error option" where
  "openSQL u =
     (case Load (su_strconv u) (su_environment u) of
        None \<Rightarrow> Inl ConfigPanic
      | Some env \<Rightarrow> map_sum id (\<lambda>_. su_db_DB u 1) (ConnectDatabase u env))"

definition migrate_check_command :: "'k surroundings \<Rightarrow> schema \<Rightarrow> exit_cause + go_error option" where
  "migrate_check_command u s =
     (case Load (su_strconv u) (su_environment u) of
        None \<Rightarrow> Inl ConfigPanic
      | Some env \<Rightarrow> map_sum id (\<lambda>_. AssertModelsMatchDB (su_inspect u) s) (ConnectDatabase u env))"

datatype cli_command = MigrateUp | MigrateDown | MigrateStatus | MigrateCheck

fun NewMigrateCommand :: "string list \<Rightarrow> cli_command option" where
  "NewMigrateCommand args =
     (if args = [''migrate'', ''up''] then Some MigrateUp
      else if args = [''migrate'', ''down''] then Some MigrateDown
      else if args = [''migrate'', ''status''] then Some MigrateStatus
      else if args = [''migrate'', ''check''] then Some MigrateCheck
      else None)"

fun run_command :: "'k surroundings \<Rightarrow> cli_command \<Rightarrow> database \<Rightarrow> (exit_cause + go_error option) \<times> database" where
  "run_command u MigrateUp d =
     (case openSQL u of Inl x \<Rightarrow> (Inl x, d) | Inr e \<Rightarrow> apfst Inr (migrate_up_command e d))"
| "run_command u MigrateDown d =
     (case openSQL u of Inl x \<Rightarrow> (Inl x, d) | Inr e \<Rightarrow> apfst Inr (migrate_down_command e d))"
| "run_command u MigrateStatus d =
     (case openSQL u of Inl x \<Rightarrow> (Inl x, d) | Inr e \<Rightarrow> (Inr (migrate_status_command e (su_goose_Status u)), d))"
| "run_command u MigrateCheck d = (migrate_check_command u (sd_schema d), d)"

text \<open>The exit status: a panic of Go gives 2, \<open>log.Fatalf\<close> and \<open>os.Exit(1)\<close> on the error of a command give 1.\<close>

fun exit_status :: "exit_cause + go_error option \<Rightarrow> int" where
  "exit_status (Inl ConfigPanic) = 2"
| "exit_status (Inl (Fatal _ _)) = 1"
| "exit_status (Inr None) = 0"
| "exit_status (Inr (Some _)) = 1"

text \<open>
  \<open>migrate check\<close> tells whether the servers will start on the database: its exit status is 0 exactly when the
  settings load, the database can be reached and \<open>main\<close> of the API and of every worker gets past its own check; and
  where it passes, \<open>migrate up\<close> has just made it so from any number of the migrations.
\<close>

theorem check_decides_start:
  "(exit_status (fst (run_command u MigrateCheck d)) = 0 \<longleftrightarrow> (\<exists>env pool. prepare u (sd_schema d) = Inr (env, pool))) \<and>
   (\<forall>v s d'. migrated_to v = Some s \<longrightarrow> v \<le> length migrations \<longrightarrow> su_inspect u = (\<lambda>_. None) \<longrightarrow>
      run_command u MigrateUp \<lparr>sd_version = v, sd_schema = s\<rparr> = (Inr None, d') \<longrightarrow>
      exit_status (fst (run_command u MigrateCheck d')) = 0)"
proof -
  have check: "exit_status (fst (run_command u MigrateCheck d)) = 0 \<longleftrightarrow> (\<exists>env pool. prepare u (sd_schema d) = Inr (env, pool))" for d
    by (auto simp: migrate_check_command_def prepare_def ConnectDatabase_def split: option.split)
  have "exit_status (fst (run_command u MigrateCheck d')) = 0"
    if up: "migrated_to v = Some s" "v \<le> length migrations" "su_inspect u = (\<lambda>_. None)"
      "run_command u MigrateUp \<lparr>sd_version = v, sd_schema = s\<rparr> = (Inr None, d')" for v s d'
  proof -
    obtain env pool where "Load (su_strconv u) (su_environment u) = Some env" "ConnectDatabase u env = Inr pool"
        "migrate_up_command None \<lparr>sd_version = v, sd_schema = s\<rparr> = (None, d')"
      using up(4)
      by (cases "Load (su_strconv u) (su_environment u)"; cases "ConnectDatabase u (the (Load (su_strconv u) (su_environment u)))";
          cases "migrate_Up \<lparr>sd_version = v, sd_schema = s\<rparr>")
        (auto simp: openSQL_def migrate_up_command_def split: option.splits)
    moreover have "AssertModelsMatchDB (su_inspect u) (sd_schema d') = None"
      using up_matches_models [OF up(1,2)] calculation(3) up(3) by auto
    ultimately show ?thesis by (simp add: migrate_check_command_def)
  qed
  then show ?thesis using check by blast
qed

theorem check_decides_start_witness:
  "exit_status (fst (run_command calm MigrateCheck \<lparr>sd_version = length migrations, sd_schema = migrated_schema\<rparr>)) = 0 \<and>
   (\<exists>d'. run_command calm MigrateUp \<lparr>sd_version = 0, sd_schema = []\<rparr> = (Inr None, d') \<and>
      exit_status (fst (run_command calm MigrateCheck d')) = 0)"
proof
  show "exit_status (fst (run_command calm MigrateCheck \<lparr>sd_version = length migrations, sd_schema = migrated_schema\<rparr>)) = 0"
    using check_decides_start [of calm "\<lparr>sd_version = length migrations, sd_schema = migrated_schema\<rparr>"] prepare_calm by auto
  obtain d' where up: "run_command calm MigrateUp \<lparr>sd_version = 0, sd_schema = []\<rparr> = (Inr None, d')"
    using up_matches_models [of 0 "[]"] prepare_calm
    by (auto simp: migrated_to_def openSQL_def prepare_def calm_def split: option.splits sum.splits)
  then have "exit_status (fst (run_command calm MigrateCheck d')) = 0"
    using check_decides_start [THEN conjunct2, rule_format, OF _ _ _ up] by (auto simp: calm_def migrated_to_def)
  then show "\<exists>d'. run_command calm MigrateUp \<lparr>sd_version = 0, sd_schema = []\<rparr> = (Inr None, d') \<and>
      exit_status (fst (run_command calm MigrateCheck d')) = 0"
    using up by blast
qed

end
